(* ===== verification/Prelude.thy ===== *)
theory Prelude
  imports Main "HOL-Library.Word" "HOL-Library.Finite_Map" "HOL-Library.Sublist"
    "HOL-Library.List_Lexorder" "HOL-Library.Char_ord"
begin

text \<open>
  Shared vocabulary of the development: Go strings as byte lists with the functions of the
  package \<open>strings\<close> the sensor calls (Split, SplitN, Join, TrimSpace, TrimPrefix, HasPrefix,
  HasSuffix, LastIndex, Contains, ToLower), finite maps for Go maps, and the lemma
  collections the component theories extend.

  A Go string is a \<open>string\<close>, that is a list of bytes (a HOL character is one byte). A Go map is
  a \<open>fmap\<close>; reading a missing key gives the zero value of the value type, so every read of
  the source is written as an explicit case on \<open>fmlookup\<close>.
\<close>

named_theorems go_str \<open>simplification of the string functions\<close>
named_theorems go_map \<open>simplification of the map reads and writes\<close>
named_theorems idx_simps \<open>reads of the name index after its operations\<close>
named_theorems model_simps \<open>reads of the model store after its operations\<close>
named_theorems touch_intros \<open>how the operations of the controllers touch the model\<close>

section \<open>Strings\<close>

definition HasPrefix :: "string \<Rightarrow> string \<Rightarrow> bool" where
  "HasPrefix s p \<longleftrightarrow> take (length p) s = p"

definition HasSuffix :: "string \<Rightarrow> string \<Rightarrow> bool" where
  "HasSuffix s p \<longleftrightarrow> length p \<le> length s \<and> drop (length s - length p) s = p"

definition TrimPrefix :: "string \<Rightarrow> string \<Rightarrow> string" where
  "TrimPrefix s p = (if HasPrefix s p then drop (length p) s else s)"

fun Contains :: "string \<Rightarrow> string \<Rightarrow> bool" where
  "Contains [] p = (p = [])"
| "Contains (x # xs) p = (HasPrefix (x # xs) p \<or> Contains xs p)"

text \<open>\<open>strings.Split\<close> at a separator of one byte.\<close>

fun Split :: "string \<Rightarrow> char \<Rightarrow> string list" where
  "Split [] c = [[]]"
| "Split (x # xs) c =
     (if x = c then [] # Split xs c
      else case Split xs c of [] \<Rightarrow> [[x]] | p # ps \<Rightarrow> (x # p) # ps)"

text \<open>\<open>strings.SplitN\<close> for a positive bound and a separator of one byte.\<close>

fun SplitN :: "string \<Rightarrow> char \<Rightarrow> nat \<Rightarrow> string list" where
  "SplitN s c 0 = []"
| "SplitN s c (Suc 0) = [s]"
| "SplitN s c (Suc (Suc n)) =
     (case dropWhile (\<lambda>x. x \<noteq> c) s of
        [] \<Rightarrow> [s]
      | _ # rest \<Rightarrow> takeWhile (\<lambda>x. x \<noteq> c) s # SplitN rest c (Suc n))"

fun Join :: "string list \<Rightarrow> string \<Rightarrow> string" where
  "Join [] sep = []"
| "Join [p] sep = p"
| "Join (p # q # ps) sep = p @ sep @ Join (q # ps) sep"

text \<open>\<open>strings.LastIndex\<close> of one byte: the position, or -1.\<close>

definition LastIndex :: "string \<Rightarrow> char \<Rightarrow> int" where
  "LastIndex s c =
     (if c \<in> set s then int (length s) - 1 - int (length (takeWhile (\<lambda>x. x \<noteq> c) (rev s)))
      else -1)"

text \<open>
  \<open>strings.TrimSpace\<close> removes the code points of \<open>unicode.IsSpace\<close> at both ends. On bytes
  these are six ASCII characters and the UTF-8 encodings of U+0085, U+00A0, U+1680,
  U+2000 to U+200A, U+2028, U+2029, U+202F, U+205F and U+3000. Every one of these encodings
  starts with a start byte and goes on with continuation bytes only, so a rune decoded at either
  end of the string is one of them exactly when the string starts (ends) with that encoding.
\<close>

definition ascii_spaces :: "char list" where
  "ascii_spaces = [CHR 0x09, CHR 0x0A, CHR 0x0B, CHR 0x0C, CHR 0x0D, CHR 0x20]"

definition wide_spaces :: "string list" where
  "wide_spaces =
     [[CHR 0xC2, CHR 0x85], [CHR 0xC2, CHR 0xA0], [CHR 0xE1, CHR 0x9A, CHR 0x80],
      [CHR 0xE2, CHR 0x80, CHR 0x80], [CHR 0xE2, CHR 0x80, CHR 0x81],
      [CHR 0xE2, CHR 0x80, CHR 0x82], [CHR 0xE2, CHR 0x80, CHR 0x83],
      [CHR 0xE2, CHR 0x80, CHR 0x84], [CHR 0xE2, CHR 0x80, CHR 0x85],
      [CHR 0xE2, CHR 0x80, CHR 0x86], [CHR 0xE2, CHR 0x80, CHR 0x87],
      [CHR 0xE2, CHR 0x80, CHR 0x88], [CHR 0xE2, CHR 0x80, CHR 0x89],
      [CHR 0xE2, CHR 0x80, CHR 0x8A], [CHR 0xE2, CHR 0x80, CHR 0xA8],
      [CHR 0xE2, CHR 0x80, CHR 0xA9], [CHR 0xE2, CHR 0x80, CHR 0xAF],
      [CHR 0xE2, CHR 0x81, CHR 0x9F], [CHR 0xE3, CHR 0x80, CHR 0x80]]"

definition space_encodings :: "string list" where
  "space_encodings = map (\<lambda>c. [c]) ascii_spaces @ wide_spaces"

text \<open>Remove from the front, as long as possible, one of the given non-empty words.\<close>

function strip_front :: "string list \<Rightarrow> string \<Rightarrow> string" where
  "strip_front ws s =
     (case find (\<lambda>w. w \<noteq> [] \<and> HasPrefix s w) ws of
        None \<Rightarrow> s
      | Some w \<Rightarrow> strip_front ws (drop (length w) s))"
  by pat_completeness auto
termination
proof (relation "measure (\<lambda>(ws, s). length s)", goal_cases)
  case 1
  show ?case by simp
next
  case (2 ws s w)
  then have "w \<noteq> []" "take (length w) s = w"
    by (auto simp: find_Some_iff HasPrefix_def)
  then have "s \<noteq> []" by auto
  with \<open>w \<noteq> []\<close> show ?case by simp
qed

declare strip_front.simps [simp del]

definition TrimSpace :: "string \<Rightarrow> string" where
  "TrimSpace s = rev (strip_front (map rev space_encodings) (rev (strip_front space_encodings s)))"

text \<open>\<open>strings.ToLower\<close> on ASCII bytes.\<close>

definition lower_char :: "char \<Rightarrow> char" where
  "lower_char c =
     (let n = of_char c :: nat in if 65 \<le> n \<and> n \<le> 90 then char_of (n + 32) else c)"

text \<open>
  The verb \<open>%q\<close> of package \<open>fmt\<close>: the string in double quotes with Go escapes. Bytes above 127
  are kept: they belong to printable characters in the names the sensor quotes.
\<close>

definition hex_digit :: "nat \<Rightarrow> char" where
  "hex_digit n = (if n < 10 then char_of (48 + n) else char_of (87 + n))"

definition quote_byte :: "char \<Rightarrow> string" where
  "quote_byte c =
     (let n = of_char c :: nat
      in if c = CHR 0x22 then [CHR 0x5C, CHR 0x22]
         else if c = CHR 0x5C then [CHR 0x5C, CHR 0x5C]
         else if n = 7 then [CHR 0x5C, CHR ''a''] else if n = 8 then [CHR 0x5C, CHR ''b'']
         else if n = 9 then [CHR 0x5C, CHR ''t''] else if n = 10 then [CHR 0x5C, CHR ''n'']
         else if n = 11 then [CHR 0x5C, CHR ''v''] else if n = 12 then [CHR 0x5C, CHR ''f'']
         else if n = 13 then [CHR 0x5C, CHR ''r'']
         else if n < 32 \<or> n = 127 then [CHR 0x5C, CHR ''x'', hex_digit (n div 16), hex_digit (n mod 16)]
         else [c])"

definition goQuote :: "string \<Rightarrow> string" where
  "goQuote s = [CHR 0x22] @ concat (map quote_byte s) @ [CHR 0x22]"

subsection \<open>Laws of the string functions\<close>

lemma HasPrefix_iff [go_str]: "HasPrefix s p \<longleftrightarrow> (\<exists>r. s = p @ r)"
  by (auto simp: HasPrefix_def) (metis append_take_drop_id)

lemma HasPrefix_append [simp]: "HasPrefix (p @ r) p"
  by (simp add: HasPrefix_def)

lemma HasPrefix_Nil [simp]: "HasPrefix s []"
  by (simp add: HasPrefix_def)

lemma HasSuffix_iff [go_str]: "HasSuffix s p \<longleftrightarrow> (\<exists>r. s = r @ p)"
proof
  assume "HasSuffix s p"
  then have "s = take (length s - length p) s @ p"
    unfolding HasSuffix_def by (metis append_take_drop_id)
  then show "\<exists>r. s = r @ p" ..
qed (auto simp: HasSuffix_def)

lemma TrimPrefix_append [simp]: "TrimPrefix (p @ r) p = r"
  by (simp add: TrimPrefix_def)

lemma Split_not_Nil [simp]: "Split s c \<noteq> []"
  by (induction s) (auto split: list.splits)

lemma Split_no_sep: "c \<notin> set s \<Longrightarrow> Split s c = [s]"
  by (induction s) auto

lemma Split_append: "Split (s @ c # t) c = Split s c @ Split t c"
  by (induction s) (auto split: list.splits)

lemma Join_Cons: "ps \<noteq> [] \<Longrightarrow> Join (p # ps) sep = p @ sep @ Join ps sep"
  by (cases ps) auto

lemma Join_Split: "Join (Split s c) [c] = s"
proof (induction s)
  case (Cons x xs)
  obtain p ps where pps: "Split xs c = p # ps"
    by (cases "Split xs c") auto
  show ?case
  proof (cases "x = c")
    case True
    with Cons pps show ?thesis by (simp add: Join_Cons)
  next
    case False
    have "Join ((x # p) # ps) [c] = x # Join (p # ps) [c]" by (cases ps) auto
    with Cons pps False show ?thesis by simp
  qed
qed simp

lemma Split_parts_no_sep: "p \<in> set (Split s c) \<Longrightarrow> c \<notin> set p"
proof (induction s arbitrary: p)
  case (Cons x xs)
  then show ?case by (cases "Split xs c") (auto split: if_splits)
qed simp

lemma SplitN_no_sep: "c \<notin> set s \<Longrightarrow> SplitN s c (Suc n) = [s]"
proof (cases n)
  case (Suc k)
  assume "c \<notin> set s"
  then have "dropWhile (\<lambda>x. x \<noteq> c) s = []" by (auto simp: dropWhile_eq_Nil_conv)
  then show ?thesis using Suc by (simp only: SplitN.simps list.case)
qed simp

lemma SplitN_append:
  assumes "c \<notin> set p"
  shows "SplitN (p @ c # r) c (Suc (Suc n)) = p # SplitN r c (Suc n)"
proof -
  have p: "\<forall>x\<in>set p. x \<noteq> c" using assms by auto
  then have "dropWhile (\<lambda>x. x \<noteq> c) (p @ c # r) = c # r"
    by (simp add: dropWhile_append1 dropWhile_append2)
  moreover have "takeWhile (\<lambda>x. x \<noteq> c) (p @ c # r) = p"
    using p by (simp add: takeWhile_append2)
  ultimately show ?thesis by simp
qed

lemma SplitN_Split:
  "SplitN s c (Suc n) =
     (let ps = Split s c in if length ps \<le> Suc n then ps else take n ps @ [Join (drop n ps) [c]])"
proof (induction n arbitrary: s)
  case 0
  have "length (Split s c) \<le> 1 \<Longrightarrow> Split s c = [s]"
    using Join_Split [of s c] by (cases "Split s c") auto
  then show ?case by (auto simp: Let_def Join_Split)
next
  case (Suc n)
  show ?case
  proof (cases "c \<in> set s")
    case True
    then obtain p r where s: "s = p @ c # r" "c \<notin> set p" using split_list_first by fastforce
    then have "Split s c = p # Split r c" by (simp add: Split_append Split_no_sep)
    with s Suc.IH [of r] show ?thesis by (simp add: SplitN_append Let_def del: SplitN.simps)
  next
    case False
    then show ?thesis by (simp add: SplitN_no_sep Split_no_sep Let_def del: SplitN.simps)
  qed
qed

lemma LastIndex_absent: "c \<notin> set s \<Longrightarrow> LastIndex s c = -1"
  by (simp add: LastIndex_def)

lemma LastIndex_append:
  assumes "c \<notin> set r"
  shows "LastIndex (p @ c # r) c = int (length p)"
proof -
  have "takeWhile (\<lambda>x. x \<noteq> c) (rev r @ c # rev p) = rev r"
    using assms by (subst takeWhile_append2) auto
  then show ?thesis by (simp add: LastIndex_def)
qed

subsection \<open>Trimming\<close>

lemma strip_front_stop:
  assumes "\<forall>w\<in>set ws. w \<noteq> [] \<longrightarrow> \<not> HasPrefix s w"
  shows "strip_front ws s = s"
proof -
  have "find (\<lambda>w. w \<noteq> [] \<and> HasPrefix s w) ws = None"
    using assms by (auto simp: find_None_iff)
  then show ?thesis by (subst strip_front.simps) simp
qed

lemma strip_front_stopped:
  "w \<in> set ws \<Longrightarrow> w \<noteq> [] \<Longrightarrow> \<not> HasPrefix (strip_front ws s) w"
proof (induction ws s rule: strip_front.induct)
  case (1 ws s)
  show ?case
  proof (cases "find (\<lambda>w. w \<noteq> [] \<and> HasPrefix s w) ws")
    case None
    then have "\<not> HasPrefix s w" using "1.prems" by (auto simp: find_None_iff)
    with None show ?thesis by (subst strip_front.simps) simp
  next
    case (Some v)
    with "1.IH" "1.prems" show ?thesis by (subst strip_front.simps) simp
  qed
qed

lemma strip_front_idem [simp]: "strip_front ws (strip_front ws s) = strip_front ws s"
  using strip_front_stopped by (intro strip_front_stop) blast

lemma strip_front_suffix: "\<exists>p. s = p @ strip_front ws s"
proof (induction ws s rule: strip_front.induct)
  case (1 ws s)
  show ?case
  proof (cases "find (\<lambda>w. w \<noteq> [] \<and> HasPrefix s w) ws")
    case None
    then show ?thesis by (subst strip_front.simps) simp
  next
    case (Some v)
    with "1.IH" obtain p where "drop (length v) s = p @ strip_front ws (drop (length v) s)"
      by blast
    then have "s = (take (length v) s @ p) @ strip_front ws (drop (length v) s)"
      by (metis append.assoc append_take_drop_id)
    then have "\<exists>p. s = p @ strip_front ws (drop (length v) s)" by blast
    with Some show ?thesis by (subst strip_front.simps) simp
  qed
qed

lemma TrimSpace_infix: "\<exists>p q. s = p @ TrimSpace s @ q"
proof -
  let ?t = "strip_front space_encodings s"
  obtain p where p: "s = p @ ?t" using strip_front_suffix by blast
  obtain q where "rev ?t = q @ strip_front (map rev space_encodings) (rev ?t)"
    using strip_front_suffix by blast
  then have "?t = TrimSpace s @ rev q"
    unfolding TrimSpace_def by (metis rev_append rev_rev_ident)
  with p show ?thesis by metis
qed

lemma find_in_set: "find P xs = Some x \<Longrightarrow> x \<in> set xs"
  by (auto simp: find_Some_iff)

section \<open>Finite maps\<close>

text \<open>
  Ranging over a Go map or set visits every key once, in an order the runtime chooses. The
  definitions that range with an effect per key take the order as an argument \<open>ord\<close>, from the
  finite set of keys to the list in which they are visited.
\<close>

type_synonym range_order = "string fset \<Rightarrow> string list"

definition range_law :: "range_order \<Rightarrow> bool" where
  "range_law ord \<longleftrightarrow> (\<forall>S. distinct (ord S) \<and> set (ord S) = fset S)"

lemma range_lawD:
  assumes "range_law ord"
  shows range_distinct: "distinct (ord S)" and range_set: "set (ord S) = fset S"
  using assms by (auto simp: range_law_def)

text \<open>One such order: ascending.\<close>

definition sorted_range :: range_order where
  "sorted_range S = sorted_list_of_fset S"

lemma sorted_range_law [simp]: "range_law sorted_range"
  by (simp add: range_law_def sorted_range_def sorted_list_of_fset.rep_eq)

lemma sorted_range_eval [simp]:
  "sorted_range {||} = []" "sorted_range {|k|} = [k]"
  by (simp_all add: sorted_range_def sorted_list_of_fset.rep_eq)

lemma range_singleton:
  assumes "range_law ord"
  shows "ord {|k|} = [k]" and "ord {||} = []"
proof -
  have d: "distinct (ord {|k|})" and s: "set (ord {|k|}) = {k}"
    using range_lawD [OF assms, of "{|k|}"] by auto
  then have "length (ord {|k|}) = 1" using distinct_card [OF d] by simp
  with s show "ord {|k|} = [k]" by (cases "ord {|k|}") auto
  show "ord {||} = []" using range_set [OF assms, of "{||}"] by simp
qed

lemma fmlookup_eqI: "(\<And>k. fmlookup m k = fmlookup n k) \<Longrightarrow> m = n"
  by (rule fmap_ext)

lemma fmdrop_fmupd_fresh: "fmlookup m k = None \<Longrightarrow> fmdrop k (fmupd k v m) = m"
  by (rule fmlookup_eqI) auto

lemma fold_fmupd_lookup:
  "distinct ks \<Longrightarrow>
   fmlookup (fold (\<lambda>k. fmupd k (f k)) ks m) k = (if k \<in> set ks then Some (f k) else fmlookup m k)"
  by (induction ks arbitrary: m) auto

end
