(* ===== verification/Externals.thy ===== *)
theory Externals
  imports Prelude
begin

text \<open>
  The code the sensor calls and does not contain: \<open>github.com/google/uuid\<close>, the Kubernetes
  machinery and the model library \<open>go.emeland.io/modelsrv\<close>. None of it is defined here. Its
  functions are fields of two records, \<open>lib\<close> and \<open>modelsrv\<close>, which the
  definitions of the sensor take as arguments; what the sensor relies on is stated as
  predicates over these records (\<open>store_laws\<close>, \<open>subject_laws\<close>,
  \<open>nn_string_law\<close>), which the properties name as hypotheses. The data types of the library
  are records of the fields the sensor sets through their setters.

  The last section gives a concrete store and a concrete library, in which these hypotheses
  are proved; the witnesses run on them.
\<close>

section \<open>UUIDs\<close>

text \<open>\<open>uuid.UUID\<close> is an array of 16 bytes: a word of 128 bits, the first byte the most significant.\<close>

type_synonym uuid = "128 word"

abbreviation uuid_Nil :: uuid where
  "uuid_Nil \<equiv> 0"

definition uuid_bytes :: "uuid \<Rightarrow> string" where
  "uuid_bytes u = map (\<lambda>i. char_of (unat (take_bit 8 (drop_bit (8 * i) u)))) (rev [0..<16])"

lemma uuid_bytes_length [simp]: "length (uuid_bytes u) = 16"
  by (simp add: uuid_bytes_def)

lemma uuid_bytes_inject: "uuid_bytes u = uuid_bytes v \<longleftrightarrow> u = v"
proof
  assume eq: "uuid_bytes u = uuid_bytes v"
  have byte: "take_bit 8 (drop_bit (8 * i) u) = take_bit 8 (drop_bit (8 * i) v)" if "i < 16" for i
  proof -
    let ?c = "\<lambda>w. char_of (unat (take_bit 8 (drop_bit (8 * i) w))) :: char"
    have "?c u = ?c v"
      using eq that by (auto simp: uuid_bytes_def)
    then have "(of_char (?c u) :: nat) = of_char (?c v)" by simp
    moreover have "unat (take_bit 8 w) < 256" for w :: uuid
      using take_bit_nat_less_exp [of 8 "unat w"] by (simp add: unsigned_take_bit_eq)
    ultimately have "unat (take_bit 8 (drop_bit (8 * i) u)) = unat (take_bit 8 (drop_bit (8 * i) v))"
      by (simp add: of_char_of)
    then show ?thesis by (rule unsigned_word_eqI)
  qed
  show "u = v"
  proof (rule bit_word_eqI)
    fix n :: nat
    assume "n < LENGTH(128)"
    then have i: "n div 8 < 16" by simp
    have "bit w n = bit (take_bit 8 (drop_bit (8 * (n div 8)) w)) (n mod 8)" for w :: uuid
      by (simp add: bit_take_bit_iff bit_drop_bit_eq)
    with byte [OF i] show "bit u n = bit v n" by metis
  qed
qed simp

section \<open>Kubernetes objects\<close>

type_synonym annotations = "(string, string) fmap"

record ObjectMeta =
  Name :: string
  Namespace :: string
  UID :: string
  Annotations :: annotations
  OwnerKinds :: "string list"

record NamespacedName =
  nn_Namespace :: string
  nn_Name :: string

text \<open>What \<open>client.Get\<close> answers: the object, \<open>IsNotFound\<close>, or another error.\<close>

datatype 'o get_result = Found 'o | NotFound | GetError string

section \<open>Entities of the model\<close>

datatype ResourceType =
    UnknownResourceType | NodeResource | ContextResource | SystemResource
  | SystemInstanceResource | APIResource | APIInstanceResource | ComponentResource
  | ComponentInstanceResource | RoleResource | BindingResource | ArtifactResource

datatype mkind =
    MSystem | MApi | MComponent | MSystemInstance | MContext | MComponentInstance
  | MApiInstance | MRole | MBinding | MArtifact | MArtifactInstance | MFinding
  | MFindingType | MNodeType | MNode | MContextType

datatype error =
    ErrEntityNotFound mkind
  | ErrK8sNotFound
  | ErrText string
  | ErrWrap string error

type_synonym date = "nat \<times> nat \<times> nat"

record EntityVersion =
  ev_Name :: string
  ev_Version :: string

record MVersion =
  mv_Version :: string
  mv_AvailableFrom :: "date option"
  mv_DeprecatedFrom :: "date option"
  mv_TerminatedFrom :: "date option"

record ApiRef =
  ar_ApiID :: uuid
  ar_ApiRef :: "EntityVersion option"

record SubjectRef =
  sr_Identity :: "uuid option"
  sr_Group :: "uuid option"

datatype SubjectKind = SubjectNone | SubjectKindGroup | SubjectKindIdentity

record MSystemR =
  sys_Id :: uuid
  sys_DisplayName :: string
  sys_Description :: string
  sys_Version :: MVersion
  sys_Abstract :: bool
  sys_Annotations :: annotations

record MApiR =
  api_Id :: uuid
  api_DisplayName :: string
  api_Description :: string
  api_Version :: MVersion
  api_Type :: "nat option"
  api_System :: "uuid option"
  api_Annotations :: annotations

record MComponentR =
  cmp_Id :: uuid
  cmp_DisplayName :: string
  cmp_Description :: string
  cmp_Version :: MVersion
  cmp_System :: "uuid option"
  cmp_Consumes :: "ApiRef list"
  cmp_Provides :: "ApiRef list"
  cmp_Annotations :: annotations

record MSystemInstanceR =
  si_Id :: uuid
  si_DisplayName :: string
  si_System :: "uuid option"
  si_Annotations :: annotations

record MContextR =
  ctx_Id :: uuid
  ctx_DisplayName :: string
  ctx_Description :: string
  ctx_Type :: uuid
  ctx_Parent :: "uuid option"
  ctx_Annotations :: annotations

record MComponentInstanceR =
  ci_Id :: uuid
  ci_DisplayName :: string
  ci_Component :: "uuid option"
  ci_SystemInstance :: "uuid option"
  ci_Annotations :: annotations

record MApiInstanceR =
  ai_Id :: uuid
  ai_DisplayName :: string
  ai_Api :: "uuid option"
  ai_SystemInstance :: "uuid option"
  ai_Annotations :: annotations

record MRoleR =
  role_Id :: uuid
  role_DisplayName :: string
  role_Spec :: "uuid option"
  role_Annotations :: annotations

record MBindingR =
  bnd_Id :: uuid
  bnd_DisplayName :: string
  bnd_Role :: "uuid option"
  bnd_Subject :: "SubjectRef option"
  bnd_Annotations :: annotations

record MArtifactR =
  art_Id :: uuid
  art_DisplayName :: string
  art_Description :: string
  art_Hash :: string

record MArtifactInstanceR =
  ari_Id :: uuid
  ari_DisplayName :: string
  ari_Description :: string
  ari_Artifact :: uuid
  ari_Annotations :: annotations

record ResourceRef =
  rr_ResourceId :: uuid
  rr_ResourceType :: ResourceType

record MFindingR =
  f_Id :: uuid
  f_DisplayName :: string
  f_Description :: string
  f_Type :: "uuid option"
  f_Resources :: "ResourceRef list"
  f_Annotations :: annotations

record MFindingTypeR =
  ft_Id :: uuid
  ft_DisplayName :: string
  ft_Description :: string

record MNodeR =
  node_Id :: uuid
  node_DisplayName :: string
  node_Type :: uuid

record MTypeR =
  mt_Id :: uuid
  mt_DisplayName :: string
  mt_Description :: string

datatype entity =
    ESystem MSystemR
  | EApi MApiR
  | EComponent MComponentR
  | ESystemInstance MSystemInstanceR
  | EContext MContextR
  | EComponentInstance MComponentInstanceR
  | EApiInstance MApiInstanceR
  | ERole MRoleR
  | EBinding MBindingR
  | EArtifact MArtifactR
  | EArtifactInstance MArtifactInstanceR
  | EFinding MFindingR
  | EFindingType MFindingTypeR
  | ENodeType MTypeR
  | ENode MNodeR
  | EContextType MTypeR

fun kind_of :: "entity \<Rightarrow> mkind" where
  "kind_of (ESystem _) = MSystem"
| "kind_of (EApi _) = MApi"
| "kind_of (EComponent _) = MComponent"
| "kind_of (ESystemInstance _) = MSystemInstance"
| "kind_of (EContext _) = MContext"
| "kind_of (EComponentInstance _) = MComponentInstance"
| "kind_of (EApiInstance _) = MApiInstance"
| "kind_of (ERole _) = MRole"
| "kind_of (EBinding _) = MBinding"
| "kind_of (EArtifact _) = MArtifact"
| "kind_of (EArtifactInstance _) = MArtifactInstance"
| "kind_of (EFinding _) = MFinding"
| "kind_of (EFindingType _) = MFindingType"
| "kind_of (ENodeType _) = MNodeType"
| "kind_of (ENode _) = MNode"
| "kind_of (EContextType _) = MContextType"

fun id_of :: "entity \<Rightarrow> uuid" where
  "id_of (ESystem x) = sys_Id x"
| "id_of (EApi x) = api_Id x"
| "id_of (EComponent x) = cmp_Id x"
| "id_of (ESystemInstance x) = si_Id x"
| "id_of (EContext x) = ctx_Id x"
| "id_of (EComponentInstance x) = ci_Id x"
| "id_of (EApiInstance x) = ai_Id x"
| "id_of (ERole x) = role_Id x"
| "id_of (EBinding x) = bnd_Id x"
| "id_of (EArtifact x) = art_Id x"
| "id_of (EArtifactInstance x) = ari_Id x"
| "id_of (EFinding x) = f_Id x"
| "id_of (EFindingType x) = ft_Id x"
| "id_of (ENodeType x) = mt_Id x"
| "id_of (ENode x) = node_Id x"
| "id_of (EContextType x) = mt_Id x"

section \<open>The library functions and the model interface\<close>

text \<open>
  \<open>uuid_Parse\<close> is \<open>uuid.Parse\<close> (None for the error), \<open>uuid_String\<close> the method \<open>String\<close> of a
  UUID, \<open>NewSHA1\<close> is \<open>uuid.NewSHA1\<close>,
  \<open>TypeIDForKind\<close> is \<open>finding.TypeIDForKind\<close>, \<open>ParseApiType\<close> is \<open>mdlapi.ParseApiType\<close>,
  \<open>NNString\<close> is the method \<open>String\<close> of \<open>types.NamespacedName\<close>, \<open>EffectiveKind\<close> the method of
  \<open>iam.SubjectRef\<close>, called on a reference that may be nil.
\<close>

record lib =
  uuid_Parse :: "string \<Rightarrow> uuid option"
  uuid_String :: "uuid \<Rightarrow> string"
  NewSHA1 :: "uuid \<Rightarrow> string \<Rightarrow> uuid"
  TypeIDForKind :: "string \<Rightarrow> uuid"
  ParseApiType :: "string \<Rightarrow> nat option"
  NNString :: "NamespacedName \<Rightarrow> string"
  EffectiveKind :: "SubjectRef option \<Rightarrow> SubjectKind"

text \<open>
  The interface \<open>model.Model\<close> over a state of any type \<open>'m\<close>. It has one \<open>Add\<close>, one
  \<open>Delete..ById\<close> and one \<open>Get..ById\<close> method per entity type; the three fields take the entity type
  as the constructor of their argument or as a \<open>mkind\<close>.
\<close>

record 'm modelsrv =
  mAdd :: "entity \<Rightarrow> 'm \<Rightarrow> error option \<times> 'm"
  mDelete :: "mkind \<Rightarrow> uuid \<Rightarrow> 'm \<Rightarrow> error option \<times> 'm"
  mGet :: "mkind \<Rightarrow> uuid \<Rightarrow> 'm \<Rightarrow> entity option"
  mArtifacts :: "'m \<Rightarrow> MArtifactR list option"

section \<open>What the sensor relies on\<close>

text \<open>
  The store is keyed by entity type and id. An accepted \<open>Add\<close> stores the entity under its
  key (it upserts); an operation on one entity leaves every other entity alone, except that
  the event filters of the library may add or remove findings when an entity that is neither a
  finding nor a finding type changes (the filter \<open>resolvefindings\<close> deletes a finding once the
  missing resource is registered). A rejected \<open>Add\<close> changes nothing. \<open>Delete\<close> removes the entity, and fails
  with the type's not-found error when there is none.
\<close>

definition law_add_get :: "'m modelsrv \<Rightarrow> bool" where
  "law_add_get M \<longleftrightarrow>
     (\<forall>e m m'. mAdd M e m = (None, m') \<longrightarrow> mGet M (kind_of e) (id_of e) m' = Some e)"

definition law_add_frame :: "'m modelsrv \<Rightarrow> bool" where
  "law_add_frame M \<longleftrightarrow>
     (\<forall>e m m' k i. mAdd M e m = (None, m') \<and> (k, i) \<noteq> (kind_of e, id_of e) \<and>
        (k = MFinding \<longrightarrow> kind_of e = MFinding \<or> kind_of e = MFindingType) \<longrightarrow> mGet M k i m' = mGet M k i m)"

definition law_add_reject :: "'m modelsrv \<Rightarrow> bool" where
  "law_add_reject M \<longleftrightarrow>
     (\<forall>e m m' err k i. mAdd M e m = (Some err, m') \<longrightarrow> mGet M k i m' = mGet M k i m)"

definition law_delete_get :: "'m modelsrv \<Rightarrow> bool" where
  "law_delete_get M \<longleftrightarrow> (\<forall>k i m. mGet M k i (snd (mDelete M k i m)) = None)"

definition law_delete_frame :: "'m modelsrv \<Rightarrow> bool" where
  "law_delete_frame M \<longleftrightarrow>
     (\<forall>k i m k' i'. (k', i') \<noteq> (k, i) \<and> (k' = MFinding \<longrightarrow> k = MFinding) \<longrightarrow>
        mGet M k' i' (snd (mDelete M k i m)) = mGet M k' i' m)"

definition law_delete_result :: "'m modelsrv \<Rightarrow> bool" where
  "law_delete_result M \<longleftrightarrow>
     (\<forall>k i m. fst (mDelete M k i m) =
        (if mGet M k i m = None then Some (ErrEntityNotFound k) else None))"

definition law_artifacts :: "'m modelsrv \<Rightarrow> bool" where
  "law_artifacts M \<longleftrightarrow>
     (\<forall>m as a. mArtifacts M m = Some as \<longrightarrow>
        (a \<in> set as) = (mGet M MArtifact (art_Id a) m = Some (EArtifact a)))"

definition law_typed :: "'m modelsrv \<Rightarrow> bool" where
  "law_typed M \<longleftrightarrow>
     (\<forall>k i m e. mGet M k i m = Some e \<longrightarrow> kind_of e = k \<and> id_of e = i)"

definition store_laws :: "'m modelsrv \<Rightarrow> bool" where
  "store_laws M \<longleftrightarrow> law_add_get M \<and> law_add_frame M \<and> law_add_reject M \<and>
     law_delete_get M \<and> law_delete_frame M \<and> law_delete_result M \<and> law_artifacts M \<and>
     law_typed M"

text \<open>The store accepts every entity of a type: no validation rejects it.\<close>

definition accepts :: "'m modelsrv \<Rightarrow> mkind \<Rightarrow> bool" where
  "accepts M k \<longleftrightarrow> (\<forall>e m. kind_of e = k \<longrightarrow> fst (mAdd M e m) = None)"

text \<open>
  \<open>EffectiveKind\<close> as the sensor's comment states it: a subject is valid when exactly one of
  group and identity is set, and a nil reference has no subject.
\<close>

definition subject_laws :: "lib \<Rightarrow> bool" where
  "subject_laws L \<longleftrightarrow>
     EffectiveKind L None = SubjectNone \<and>
     (\<forall>i. EffectiveKind L (Some \<lparr>sr_Identity = Some i, sr_Group = None\<rparr>) = SubjectKindIdentity) \<and>
     (\<forall>g. EffectiveKind L (Some \<lparr>sr_Identity = None, sr_Group = Some g\<rparr>) = SubjectKindGroup)"

definition nn_string_law :: "lib \<Rightarrow> bool" where
  "nn_string_law L \<longleftrightarrow> (\<forall>nn. NNString L nn = nn_Namespace nn @ ''/'' @ nn_Name nn)"

lemma store_lawsD:
  assumes "store_laws M"
  shows store_add_get: "mAdd M e m = (None, m') \<Longrightarrow> mGet M (kind_of e) (id_of e) m' = Some e"
    and store_add_frame: "\<lbrakk>mAdd M e m = (None, m'); (k, i) \<noteq> (kind_of e, id_of e);
        k = MFinding \<Longrightarrow> kind_of e = MFinding \<or> kind_of e = MFindingType\<rbrakk> \<Longrightarrow> mGet M k i m' = mGet M k i m"
    and store_add_reject: "mAdd M e m = (Some err, m') \<Longrightarrow> mGet M k i m' = mGet M k i m"
    and store_delete_get: "mGet M k i (snd (mDelete M k i m)) = None"
    and store_delete_frame: "\<lbrakk>(k', i') \<noteq> (k, i); k' = MFinding \<Longrightarrow> k = MFinding\<rbrakk> \<Longrightarrow>
        mGet M k' i' (snd (mDelete M k i m)) = mGet M k' i' m"
    and store_delete_result: "fst (mDelete M k i m) =
        (if mGet M k i m = None then Some (ErrEntityNotFound k) else None)"
    and store_artifacts: "mArtifacts M m = Some as \<Longrightarrow>
        (a \<in> set as) = (mGet M MArtifact (art_Id a) m = Some (EArtifact a))"
    and store_typed: "mGet M k i m = Some e \<Longrightarrow> kind_of e = k \<and> id_of e = i"
proof goal_cases
  case 1 then show ?case using assms unfolding store_laws_def law_add_get_def by blast
next
  case 2 then show ?case using assms unfolding store_laws_def law_add_frame_def by blast
next
  case 3 then show ?case using assms unfolding store_laws_def law_add_reject_def by blast
next
  case 4 show ?case using assms unfolding store_laws_def law_delete_get_def by blast
next
  case 5 then show ?case using assms unfolding store_laws_def law_delete_frame_def by blast
next
  case 6 show ?case using assms unfolding store_laws_def law_delete_result_def by blast
next
  case 7 then show ?case using assms unfolding store_laws_def law_artifacts_def by blast
next
  case 8 then show ?case using assms unfolding store_laws_def law_typed_def by blast
qed

text \<open>\<open>errors.Is\<close> against the not-found error of a type looks through wrapped errors.\<close>

fun is_not_found :: "mkind \<Rightarrow> error \<Rightarrow> bool" where
  "is_not_found k (ErrEntityNotFound k') = (k' = k)"
| "is_not_found k (ErrWrap _ err) = is_not_found k err"
| "is_not_found k _ = False"

definition ignore_not_found :: "mkind \<Rightarrow> error option \<Rightarrow> error option" where
  "ignore_not_found k r = (case r of Some err \<Rightarrow> if is_not_found k err then None else r | None \<Rightarrow> None)"

lemma ignore_delete_result:
  "store_laws M \<Longrightarrow> ignore_not_found k (fst (mDelete M k i m)) = None"
  by (simp add: store_delete_result ignore_not_found_def)

lemma accepts_add: "accepts M (kind_of e) \<Longrightarrow> fst (mAdd M e m) = None"
  by (simp add: accepts_def)

section \<open>A concrete store\<close>

text \<open>
  A list of entities, newest first, at most one per key, and a library with a toy hash. They
  satisfy the hypotheses above, so that properties over them are not vacuous.
\<close>

definition same_key :: "mkind \<Rightarrow> uuid \<Rightarrow> entity \<Rightarrow> bool" where
  "same_key k i e \<longleftrightarrow> kind_of e = k \<and> id_of e = i"

definition artifacts_in :: "entity list \<Rightarrow> MArtifactR list" where
  "artifacts_in es =
     concat (map (\<lambda>e. case e of EArtifact a \<Rightarrow>
       (if find (same_key MArtifact (art_Id a)) es = Some e then [a] else []) | _ \<Rightarrow> []) es)"

definition mem_store :: "(entity list) modelsrv" where
  "mem_store =
     \<lparr>mAdd = (\<lambda>e es. (None, e # filter (\<lambda>x. \<not> same_key (kind_of e) (id_of e) x) es)),
      mDelete = (\<lambda>k i es. ((if find (same_key k i) es = None then Some (ErrEntityNotFound k)
                              else None), filter (\<lambda>x. \<not> same_key k i x) es)),
      mGet = (\<lambda>k i es. find (same_key k i) es),
      mArtifacts = (\<lambda>es. Some (artifacts_in es))\<rparr>"

definition hex_val :: "char \<Rightarrow> nat option" where
  "hex_val c = (let n = of_char c in
     if 48 \<le> n \<and> n \<le> 57 then Some (n - 48)
     else if 97 \<le> n \<and> n \<le> 102 then Some (n - 87) else None)"

fun mem_parse :: "string \<Rightarrow> uuid \<Rightarrow> uuid option" where
  "mem_parse [] acc = Some acc"
| "mem_parse (c # cs) acc =
     (case hex_val c of None \<Rightarrow> None | Some d \<Rightarrow> mem_parse cs (16 * acc + of_nat d))"

fun mem_hash :: "string \<Rightarrow> uuid \<Rightarrow> uuid" where
  "mem_hash [] acc = acc"
| "mem_hash (c # cs) acc = mem_hash cs (257 * acc + of_nat (of_char c))"

definition mem_lib :: lib where
  "mem_lib =
     \<lparr>uuid_Parse = (\<lambda>s. if s = [] then None else mem_parse s 0),
      uuid_String = uuid_bytes,
      NewSHA1 = (\<lambda>ns s. mem_hash s (ns + 1)),
      TypeIDForKind = (\<lambda>s. mem_hash s 7),
      ParseApiType = (\<lambda>s. if s = ''OpenAPI'' then Some 1 else None),
      NNString = (\<lambda>nn. nn_Namespace nn @ ''/'' @ nn_Name nn),
      EffectiveKind = (\<lambda>r. case r of None \<Rightarrow> SubjectNone
         | Some s \<Rightarrow> (case (sr_Group s, sr_Identity s) of
              (Some _, None) \<Rightarrow> SubjectKindGroup
            | (None, Some _) \<Rightarrow> SubjectKindIdentity
            | _ \<Rightarrow> SubjectNone))\<rparr>"

lemma find_filter_other:
  "(k', i') \<noteq> (k, i) \<Longrightarrow>
   find (same_key k' i') (filter (\<lambda>x. \<not> same_key k i x) es) = find (same_key k' i') es"
  by (induction es) (auto simp: same_key_def)

lemma same_key_other: "(k, i) \<noteq> (kind_of e, id_of e) \<Longrightarrow> \<not> same_key k i e"
  by (auto simp: same_key_def)

lemma find_filter_same: "find (same_key k i) (filter (\<lambda>x. \<not> same_key k i x) es) = None"
  by (auto simp: find_None_iff)

lemma artifacts_in_iff:
  "a \<in> set (artifacts_in es) \<longleftrightarrow> find (same_key MArtifact (art_Id a)) es = Some (EArtifact a)"
proof -
  have "find P es = Some e \<Longrightarrow> e \<in> set es" for P and e :: entity
    by (auto simp: find_Some_iff)
  then show ?thesis
    by (fastforce simp: artifacts_in_def split: entity.splits if_splits)
qed

lemma mem_store_laws [simp]: "store_laws mem_store"
proof -
  have *: "same_key (kind_of e) (id_of e) e" for e by (simp add: same_key_def)
  have "law_add_get mem_store" by (auto simp: law_add_get_def mem_store_def *)
  moreover have "law_add_frame mem_store"
    unfolding law_add_frame_def
  proof (intro allI impI)
    fix e m m' k i
    assume a: "mAdd mem_store e m = (None, m') \<and> (k, i) \<noteq> (kind_of e, id_of e) \<and>
      (k = MFinding \<longrightarrow> kind_of e = MFinding \<or> kind_of e = MFindingType)"
    then have "\<not> same_key k i e" by (intro same_key_other) blast
    with a show "mGet mem_store k i m' = mGet mem_store k i m"
      using find_filter_other [of k i "kind_of e" "id_of e" m] by (auto simp: mem_store_def)
  qed
  moreover have "law_add_reject mem_store"
    by (auto simp: law_add_reject_def mem_store_def)
  moreover have "law_delete_get mem_store"
    by (auto simp: law_delete_get_def mem_store_def find_filter_same)
  moreover have "law_delete_frame mem_store"
    by (auto simp: law_delete_frame_def mem_store_def find_filter_other)
  moreover have "law_delete_result mem_store"
    by (auto simp: law_delete_result_def mem_store_def)
  moreover have "law_artifacts mem_store"
    by (auto simp: law_artifacts_def mem_store_def artifacts_in_iff)
  moreover have "law_typed mem_store"
    by (auto simp: law_typed_def mem_store_def same_key_def find_Some_iff)
  ultimately show ?thesis by (simp add: store_laws_def)
qed

lemma mem_store_accepts [simp]: "accepts mem_store k"
  by (simp add: accepts_def mem_store_def)

lemma mem_lib_subject_laws [simp]: "subject_laws mem_lib"
  by (simp add: subject_laws_def mem_lib_def)

lemma mem_lib_nn_string_law [simp]: "nn_string_law mem_lib"
  by (simp add: nn_string_law_def mem_lib_def)

end
