(* ===== verification/Name_Index.thy ===== *)
theory Name_Index
  imports Externals
begin

text \<open>
  The name index of \<open>internal/controller/registry.go\<close>: Kubernetes names to the UUIDs used in
  the model, the reverse index of Helm ownership, and the bindings that wait for a role. Every
  method holds the mutex of the index for its whole body, so each is one atomic function of the
  index. The interface locale \<open>uuid_registry\<close> states what a name table promises to its clients; it is
  interpreted on the two tables of the index.
\<close>

section \<open>Data\<close>

datatype ResourceKind =
    KindContext | KindSystem | KindAPI | KindComponent | KindSystemInstance | KindAPIInstance
  | KindComponentInstance | KindRole | KindBinding | KindArtifact | KindArtifactInstance

type_synonym name_table = "(ResourceKind, (string, uuid) fmap) fmap"

record NameIndex =
  names :: name_table
  helmOwner :: name_table
  pendingBindings :: "(string, string fset) fmap"

section \<open>Operations\<close>

definition NewNameIndex :: NameIndex where
  "NewNameIndex = \<lparr>names = fmempty, helmOwner = fmempty, pendingBindings = fmempty\<rparr>"

definition Put :: "NameIndex \<Rightarrow> ResourceKind \<Rightarrow> string \<Rightarrow> uuid \<Rightarrow> NameIndex" where
  "Put idx kind name i =
     (let m = (case fmlookup (names idx) kind of Some m \<Rightarrow> m | None \<Rightarrow> fmempty)
      in idx\<lparr>names := fmupd kind (fmupd name i m) (names idx)\<rparr>)"

definition Get :: "NameIndex \<Rightarrow> ResourceKind \<Rightarrow> string \<Rightarrow> uuid" where
  "Get idx kind name =
     (case fmlookup (names idx) kind of
        None \<Rightarrow> uuid_Nil
      | Some m \<Rightarrow> (case fmlookup m name of None \<Rightarrow> uuid_Nil | Some i \<Rightarrow> i))"

definition Delete :: "NameIndex \<Rightarrow> ResourceKind \<Rightarrow> string \<Rightarrow> uuid \<times> NameIndex" where
  "Delete idx kind name =
     (case fmlookup (names idx) kind of
        None \<Rightarrow> (uuid_Nil, idx)
      | Some m \<Rightarrow>
          (case fmlookup m name of
             None \<Rightarrow> (uuid_Nil, idx)
           | Some i \<Rightarrow> (i, idx\<lparr>names := fmupd kind (fmdrop name m) (names idx)\<rparr>)))"

definition Keys :: "range_order \<Rightarrow> NameIndex \<Rightarrow> ResourceKind \<Rightarrow> string list" where
  "Keys ord idx kind =
     (case fmlookup (names idx) kind of None \<Rightarrow> [] | Some m \<Rightarrow> ord (fmdom m))"

definition SetHelmOwner :: "NameIndex \<Rightarrow> ResourceKind \<Rightarrow> string \<Rightarrow> uuid \<Rightarrow> NameIndex" where
  "SetHelmOwner idx kind name i =
     (let m = (case fmlookup (helmOwner idx) kind of Some m \<Rightarrow> m | None \<Rightarrow> fmempty)
      in idx\<lparr>helmOwner := fmupd kind (fmupd name i m) (helmOwner idx)\<rparr>)"

definition GetHelmOwner :: "NameIndex \<Rightarrow> ResourceKind \<Rightarrow> string \<Rightarrow> uuid" where
  "GetHelmOwner idx kind name =
     (case fmlookup (helmOwner idx) kind of
        None \<Rightarrow> uuid_Nil
      | Some m \<Rightarrow> (case fmlookup m name of None \<Rightarrow> uuid_Nil | Some i \<Rightarrow> i))"

definition DeleteHelmOwner :: "NameIndex \<Rightarrow> ResourceKind \<Rightarrow> string \<Rightarrow> NameIndex" where
  "DeleteHelmOwner idx kind name =
     (case fmlookup (helmOwner idx) kind of
        Some m \<Rightarrow> idx\<lparr>helmOwner := fmupd kind (fmdrop name m) (helmOwner idx)\<rparr>
      | None \<Rightarrow> idx)"

text \<open>Deleting while ranging visits every entry once; the order does not show in the result.\<close>

definition DeleteHelmOwnersBySystemInstance :: "NameIndex \<Rightarrow> uuid \<Rightarrow> NameIndex" where
  "DeleteHelmOwnersBySystemInstance idx si =
     idx\<lparr>helmOwner := fmmap (\<lambda>m. fmfilter (\<lambda>k. fmlookup m k \<noteq> Some si) m) (helmOwner idx)\<rparr>"

definition AddPendingBinding :: "NameIndex \<Rightarrow> string \<Rightarrow> string \<Rightarrow> NameIndex" where
  "AddPendingBinding idx roleKey bindingName =
     (let m = (case fmlookup (pendingBindings idx) roleKey of Some m \<Rightarrow> m | None \<Rightarrow> {||})
      in idx\<lparr>pendingBindings := fmupd roleKey (finsert bindingName m) (pendingBindings idx)\<rparr>)"

definition RemovePendingBinding :: "NameIndex \<Rightarrow> string \<Rightarrow> string \<Rightarrow> NameIndex" where
  "RemovePendingBinding idx roleKey bindingName =
     (case fmlookup (pendingBindings idx) roleKey of
        None \<Rightarrow> idx
      | Some m \<Rightarrow>
          (let m' = m |-| {|bindingName|}
           in if m' = {||} then idx\<lparr>pendingBindings := fmdrop roleKey (pendingBindings idx)\<rparr>
              else idx\<lparr>pendingBindings := fmupd roleKey m' (pendingBindings idx)\<rparr>))"

definition RemovePendingBindingByName :: "NameIndex \<Rightarrow> string \<Rightarrow> NameIndex" where
  "RemovePendingBindingByName idx bindingName =
     (let p = fmmap (\<lambda>m. m |-| {|bindingName|}) (pendingBindings idx)
      in idx\<lparr>pendingBindings := fmfilter (\<lambda>r. fmlookup p r \<noteq> Some {||}) p\<rparr>)"

definition ResolvePendingBindings ::
    "range_order \<Rightarrow> NameIndex \<Rightarrow> string \<Rightarrow> string list \<times> NameIndex" where
  "ResolvePendingBindings ord idx roleKey =
     (case fmlookup (pendingBindings idx) roleKey of
        None \<Rightarrow> ([], idx)
      | Some pending \<Rightarrow>
          (ord pending, idx\<lparr>pendingBindings := fmdrop roleKey (pendingBindings idx)\<rparr>))"

section \<open>Invariant and abstraction\<close>

text \<open>No role key is kept with an empty set of waiting bindings.\<close>

definition pending_wf :: "NameIndex \<Rightarrow> bool" where
  "pending_wf idx \<longleftrightarrow> fmpred (\<lambda>_ s. s \<noteq> {||}) (pendingBindings idx)"

text \<open>The abstract content of the pending sets: which binding waits for which role.\<close>

definition waits :: "NameIndex \<Rightarrow> string \<Rightarrow> string \<Rightarrow> bool" where
  "waits idx roleKey b \<longleftrightarrow>
     (case fmlookup (pendingBindings idx) roleKey of None \<Rightarrow> False | Some s \<Rightarrow> b |\<in>| s)"

section \<open>The name table interface\<close>

datatype reg_op = RPut ResourceKind string uuid | RDel ResourceKind string

fun last_write :: "reg_op list \<Rightarrow> ResourceKind \<Rightarrow> string \<Rightarrow> uuid \<Rightarrow> uuid" where
  "last_write [] k n u = u"
| "last_write (RPut k' n' v # ops) k n u = last_write ops k n (if k' = k \<and> n' = n then v else u)"
| "last_write (RDel k' n' # ops) k n u = last_write ops k n (if k' = k \<and> n' = n then uuid_Nil else u)"

fun reg_step ::
    "('i \<Rightarrow> ResourceKind \<Rightarrow> string \<Rightarrow> uuid \<Rightarrow> 'i) \<Rightarrow> ('i \<Rightarrow> ResourceKind \<Rightarrow> string \<Rightarrow> 'i) \<Rightarrow>
     reg_op \<Rightarrow> 'i \<Rightarrow> 'i" where
  "reg_step p d (RPut k n v) i = p i k n v"
| "reg_step p d (RDel k n) i = d i k n"

locale uuid_registry =
  fixes put :: "'i \<Rightarrow> ResourceKind \<Rightarrow> string \<Rightarrow> uuid \<Rightarrow> 'i"
    and del :: "'i \<Rightarrow> ResourceKind \<Rightarrow> string \<Rightarrow> 'i"
    and get :: "'i \<Rightarrow> ResourceKind \<Rightarrow> string \<Rightarrow> uuid"
    and empty :: 'i
  assumes get_empty: "get empty k n = uuid_Nil"
    and get_put: "get (put i k n v) k' n' = (if k' = k \<and> n' = n then v else get i k' n')"
    and get_del: "get (del i k n) k' n' = (if k' = k \<and> n' = n then uuid_Nil else get i k' n')"
begin

lemma run_get:
  "get (fold (reg_step put del) ops i) k n = last_write ops k n (get i k n)"
proof (induction ops arbitrary: i)
  case (Cons a ops)
  then show ?case by (cases a) (auto simp: get_put get_del intro: arg_cong)
qed simp

lemma run_from_empty:
  "get (fold (reg_step put del) ops empty) k n = last_write ops k n uuid_Nil"
  by (simp add: run_get get_empty)

text \<open>Two writers of one key: the later one is the one a delete removes.\<close>

lemma put_put_get: "get (put (put i k n v) k n w) k n = w"
  by (simp add: get_put)

lemma del_forgets: "get (del (put i k n v) k n) k n = uuid_Nil"
  by (simp add: get_del)

end

lemma Put_get [idx_simps]:
  "Get (Put idx k n v) k' n' = (if k' = k \<and> n' = n then v else Get idx k' n')"
  by (auto simp: Get_def Put_def Let_def split: option.splits)

lemma Delete_get [idx_simps]:
  "Get (snd (Delete idx k n)) k' n' = (if k' = k \<and> n' = n then uuid_Nil else Get idx k' n')"
  by (auto simp: Get_def Delete_def split: option.splits)

lemma Delete_result [idx_simps]: "fst (Delete idx k n) = Get idx k n"
  by (auto simp: Get_def Delete_def split: option.splits)

lemma SetHelmOwner_get [idx_simps]:
  "GetHelmOwner (SetHelmOwner idx k n v) k' n' = (if k' = k \<and> n' = n then v else GetHelmOwner idx k' n')"
  by (auto simp: GetHelmOwner_def SetHelmOwner_def Let_def split: option.splits)

lemma DeleteHelmOwner_get [idx_simps]:
  "GetHelmOwner (DeleteHelmOwner idx k n) k' n' = (if k' = k \<and> n' = n then uuid_Nil else GetHelmOwner idx k' n')"
  by (auto simp: GetHelmOwner_def DeleteHelmOwner_def split: option.splits)

lemma New_gets [idx_simps]:
  "Get NewNameIndex k n = uuid_Nil" "GetHelmOwner NewNameIndex k n = uuid_Nil"
  by (simp_all add: NewNameIndex_def Get_def GetHelmOwner_def)

interpretation nidx: uuid_registry Put "\<lambda>i k n. snd (Delete i k n)" Get NewNameIndex
  by unfold_locales (simp_all add: idx_simps)

interpretation hidx: uuid_registry SetHelmOwner DeleteHelmOwner GetHelmOwner NewNameIndex
  by unfold_locales (simp_all add: idx_simps)

lemma purge_owners_get [idx_simps]:
  "GetHelmOwner (DeleteHelmOwnersBySystemInstance idx si) k n =
     (if GetHelmOwner idx k n = si then uuid_Nil else GetHelmOwner idx k n)"
  by (auto simp: GetHelmOwner_def DeleteHelmOwnersBySystemInstance_def split: option.splits)

section \<open>Operations on one table leave the others alone\<close>

lemma names_frame [idx_simps]:
  "Get (SetHelmOwner idx k n v) = Get idx"
  "Get (DeleteHelmOwner idx k n) = Get idx"
  "Get (DeleteHelmOwnersBySystemInstance idx si) = Get idx"
  "Get (AddPendingBinding idx r b) = Get idx"
  "Get (RemovePendingBinding idx r b) = Get idx"
  "Get (RemovePendingBindingByName idx b) = Get idx"
  "Get (snd (ResolvePendingBindings ord idx r)) = Get idx"
  by (intro ext; auto simp: Get_def SetHelmOwner_def DeleteHelmOwner_def
      DeleteHelmOwnersBySystemInstance_def AddPendingBinding_def RemovePendingBinding_def
      RemovePendingBindingByName_def ResolvePendingBindings_def Let_def split: option.splits)+

lemma owner_frame [idx_simps]:
  "GetHelmOwner (Put idx k n v) = GetHelmOwner idx"
  "GetHelmOwner (snd (Delete idx k n)) = GetHelmOwner idx"
  "GetHelmOwner (AddPendingBinding idx r b) = GetHelmOwner idx"
  "GetHelmOwner (RemovePendingBinding idx r b) = GetHelmOwner idx"
  "GetHelmOwner (RemovePendingBindingByName idx b) = GetHelmOwner idx"
  "GetHelmOwner (snd (ResolvePendingBindings ord idx r)) = GetHelmOwner idx"
  by (intro ext; auto simp: GetHelmOwner_def Put_def Delete_def AddPendingBinding_def
      RemovePendingBinding_def RemovePendingBindingByName_def ResolvePendingBindings_def Let_def
      split: option.splits)+

lemma pending_frame [idx_simps]:
  "pendingBindings (Put idx k n v) = pendingBindings idx"
  "pendingBindings (snd (Delete idx k n)) = pendingBindings idx"
  "pendingBindings (SetHelmOwner idx k n v) = pendingBindings idx"
  "pendingBindings (DeleteHelmOwner idx k n) = pendingBindings idx"
  "pendingBindings (DeleteHelmOwnersBySystemInstance idx si) = pendingBindings idx"
  by (auto simp: Put_def Delete_def SetHelmOwner_def DeleteHelmOwner_def Let_def
      DeleteHelmOwnersBySystemInstance_def split: option.splits)

lemma waits_frame [idx_simps]:
  "waits (Put idx k n v) = waits idx"
  "waits (snd (Delete idx k n)) = waits idx"
  "waits (SetHelmOwner idx k n v) = waits idx"
  "waits (DeleteHelmOwner idx k n) = waits idx"
  "waits (DeleteHelmOwnersBySystemInstance idx si) = waits idx"
  by (intro ext; simp add: waits_def idx_simps)+

section \<open>Laws of the pending sets\<close>

lemma waits_add [idx_simps]:
  "waits (AddPendingBinding idx r b) r' b' = (if r' = r \<and> b' = b then True else waits idx r' b')"
  by (auto simp: waits_def AddPendingBinding_def Let_def split: option.splits)

lemma waits_remove [idx_simps]:
  "waits (RemovePendingBinding idx r b) r' b' = (if r' = r \<and> b' = b then False else waits idx r' b')"
  by (auto simp: waits_def RemovePendingBinding_def Let_def split: option.splits)

lemma waits_remove_by_name [idx_simps]:
  "waits (RemovePendingBindingByName idx b) r' b' = (if b' = b then False else waits idx r' b')"
  by (auto simp: waits_def RemovePendingBindingByName_def Let_def split: option.splits)

lemma waits_resolve [idx_simps]:
  "waits (snd (ResolvePendingBindings ord idx r)) r' b' = (if r' = r then False else waits idx r' b')"
  by (auto simp: waits_def ResolvePendingBindings_def split: option.splits)

lemma resolve_list:
  assumes "range_law ord"
  shows "set (fst (ResolvePendingBindings ord idx r)) = {b. waits idx r b}"
    and "distinct (fst (ResolvePendingBindings ord idx r))"
  using range_lawD [OF assms]
  by (auto simp: waits_def ResolvePendingBindings_def split: option.splits)

lemma Keys_set:
  assumes "range_law ord"
  shows "set (Keys ord idx kind) = {n. \<exists>m. fmlookup (names idx) kind = Some m \<and> n |\<in>| fmdom m}"
    and "distinct (Keys ord idx kind)"
  using range_lawD [OF assms]
  by (cases "fmlookup (names idx) kind"; auto simp: Keys_def)+

lemma Get_in_Keys: "range_law ord \<Longrightarrow> Get idx kind n \<noteq> uuid_Nil \<Longrightarrow> n \<in> set (Keys ord idx kind)"
  by (auto simp: Keys_set Get_def fmlookup_dom_iff split: option.splits)

lemma pending_wf_simps [simp]:
  "pending_wf (Put idx k n v) = pending_wf idx"
  "pending_wf (snd (Delete idx k n)) = pending_wf idx"
  "pending_wf (SetHelmOwner idx k n v) = pending_wf idx"
  "pending_wf (DeleteHelmOwner idx k n) = pending_wf idx"
  "pending_wf (DeleteHelmOwnersBySystemInstance idx si) = pending_wf idx"
  by (simp_all add: pending_wf_def idx_simps)

lemma pending_wf_steps [intro]:
  assumes "pending_wf idx"
  shows "pending_wf (AddPendingBinding idx r b)"
    and "pending_wf (RemovePendingBinding idx r b)"
    and "pending_wf (RemovePendingBindingByName idx b)"
    and "pending_wf (snd (ResolvePendingBindings ord idx r))"
  using assms unfolding pending_wf_def fmpred_iff
  by (auto simp: AddPendingBinding_def RemovePendingBinding_def RemovePendingBindingByName_def
      ResolvePendingBindings_def Let_def split: option.splits if_splits)

text \<open>Every mutating call on the index, for the runs of the index as a whole.\<close>

datatype idx_op =
    OPut ResourceKind string uuid | ODelete ResourceKind string
  | OSetOwner ResourceKind string uuid | ODeleteOwner ResourceKind string | OPurgeOwner uuid
  | OAddPending string string | ORemovePending string string | ORemovePendingByName string
  | OResolve string

fun idx_step :: "range_order \<Rightarrow> idx_op \<Rightarrow> NameIndex \<Rightarrow> NameIndex" where
  "idx_step ord (OPut k n v) i = Put i k n v"
| "idx_step ord (ODelete k n) i = snd (Delete i k n)"
| "idx_step ord (OSetOwner k n v) i = SetHelmOwner i k n v"
| "idx_step ord (ODeleteOwner k n) i = DeleteHelmOwner i k n"
| "idx_step ord (OPurgeOwner v) i = DeleteHelmOwnersBySystemInstance i v"
| "idx_step ord (OAddPending r b) i = AddPendingBinding i r b"
| "idx_step ord (ORemovePending r b) i = RemovePendingBinding i r b"
| "idx_step ord (ORemovePendingByName b) i = RemovePendingBindingByName i b"
| "idx_step ord (OResolve r) i = snd (ResolvePendingBindings ord i r)"

section \<open>Properties\<close>

text \<open>
  The name table is a last-write-wins map: after any sequence of \<open>Put\<close> and \<open>Delete\<close> calls on a
  new index, \<open>Get\<close> returns what the last call on that kind and name wrote, the nil UUID
  after a \<open>Delete\<close> or when there was none.
\<close>

theorem name_index_last_write:
  "Get (fold (reg_step Put (\<lambda>i k n. snd (Delete i k n))) ops NewNameIndex) k n =
   last_write ops k n uuid_Nil"
  by (rule nidx.run_from_empty)

text \<open>
  Purging the Helm owners of a SystemInstance clears exactly the entries that point to it, in
  every resource kind, and changes no name.
\<close>

theorem purge_helm_owners:
  "GetHelmOwner (DeleteHelmOwnersBySystemInstance idx si) k n =
     (if GetHelmOwner idx k n = si then uuid_Nil else GetHelmOwner idx k n) \<and>
   Get (DeleteHelmOwnersBySystemInstance idx si) k n = Get idx k n"
  by (simp add: idx_simps)

text \<open>
  Draining the pending set of a role returns every binding that waits for it, each once, in
  whatever order the map is ranged over; afterwards none waits for that role and the bindings
  waiting for other roles are as before.
\<close>

theorem resolve_pending_drains:
  assumes "range_law ord"
  shows "set (fst (ResolvePendingBindings ord idx r)) = {b. waits idx r b} \<and>
     distinct (fst (ResolvePendingBindings ord idx r)) \<and>
     waits (snd (ResolvePendingBindings ord idx r)) r' b' = (r' \<noteq> r \<and> waits idx r' b')"
  using resolve_list [OF assms] by (auto simp: idx_simps)

theorem resolve_pending_drains_witness:
  "set (fst (ResolvePendingBindings sorted_range
       (AddPendingBinding NewNameIndex ''ns/r'' ''ns/b'') ''ns/r'')) = {''ns/b''}"
proof -
  have "waits (AddPendingBinding NewNameIndex ''ns/r'' ''ns/b'') ''ns/r'' b = (b = ''ns/b'')" for b
    by (simp add: idx_simps) (simp add: waits_def NewNameIndex_def)
  with resolve_pending_drains [OF sorted_range_law,
      of "AddPendingBinding NewNameIndex ''ns/r'' ''ns/b''" "''ns/r''" "''ns/r''" "''ns/b''"]
  show ?thesis by simp
qed

text \<open>
  Whatever sequence of calls runs on a new index, in whatever range order, no role key is left
  with an empty pending set, so a role is in the pending map only while a binding waits for it.
\<close>

theorem pending_sets_never_empty:
  "pending_wf (fold (idx_step ord) ops NewNameIndex)"
proof -
  have step: "pending_wf i \<Longrightarrow> pending_wf (idx_step ord a i)" for a i
    by (cases a) auto
  have "pending_wf i \<Longrightarrow> pending_wf (fold (idx_step ord) ops i)" for i
    by (induction ops arbitrary: i) (auto intro: step)
  then show ?thesis by (simp add: NewNameIndex_def pending_wf_def)
qed

end
