(* ===== verification/Dates.thy ===== *)
theory Dates
  imports Externals
begin

text \<open>
  \<open>time.Parse\<close> with the layout \<open>2006-01-02\<close>, as \<open>parseDate\<close> of \<open>internal/controller/util.go\<close> uses
  it: four digits, a dash, two digits, a dash, two digits and nothing else; the month between 1 and
  12 and the day within the month of the proleptic Gregorian calendar.
\<close>

definition digit :: "char \<Rightarrow> nat option" where
  "digit c = (let n = of_char c in if 48 \<le> n \<and> n \<le> 57 then Some (n - 48) else None)"

fun digits_value :: "string \<Rightarrow> nat \<Rightarrow> nat option" where
  "digits_value [] acc = Some acc"
| "digits_value (c # cs) acc =
     (case digit c of None \<Rightarrow> None | Some d \<Rightarrow> digits_value cs (10 * acc + d))"

definition leap_year :: "nat \<Rightarrow> bool" where
  "leap_year y \<longleftrightarrow> y mod 4 = 0 \<and> (y mod 100 \<noteq> 0 \<or> y mod 400 = 0)"

definition days_in :: "nat \<Rightarrow> nat \<Rightarrow> nat" where
  "days_in m y =
     (if m = 2 then (if leap_year y then 29 else 28)
      else if m = 4 \<or> m = 6 \<or> m = 9 \<or> m = 11 then 30 else 31)"

definition valid_date :: "date \<Rightarrow> bool" where
  "valid_date d = (case d of (y, m, day) \<Rightarrow>
     y \<le> 9999 \<and> 1 \<le> m \<and> m \<le> 12 \<and> 1 \<le> day \<and> day \<le> days_in m y)"

definition time_Parse_date :: "string \<Rightarrow> date option" where
  "time_Parse_date s =
     (if length s \<noteq> 10 \<or> s ! 4 \<noteq> CHR ''-'' \<or> s ! 7 \<noteq> CHR ''-'' then None
      else case (digits_value (take 4 s) 0, digits_value (take 2 (drop 5 s)) 0,
                 digits_value (drop 8 s) 0) of
             (Some y, Some m, Some d) \<Rightarrow>
               (if 1 \<le> m \<and> m \<le> 12 \<and> 1 \<le> d \<and> d \<le> days_in m y then Some (y, m, d) else None)
           | _ \<Rightarrow> None)"

text \<open>The canonical text of a date, for the round trip.\<close>

definition digit_char :: "nat \<Rightarrow> char" where
  "digit_char d = char_of (48 + d)"

definition two_digits :: "nat \<Rightarrow> string" where
  "two_digits n = [digit_char (n div 10 mod 10), digit_char (n mod 10)]"

definition date_text :: "date \<Rightarrow> string" where
  "date_text d = (case d of (y, m, day) \<Rightarrow>
     two_digits (y div 100) @ two_digits (y mod 100) @ ''-'' @ two_digits m @ ''-'' @ two_digits day)"

lemma digit_digit_char [simp]: "d < 10 \<Longrightarrow> digit (digit_char d) = Some d"
  by (simp add: digit_def digit_char_def Let_def of_char_of)

lemma digits_two [simp]: "digits_value (two_digits n) a = Some (100 * a + n mod 100)"
proof -
  have "10 * (n div 10 mod 10) + n mod 10 = n mod 100"
    using mod_mult2_eq [of n 10 10] by simp
  then show ?thesis by (simp add: two_digits_def)
qed

lemma digits_value_append:
  "digits_value (s @ t) a = Option.bind (digits_value s a) (digits_value t)"
  by (induction s arbitrary: a) (auto split: option.splits)

lemma digit_less: "digit c = Some d \<Longrightarrow> d < 10"
  by (auto simp: digit_def Let_def split: if_splits)

lemma digits_value_bound: "digits_value s a = Some v \<Longrightarrow> v < (a + 1) * 10 ^ length s"
proof (induction s arbitrary: a)
  case (Cons c cs)
  then obtain d where d: "digit c = Some d" "digits_value cs (10 * a + d) = Some v"
    by (auto split: option.splits)
  from Cons.IH [OF d(2)] have "v < (10 * a + d + 1) * 10 ^ length cs" .
  also have "\<dots> \<le> (10 * a + 10) * 10 ^ length cs"
    using digit_less [OF d(1)] by (intro mult_right_mono) auto
  finally show ?case by (simp add: algebra_simps)
qed simp

lemma days_in_le: "days_in m y \<le> 31"
  by (simp add: days_in_def)

lemma length_two_digits [simp]: "length (two_digits n) = 2"
  by (simp add: two_digits_def)

lemma time_Parse_date_text: "valid_date d \<Longrightarrow> time_Parse_date (date_text d) = Some d"
proof -
  assume v: "valid_date d"
  obtain y m day where d: "d = (y, m, day)" by (cases d) auto
  have b: "day \<le> 31" "m \<le> 12" "y \<le> 9999" and c: "1 \<le> m" "1 \<le> day" "day \<le> days_in m y"
    using v days_in_le [of m y] by (auto simp: d valid_date_def)
  let ?y = "two_digits (y div 100) @ two_digits (y mod 100)"
  have t: "date_text d = ?y @ CHR ''-'' # two_digits m @ CHR ''-'' # two_digits day"
    by (simp add: d date_text_def)
  have parts: "take 4 (date_text d) = ?y" "take 2 (drop 5 (date_text d)) = two_digits m"
    "drop 8 (date_text d) = two_digits day" "length (date_text d) = 10"
    "date_text d ! 4 = CHR ''-''" "date_text d ! 7 = CHR ''-''"
    by (simp_all add: t two_digits_def nth_append)
  have "digits_value ?y 0 = Some y"
    using b(3) by (simp add: digits_value_append)
  then show ?thesis using b c unfolding time_Parse_date_def parts by (simp add: d)
qed

lemma time_Parse_date_valid:
  assumes "time_Parse_date s = Some d"
  shows "valid_date d"
proof -
  from assms obtain y m day where d: "d = (y, m, day)" and y: "digits_value (take 4 s) 0 = Some y"
    and len: "length s = 10" and r: "1 \<le> m" "m \<le> 12" "1 \<le> day" "day \<le> days_in m y"
    by (auto simp: time_Parse_date_def split: option.splits if_splits)
  have "y < 10 ^ length (take 4 s)" using digits_value_bound [OF y] by simp
  then have "y \<le> 9999" using len by simp
  with d r show ?thesis by (simp add: valid_date_def)
qed

lemma digit_canonical: "digit c = Some d \<Longrightarrow> c = digit_char d"
  by (auto simp: digit_def digit_char_def Let_def char_of_char split: if_splits)

lemma two_digits_canonical:
  assumes "length s = 2" and v: "digits_value s a = Some v"
  shows "s = two_digits v" and "v div 100 = a"
proof -
  obtain c1 c2 where s: "s = [c1, c2]"
    using assms(1) by (auto simp: length_Suc_conv numeral_2_eq_2)
  obtain d1 d2 where d: "digit c1 = Some d1" "digit c2 = Some d2" and v: "v = 10 * (10 * a + d1) + d2"
    using v by (auto simp: s split: option.splits)
  have l: "d1 < 10" "d2 < 10" using digit_less d by auto
  define w where "w = 10 * a + d1"
  have "v = d2 + 10 * w" by (simp add: v w_def)
  then have "v mod 10 = d2" "v div 10 = w" using l by simp_all
  moreover have "w = d1 + 10 * a" by (simp add: w_def)
  then have "w mod 10 = d1" "w div 10 = a" using l by simp_all
  ultimately have *: "v mod 10 = d2" "v div 10 mod 10 = d1" "v div 100 = a"
    using div_mult2_eq [of v 10 10] by simp_all
  then show "s = two_digits v" "v div 100 = a"
    using digit_canonical [OF d(1)] digit_canonical [OF d(2)] by (simp_all add: s two_digits_def)
qed

lemma two_digits_mod: "two_digits (v mod 100) = two_digits v"
proof -
  have "v mod 100 div 10 = v div 10 mod 10" "v mod 100 mod 10 = v mod 10"
    using mod_mult2_eq [of v 10 10] by simp_all
  then show ?thesis by (simp add: two_digits_def)
qed

lemma four_digits_canonical:
  assumes "length s = 4" and v: "digits_value s 0 = Some v"
  shows "s = two_digits (v div 100) @ two_digits (v mod 100)"
proof -
  obtain w where w: "digits_value (take 2 s) 0 = Some w" and r: "digits_value (drop 2 s) w = Some v"
    using v digits_value_append [of "take 2 s" "drop 2 s" 0]
    by (cases "digits_value (take 2 s) 0") simp_all
  have "take 2 s = two_digits w" "drop 2 s = two_digits v" "v div 100 = w"
    using two_digits_canonical [OF _ w] two_digits_canonical [OF _ r] assms(1) by auto
  then show ?thesis by (metis append_take_drop_id two_digits_mod)
qed

lemma time_Parse_date_canonical:
  assumes "time_Parse_date s = Some d"
  shows "s = date_text d"
proof -
  from assms obtain y m day where d: "d = (y, m, day)"
    and len: "length s = 10" and dash: "s ! 4 = CHR ''-''" "s ! 7 = CHR ''-''"
    and v: "digits_value (take 4 s) 0 = Some y" "digits_value (take 2 (drop 5 s)) 0 = Some m"
      "digits_value (drop 8 s) 0 = Some day"
    by (auto simp: time_Parse_date_def split: option.splits if_splits)
  have "s = take 4 s @ s ! 4 # take 2 (drop 5 s) @ s ! 7 # drop 8 s"
    using len by (intro nth_equalityI) (auto simp: nth_append nth_Cons' less_Suc_eq numeral_eq_Suc)
  moreover have "take 4 s = two_digits (y div 100) @ two_digits (y mod 100)"
    using four_digits_canonical [OF _ v(1)] len by simp
  moreover have "take 2 (drop 5 s) = two_digits m" "drop 8 s = two_digits day"
    using two_digits_canonical(1) [OF _ v(2)] two_digits_canonical(1) [OF _ v(3)] len by auto
  ultimately show ?thesis using dash by (simp add: d date_text_def)
qed

lemma time_Parse_date_iff: "time_Parse_date s = Some d \<longleftrightarrow> valid_date d \<and> s = date_text d"
  using time_Parse_date_canonical time_Parse_date_valid time_Parse_date_text by blast

end
