(* ===== verification/Convert.thy ===== *)
theory Convert
  imports Name_Index Dates
begin

text \<open>
  \<open>internal/controller/util.go\<close> and the resource types of \<open>api/k8s/v1alpha1\<close>: the conversion of
  custom resources, namespaces, workloads, services and RBAC objects into entities of the
  model. A constructor of the library followed by its setters is the record of the values set;
  a conversion that returns \<open>nil, uuid.Nil\<close> is None.
\<close>

section \<open>Custom resources\<close>

record Version =
  v_Version :: string
  v_AvailableFrom :: string
  v_DeprecatedFrom :: string
  v_TerminatedFrom :: string

record VersionRef =
  vr_Name :: string
  vr_Version :: string

record SystemSpec =
  ss_DisplayName :: string
  ss_Description :: string
  ss_SystemId :: string
  ss_Version :: Version
  ss_Abstract :: bool
  ss_ParentRef :: "VersionRef option"

record System =
  s_Meta :: ObjectMeta
  s_Spec :: SystemSpec

record APIVersionRef =
  avr_Name :: string
  avr_Version :: string

record APIRef =
  apr_VersionRef :: APIVersionRef
  apr_ApiId :: string

record APISpec =
  as_DisplayName :: string
  as_Description :: string
  as_ApiId :: string
  as_Version :: Version
  as_Type :: string
  as_SystemRef :: VersionRef
  as_SystemId :: string

record API =
  a_Meta :: ObjectMeta
  a_Spec :: APISpec

record ComponentSpec =
  cs_DisplayName :: string
  cs_Description :: string
  cs_ComponentId :: string
  cs_Version :: Version
  cs_SystemRef :: VersionRef
  cs_SystemId :: string
  cs_Consumes :: "APIRef list"
  cs_Provides :: "APIRef list"

record Component =
  c_Meta :: ObjectMeta
  c_Spec :: ComponentSpec

record SystemInstanceSpec =
  sis_InstanceId :: string
  sis_SystemId :: string
  sis_DisplayName :: string

record SystemInstance =
  sinst_Meta :: ObjectMeta
  sinst_Spec :: SystemInstanceSpec

section \<open>Annotation keys and fixed identifiers\<close>

definition AnnotationComponentID :: string where
  "AnnotationComponentID = ''componentId.emeland.io''"
definition AnnotationSystemInstanceID :: string where
  "AnnotationSystemInstanceID = ''systemInstanceId.emeland.io''"
definition AnnotationAPIID :: string where
  "AnnotationAPIID = ''apiId.emeland.io''"
definition AnnotationRoleSpecID :: string where
  "AnnotationRoleSpecID = ''emeland.io/k8s-sensor-role-spec-id''"
definition AnnotationSubjectID :: string where
  "AnnotationSubjectID = ''emeland.io/k8s-sensor-subject-id''"
definition AnnotationAPIReference :: string where
  "AnnotationAPIReference = ''emeland.io/k8s-sensor/api-reference''"
definition AnnotationComponentReference :: string where
  "AnnotationComponentReference = ''emeland.io/k8s-sensor/component-reference''"
definition AnnotationContextParent :: string where
  "AnnotationContextParent = ''emeland.io/k8s-sensor/context-parent''"
definition AnnotationSystemReference :: string where
  "AnnotationSystemReference = ''emeland.io/k8s-sensor/system-reference''"

text \<open>\<open>sensor.K8sNamespaceContextTypeID\<close>, the UUID c7e8f9a0-b1c2-4d3e-a4f5-6a7b8c9d0e1f.\<close>

definition K8sNamespaceContextTypeID :: uuid where
  "K8sNamespaceContextTypeID = 0xc7e8f9a0b1c24d3ea4f56a7b8c9d0e1f"

section \<open>Helpers\<close>

definition parseDate :: "string \<Rightarrow> date option" where
  "parseDate dateStr = (if dateStr = [] then None else time_Parse_date dateStr)"

definition parseVersion :: "Version \<Rightarrow> MVersion" where
  "parseVersion v =
     \<lparr>mv_Version = v_Version v,
      mv_AvailableFrom = parseDate (v_AvailableFrom v),
      mv_DeprecatedFrom = parseDate (v_DeprecatedFrom v),
      mv_TerminatedFrom = parseDate (v_TerminatedFrom v)\<rparr>"

text \<open>The version reference is ignored: the model's system reference is a UUID only.\<close>

definition parseSystemRef :: "lib \<Rightarrow> string \<Rightarrow> VersionRef option \<Rightarrow> uuid option" where
  "parseSystemRef L sysId sysRef =
     (if sysId \<noteq> [] then
        (case uuid_Parse L sysId of
           Some uid \<Rightarrow> (if uid \<noteq> uuid_Nil then Some uid else None)
         | None \<Rightarrow> None)
      else None)"

definition parseOptionalUUID :: "lib \<Rightarrow> string \<Rightarrow> uuid" where
  "parseOptionalUUID L s =
     (if s = [] then uuid_Nil
      else case uuid_Parse L s of None \<Rightarrow> uuid_Nil | Some uid \<Rightarrow> uid)"

fun parseAPIRefs :: "lib \<Rightarrow> APIRef list \<Rightarrow> ApiRef list" where
  "parseAPIRefs L [] = []"
| "parseAPIRefs L (ref # refs) =
     (let i = parseOptionalUUID L (apr_ApiId ref)
      in if i \<noteq> uuid_Nil then \<lparr>ar_ApiID = i, ar_ApiRef = None\<rparr> # parseAPIRefs L refs
         else if avr_Name (apr_VersionRef ref) \<noteq> [] \<and> avr_Version (apr_VersionRef ref) \<noteq> [] then
           \<lparr>ar_ApiID = uuid_Nil,
            ar_ApiRef = Some \<lparr>ev_Name = avr_Name (apr_VersionRef ref),
                              ev_Version = avr_Version (apr_VersionRef ref)\<rparr>\<rparr> # parseAPIRefs L refs
         else parseAPIRefs L refs)"

definition uuidFromMeta :: "lib \<Rightarrow> ObjectMeta \<Rightarrow> uuid" where
  "uuidFromMeta L obj = parseOptionalUUID L (UID obj)"

definition resourceID :: "lib \<Rightarrow> string \<Rightarrow> ObjectMeta \<Rightarrow> uuid" where
  "resourceID L specID meta =
     (let i = parseOptionalUUID L specID in if i \<noteq> uuid_Nil then i else uuidFromMeta L meta)"

text \<open>
  Adding every pair of a map to the annotations: the keys of a map are distinct, so the range
  order does not show (\<open>applyAnnotations_any_order\<close>).
\<close>

definition applyAnnotations :: "annotations \<Rightarrow> annotations \<Rightarrow> annotations" where
  "applyAnnotations ann src = ann ++\<^sub>f src"

definition IsOwnedByCronJob :: "ObjectMeta \<Rightarrow> bool" where
  "IsOwnedByCronJob obj = list_ex (\<lambda>k. k = ''CronJob'') (OwnerKinds obj)"

definition annotationUUID :: "lib \<Rightarrow> annotations \<Rightarrow> string \<Rightarrow> uuid" where
  "annotationUUID L ann key =
     parseOptionalUUID L (case fmlookup ann key of None \<Rightarrow> [] | Some v \<Rightarrow> v)"

section \<open>Conversions\<close>

definition convertSystem :: "lib \<Rightarrow> System \<Rightarrow> (MSystemR \<times> uuid) option" where
  "convertSystem L sys =
     (let i = resourceID L (ss_SystemId (s_Spec sys)) (s_Meta sys)
      in if i = uuid_Nil then None
         else Some (\<lparr>sys_Id = i,
                     sys_DisplayName = ss_DisplayName (s_Spec sys),
                     sys_Description = ss_Description (s_Spec sys),
                     sys_Version = parseVersion (ss_Version (s_Spec sys)),
                     sys_Abstract = ss_Abstract (s_Spec sys),
                     sys_Annotations = applyAnnotations fmempty (Annotations (s_Meta sys))\<rparr>, i))"

definition convertAPI :: "lib \<Rightarrow> API \<Rightarrow> (MApiR \<times> uuid) option" where
  "convertAPI L api =
     (let i = resourceID L (as_ApiId (a_Spec api)) (a_Meta api)
      in if i = uuid_Nil then None
         else Some (\<lparr>api_Id = i,
                     api_DisplayName = as_DisplayName (a_Spec api),
                     api_Description = as_Description (a_Spec api),
                     api_Version = parseVersion (as_Version (a_Spec api)),
                     api_Type = ParseApiType L (as_Type (a_Spec api)),
                     api_System = parseSystemRef L (as_SystemId (a_Spec api)) (Some (as_SystemRef (a_Spec api))),
                     api_Annotations = applyAnnotations fmempty (Annotations (a_Meta api))\<rparr>, i))"

definition convertComponent :: "lib \<Rightarrow> Component \<Rightarrow> (MComponentR \<times> uuid) option" where
  "convertComponent L cmp =
     (let i = resourceID L (cs_ComponentId (c_Spec cmp)) (c_Meta cmp)
      in if i = uuid_Nil then None
         else Some (\<lparr>cmp_Id = i,
                     cmp_DisplayName = cs_DisplayName (c_Spec cmp),
                     cmp_Description = cs_Description (c_Spec cmp),
                     cmp_Version = parseVersion (cs_Version (c_Spec cmp)),
                     cmp_System = parseSystemRef L (cs_SystemId (c_Spec cmp)) (Some (cs_SystemRef (c_Spec cmp))),
                     cmp_Consumes = parseAPIRefs L (cs_Consumes (c_Spec cmp)),
                     cmp_Provides = parseAPIRefs L (cs_Provides (c_Spec cmp)),
                     cmp_Annotations = applyAnnotations fmempty (Annotations (c_Meta cmp))\<rparr>, i))"

definition convertSystemInstance :: "lib \<Rightarrow> SystemInstance \<Rightarrow> (MSystemInstanceR \<times> uuid) option" where
  "convertSystemInstance L inst =
     (let i = resourceID L (sis_InstanceId (sinst_Spec inst)) (sinst_Meta inst)
      in if i = uuid_Nil then None
         else Some (\<lparr>si_Id = i,
                     si_DisplayName = sis_DisplayName (sinst_Spec inst),
                     si_System = parseSystemRef L (sis_SystemId (sinst_Spec inst)) None,
                     si_Annotations = applyAnnotations fmempty (Annotations (sinst_Meta inst))\<rparr>, i))"

definition convertNamespaceToContext :: "lib \<Rightarrow> ObjectMeta \<Rightarrow> uuid \<Rightarrow> (MContextR \<times> uuid) option" where
  "convertNamespaceToContext L ns clusterContextID =
     (let i = uuidFromMeta L ns
      in if i = uuid_Nil then None
         else
           (let parentID = annotationUUID L (Annotations ns) AnnotationContextParent
            in Some (\<lparr>ctx_Id = i,
                      ctx_DisplayName = Name ns,
                      ctx_Description = ''Kubernetes namespace '' @ Name ns,
                      ctx_Type = K8sNamespaceContextTypeID,
                      ctx_Parent =
                        (if parentID \<noteq> uuid_Nil then Some parentID
                         else if Name ns \<noteq> ''kube-system'' \<and> clusterContextID \<noteq> uuid_Nil
                              then Some clusterContextID else None),
                      ctx_Annotations = applyAnnotations fmempty (Annotations ns)\<rparr>, i)))"

definition componentInstanceFromMeta :: "lib \<Rightarrow> ObjectMeta \<Rightarrow> (MComponentInstanceR \<times> uuid) option" where
  "componentInstanceFromMeta L obj =
     (let uid = parseOptionalUUID L (UID obj)
      in if uid = uuid_Nil then None
         else
           (let ann = Annotations obj;
                ref = annotationUUID L ann AnnotationComponentReference;
                legacy = annotationUUID L ann AnnotationComponentID;
                si = annotationUUID L ann AnnotationSystemInstanceID
            in Some (\<lparr>ci_Id = uid,
                      ci_DisplayName = Name obj,
                      ci_Component = (if ref \<noteq> uuid_Nil then Some ref
                                      else if legacy \<noteq> uuid_Nil then Some legacy else None),
                      ci_SystemInstance = (if si \<noteq> uuid_Nil then Some si else None),
                      ci_Annotations = applyAnnotations fmempty ann\<rparr>, uid)))"

definition apiInstanceFromMeta :: "lib \<Rightarrow> ObjectMeta \<Rightarrow> (MApiInstanceR \<times> uuid) option" where
  "apiInstanceFromMeta L obj =
     (let uid = parseOptionalUUID L (UID obj)
      in if uid = uuid_Nil then None
         else
           (let ann = Annotations obj;
                ref = annotationUUID L ann AnnotationAPIReference;
                legacy = annotationUUID L ann AnnotationAPIID;
                si = annotationUUID L ann AnnotationSystemInstanceID
            in Some (\<lparr>ai_Id = uid,
                      ai_DisplayName = Name obj,
                      ai_Api = (if ref \<noteq> uuid_Nil then Some ref
                                else if legacy \<noteq> uuid_Nil then Some legacy else None),
                      ai_SystemInstance = (if si \<noteq> uuid_Nil then Some si else None),
                      ai_Annotations = applyAnnotations fmempty ann\<rparr>, uid)))"

definition roleFromRBAC :: "lib \<Rightarrow> ObjectMeta \<Rightarrow> (MRoleR \<times> uuid) option" where
  "roleFromRBAC L obj =
     (let uid = parseOptionalUUID L (UID obj)
      in if uid = uuid_Nil then None
         else
           (let specID = annotationUUID L (Annotations obj) AnnotationRoleSpecID
            in Some (\<lparr>role_Id = uid,
                      role_DisplayName = Name obj,
                      role_Spec = (if specID \<noteq> uuid_Nil then Some specID else None),
                      role_Annotations = applyAnnotations fmempty (Annotations obj)\<rparr>, uid)))"

definition bindingFromRBAC ::
    "lib \<Rightarrow> ObjectMeta \<Rightarrow> string \<Rightarrow> string \<Rightarrow> NameIndex \<Rightarrow> (MBindingR \<times> uuid) option" where
  "bindingFromRBAC L obj roleKey subjectKind idx =
     (let uid = parseOptionalUUID L (UID obj)
      in if uid = uuid_Nil then None
         else
           (let roleID = Get idx KindRole roleKey;
                subjectID = annotationUUID L (Annotations obj) AnnotationSubjectID
            in Some (\<lparr>bnd_Id = uid,
                      bnd_DisplayName = Name obj,
                      bnd_Role = (if roleID \<noteq> uuid_Nil then Some roleID else None),
                      bnd_Subject =
                        (if subjectID \<noteq> uuid_Nil then
                           (if subjectKind = ''User'' \<or> subjectKind = ''ServiceAccount''
                            then Some \<lparr>sr_Identity = Some subjectID, sr_Group = None\<rparr>
                            else Some \<lparr>sr_Identity = None, sr_Group = Some subjectID\<rparr>)
                         else None),
                      bnd_Annotations = applyAnnotations fmempty (Annotations obj)\<rparr>, uid)))"

definition bindingHasValidSubject :: "lib \<Rightarrow> MBindingR option \<Rightarrow> bool" where
  "bindingHasValidSubject L b =
     (case b of None \<Rightarrow> False | Some x \<Rightarrow> EffectiveKind L (bnd_Subject x) \<noteq> SubjectNone)"

text \<open>The kinds of the subjects of a binding, in order.\<close>

definition firstSubjectKind :: "string list \<Rightarrow> string" where
  "firstSubjectKind subjects = (case subjects of [] \<Rightarrow> [] | k # _ \<Rightarrow> k)"

definition roleIndexKey :: "NamespacedName \<Rightarrow> string" where
  "roleIndexKey nn =
     (if nn_Namespace nn = [] then nn_Name nn else nn_Namespace nn @ ''/'' @ nn_Name nn)"

section \<open>Facts about the helpers\<close>

text \<open>The first text of a list that is a UUID other than nil.\<close>

fun first_uuid :: "lib \<Rightarrow> string list \<Rightarrow> uuid option" where
  "first_uuid L [] = None"
| "first_uuid L (s # ss) =
     (case (s, uuid_Parse L s) of
        (_ # _, Some u) \<Rightarrow> (if u \<noteq> uuid_Nil then Some u else first_uuid L ss)
      | _ \<Rightarrow> first_uuid L ss)"

definition annotation_value :: "annotations \<Rightarrow> string \<Rightarrow> string" where
  "annotation_value ann key = (case fmlookup ann key of None \<Rightarrow> [] | Some v \<Rightarrow> v)"

lemma first_uuid_parse:
  "first_uuid L (s # ss) =
     (if parseOptionalUUID L s \<noteq> uuid_Nil then Some (parseOptionalUUID L s) else first_uuid L ss)"
  by (auto simp: parseOptionalUUID_def split: option.splits list.splits)

lemma first_uuid_not_Nil: "first_uuid L ss = Some u \<Longrightarrow> u \<noteq> uuid_Nil"
  by (induction ss) (auto simp: first_uuid_parse simp del: first_uuid.simps(2) split: if_splits)

lemma annotationUUID_value: "annotationUUID L ann key = parseOptionalUUID L (annotation_value ann key)"
  by (simp add: annotationUUID_def annotation_value_def)

lemma applyAnnotations_any_order:
  assumes "distinct ks" and "set ks = fmdom' src"
  shows "fold (\<lambda>k. fmupd k (the (fmlookup src k))) ks ann = applyAnnotations ann src"
  using assms by (intro fmlookup_eqI)
    (auto simp: fold_fmupd_lookup applyAnnotations_def fmlookup_dom'_iff fmlookup_dom_iff)

lemma parseDate_iff: "parseDate s = Some d \<longleftrightarrow> valid_date d \<and> s = date_text d"
proof -
  have "date_text d \<noteq> []" by (cases d) (simp add: date_text_def two_digits_def)
  then show ?thesis by (auto simp: parseDate_def time_Parse_date_iff)
qed

lemma bindingFromRBAC_parts:
  assumes "bindingFromRBAC L obj rk sk idx = Some (b, i)"
  shows "bnd_Id b = i" and "i = parseOptionalUUID L (UID obj)" and "i \<noteq> uuid_Nil"
    and "bnd_Role b = (if Get idx KindRole rk \<noteq> uuid_Nil then Some (Get idx KindRole rk) else None)"
    and "bnd_DisplayName b = Name obj"
  using assms by (auto simp: bindingFromRBAC_def Let_def split: if_splits)

lemma bindingFromRBAC_subject:
  assumes "subject_laws L" and "bindingFromRBAC L obj rk sk idx = Some (b, i)"
  shows "bindingHasValidSubject L (Some b) =
           (annotationUUID L (Annotations obj) AnnotationSubjectID \<noteq> uuid_Nil)"
  using assms
  by (auto simp: bindingFromRBAC_def bindingHasValidSubject_def subject_laws_def Let_def
      split: if_splits)

lemma roleIndexKey_cases:
  "nn_Namespace nn = [] \<Longrightarrow> roleIndexKey nn = nn_Name nn"
  "nn_Namespace nn \<noteq> [] \<Longrightarrow> roleIndexKey nn = nn_Namespace nn @ ''/'' @ nn_Name nn"
  by (simp_all add: roleIndexKey_def)

lemma append_sep_inject:
  assumes "c \<notin> set a" and "c \<notin> set a'" and "a @ c # b = a' @ c # b'"
  shows "a = a' \<and> b = b'"
  using assms
proof (induction a arbitrary: a')
  case Nil
  then show ?case by (cases a') auto
next
  case (Cons x a)
  then show ?case by (cases a') auto
qed

section \<open>Properties\<close>

text \<open>
  Identity of converted resources. The id of a custom resource's entity is the id of its
  specification when that is a UUID other than nil, and the UID of the Kubernetes object
  otherwise; a native resource has the UID's. The conversion gives up exactly when there is
  no such UUID, and the id it returns beside the entity is the entity's.
\<close>

theorem convert_identity:
  "map_option (\<lambda>(e, i). (sys_Id e, i)) (convertSystem L s) =
     map_option (\<lambda>i. (i, i)) (first_uuid L [ss_SystemId (s_Spec s), UID (s_Meta s)]) \<and>
   map_option (\<lambda>(e, i). (api_Id e, i)) (convertAPI L a) =
     map_option (\<lambda>i. (i, i)) (first_uuid L [as_ApiId (a_Spec a), UID (a_Meta a)]) \<and>
   map_option (\<lambda>(e, i). (cmp_Id e, i)) (convertComponent L c) =
     map_option (\<lambda>i. (i, i)) (first_uuid L [cs_ComponentId (c_Spec c), UID (c_Meta c)]) \<and>
   map_option (\<lambda>(e, i). (si_Id e, i)) (convertSystemInstance L n) =
     map_option (\<lambda>i. (i, i)) (first_uuid L [sis_InstanceId (sinst_Spec n), UID (sinst_Meta n)]) \<and>
   map_option (\<lambda>(e, i). (ci_Id e, i)) (componentInstanceFromMeta L obj) =
     map_option (\<lambda>i. (i, i)) (first_uuid L [UID obj]) \<and>
   map_option (\<lambda>(e, i). (ai_Id e, i)) (apiInstanceFromMeta L obj) =
     map_option (\<lambda>i. (i, i)) (first_uuid L [UID obj]) \<and>
   map_option (\<lambda>(e, i). (role_Id e, i)) (roleFromRBAC L obj) =
     map_option (\<lambda>i. (i, i)) (first_uuid L [UID obj])"
  by (simp add: convertSystem_def convertAPI_def convertComponent_def convertSystemInstance_def
      componentInstanceFromMeta_def apiInstanceFromMeta_def roleFromRBAC_def resourceID_def
      uuidFromMeta_def Let_def first_uuid_parse del: first_uuid.simps(2))

text \<open>
  Reference annotations. The component of a workload and the API of a service are the UUID
  of the current annotation key, or, when that is absent or is not a UUID, of the legacy key;
  with neither, there is no reference.
\<close>

theorem reference_precedence:
  "map_option (ci_Component \<circ> fst) (componentInstanceFromMeta L obj) =
     map_option (\<lambda>_. first_uuid L [annotation_value (Annotations obj) AnnotationComponentReference,
         annotation_value (Annotations obj) AnnotationComponentID]) (first_uuid L [UID obj]) \<and>
   map_option (ai_Api \<circ> fst) (apiInstanceFromMeta L obj) =
     map_option (\<lambda>_. first_uuid L [annotation_value (Annotations obj) AnnotationAPIReference,
         annotation_value (Annotations obj) AnnotationAPIID]) (first_uuid L [UID obj])"
  by (simp add: componentInstanceFromMeta_def apiInstanceFromMeta_def Let_def first_uuid_parse
      annotationUUID_value del: first_uuid.simps(2))

text \<open>
  (C39) Dates. \<open>parseDate\<close> accepts exactly the canonical texts \<open>YYYY-MM-DD\<close> of the days that exist in
  the calendar, and returns the day the text denotes; every other text gives nil.
\<close>

theorem parse_date_exact:
  "parseDate s = Some d \<longleftrightarrow> valid_date d \<and> s = date_text d"
  by (rule parseDate_iff)

text \<open>
  Keys of roles. Kubernetes names and namespaces contain no slash, so the key under which a
  Role (namespace/name) or a ClusterRole (name) is indexed determines the object: no two
  roles share a key.
\<close>

theorem role_key_injective:
  assumes "CHR ''/'' \<notin> set (nn_Namespace nn)" "CHR ''/'' \<notin> set (nn_Name nn)"
    and "CHR ''/'' \<notin> set (nn_Namespace nn')" "CHR ''/'' \<notin> set (nn_Name nn')"
    and "roleIndexKey nn = roleIndexKey nn'"
  shows "nn = nn'"
proof -
  have "CHR ''/'' \<in> set (roleIndexKey x) \<longleftrightarrow> nn_Namespace x \<noteq> []" if "CHR ''/'' \<notin> set (nn_Name x)" for x
    using that by (simp add: roleIndexKey_def)
  then have same: "nn_Namespace nn = [] \<longleftrightarrow> nn_Namespace nn' = []"
    using assms by metis
  have "nn_Namespace nn = nn_Namespace nn' \<and> nn_Name nn = nn_Name nn'"
  proof (cases "nn_Namespace nn' = []")
    case True
    with same assms(5) show ?thesis by (simp add: roleIndexKey_def)
  next
    case False
    with same assms(5) have "nn_Namespace nn @ CHR ''/'' # nn_Name nn = nn_Namespace nn' @ CHR ''/'' # nn_Name nn'"
      by (simp add: roleIndexKey_def)
    then show ?thesis by (rule append_sep_inject [OF assms(1,3)])
  qed
  then show ?thesis by simp
qed

theorem role_key_injective_witness:
  "roleIndexKey \<lparr>nn_Namespace = ''ns'', nn_Name = ''viewer''\<rparr> = ''ns/viewer'' \<and>
   (\<lparr>nn_Namespace = ''ns'', nn_Name = ''viewer''\<rparr> :: NamespacedName) =
     \<lparr>nn_Namespace = take 2 ''nsx'', nn_Name = ''viewer''\<rparr>"
proof
  show "roleIndexKey \<lparr>nn_Namespace = ''ns'', nn_Name = ''viewer''\<rparr> = ''ns/viewer''"
    by (simp add: roleIndexKey_def)
  show "(\<lparr>nn_Namespace = ''ns'', nn_Name = ''viewer''\<rparr> :: NamespacedName) =
     \<lparr>nn_Namespace = take 2 ''nsx'', nn_Name = ''viewer''\<rparr>"
    by (rule role_key_injective) (simp_all add: roleIndexKey_def)
qed

end
