(* ===== verification/Findings.thy ===== *)
theory Findings
  imports Convert
begin

text \<open>
  \<open>internal/controller/reference_findings.go\<close> and \<open>rbac_finding_types.go\<close>: the findings the sensor
  raises about references. Their ids are derived from the subject and the kind of finding, so a
  repeated reconcile upserts one finding. The locale \<open>reference_findings\<close> is the contract the
  three reference checks (workloads, services, Helm releases) share, and \<open>annotation_finding\<close>
  that of the two RBAC checks; their theories interpret them.
\<close>

section \<open>Kinds, types and ids\<close>

definition ReferencedResourceNotFound :: string where
  "ReferencedResourceNotFound = ''ReferencedResourceNotFound''"

definition MissingResourceReference :: string where
  "MissingResourceReference = ''MissingResourceReference''"

text \<open>a1b2c3d4-e5f6-7890-abcd-ef0123456789\<close>

definition findingNamespace :: uuid where
  "findingNamespace = 0xa1b2c3d4e5f67890abcdef0123456789"

definition referenceFindingKey :: "uuid \<Rightarrow> string \<Rightarrow> string" where
  "referenceFindingKey subjectID kind = kind @ uuid_bytes subjectID"

definition referenceFindingID :: "lib \<Rightarrow> uuid \<Rightarrow> string \<Rightarrow> uuid" where
  "referenceFindingID L subjectID kind = NewSHA1 L findingNamespace (referenceFindingKey subjectID kind)"

text \<open>f47ac10b-58cc-4372-a567-0e02b2c3d479 and -d480\<close>

definition MissingRoleSpecAnnotationFindingTypeID :: uuid where
  "MissingRoleSpecAnnotationFindingTypeID = 0xf47ac10b58cc4372a5670e02b2c3d479"

definition MissingSubjectAnnotationFindingTypeID :: uuid where
  "MissingSubjectAnnotationFindingTypeID = 0xf47ac10b58cc4372a5670e02b2c3d480"

section \<open>Raising and clearing\<close>

text \<open>The error of \<open>AddFinding\<close> and of \<open>DeleteFindingById\<close> is dropped by the source.\<close>

definition AddFinding :: "'m modelsrv \<Rightarrow> MFindingR \<Rightarrow> 'm \<Rightarrow> 'm" where
  "AddFinding M f m = snd (mAdd M (EFinding f) m)"

definition DeleteFindingById :: "'m modelsrv \<Rightarrow> uuid \<Rightarrow> 'm \<Rightarrow> 'm" where
  "DeleteFindingById M i m = snd (mDelete M MFinding i m)"

definition referencedNotFoundFinding ::
    "lib \<Rightarrow> uuid \<Rightarrow> ResourceType \<Rightarrow> uuid \<Rightarrow> ResourceType \<Rightarrow> string \<Rightarrow> MFindingR" where
  "referencedNotFoundFinding L subjectID subjectType targetID targetType subjectName =
     \<lparr>f_Id = referenceFindingID L subjectID ReferencedResourceNotFound,
      f_DisplayName = ''Referenced resource not found for '' @ subjectName,
      f_Description = ''The resource '' @ subjectName @ '' references '' @ uuid_String L targetID @
        '' which is not registered in the local model.'',
      f_Type = Some (TypeIDForKind L ReferencedResourceNotFound),
      f_Resources = [\<lparr>rr_ResourceId = subjectID, rr_ResourceType = subjectType\<rparr>,
                     \<lparr>rr_ResourceId = targetID, rr_ResourceType = targetType\<rparr>],
      f_Annotations = fmempty\<rparr>"

definition upsertReferencedResourceNotFound ::
    "'m modelsrv \<Rightarrow> lib \<Rightarrow> 'm \<Rightarrow> uuid \<Rightarrow> ResourceType \<Rightarrow> uuid \<Rightarrow> ResourceType \<Rightarrow> string \<Rightarrow> 'm" where
  "upsertReferencedResourceNotFound M L m subjectID subjectType targetID targetType subjectName =
     AddFinding M (referencedNotFoundFinding L subjectID subjectType targetID targetType subjectName) m"

definition missingReferenceFinding ::
    "lib \<Rightarrow> uuid \<Rightarrow> ResourceType \<Rightarrow> string \<Rightarrow> string \<Rightarrow> MFindingR" where
  "missingReferenceFinding L subjectID subjectType subjectName annotationKey =
     \<lparr>f_Id = referenceFindingID L subjectID MissingResourceReference,
      f_DisplayName = ''Missing resource reference on '' @ subjectName,
      f_Description = ''The resource '' @ subjectName @ '' does not have the '' @ annotationKey @
        '' annotation set.'',
      f_Type = Some (TypeIDForKind L MissingResourceReference),
      f_Resources = [\<lparr>rr_ResourceId = subjectID, rr_ResourceType = subjectType\<rparr>],
      f_Annotations = fmempty\<rparr>"

definition upsertMissingResourceReference ::
    "'m modelsrv \<Rightarrow> lib \<Rightarrow> 'm \<Rightarrow> uuid \<Rightarrow> ResourceType \<Rightarrow> string \<Rightarrow> string \<Rightarrow> 'm" where
  "upsertMissingResourceReference M L m subjectID subjectType subjectName annotationKey =
     AddFinding M (missingReferenceFinding L subjectID subjectType subjectName annotationKey) m"

definition deleteReferenceFinding :: "'m modelsrv \<Rightarrow> lib \<Rightarrow> 'm \<Rightarrow> uuid \<Rightarrow> string \<Rightarrow> 'm" where
  "deleteReferenceFinding M L m subjectID kind =
     DeleteFindingById M (referenceFindingID L subjectID kind) m"

section \<open>Registration of the finding types\<close>

fun add_all :: "'m modelsrv \<Rightarrow> entity list \<Rightarrow> 'm \<Rightarrow> error option \<times> 'm" where
  "add_all M [] m = (None, m)"
| "add_all M (e # es) m =
     (case mAdd M e m of (Some err, m') \<Rightarrow> (Some err, m') | (None, m') \<Rightarrow> add_all M es m')"

definition referenceFindingTypes :: "lib \<Rightarrow> entity list" where
  "referenceFindingTypes L =
     [EFindingType \<lparr>ft_Id = TypeIDForKind L ReferencedResourceNotFound,
        ft_DisplayName = ''ReferencedResourceNotFound'',
        ft_Description = ''A resource references another resource by UUID that is not registered in the local model.''\<rparr>,
      EFindingType \<lparr>ft_Id = TypeIDForKind L MissingResourceReference,
        ft_DisplayName = ''MissingResourceReference'',
        ft_Description = ''A resource lacks a required EmELand reference to another resource.''\<rparr>]"

definition RegisterReferenceFindingTypes :: "'m modelsrv \<Rightarrow> lib \<Rightarrow> 'm \<Rightarrow> error option \<times> 'm" where
  "RegisterReferenceFindingTypes M L m = add_all M (referenceFindingTypes L) m"

definition rbacFindingTypes :: "entity list" where
  "rbacFindingTypes =
     [EFindingType \<lparr>ft_Id = MissingRoleSpecAnnotationFindingTypeID,
        ft_DisplayName = ''Missing RoleSpec Annotation'',
        ft_Description = ''A Role or ClusterRole does not have the emeland.io/k8s-sensor-role-spec-id annotation set to a valid RoleSpec UUID.''\<rparr>,
      EFindingType \<lparr>ft_Id = MissingSubjectAnnotationFindingTypeID,
        ft_DisplayName = ''Missing Subject Annotation'',
        ft_Description = ''A RoleBinding or ClusterRoleBinding does not have the emeland.io/k8s-sensor-subject-id annotation set to a valid Group or Identity UUID.''\<rparr>]"

definition RegisterRBACFindingTypes :: "'m modelsrv \<Rightarrow> 'm \<Rightarrow> error option \<times> 'm" where
  "RegisterRBACFindingTypes M m = add_all M rbacFindingTypes m"

section \<open>Reads after finding operations\<close>

lemma AddFinding_get [model_simps]:
  assumes "store_laws M" and "accepts M MFinding"
  shows "mGet M k i (AddFinding M f m) =
     (if k = MFinding \<and> i = f_Id f then Some (EFinding f) else mGet M k i m)"
proof -
  have "fst (mAdd M (EFinding f) m) = None" using assms(2) by (intro accepts_add) simp
  then obtain m' where m': "mAdd M (EFinding f) m = (None, m')" by (metis prod.collapse)
  then show ?thesis
    using store_add_get [OF assms(1) m'] store_add_frame [OF assms(1) m', of k i]
    by (auto simp: AddFinding_def)
qed

lemma AddFinding_get_entity [model_simps]:
  assumes "store_laws M" and "k \<noteq> MFinding"
  shows "mGet M k i (AddFinding M f m) = mGet M k i m"
proof (cases "mAdd M (EFinding f) m")
  case (Pair r m')
  with assms show ?thesis
    by (cases r) (auto simp: AddFinding_def store_add_frame store_add_reject)
qed

lemma DeleteFindingById_get [model_simps]:
  assumes "store_laws M"
  shows "mGet M k i (DeleteFindingById M j m) = (if k = MFinding \<and> i = j then None else mGet M k i m)"
  using store_delete_get [OF assms] store_delete_frame [OF assms, of k i MFinding j m]
  by (auto simp: DeleteFindingById_def)

lemma deleteReferenceFinding_get [model_simps]:
  assumes "store_laws M"
  shows "mGet M k i (deleteReferenceFinding M L m s kd) =
     (if k = MFinding \<and> i = referenceFindingID L s kd then None else mGet M k i m)"
  by (simp add: deleteReferenceFinding_def DeleteFindingById_get [OF assms])

lemma upsertRRNF_get [model_simps]:
  assumes "store_laws M" and "accepts M MFinding"
  shows "mGet M k i (upsertReferencedResourceNotFound M L m s st t tt n) =
     (if k = MFinding \<and> i = referenceFindingID L s ReferencedResourceNotFound
      then Some (EFinding (referencedNotFoundFinding L s st t tt n)) else mGet M k i m)"
  by (simp add: upsertReferencedResourceNotFound_def AddFinding_get [OF assms])
    (simp add: referencedNotFoundFinding_def)

lemma upsertMRR_get [model_simps]:
  assumes "store_laws M" and "accepts M MFinding"
  shows "mGet M k i (upsertMissingResourceReference M L m s st n key) =
     (if k = MFinding \<and> i = referenceFindingID L s MissingResourceReference
      then Some (EFinding (missingReferenceFinding L s st n key)) else mGet M k i m)"
  by (simp add: upsertMissingResourceReference_def AddFinding_get [OF assms])
    (simp add: missingReferenceFinding_def)

lemma upsert_entities [model_simps]:
  assumes "store_laws M" and "k \<noteq> MFinding"
  shows "mGet M k i (upsertReferencedResourceNotFound M L m s st t tt n) = mGet M k i m"
    and "mGet M k i (upsertMissingResourceReference M L m s st n key) = mGet M k i m"
  by (simp_all add: upsertReferencedResourceNotFound_def upsertMissingResourceReference_def
      AddFinding_get_entity [OF assms])

section \<open>The contract of the reference checks\<close>

text \<open>
  A reference check \<open>recon\<close> of a subject raises one of two findings: no reference, or a reference
  to something the model does not have.
\<close>

locale reference_findings =
  fixes M :: "'m modelsrv" and L :: lib
    and recon :: "uuid \<Rightarrow> 'o \<Rightarrow> 'm \<Rightarrow> 'm"
    and ref_of :: "'o \<Rightarrow> uuid"
    and target :: mkind
    and subj_type :: ResourceType and target_type :: ResourceType
    and name_of :: "'o \<Rightarrow> string" and key :: string
  assumes recon_missing: "ref_of obj = uuid_Nil \<Longrightarrow>
      recon i obj m = upsertMissingResourceReference M L
        (deleteReferenceFinding M L m i ReferencedResourceNotFound) i subj_type (name_of obj) key"
    and recon_unknown: "\<lbrakk>ref_of obj \<noteq> uuid_Nil;
      mGet M target (ref_of obj) (deleteReferenceFinding M L m i MissingResourceReference) = None\<rbrakk> \<Longrightarrow>
      recon i obj m = upsertReferencedResourceNotFound M L
        (deleteReferenceFinding M L m i MissingResourceReference) i subj_type (ref_of obj) target_type (name_of obj)"
    and recon_known: "\<lbrakk>ref_of obj \<noteq> uuid_Nil;
      mGet M target (ref_of obj) (deleteReferenceFinding M L m i MissingResourceReference) \<noteq> None\<rbrakk> \<Longrightarrow>
      recon i obj m = deleteReferenceFinding M L
        (deleteReferenceFinding M L m i MissingResourceReference) i ReferencedResourceNotFound"
    and target_entity: "target \<noteq> MFinding"
begin

lemma entities_kept:
  assumes "store_laws M" and "k \<noteq> MFinding"
  shows "mGet M k j (recon i obj m) = mGet M k j m"
  using assms recon_missing [of obj i m] recon_unknown [of obj m i] recon_known [of obj m i]
  by (cases "ref_of obj = uuid_Nil";
      cases "mGet M target (ref_of obj) (deleteReferenceFinding M L m i MissingResourceReference) = None")
    (simp_all add: model_simps)

lemma other_findings_kept:
  assumes "store_laws M" and "accepts M MFinding"
    and "j \<noteq> referenceFindingID L i MissingResourceReference"
    and "j \<noteq> referenceFindingID L i ReferencedResourceNotFound"
  shows "mGet M MFinding j (recon i obj m) = mGet M MFinding j m"
  using assms recon_missing [of obj i m] recon_unknown [of obj m i] recon_known [of obj m i]
  by (cases "ref_of obj = uuid_Nil";
      cases "mGet M target (ref_of obj) (deleteReferenceFinding M L m i MissingResourceReference) = None")
    (simp_all add: model_simps)

lemma outcome:
  assumes laws: "store_laws M" "accepts M MFinding"
    and ids: "referenceFindingID L i MissingResourceReference \<noteq>
              referenceFindingID L i ReferencedResourceNotFound"
  shows "(mGet M MFinding (referenceFindingID L i MissingResourceReference) (recon i obj m) \<noteq> None) =
           (ref_of obj = uuid_Nil)"
    and "(mGet M MFinding (referenceFindingID L i ReferencedResourceNotFound) (recon i obj m) \<noteq> None) =
           (ref_of obj \<noteq> uuid_Nil \<and> mGet M target (ref_of obj) m = None)"
proof -
  have t: "mGet M target (ref_of obj) (deleteReferenceFinding M L m i MissingResourceReference) =
      mGet M target (ref_of obj) m"
    using target_entity by (simp add: model_simps laws)
  note recon_cases = recon_missing [of obj i m] recon_unknown [of obj m i, unfolded t]
    recon_known [of obj m i, unfolded t]
  have del: "mGet M MFinding j (deleteReferenceFinding M L m' i kd) =
      (if j = referenceFindingID L i kd then None else mGet M MFinding j m')" for j kd m'
    by (simp add: model_simps laws)
  show "(mGet M MFinding (referenceFindingID L i MissingResourceReference) (recon i obj m) \<noteq> None) =
           (ref_of obj = uuid_Nil)"
    using recon_cases ids
    by (cases "ref_of obj = uuid_Nil"; cases "mGet M target (ref_of obj) m = None")
      (simp_all add: upsertMRR_get [OF laws] upsertRRNF_get [OF laws] del)
  show "(mGet M MFinding (referenceFindingID L i ReferencedResourceNotFound) (recon i obj m) \<noteq> None) =
           (ref_of obj \<noteq> uuid_Nil \<and> mGet M target (ref_of obj) m = None)"
    using recon_cases ids
    by (cases "ref_of obj = uuid_Nil"; cases "mGet M target (ref_of obj) m = None")
      (simp_all add: upsertMRR_get [OF laws] upsertRRNF_get [OF laws] del)
qed

lemma verdict:
  assumes "store_laws M" and "accepts M MFinding"
    and "referenceFindingID L i MissingResourceReference \<noteq> referenceFindingID L i ReferencedResourceNotFound"
  shows "(mGet M MFinding (referenceFindingID L i MissingResourceReference) (recon i obj m) \<noteq> None) =
      (ref_of obj = uuid_Nil) \<and>
    (mGet M MFinding (referenceFindingID L i ReferencedResourceNotFound) (recon i obj m) \<noteq> None) =
      (ref_of obj \<noteq> uuid_Nil \<and> mGet M target (ref_of obj) m = None) \<and>
    (k \<noteq> MFinding \<or> j \<notin> {referenceFindingID L i MissingResourceReference, referenceFindingID L i ReferencedResourceNotFound} \<longrightarrow>
      mGet M k j (recon i obj m) = mGet M k j m)"
  using outcome [OF assms] entities_kept [OF assms(1)] other_findings_kept [OF assms(1,2)]
  by (cases "k = MFinding") auto

end

section \<open>The contract of the annotation checks\<close>

locale annotation_finding =
  fixes M :: "'m modelsrv"
    and recon :: "uuid \<Rightarrow> 'o \<Rightarrow> 'm \<Rightarrow> 'm"
    and exempt :: "'o \<Rightarrow> bool"
    and fid :: "uuid \<Rightarrow> uuid"
    and mk :: "uuid \<Rightarrow> 'o \<Rightarrow> MFindingR"
  assumes recon_exempt: "exempt obj \<Longrightarrow> recon i obj m = DeleteFindingById M (fid i) m"
    and recon_raise: "\<not> exempt obj \<Longrightarrow> recon i obj m = AddFinding M (mk i obj) m"
    and mk_id: "f_Id (mk i obj) = fid i"
begin

lemma raised_iff:
  assumes "store_laws M" and "accepts M MFinding"
  shows "mGet M MFinding (fid i) (recon i obj m) = (if exempt obj then None else Some (EFinding (mk i obj)))"
  by (cases "exempt obj") (simp_all add: recon_exempt recon_raise mk_id model_simps assms)

lemma rest_kept:
  assumes "store_laws M" and "accepts M MFinding" and "k = MFinding \<Longrightarrow> j \<noteq> fid i"
  shows "mGet M k j (recon i obj m) = mGet M k j m"
  using assms(3) by (cases "exempt obj") (auto simp: recon_exempt recon_raise mk_id model_simps assms)

lemma entities_unchanged:
  assumes "store_laws M" and "k \<noteq> MFinding"
  shows "mGet M k j (recon i obj m) = mGet M k j m"
  by (cases "exempt obj") (simp_all add: recon_exempt recon_raise model_simps assms)

end

section \<open>Properties\<close>

lemma referenceFindingKey_inject:
  "referenceFindingKey s k = referenceFindingKey s' k' \<longleftrightarrow> s = s' \<and> k = k'"
  by (auto simp: referenceFindingKey_def uuid_bytes_inject)

text \<open>
  The name hashed into the id of a reference finding determines the subject and the kind of
  the finding: two findings share a name only if they are about the same subject and of the
  same kind, so repeated reconciles hit one id and different findings collide only if SHA-1 does.
\<close>

theorem reference_finding_key_injective:
  "referenceFindingKey s k = referenceFindingKey s' k' \<longleftrightarrow> s = s' \<and> k = k'"
  by (rule referenceFindingKey_inject)

lemma add_all_accepts:
  assumes "store_laws M" and "list_all (\<lambda>e. accepts M (kind_of e)) es"
    and "distinct (map (\<lambda>e. (kind_of e, id_of e)) es)" and "list_all (\<lambda>e. kind_of e \<noteq> MFinding) es"
  shows "fst (add_all M es m) = None \<and>
     (\<forall>e\<in>set es. mGet M (kind_of e) (id_of e) (snd (add_all M es m)) = Some e) \<and>
     (\<forall>k i. k \<noteq> MFinding \<longrightarrow> (k, i) \<notin> (\<lambda>e. (kind_of e, id_of e)) ` set es \<longrightarrow>
        mGet M k i (snd (add_all M es m)) = mGet M k i m)"
  using assms(2-)
proof (induction es arbitrary: m)
  case (Cons e es)
  then have "fst (mAdd M e m) = None" by (auto intro: accepts_add)
  then obtain m' where m': "mAdd M e m = (None, m')" by (metis prod.collapse)
  note IH = Cons.IH [of m']
  have e': "mGet M (kind_of e) (id_of e) m' = Some e" by (rule store_add_get [OF assms(1) m'])
  moreover have fr: "(k, i) \<noteq> (kind_of e, id_of e) \<Longrightarrow> k \<noteq> MFinding \<Longrightarrow> mGet M k i m' = mGet M k i m" for k i
    by (rule store_add_frame [OF assms(1) m']) auto
  moreover have "(kind_of e, id_of e) \<notin> (\<lambda>e. (kind_of e, id_of e)) ` set es" "kind_of e \<noteq> MFinding"
    using Cons.prems by auto
  ultimately show ?case using IH Cons.prems by (auto simp: m')
qed simp

lemma add_all_ids:
  assumes "store_laws M" and "list_all (\<lambda>e. accepts M (kind_of e)) es"
    and "distinct (map (\<lambda>e. (kind_of e, id_of e)) es)" and "list_all (\<lambda>e. kind_of e \<noteq> MFinding) es"
  shows "fst (add_all M es m) = None"
    and "(k, i) \<in> (\<lambda>e. (kind_of e, id_of e)) ` set es \<Longrightarrow> mGet M k i (snd (add_all M es m)) \<noteq> None"
    and "(k, i) \<notin> (\<lambda>e. (kind_of e, id_of e)) ` set es \<Longrightarrow> k \<noteq> MFinding \<Longrightarrow>
       mGet M k i (snd (add_all M es m)) = mGet M k i m"
  using add_all_accepts [OF assms, of m] by auto

lemma finding_type_lists [simp]:
  "(\<lambda>e. (kind_of e, id_of e)) ` set (referenceFindingTypes L) =
     {(MFindingType, TypeIDForKind L ReferencedResourceNotFound),
      (MFindingType, TypeIDForKind L MissingResourceReference)}"
  "(\<lambda>e. (kind_of e, id_of e)) ` set rbacFindingTypes =
     {(MFindingType, MissingRoleSpecAnnotationFindingTypeID),
      (MFindingType, MissingSubjectAnnotationFindingTypeID)}"
  "map (\<lambda>e. (kind_of e, id_of e)) (referenceFindingTypes L) =
     [(MFindingType, TypeIDForKind L ReferencedResourceNotFound),
      (MFindingType, TypeIDForKind L MissingResourceReference)]"
  "map (\<lambda>e. (kind_of e, id_of e)) rbacFindingTypes =
     [(MFindingType, MissingRoleSpecAnnotationFindingTypeID),
      (MFindingType, MissingSubjectAnnotationFindingTypeID)]"
  "list_all (\<lambda>e. P (kind_of e)) (referenceFindingTypes L) = P MFindingType"
  "list_all (\<lambda>e. P (kind_of e)) rbacFindingTypes = P MFindingType"
  "list_all (\<lambda>e. kind_of e \<noteq> MFinding) (referenceFindingTypes L)"
  "list_all (\<lambda>e. kind_of e \<noteq> MFinding) rbacFindingTypes"
  by (simp_all add: referenceFindingTypes_def rbacFindingTypes_def)

text \<open>
  Registration at start-up. When the store accepts finding types and the two reference kinds
  have different type ids that differ from the RBAC ones, registering them succeeds and
  leaves all four well-known finding types in the model.
\<close>

theorem finding_types_registered:
  assumes "store_laws M" and "accepts M MFindingType"
    and "distinct [TypeIDForKind L ReferencedResourceNotFound, TypeIDForKind L MissingResourceReference,
       MissingRoleSpecAnnotationFindingTypeID, MissingSubjectAnnotationFindingTypeID]"
    and "i \<in> {TypeIDForKind L ReferencedResourceNotFound, TypeIDForKind L MissingResourceReference,
       MissingRoleSpecAnnotationFindingTypeID, MissingSubjectAnnotationFindingTypeID}"
  shows "fst (RegisterRBACFindingTypes M m) = None \<and>
     fst (RegisterReferenceFindingTypes M L (snd (RegisterRBACFindingTypes M m))) = None \<and>
     mGet M MFindingType i (snd (RegisterReferenceFindingTypes M L (snd (RegisterRBACFindingTypes M m)))) \<noteq> None"
proof -
  let ?m1 = "snd (RegisterRBACFindingTypes M m)"
  note rbac = add_all_ids [OF assms(1), of rbacFindingTypes]
    and refs = add_all_ids [OF assms(1), of "referenceFindingTypes L"]
  have "mGet M MFindingType i ?m1 \<noteq> None"
    if "i \<in> {MissingRoleSpecAnnotationFindingTypeID, MissingSubjectAnnotationFindingTypeID}"
    using rbac(2) [of MFindingType i m] assms(2,3) that by (auto simp: RegisterRBACFindingTypes_def)
  then show ?thesis
    using rbac(1) refs(1) refs(2) [of MFindingType i ?m1] refs(3) [of MFindingType i ?m1] assms(2-)
    by (auto simp: RegisterRBACFindingTypes_def RegisterReferenceFindingTypes_def)
qed

theorem finding_types_registered_witness:
  "mGet mem_store MFindingType MissingSubjectAnnotationFindingTypeID
     (snd (RegisterReferenceFindingTypes mem_store mem_lib (snd (RegisterRBACFindingTypes mem_store [])))) \<noteq> None"
proof -
  have "distinct [TypeIDForKind mem_lib ReferencedResourceNotFound, TypeIDForKind mem_lib MissingResourceReference,
       MissingRoleSpecAnnotationFindingTypeID, MissingSubjectAnnotationFindingTypeID]"
    by (simp add: mem_lib_def ReferencedResourceNotFound_def MissingResourceReference_def
        MissingRoleSpecAnnotationFindingTypeID_def MissingSubjectAnnotationFindingTypeID_def)
  then show ?thesis
    using finding_types_registered [of mem_store mem_lib MissingSubjectAnnotationFindingTypeID "[]"] by simp
qed

end
