(* ===== verification/Rule_Repo.thy ===== *)
theory Rule_Repo
  imports Findings
begin

text \<open>
  The registry of finding rules: \<open>internal/controller/rule_registry.go\<close>, its watcher
  \<open>findingrule_controller.go\<close> and the types of \<open>api/k8s/v1alpha1/findingrule_types.go\<close>. The CEL
  library compiles a condition; its two functions are fields of the record \<open>celenv\<close>. A compiled
  program is a function from the object to a value or an error.
\<close>

section \<open>Data\<close>

record FindingTypeMeta =
  fty_UUID :: string
  fty_DisplayName :: string
  fty_Description :: string

record FindingMeta =
  fnd_Severity :: string
  fnd_DisplayName :: string
  fnd_Description :: string
  fnd_Type :: FindingTypeMeta

record Target =
  t_APIGroups :: "string list"
  t_Resources :: "string list"

record FindingRuleSpec =
  frs_Target :: Target
  frs_Condition :: string
  frs_Finding :: FindingMeta

record FindingRule =
  fr_Meta :: ObjectMeta
  fr_Spec :: FindingRuleSpec

datatype json =
    JNull | JBool bool | JInt int | JStr string | JArr "json list" | JObj "(string \<times> json) list"

datatype cel_value = CelBool bool | CelOther string

type_synonym cel_program = "json \<Rightarrow> error + cel_value"

text \<open>\<open>cel.Env.Compile\<close>, whose syntax tree is opaque, and \<open>cel.Env.Program\<close>.\<close>

record celenv =
  celCompile :: "string \<Rightarrow> error + nat"
  celProgram :: "nat \<Rightarrow> error + cel_program"

record CompiledRule =
  cr_Name :: string
  cr_Program :: "cel_program option"
  cr_Finding :: FindingMeta

type_synonym RuleRepo = "(string, CompiledRule list) fmap"

section \<open>Operations\<close>

definition compileCondition :: "celenv \<Rightarrow> string \<Rightarrow> error + cel_program" where
  "compileCondition E condition =
     (case celCompile E condition of Inl err \<Rightarrow> Inl err | Inr ast \<Rightarrow> celProgram E ast)"

definition NewRuleRepo :: RuleRepo where
  "NewRuleRepo = fmempty"

definition resourceKey :: "string \<Rightarrow> string \<Rightarrow> string" where
  "resourceKey grp resource = grp @ ''/'' @ resource"

definition targetKeys :: "Target \<Rightarrow> string list" where
  "targetKeys tgt =
     concat (map (\<lambda>grp. map (\<lambda>resource. resourceKey grp resource) (t_Resources tgt)) (t_APIGroups tgt))"

definition removeLocked :: "RuleRepo \<Rightarrow> string \<Rightarrow> RuleRepo" where
  "removeLocked r name =
     (let filtered = fmmap (filter (\<lambda>rule. cr_Name rule \<noteq> name)) r
      in fmfilter (\<lambda>key. fmlookup filtered key \<noteq> Some []) filtered)"

definition GetRulesForResource :: "RuleRepo \<Rightarrow> string \<Rightarrow> CompiledRule list" where
  "GetRulesForResource r resourceType =
     (case fmlookup r resourceType of None \<Rightarrow> [] | Some rules \<Rightarrow> rules)"

definition append_rule :: "CompiledRule \<Rightarrow> string \<Rightarrow> RuleRepo \<Rightarrow> RuleRepo" where
  "append_rule compiled key r =
     fmupd key ((case fmlookup r key of None \<Rightarrow> [] | Some rules \<Rightarrow> rules) @ [compiled]) r"

definition RuleRepo_Set :: "celenv \<Rightarrow> RuleRepo \<Rightarrow> FindingRule \<Rightarrow> error option \<times> RuleRepo" where
  "RuleRepo_Set E r rule =
     (case compileCondition E (frs_Condition (fr_Spec rule)) of
        Inl err \<Rightarrow> (Some err, r)
      | Inr program \<Rightarrow>
          (let compiled = \<lparr>cr_Name = Name (fr_Meta rule), cr_Program = Some program,
                           cr_Finding = frs_Finding (fr_Spec rule)\<rparr>;
               keys = targetKeys (frs_Target (fr_Spec rule))
           in (None, fold (append_rule compiled) keys (removeLocked r (Name (fr_Meta rule))))))"

definition RuleRepo_Remove :: "RuleRepo \<Rightarrow> string \<Rightarrow> RuleRepo" where
  "RuleRepo_Remove r name = removeLocked r name"

section \<open>The watcher\<close>

text \<open>What an informer hands to a handler: a rule, a tombstone around an object, or anything else.\<close>

datatype watch_obj = WRule FindingRule | WTombstone watch_obj | WOther

fun asFindingRule :: "watch_obj \<Rightarrow> FindingRule option" where
  "asFindingRule (WTombstone (WRule fr)) = Some fr"
| "asFindingRule (WTombstone _) = None"
| "asFindingRule (WRule fr) = Some fr"
| "asFindingRule WOther = None"

text \<open>A compilation error is logged and the event is dropped.\<close>

definition loadRule :: "celenv \<Rightarrow> RuleRepo \<Rightarrow> watch_obj \<Rightarrow> RuleRepo" where
  "loadRule E r obj =
     (case asFindingRule obj of None \<Rightarrow> r | Some fr \<Rightarrow> snd (RuleRepo_Set E r fr))"

definition onAdd :: "celenv \<Rightarrow> RuleRepo \<Rightarrow> watch_obj \<Rightarrow> RuleRepo" where
  "onAdd E r obj = loadRule E r obj"

definition onUpdate :: "celenv \<Rightarrow> RuleRepo \<Rightarrow> watch_obj \<Rightarrow> watch_obj \<Rightarrow> RuleRepo" where
  "onUpdate E r oldObj newObj = loadRule E r newObj"

definition onDelete :: "RuleRepo \<Rightarrow> watch_obj \<Rightarrow> RuleRepo" where
  "onDelete r obj =
     (case asFindingRule obj of None \<Rightarrow> r | Some fr \<Rightarrow> RuleRepo_Remove r (Name (fr_Meta fr)))"

datatype watch_event = EvAdd watch_obj | EvUpdate watch_obj watch_obj | EvDelete watch_obj

fun watcher_step :: "celenv \<Rightarrow> watch_event \<Rightarrow> RuleRepo \<Rightarrow> RuleRepo" where
  "watcher_step E (EvAdd x) r = onAdd E r x"
| "watcher_step E (EvUpdate x y) r = onUpdate E r x y"
| "watcher_step E (EvDelete x) r = onDelete r x"

section \<open>Specification: the list of active rules\<close>

text \<open>
  The abstract registry is the list of rules in force with their target keys, in the order in
  which they were last accepted. A rule whose condition does not compile changes nothing: the
  version accepted before stays in force.
\<close>

type_synonym active = "(CompiledRule \<times> string list) list"

definition spec_drop :: "string \<Rightarrow> active \<Rightarrow> active" where
  "spec_drop name act = filter (\<lambda>(c, _). cr_Name c \<noteq> name) act"

definition spec_load :: "celenv \<Rightarrow> FindingRule \<Rightarrow> active \<Rightarrow> active" where
  "spec_load E fr act =
     (case compileCondition E (frs_Condition (fr_Spec fr)) of
        Inl _ \<Rightarrow> act
      | Inr p \<Rightarrow> spec_drop (Name (fr_Meta fr)) act @
          [(\<lparr>cr_Name = Name (fr_Meta fr), cr_Program = Some p, cr_Finding = frs_Finding (fr_Spec fr)\<rparr>,
            targetKeys (frs_Target (fr_Spec fr)))])"

fun spec_step :: "celenv \<Rightarrow> watch_event \<Rightarrow> active \<Rightarrow> active" where
  "spec_step E (EvAdd x) act = (case asFindingRule x of None \<Rightarrow> act | Some fr \<Rightarrow> spec_load E fr act)"
| "spec_step E (EvUpdate _ x) act = (case asFindingRule x of None \<Rightarrow> act | Some fr \<Rightarrow> spec_load E fr act)"
| "spec_step E (EvDelete x) act =
     (case asFindingRule x of None \<Rightarrow> act | Some fr \<Rightarrow> spec_drop (Name (fr_Meta fr)) act)"

definition rules_for :: "active \<Rightarrow> string \<Rightarrow> CompiledRule list" where
  "rules_for act key = concat (map (\<lambda>(c, ks). replicate (count_list ks key) c) act)"

section \<open>Refinement\<close>

lemma Get_removeLocked:
  "GetRulesForResource (removeLocked r n) key = filter (\<lambda>c. cr_Name c \<noteq> n) (GetRulesForResource r key)"
  by (auto simp: GetRulesForResource_def removeLocked_def Let_def split: option.splits)

lemma Get_append_rule:
  "GetRulesForResource (append_rule c key r) k =
     GetRulesForResource r k @ (if k = key then [c] else [])"
  by (auto simp: GetRulesForResource_def append_rule_def split: option.splits)

lemma Get_fold_append:
  "GetRulesForResource (fold (append_rule c) keys r) k =
     GetRulesForResource r k @ replicate (count_list keys k) c"
  by (induction keys arbitrary: r) (auto simp: Get_append_rule replicate_app_Cons_same)

lemma rules_for_drop: "rules_for (spec_drop n act) key = filter (\<lambda>c. cr_Name c \<noteq> n) (rules_for act key)"
  by (induction act) (auto simp: rules_for_def spec_drop_def)

lemma rules_for_append: "rules_for (act @ [(c, ks)]) key = rules_for act key @ replicate (count_list ks key) c"
  by (simp add: rules_for_def)

definition repo_refines :: "RuleRepo \<Rightarrow> active \<Rightarrow> bool" where
  "repo_refines r act \<longleftrightarrow> (\<forall>key. GetRulesForResource r key = rules_for act key)"

lemma repo_refines_load:
  "repo_refines r act \<Longrightarrow> repo_refines (snd (RuleRepo_Set E r fr)) (spec_load E fr act)"
  by (auto simp: repo_refines_def RuleRepo_Set_def spec_load_def Let_def Get_fold_append
      Get_removeLocked rules_for_append rules_for_drop split: sum.splits)

lemma repo_refines_drop:
  "repo_refines r act \<Longrightarrow> repo_refines (RuleRepo_Remove r n) (spec_drop n act)"
  by (simp add: repo_refines_def RuleRepo_Remove_def Get_removeLocked rules_for_drop)

lemma repo_refines_step:
  "repo_refines r act \<Longrightarrow> repo_refines (watcher_step E ev r) (spec_step E ev act)"
  by (cases ev) (auto simp: onAdd_def onUpdate_def onDelete_def loadRule_def
      intro: repo_refines_load repo_refines_drop split: option.splits)

lemma repo_refines_run:
  "repo_refines r act \<Longrightarrow> repo_refines (fold (watcher_step E) evs r) (fold (spec_step E) evs act)"
  by (induction evs arbitrary: r act) (auto intro: repo_refines_step)

section \<open>Properties\<close>

text \<open>
  (C5) The watcher keeps the registry in step with the rules in the cluster. After any sequence of
  add, update and delete events, tombstones and foreign objects among them, a lookup returns exactly
  the rules in force that target that key: for every rule name the last version that compiled and
  was not deleted since, in the order of acceptance, once per occurrence of the key in its target.
\<close>

theorem rule_repo_refines_active_rules:
  "GetRulesForResource (fold (watcher_step E) evs NewRuleRepo) key = rules_for (fold (spec_step E) evs []) key"
proof -
  have "repo_refines NewRuleRepo []"
    by (simp add: repo_refines_def NewRuleRepo_def GetRulesForResource_def rules_for_def)
  from repo_refines_run [OF this] show ?thesis by (simp add: repo_refines_def)
qed

end
