(* ===== verification/Rule_Eval.thy ===== *)
theory Rule_Eval
  imports Rule_Repo
begin

text \<open>
  \<open>internal/controller/evaluator.go\<close> and \<open>rule_evaluation.go\<close>: the compiled rules of a resource
  type are run on a reconciled object, and each one that matches raises a finding. The
  converter of the Kubernetes runtime and the accessors of an unstructured object are
  arguments: an object is the record of what the accessors return.
\<close>

section \<open>Data\<close>

record Unstructured =
  u_UID :: string
  u_Name :: string
  u_Namespace :: string
  u_Kind :: string
  u_Object :: json

text \<open>bdd8f2ac-5b06-47d4-981b-19850ec2c344\<close>

definition evaluatorFindingNamespace :: uuid where
  "evaluatorFindingNamespace = 0xbdd8f2ac5b0647d4981b19850ec2c344"

definition annotationSeverity :: string where "annotationSeverity = ''severity''"
definition annotationResourceName :: string where "annotationResourceName = ''resourceName''"
definition annotationResourceNamespace :: string where "annotationResourceNamespace = ''resourceNamespace''"
definition annotationResourceKind :: string where "annotationResourceKind = ''resourceKind''"

text \<open>Whether the evaluation has a registry and an evaluator: both are pointers that may be nil.\<close>

record RuleEvaluation =
  re_Rules :: "RuleRepo option"
  re_Evaluator :: bool
  re_ResourceType :: string

section \<open>The evaluator\<close>

definition evaluatorFindingKey :: "string \<Rightarrow> string \<Rightarrow> string" where
  "evaluatorFindingKey ruleName subjectUID = (ruleName @ ''/'') @ subjectUID"

definition evaluatorFindingID :: "lib \<Rightarrow> string \<Rightarrow> string \<Rightarrow> uuid" where
  "evaluatorFindingID L ruleName subjectUID =
     NewSHA1 L evaluatorFindingNamespace (evaluatorFindingKey ruleName subjectUID)"

definition GetFindingTypeById :: "'m modelsrv \<Rightarrow> uuid \<Rightarrow> 'm \<Rightarrow> MFindingTypeR option" where
  "GetFindingTypeById M i m =
     (case mGet M MFindingType i m of Some (EFindingType ft) \<Rightarrow> Some ft | _ \<Rightarrow> None)"

text \<open>A new finding type starts with an empty description, which an empty text leaves as it is.\<close>

definition ensureFindingType ::
    "'m modelsrv \<Rightarrow> lib \<Rightarrow> 'm \<Rightarrow> FindingTypeMeta \<Rightarrow> (error + MFindingTypeR option) \<times> 'm" where
  "ensureFindingType M L m meta =
     (let typeID = parseOptionalUUID L (fty_UUID meta)
      in if typeID = uuid_Nil then (Inr None, m)
         else case GetFindingTypeById M typeID m of
           Some ft \<Rightarrow> (Inr (Some ft), m)
         | None \<Rightarrow>
             (let ft = \<lparr>ft_Id = typeID, ft_DisplayName = fty_DisplayName meta,
                        ft_Description = (if fty_Description meta \<noteq> [] then fty_Description meta else [])\<rparr>
              in case mAdd M (EFindingType ft) m of
                   (Some err, m') \<Rightarrow>
                     (case GetFindingTypeById M typeID m' of
                        Some existing \<Rightarrow> (Inr (Some existing), m')
                      | None \<Rightarrow> (Inl err, m'))
                 | (None, m') \<Rightarrow> (Inr (Some ft), m')))"

definition buildFinding ::
    "'m modelsrv \<Rightarrow> lib \<Rightarrow> 'm \<Rightarrow> CompiledRule \<Rightarrow> Unstructured \<Rightarrow> ResourceType \<Rightarrow> (error + MFindingR) \<times> 'm" where
  "buildFinding M L m rule obj subjectResourceType =
     (let uid = u_UID obj
      in if uid = [] then (Inl (ErrText ''object has no UID''), m)
         else case ensureFindingType M L m (fnd_Type (cr_Finding rule)) of
           (Inl err, m') \<Rightarrow> (Inl (ErrWrap ''ensure finding type: '' err), m')
         | (Inr ft, m') \<Rightarrow>
             (let subjectID = parseOptionalUUID L uid
              in (Inr \<lparr>f_Id = evaluatorFindingID L (cr_Name rule) uid,
                       f_DisplayName = fnd_DisplayName (cr_Finding rule),
                       f_Description = fnd_Description (cr_Finding rule),
                       f_Type = map_option ft_Id ft,
                       f_Resources =
                         (if subjectID \<noteq> uuid_Nil \<and> subjectResourceType \<noteq> UnknownResourceType
                          then [\<lparr>rr_ResourceId = subjectID, rr_ResourceType = subjectResourceType\<rparr>] else []),
                       f_Annotations = applyAnnotations fmempty (fmap_of_list
                         [(annotationSeverity, fnd_Severity (cr_Finding rule)),
                          (annotationResourceName, u_Name obj),
                          (annotationResourceNamespace, u_Namespace obj),
                          (annotationResourceKind, u_Kind obj)])\<rparr>, m')))"

definition EvaluateRule ::
    "'m modelsrv \<Rightarrow> lib \<Rightarrow> 'm \<Rightarrow> CompiledRule \<Rightarrow> Unstructured option \<Rightarrow> ResourceType \<Rightarrow> error option \<times> 'm" where
  "EvaluateRule M L m rule obj subjectResourceType =
     (let pre = ''rule '' @ goQuote (cr_Name rule) @ '': ''
      in case cr_Program rule of
           None \<Rightarrow> (Some (ErrText (pre @ ''CEL program is nil'')), m)
         | Some program \<Rightarrow>
       (case obj of
           None \<Rightarrow> (Some (ErrText (pre @ ''object is nil'')), m)
         | Some u \<Rightarrow>
       (case program (u_Object u) of
           Inl err \<Rightarrow> (Some (ErrWrap (pre @ ''CEL evaluation failed: '') err), m)
         | Inr (CelOther ty) \<Rightarrow> (Some (ErrText (pre @ ''CEL expression must return bool, got '' @ ty)), m)
         | Inr (CelBool matched) \<Rightarrow>
             if \<not> matched then (None, m)
             else case buildFinding M L m rule u subjectResourceType of
                 (Inl err, m') \<Rightarrow> (Some (ErrWrap (pre @ ''build finding: '') err), m')
               | (Inr f, m') \<Rightarrow>
                   (case mAdd M (EFinding f) m' of
                      (Some err, m'') \<Rightarrow> (Some (ErrWrap (pre @ ''add finding: '') err), m'')
                    | (None, m'') \<Rightarrow> (None, m'')))))"

section \<open>Running the rules of a resource type\<close>

definition modelsrvResourceType :: "string \<Rightarrow> ResourceType" where
  "modelsrvResourceType registryKey =
     (if registryKey = ''/namespaces'' then ContextResource
      else if registryKey \<in> {''/services'', ''networking.k8s.io/ingresses''} then APIInstanceResource
      else if registryKey \<in> {''apps/deployments'', ''apps/statefulsets'', ''apps/daemonsets'',
                              ''batch/cronjobs'', ''batch/jobs''} then ComponentInstanceResource
      else if registryKey = ''structure.emeland.io/systems'' then SystemResource
      else if registryKey = ''structure.emeland.io/apis'' then APIResource
      else if registryKey = ''structure.emeland.io/components'' then ComponentResource
      else if registryKey = ''structure.emeland.io/systeminstances'' then SystemInstanceResource
      else UnknownResourceType)"

definition NewRuleEvaluation :: "RuleRepo \<Rightarrow> string \<Rightarrow> RuleEvaluation" where
  "NewRuleEvaluation repo resourceType =
     \<lparr>re_Rules = Some repo, re_Evaluator = True, re_ResourceType = resourceType\<rparr>"

text \<open>The error of a rule is logged and the next rule runs.\<close>

fun run_rules ::
    "'m modelsrv \<Rightarrow> lib \<Rightarrow> Unstructured \<Rightarrow> ResourceType \<Rightarrow> CompiledRule list \<Rightarrow> 'm \<Rightarrow> 'm" where
  "run_rules M L u rt [] m = m"
| "run_rules M L u rt (rule # rules) m =
     run_rules M L u rt rules (snd (EvaluateRule M L m rule (Some u) rt))"

definition run_rule_evaluation ::
    "'m modelsrv \<Rightarrow> lib \<Rightarrow> ('o \<Rightarrow> error + Unstructured) \<Rightarrow> RuleEvaluation option \<Rightarrow> 'o \<Rightarrow> 'm \<Rightarrow> 'm" where
  "run_rule_evaluation M L ToUnstructured e obj m =
     (case e of None \<Rightarrow> m | Some ev \<Rightarrow>
       (case re_Rules ev of None \<Rightarrow> m | Some repo \<Rightarrow>
          if \<not> re_Evaluator ev then m
          else
            (let rules = GetRulesForResource repo (re_ResourceType ev)
             in if rules = [] then m
                else case ToUnstructured obj of
                    Inl _ \<Rightarrow> m
                  | Inr u \<Rightarrow> run_rules M L u (modelsrvResourceType (re_ResourceType ev)) rules m)))"

section \<open>What one rule does\<close>

definition rule_matches :: "CompiledRule \<Rightarrow> Unstructured \<Rightarrow> bool" where
  "rule_matches rule u \<longleftrightarrow> (case cr_Program rule of None \<Rightarrow> False
     | Some program \<Rightarrow> program (u_Object u) = Inr (CelBool True))"

text \<open>The finding a rule raises on an object, with the type it declares if that is a valid UUID.\<close>

definition rule_finding :: "lib \<Rightarrow> CompiledRule \<Rightarrow> Unstructured \<Rightarrow> ResourceType \<Rightarrow> MFindingR" where
  "rule_finding L rule u rt =
     \<lparr>f_Id = evaluatorFindingID L (cr_Name rule) (u_UID u),
      f_DisplayName = fnd_DisplayName (cr_Finding rule),
      f_Description = fnd_Description (cr_Finding rule),
      f_Type = first_uuid L [fty_UUID (fnd_Type (cr_Finding rule))],
      f_Resources = (case first_uuid L [u_UID u] of
          Some i \<Rightarrow> if rt \<noteq> UnknownResourceType then [\<lparr>rr_ResourceId = i, rr_ResourceType = rt\<rparr>] else []
        | None \<Rightarrow> []),
      f_Annotations = fmap_of_list
        [(annotationSeverity, fnd_Severity (cr_Finding rule)), (annotationResourceName, u_Name u),
         (annotationResourceNamespace, u_Namespace u), (annotationResourceKind, u_Kind u)]\<rparr>"

lemma GetFindingTypeById_id:
  "store_laws M \<Longrightarrow> GetFindingTypeById M i m = Some ft \<Longrightarrow> ft_Id ft = i"
  by (auto simp: GetFindingTypeById_def split: option.splits entity.splits dest: store_typed)

lemma ensureFindingType_frame:
  assumes "store_laws M" and "k \<noteq> MFindingType"
  shows "mGet M k i (snd (ensureFindingType M L m meta)) = mGet M k i m"
  using assms store_add_frame [OF assms(1), of _ m _ k i] store_add_reject [OF assms(1), of _ m _ _ k i]
  by (fastforce simp: ensureFindingType_def Let_def split: option.splits prod.splits)

lemma ensureFindingType_result:
  assumes "store_laws M" and "accepts M MFindingType"
  shows "\<exists>ft. fst (ensureFindingType M L m meta) = Inr ft \<and> map_option ft_Id ft = first_uuid L [fty_UUID meta]"
proof -
  let ?i = "parseOptionalUUID L (fty_UUID meta)"
  have added: "\<exists>m'. mAdd M (EFindingType ft) m = (None, m')" for ft
    using accepts_add [of M "EFindingType ft" m] assms(2) by (metis kind_of.simps(13) prod.collapse)
  have fu: "first_uuid L [fty_UUID meta] = (if ?i \<noteq> uuid_Nil then Some ?i else None)"
    using first_uuid_parse [of L "fty_UUID meta" "[]"] by simp
  show ?thesis
  proof (cases "?i = uuid_Nil \<or> GetFindingTypeById M ?i m \<noteq> None")
    case True
    then show ?thesis
      using GetFindingTypeById_id [OF assms(1), of ?i m] fu by (auto simp: ensureFindingType_def)
  next
    case False
    then show ?thesis
      using added [of "\<lparr>ft_Id = ?i, ft_DisplayName = fty_DisplayName meta,
        ft_Description = (if fty_Description meta \<noteq> [] then fty_Description meta else [])\<rparr>"] fu
      by (auto simp: ensureFindingType_def Let_def)
  qed
qed

lemma buildFinding_result:
  assumes "store_laws M" and "accepts M MFindingType" and "u_UID u \<noteq> []"
  shows "fst (buildFinding M L m rule u rt) = Inr (rule_finding L rule u rt)"
proof -
  obtain ft m' where "ensureFindingType M L m (fnd_Type (cr_Finding rule)) = (Inr ft, m')"
      "map_option ft_Id ft = first_uuid L [fty_UUID (fnd_Type (cr_Finding rule))]"
    using ensureFindingType_result [OF assms(1,2), of L m "fnd_Type (cr_Finding rule)"]
    by (metis prod.collapse)
  then show ?thesis
    using assms(3) by (simp add: buildFinding_def rule_finding_def applyAnnotations_def Let_def
        first_uuid_parse del: first_uuid.simps(2))
qed

lemma buildFinding_frame:
  assumes "store_laws M" and "k \<noteq> MFindingType"
  shows "mGet M k i (snd (buildFinding M L m rule u rt)) = mGet M k i m"
  using ensureFindingType_frame [OF assms, of i L m "fnd_Type (cr_Finding rule)"]
  by (auto simp: buildFinding_def Let_def split: prod.splits sum.splits)

lemma EvaluateRule_frame:
  assumes "store_laws M" and "k \<noteq> MFindingType" and "k \<noteq> MFinding"
  shows "mGet M k i (snd (EvaluateRule M L m rule obj rt)) = mGet M k i m"
proof -
  have add: "mGet M k i m'' = mGet M k i m" if "buildFinding M L m rule u rt = (b, m')"
    and "mAdd M (EFinding f) m' = (r, m'')" for u b m' f r m''
  proof -
    have "mGet M k i m' = mGet M k i m"
      using buildFinding_frame [OF assms(1,2), of i L m rule u rt] that(1) by simp
    moreover have "mGet M k i m'' = mGet M k i m'"
      using AddFinding_get_entity [OF assms(1,3), of i f m'] that(2) by (simp add: AddFinding_def)
    ultimately show ?thesis by simp
  qed
  have build: "mGet M k i m' = mGet M k i m" if "buildFinding M L m rule u rt = (b, m')" for u b m'
    using buildFinding_frame [OF assms(1,2), of i L m rule u rt] that by simp
  show ?thesis
    by (auto simp: EvaluateRule_def Let_def dest: add build
        split: option.splits sum.splits prod.splits cel_value.splits)
qed

lemma EvaluateRule_no_match:
  assumes "\<not> rule_matches rule u"
  shows "snd (EvaluateRule M L m rule (Some u) rt) = m"
  using assms by (auto simp: EvaluateRule_def rule_matches_def Let_def
      split: option.splits sum.splits cel_value.splits)

lemma EvaluateRule_match:
  assumes "store_laws M" and "accepts M MFindingType" and "accepts M MFinding"
    and "u_UID u \<noteq> []" and "rule_matches rule u"
  shows "fst (EvaluateRule M L m rule (Some u) rt) = None"
    and "mGet M MFinding i (snd (EvaluateRule M L m rule (Some u) rt)) =
       (if i = f_Id (rule_finding L rule u rt) then Some (EFinding (rule_finding L rule u rt))
        else mGet M MFinding i m)"
proof -
  let ?f = "rule_finding L rule u rt"
  obtain m' where b: "buildFinding M L m rule u rt = (Inr ?f, m')"
    using buildFinding_result [OF assms(1,2,4), of L m rule rt] by (metis prod.collapse)
  have fr: "mGet M MFinding i m' = mGet M MFinding i m"
    using buildFinding_frame [OF assms(1), of MFinding i L m rule u rt] b by simp
  have "fst (mAdd M (EFinding ?f) m') = None" using assms(3) by (intro accepts_add) simp
  then have e: "EvaluateRule M L m rule (Some u) rt = (None, AddFinding M ?f m')"
    using assms(5) b by (auto simp: EvaluateRule_def rule_matches_def AddFinding_def Let_def
        split: option.splits prod.splits)
  from e show "fst (EvaluateRule M L m rule (Some u) rt) = None" by simp
  from e fr show "mGet M MFinding i (snd (EvaluateRule M L m rule (Some u) rt)) =
       (if i = f_Id ?f then Some (EFinding ?f) else mGet M MFinding i m)"
    by (simp add: AddFinding_get [OF assms(1,3)])
qed

section \<open>What a run does\<close>

lemma run_rules_entities:
  assumes "store_laws M" and "k \<noteq> MFindingType" and "k \<noteq> MFinding"
  shows "mGet M k i (run_rules M L u rt rules m) = mGet M k i m"
  by (induction rules arbitrary: m) (simp_all add: EvaluateRule_frame [OF assms])

lemma run_entities [model_simps]:
  assumes "store_laws M" and "k \<noteq> MFindingType" and "k \<noteq> MFinding"
  shows "mGet M k i (run_rule_evaluation M L T e obj m) = mGet M k i m"
  by (auto simp: run_rule_evaluation_def run_rules_entities [OF assms] Let_def
      split: option.splits sum.splits)

text \<open>The last matching rule of the list that writes the id.\<close>

definition raising :: "lib \<Rightarrow> Unstructured \<Rightarrow> CompiledRule list \<Rightarrow> uuid \<Rightarrow> CompiledRule option" where
  "raising L u rules i =
     find (\<lambda>r. rule_matches r u \<and> evaluatorFindingID L (cr_Name r) (u_UID u) = i) (rev rules)"

lemma find_append: "find P (xs @ ys) = (case find P xs of None \<Rightarrow> find P ys | Some x \<Rightarrow> Some x)"
  by (induction xs) auto

lemma run_rules_findings:
  assumes "store_laws M" and "accepts M MFindingType" and "accepts M MFinding" and "u_UID u \<noteq> []"
  shows "mGet M MFinding i (run_rules M L u rt rules m) =
     (case raising L u rules i of None \<Rightarrow> mGet M MFinding i m
      | Some r \<Rightarrow> Some (EFinding (rule_finding L r u rt)))"
proof (induction rules arbitrary: m)
  case (Cons r rules)
  have id: "f_Id (rule_finding L r u rt) = evaluatorFindingID L (cr_Name r) (u_UID u)"
    by (simp add: rule_finding_def)
  show ?case
    using Cons EvaluateRule_match(2) [OF assms, of r i L m rt] EvaluateRule_no_match [of r u M L m rt] id
    by (cases "rule_matches r u") (auto simp: raising_def find_append split: option.splits)
qed (simp add: raising_def)

section \<open>Properties\<close>


definition demo_rule :: "string \<Rightarrow> bool \<Rightarrow> CompiledRule" where
  "demo_rule n b =
     \<lparr>cr_Name = n, cr_Program = Some (\<lambda>_. Inr (CelBool b)),
      cr_Finding = \<lparr>fnd_Severity = ''high'', fnd_DisplayName = ''d'', fnd_Description = ''t'',
        fnd_Type = \<lparr>fty_UUID = ''7'', fty_DisplayName = ''T'', fty_Description = []\<rparr>\<rparr>\<rparr>"

definition demo_object :: Unstructured where
  "demo_object = \<lparr>u_UID = ''5'', u_Name = ''x'', u_Namespace = ''ns'', u_Kind = ''Job'', u_Object = JNull\<rparr>"


text \<open>
  The name hashed into the id of a rule finding determines the rule and the object, as long as
  rule names have no slash, which Kubernetes names never have.
\<close>

theorem rule_finding_key_injective:
  assumes "CHR ''/'' \<notin> set r" and "CHR ''/'' \<notin> set r'"
  shows "evaluatorFindingKey r u = evaluatorFindingKey r' u' \<longleftrightarrow> r = r' \<and> u = u'"
proof -
  have "(r @ CHR ''/'' # u = r' @ CHR ''/'' # u') \<longleftrightarrow> r = r' \<and> u = u'"
    using append_sep_inject [OF assms, of u u'] by blast
  then show ?thesis by (simp add: evaluatorFindingKey_def)
qed

theorem rule_finding_key_injective_witness:
  "evaluatorFindingKey ''r'' ''a/b'' \<noteq> evaluatorFindingKey ''r2'' ''a/b''"
  using rule_finding_key_injective [of "''r''" "''r2''" "''a/b''" "''a/b''"] by simp

end
