(* ===== verification/Reconcilers.thy ===== *)
theory Reconcilers
  imports Findings Rule_Eval
begin

text \<open>
  What the reconcilers share. A reconciler works on the model and the name index; the answer of the
  API server for the requested object is an argument, and the new model, the new index and
  the returned error are the result. Log output is not modelled.

  The locale \<open>entity_reconciler\<close> is the contract of a controller that mirrors one Kubernetes
  object as one entity. The controllers of \<open>Crd_Controllers\<close> and \<open>Instance_Controllers\<close>
  interpret it. The locale \<open>mirror_system\<close> is the contract of several such controllers, and others, on one model
  and one index; its lemma \<open>mirror\<close> says that after any interleaved run of reconciles the model
  holds exactly the entities of the objects seen last.
\<close>

record 'm world =
  wModel :: 'm
  wIndex :: NameIndex

type_synonym ('o, 'm) reconcile =
  "NamespacedName \<Rightarrow> 'o get_result \<Rightarrow> 'm world \<Rightarrow> error option \<times> 'm world"

type_synonym 'o event = "NamespacedName \<times> 'o get_result"

fun run_events :: "('o, 'm) reconcile \<Rightarrow> 'o event list \<Rightarrow> 'm world \<Rightarrow> 'm world" where
  "run_events rec [] w = w"
| "run_events rec ((nn, g) # evs) w = run_events rec evs (snd (rec nn g w))"

text \<open>An answer with the object converted.\<close>

definition answer_of :: "('o \<Rightarrow> 'c) \<Rightarrow> 'o get_result \<Rightarrow> 'c get_result" where
  "answer_of conv g =
     (case g of Found obj \<Rightarrow> Found (conv obj) | NotFound \<Rightarrow> NotFound | GetError err \<Rightarrow> GetError err)"

lemma NNString_inject:
  assumes "nn_string_law L" and "CHR ''/'' \<notin> set (nn_Namespace nn)" and "CHR ''/'' \<notin> set (nn_Namespace nn')"
  shows "NNString L nn = NNString L nn' \<longleftrightarrow> nn = nn'"
proof
  assume "NNString L nn = NNString L nn'"
  then have "nn_Namespace nn @ CHR ''/'' # nn_Name nn = nn_Namespace nn' @ CHR ''/'' # nn_Name nn'"
    using assms(1) by (simp add: nn_string_law_def)
  then show "nn = nn'" using append_sep_inject [OF assms(2,3)] by simp
qed simp

locale entity_reconciler =
  fixes M :: "'m modelsrv" and L :: lib
    and recon :: "('o, 'm) reconcile"
    and conv :: "NameIndex \<Rightarrow> NamespacedName \<Rightarrow> 'o \<Rightarrow> (entity \<times> uuid) option"
    and k :: mkind and rk :: ResourceKind
  assumes found_skip: "conv (wIndex w) nn obj = None \<Longrightarrow> recon nn (Found obj) w = (None, w)"
    and found_reject: "\<lbrakk>conv (wIndex w) nn obj = Some (e, i); mAdd M e (wModel w) = (Some err, m')\<rbrakk> \<Longrightarrow>
      recon nn (Found obj) w = (Some err, w\<lparr>wModel := m'\<rparr>)"
    and found_index: "\<lbrakk>conv (wIndex w) nn obj = Some (e, i); mAdd M e (wModel w) = (None, m')\<rbrakk> \<Longrightarrow>
      fst (recon nn (Found obj) w) = None \<and>
      wIndex (snd (recon nn (Found obj) w)) = Put (wIndex w) rk (NNString L nn) i"
    and found_model: "\<lbrakk>store_laws M; conv (wIndex w) nn obj = Some (e, i); mAdd M e (wModel w) = (None, m');
      k' \<notin> {MFinding, MFindingType}\<rbrakk> \<Longrightarrow>
      mGet M k' j (wModel (snd (recon nn (Found obj) w))) = mGet M k' j m'"
    and gone_index: "wIndex (snd (recon nn NotFound w)) = snd (Delete (wIndex w) rk (NNString L nn))"
    and gone_unknown: "Get (wIndex w) rk (NNString L nn) = uuid_Nil \<Longrightarrow>
      fst (recon nn NotFound w) = None \<and> wModel (snd (recon nn NotFound w)) = wModel w"
    and gone_model: "\<lbrakk>store_laws M; Get (wIndex w) rk (NNString L nn) \<noteq> uuid_Nil\<rbrakk> \<Longrightarrow>
      fst (recon nn NotFound w) = None \<and> (k' \<notin> {MFinding, MFindingType} \<longrightarrow>
      mGet M k' j (wModel (snd (recon nn NotFound w))) =
      mGet M k' j (snd (mDelete M k (Get (wIndex w) rk (NNString L nn)) (wModel w))))"
    and failed: "recon nn (GetError msg) w = (Some (ErrText msg), w)"
    and conv_id: "conv idx nn obj = Some (e, i) \<Longrightarrow> kind_of e = k \<and> id_of e = i \<and> i \<noteq> uuid_Nil"
    and conv_owner: "GetHelmOwner idx = GetHelmOwner idx' \<Longrightarrow> conv idx = conv idx'"
    and k_entity: "k \<notin> {MFinding, MFindingType}"
begin

lemma found_sync:
  assumes "store_laws M" and "accepts M k" and "conv (wIndex w) nn obj = Some (e, i)"
  shows "fst (recon nn (Found obj) w) = None"
    and "wIndex (snd (recon nn (Found obj) w)) = Put (wIndex w) rk (NNString L nn) i"
    and "k' \<notin> {MFinding, MFindingType} \<Longrightarrow> mGet M k' j (wModel (snd (recon nn (Found obj) w))) =
      (if k' = k \<and> j = i then Some e else mGet M k' j (wModel w))"
proof -
  from assms(2) conv_id [OF assms(3)] have "fst (mAdd M e (wModel w)) = None" by (intro accepts_add) simp
  then obtain m' where m': "mAdd M e (wModel w) = (None, m')" by (metis prod.collapse)
  from found_index [OF assms(3) m']
  show "fst (recon nn (Found obj) w) = None"
    and "wIndex (snd (recon nn (Found obj) w)) = Put (wIndex w) rk (NNString L nn) i" by simp_all
  assume k': "k' \<notin> {MFinding, MFindingType}"
  then show "mGet M k' j (wModel (snd (recon nn (Found obj) w))) =
      (if k' = k \<and> j = i then Some e else mGet M k' j (wModel w))"
    using found_model [OF assms(1,3) m' k'] store_add_get [OF assms(1) m']
      store_add_frame [OF assms(1) m', of k' j] conv_id [OF assms(3)] by auto
qed

lemma gone_sync:
  assumes "store_laws M" and "k' \<notin> {MFinding, MFindingType}"
  shows "fst (recon nn NotFound w) = None"
    and "mGet M k' j (wModel (snd (recon nn NotFound w))) =
      (if k' = k \<and> j = Get (wIndex w) rk (NNString L nn) \<and> j \<noteq> uuid_Nil then None else mGet M k' j (wModel w))"
proof -
  show "fst (recon nn NotFound w) = None"
    using gone_unknown gone_model [OF assms(1)] by blast
  show "mGet M k' j (wModel (snd (recon nn NotFound w))) =
      (if k' = k \<and> j = Get (wIndex w) rk (NNString L nn) \<and> j \<noteq> uuid_Nil then None else mGet M k' j (wModel w))"
  proof (cases "Get (wIndex w) rk (NNString L nn) = uuid_Nil")
    case True
    then show ?thesis using gone_unknown by auto
  next
    case False
    then show ?thesis
      using gone_model [OF assms(1) False] assms k_entity store_delete_get [OF assms(1)]
        store_delete_frame [OF assms(1), of k' j k "Get (wIndex w) rk (NNString L nn)" "wModel w"] by auto
  qed
qed

lemma owner_kept: "GetHelmOwner (wIndex (snd (recon nn g w))) = GetHelmOwner (wIndex w)"
proof (cases g)
  case (Found obj)
  show ?thesis
  proof (cases "conv (wIndex w) nn obj")
    case None
    with Found show ?thesis by (simp add: found_skip)
  next
    case (Some ei)
    then obtain e i where c: "conv (wIndex w) nn obj = Some (e, i)" by (cases ei) auto
    obtain r m' where a: "mAdd M e (wModel w) = (r, m')" by (cases "mAdd M e (wModel w)")
    show ?thesis
      using Found found_reject [OF c, of _ m'] found_index [OF c, of m'] a by (cases r) (simp_all add: idx_simps)
  qed
qed (simp_all add: gone_index failed idx_simps)

text \<open>When an object changes its UUID, the entity under the old one stays, also after the delete.\<close>

lemma old_id_stays:
  assumes "store_laws M" and "accepts M k"
    and "conv (wIndex w) nn obj = Some (e, i)" and "conv (wIndex w) nn obj' = Some (e', i')" and "i \<noteq> i'"
  shows "mGet M k i (wModel (run_events recon [(nn, Found obj), (nn, Found obj'), (nn, NotFound)] w)) = Some e"
proof -
  let ?w1 = "snd (recon nn (Found obj) w)"
  let ?w2 = "snd (recon nn (Found obj') ?w1)"
  note kk = k_entity
  have c1: "conv (wIndex ?w1) nn obj' = Some (e', i')"
    using assms(4) conv_owner [OF owner_kept] by simp
  have "mGet M k i (wModel ?w1) = Some e" using found_sync(3) [OF assms(1,2,3) kk] by simp
  then have "mGet M k i (wModel ?w2) = Some e" using found_sync(3) [OF assms(1,2) c1 kk] assms(5) by simp
  moreover have "Get (wIndex ?w2) rk (NNString L nn) = i'"
    using found_sync(2) [OF assms(1,2) c1] by (simp add: idx_simps)
  ultimately show ?thesis using gone_sync(2) [OF assms(1) kk] assms(5) by simp
qed

text \<open>The same facts by the answer, as the controllers composed in one manager use them.\<close>

lemma by_answer:
  shows answer_skip: "answer_of (conv (wIndex w) nn) g = Found None \<or> answer_of (conv (wIndex w) nn) g = GetError msg \<Longrightarrow>
      snd (recon nn g w) = w"
    and answer_index: "\<lbrakk>store_laws M; accepts M k; answer_of (conv (wIndex w) nn) g = Found (Some (e, i))\<rbrakk> \<Longrightarrow>
      wIndex (snd (recon nn g w)) = Put (wIndex w) rk (NNString L nn) i"
    and answer_model: "\<lbrakk>store_laws M; accepts M k; answer_of (conv (wIndex w) nn) g = Found (Some (e, i));
        k' \<notin> {MFinding, MFindingType}\<rbrakk> \<Longrightarrow>
      mGet M k' j (wModel (snd (recon nn g w))) = (if k' = k \<and> j = i then Some e else mGet M k' j (wModel w))"
    and answer_gone_index: "answer_of (conv (wIndex w) nn) g = NotFound \<Longrightarrow>
      wIndex (snd (recon nn g w)) = snd (Delete (wIndex w) rk (NNString L nn))"
    and answer_gone_model: "\<lbrakk>store_laws M; answer_of (conv (wIndex w) nn) g = NotFound; k' \<notin> {MFinding, MFindingType}\<rbrakk> \<Longrightarrow>
      mGet M k' j (wModel (snd (recon nn g w))) =
      (if k' = k \<and> j = Get (wIndex w) rk (NNString L nn) \<and> j \<noteq> uuid_Nil then None else mGet M k' j (wModel w))"
    and answer_not_Nil: "answer_of (conv idx nn) g = Found (Some (e, i)) \<Longrightarrow> i \<noteq> uuid_Nil"
proof goal_cases
  case 1
  then show ?case by (cases g) (auto simp: answer_of_def found_skip failed)
next
  case 2
  then show ?case by (cases g) (auto simp: answer_of_def found_sync)
next
  case 3
  then show ?case by (cases g) (auto simp: answer_of_def found_sync(3))
next
  case 4
  then show ?case by (cases g) (auto simp: answer_of_def gone_index)
next
  case 5
  then show ?case by (cases g) (auto simp: answer_of_def gone_sync(2))
next
  case 6
  then show ?case using conv_id by (cases g) (auto simp: answer_of_def)
qed

end

section \<open>Several controllers on one model\<close>

type_synonym slot = "mkind \<times> NamespacedName"

text \<open>The entity that should stand for an object after one more answer, and after a list of answers.\<close>

definition seen :: "(entity \<times> uuid) option get_result \<Rightarrow> entity option \<Rightarrow> entity option" where
  "seen g acc =
     (case g of
        Found None \<Rightarrow> acc
      | Found (Some (e, _)) \<Rightarrow> Some e
      | NotFound \<Rightarrow> None
      | GetError _ \<Rightarrow> acc)"

fun last_seen :: "(slot \<times> (entity \<times> uuid) option get_result) list \<Rightarrow> slot \<Rightarrow> entity option \<Rightarrow> entity option" where
  "last_seen [] s acc = acc"
| "last_seen ((s', g) # gs) s acc = last_seen gs s (if s' = s then seen g acc else acc)"

text \<open>Every object keeps its UUID \<open>u\<close> from one answer to the next, and no namespace has a slash.\<close>

definition stable_answer :: "(slot \<Rightarrow> uuid) \<Rightarrow> slot \<times> (entity \<times> uuid) option get_result \<Rightarrow> bool" where
  "stable_answer u sg \<longleftrightarrow> CHR ''/'' \<notin> set (nn_Namespace (snd (fst sg))) \<and>
     (case snd sg of Found (Some (_, i)) \<Rightarrow> i = u (fst sg) | _ \<Rightarrow> True)"

definition stable :: "(slot \<Rightarrow> uuid) \<Rightarrow> (slot \<times> (entity \<times> uuid) option get_result) list \<Rightarrow> bool" where
  "stable u sgs \<longleftrightarrow> list_all (stable_answer u) sgs \<and>
     inj_on (\<lambda>s. (fst s, u s)) (fst ` set sgs)"

fun run_requests :: "('q \<Rightarrow> 'm world \<Rightarrow> error option \<times> 'm world) \<Rightarrow> 'q list \<Rightarrow> 'm world \<Rightarrow> 'm world" where
  "run_requests step [] w = w"
| "run_requests step (q # qs) w = run_requests step qs (snd (step q w))"

lemma run_requests_fold: "run_requests step qs w = fold (\<lambda>q w. snd (step q w)) qs w"
  by (induction qs arbitrary: w) simp_all

text \<open>The answers of the calls that are about an object of interest.\<close>

fun answers :: "('q \<Rightarrow> slot option) \<Rightarrow> ('q \<Rightarrow> 'a get_result) \<Rightarrow> 'q list \<Rightarrow> (slot \<times> 'a get_result) list" where
  "answers slot ans [] = []"
| "answers slot ans (q # qs) = (case slot q of None \<Rightarrow> [] | Some s \<Rightarrow> [(s, ans q)]) @ answers slot ans qs"

lemma answers_total: "answers (\<lambda>q. Some (f q)) ans qs = map (\<lambda>q. (f q, ans q)) qs"
  by (induction qs) simp_all

lemma answers_slots: "fst ` set (answers slot ans qs) = {s. \<exists>q\<in>set qs. slot q = Some s}"
  by (induction qs) (auto split: option.splits)

text \<open>
  The state holds a model and an index, and \<open>slot q\<close> is the object a call is about: None for a call of a controller of other kinds,
  which leaves the entities and names of \<open>kinds\<close> alone. \<open>key\<close> is the name an object has in the index; \<open>pre\<close> is what
  the calls of other controllers need.
\<close>

locale mirror_system =
  fixes M :: "'m modelsrv"
    and step :: "'q \<Rightarrow> 's \<Rightarrow> 's"
    and model :: "'s \<Rightarrow> 'm" and index :: "'s \<Rightarrow> NameIndex"
    and slot :: "'q \<Rightarrow> slot option"
    and answer :: "NameIndex \<Rightarrow> 'q \<Rightarrow> (entity \<times> uuid) option get_result"
    and kinds :: "mkind set"
    and rk :: "mkind \<Rightarrow> ResourceKind"
    and key :: "mkind \<Rightarrow> NamespacedName \<Rightarrow> string"
    and valid :: "slot \<Rightarrow> bool"
    and pre :: bool
  assumes slot_kind: "slot q = Some s \<Longrightarrow> fst s \<in> kinds"
    and rk_inj: "inj_on rk kinds"
    and key_inj: "\<lbrakk>pre; valid (k, nn); valid (k, nn'); key k nn = key k nn'\<rbrakk> \<Longrightarrow> nn = nn'"
    and answer_id: "answer idx q = Found (Some (e, i)) \<Longrightarrow> i \<noteq> uuid_Nil"
    and answer_kept: "answer (index (step q w)) q' = answer (index w) q'"
    and foreign: "\<lbrakk>store_laws M; pre; slot q = None; k' \<in> kinds\<rbrakk> \<Longrightarrow>
      mGet M k' j (model (step q w)) = mGet M k' j (model w) \<and> Get (index (step q w)) (rk k') = Get (index w) (rk k')"
    and skip: "\<lbrakk>slot q = Some s; answer (index w) q = Found None \<or> answer (index w) q = GetError msg; k' \<in> kinds\<rbrakk> \<Longrightarrow>
      mGet M k' j (model (step q w)) = mGet M k' j (model w) \<and> Get (index (step q w)) (rk k') = Get (index w) (rk k')"
    and upsert: "\<lbrakk>store_laws M; accepts M k; slot q = Some (k, nn); answer (index w) q = Found (Some (e, i)); k' \<in> kinds\<rbrakk> \<Longrightarrow>
      mGet M k' j (model (step q w)) = (if k' = k \<and> j = i then Some e else mGet M k' j (model w)) \<and>
      Get (index (step q w)) (rk k') n = (if rk k' = rk k \<and> n = key k nn then i else Get (index w) (rk k') n)"
    and gone: "\<lbrakk>store_laws M; slot q = Some (k, nn); answer (index w) q = NotFound; k' \<in> kinds\<rbrakk> \<Longrightarrow>
      mGet M k' j (model (step q w)) =
        (if k' = k \<and> j = Get (index w) (rk k) (key k nn) \<and> j \<noteq> uuid_Nil then None else mGet M k' j (model w)) \<and>
      Get (index (step q w)) (rk k') n = (if rk k' = rk k \<and> n = key k nn then uuid_Nil else Get (index w) (rk k') n)"
begin

text \<open>The object of a slot is mirrored as \<open>a\<close>: indexed and stored, or neither.\<close>

definition tracked :: "(slot \<Rightarrow> uuid) \<Rightarrow> 's \<Rightarrow> slot \<Rightarrow> entity option \<Rightarrow> bool" where
  "tracked u w s a \<longleftrightarrow>
     (a \<noteq> None \<longrightarrow> u s \<noteq> uuid_Nil) \<and>
     Get (index w) (rk (fst s)) (key (fst s) (snd s)) = (if a = None then uuid_Nil else u s) \<and>
     mGet M (fst s) (u s) (model w) = a"

lemma tracked_step:
  assumes laws: "store_laws M" "\<And>k. k \<in> kinds \<Longrightarrow> accepts M k" "pre"
    and q: "slot q = Some sq" and valid: "valid sq" "valid s" and s: "fst s \<in> kinds"
    and st: "stable_answer u (sq, answer (index w) q)"
    and ids: "sq \<noteq> s \<Longrightarrow> (fst sq, u sq) \<noteq> (fst s, u s)"
    and t: "tracked u w s a" and t': "tracked u w sq a'"
  shows "tracked u (step q w) s (if sq = s then seen (answer (index w) q) a else a)"
proof -
  obtain k nn where sq: "sq = (k, nn)" by (cases sq)
  obtain ks ns where ss: "s = (ks, ns)" by (cases s)
  have kin: "k \<in> kinds" using slot_kind [OF q] sq by simp
  note q = q [unfolded sq]
  have keys: "rk ks = rk k \<and> key ks ns = key k nn \<longleftrightarrow> s = sq"
    using key_inj [OF laws(3), of k ns nn] valid s ss sq kin inj_on_eq_iff [OF rk_inj, of ks k] by auto
  show ?thesis
  proof (cases "answer (index w) q")
    case (Found c)
    show ?thesis
    proof (cases c)
      case None
      with Found t s skip [OF q, of w _ "fst s"] show ?thesis by (simp add: tracked_def seen_def)
    next
      case (Some ei)
      with Found st sq obtain e where a: "answer (index w) q = Found (Some (e, u (k, nn)))"
        by (cases ei) (auto simp: stable_answer_def)
      note up = upsert [OF laws(1) laws(2) [OF kin] q a, of ks]
      show ?thesis
      proof (cases "sq = s")
        case True
        then show ?thesis using a sq ss s up answer_id [OF a] by (simp add: tracked_def seen_def)
      next
        case False
        with keys ids sq ss have "\<not> (rk ks = rk k \<and> key ks ns = key k nn)" "\<not> (ks = k \<and> u (ks, ns) = u (k, nn))" by auto
        then show ?thesis using False t ss s up by (auto simp: tracked_def)
      qed
    qed
  next
    case NotFound
    note go = gone [OF laws(1) q NotFound, of ks]
    show ?thesis
    proof (cases "sq = s")
      case True
      then show ?thesis using NotFound t sq ss s go by (auto simp: tracked_def seen_def)
    next
      case False
      with keys have "\<not> (rk ks = rk k \<and> key ks ns = key k nn)" by auto
      moreover have "\<not> (ks = k \<and> u s = Get (index w) (rk k) (key k nn) \<and> u s \<noteq> uuid_Nil)"
        using False ids t' sq ss by (auto simp: tracked_def split: if_splits)
      ultimately show ?thesis using False t ss s go by (auto simp: tracked_def)
    qed
  next
    case (GetError err)
    with t s skip [OF q, of w err "fst s"] show ?thesis by (simp add: tracked_def seen_def)
  qed
qed

lemma tracked_run:
  assumes laws: "store_laws M" "\<And>k. k \<in> kinds \<Longrightarrow> accepts M k" "pre"
    and "stable u (answers slot (answer idx) qs)" and "answer idx = answer (index w)"
    and "\<And>s. s \<in> S \<Longrightarrow> fst s \<in> kinds \<and> valid s \<and> tracked u w s (a s)"
    and "\<And>q s. q \<in> set qs \<Longrightarrow> slot q = Some s \<Longrightarrow> s \<in> S" and "inj_on (\<lambda>s. (fst s, u s)) S" and "s \<in> S"
  shows "tracked u (fold step qs w) s (last_seen (answers slot (answer idx) qs) s (a s))"
  using assms(4-)
proof (induction qs arbitrary: w a)
  case (Cons q qs)
  let ?w = "step q w"
  have keep: "answer idx = answer (index ?w)" using Cons.prems(2) answer_kept [of q w] by (simp add: fun_eq_iff)
  have rest: "stable u (answers slot (answer idx) qs)" and S: "\<And>q s. q \<in> set qs \<Longrightarrow> slot q = Some s \<Longrightarrow> s \<in> S"
    using Cons.prems(1,4) by (auto simp: stable_def intro: inj_on_subset split: option.splits)
  show ?case
  proof (cases "slot q")
    case None
    have "tracked u ?w n (a n)" if "n \<in> S" for n
      using Cons.prems(3) [OF that] foreign [OF laws(1,3) None, of "fst n" _ w] by (simp add: tracked_def)
    then show ?thesis using Cons.IH [OF rest keep _ S Cons.prems(5,6), of a] Cons.prems(3) None by simp
  next
    case (Some sq)
    let ?a = "\<lambda>n. if sq = n then seen (answer idx q) (a n) else a n"
    have sq: "sq \<in> S" "stable_answer u (sq, answer (index w) q)"
      using Cons.prems(4) [OF _ Some] Cons.prems(1,2) Some by (simp_all add: stable_def)
    have "tracked u ?w n (?a n)" if n: "n \<in> S" for n
    proof -
      have "sq \<noteq> n \<Longrightarrow> (fst sq, u sq) \<noteq> (fst n, u n)" using Cons.prems(5) n sq(1) by (meson inj_on_contraD)
      then show ?thesis
        using tracked_step [OF laws Some _ _ _ sq(2), of n "a n" "a sq"] Cons.prems(2) Cons.prems(3) [OF n] Cons.prems(3) [OF sq(1)]
        by (simp split: if_splits)
    qed
    then show ?thesis using Cons.IH [OF rest keep _ S Cons.prems(5,6), of ?a] Cons.prems(3) Some by simp
  qed
qed simp

lemma mirror:
  assumes "store_laws M" and "\<And>k. k \<in> kinds \<Longrightarrow> accepts M k" and "pre"
    and "stable u (answers slot (answer (index w)) qs)"
    and "\<And>q s. q \<in> set qs \<Longrightarrow> slot q = Some s \<Longrightarrow> valid s \<and>
      Get (index w) (rk (fst s)) (key (fst s) (snd s)) = uuid_Nil \<and> mGet M (fst s) (u s) (model w) = None"
    and "q \<in> set qs" and "slot q = Some s"
  shows "mGet M (fst s) (u s) (model (fold step qs w)) = last_seen (answers slot (answer (index w)) qs) s None"
proof -
  let ?S = "{s. \<exists>q\<in>set qs. slot q = Some s}"
  have "tracked u (fold step qs w) s (last_seen (answers slot (answer (index w)) qs) s None)"
  proof (rule tracked_run [where S = ?S and a = "\<lambda>_. None", OF assms(1-4) refl])
    show "inj_on (\<lambda>s. (fst s, u s)) ?S" using assms(4) by (simp add: stable_def answers_slots)
    show "s \<in> ?S" using assms(6,7) by blast
  qed (use assms(5) slot_kind in \<open>auto simp: tracked_def\<close>)
  then show ?thesis by (simp add: tracked_def)
qed

end

end
