(* ===== verification/Crd_Controllers.thy ===== *)
theory Crd_Controllers
  imports Reconcilers
begin

text \<open>
  The controllers of the four custom resources: \<open>system_controller.go\<close>, \<open>api_controller.go\<close>,
  \<open>component_controller.go\<close> and \<open>systeminstance_controller.go\<close>. Each converts the object, adds the
  entity to the model, records its UUID under the object's name and runs the rules; when the object is gone
  it looks the UUID up by name and deletes the entity. All four interpret \<open>entity_reconciler\<close>.
\<close>

section \<open>Reconcile\<close>

definition SystemReconcile ::
    "'m modelsrv \<Rightarrow> lib \<Rightarrow> (System \<Rightarrow> error + Unstructured) \<Rightarrow> RuleEvaluation option \<Rightarrow> (System, 'm) reconcile" where
  "SystemReconcile M L ToUnstructured ruleEval nn got w =
     (case got of
        Found sys \<Rightarrow>
          (case convertSystem L sys of
             None \<Rightarrow> (None, w)
           | Some (obj, i) \<Rightarrow>
               (case mAdd M (ESystem obj) (wModel w) of
                  (Some err, m) \<Rightarrow> (Some err, w\<lparr>wModel := m\<rparr>)
                | (None, m) \<Rightarrow>
                    (None, \<lparr>wModel = run_rule_evaluation M L ToUnstructured ruleEval sys m,
                            wIndex = Put (wIndex w) KindSystem (NNString L nn) i\<rparr>)))
      | NotFound \<Rightarrow>
          (case Delete (wIndex w) KindSystem (NNString L nn) of
             (i, idx) \<Rightarrow>
               if i = uuid_Nil then (None, w\<lparr>wIndex := idx\<rparr>)
               else case mDelete M MSystem i (wModel w) of
                 (r, m) \<Rightarrow> (ignore_not_found MSystem r, \<lparr>wModel = m, wIndex = idx\<rparr>))
      | GetError err \<Rightarrow> (Some (ErrText err), w))"

definition APIReconcile ::
    "'m modelsrv \<Rightarrow> lib \<Rightarrow> (API \<Rightarrow> error + Unstructured) \<Rightarrow> RuleEvaluation option \<Rightarrow> (API, 'm) reconcile" where
  "APIReconcile M L ToUnstructured ruleEval nn got w =
     (case got of
        Found api \<Rightarrow>
          (case convertAPI L api of
             None \<Rightarrow> (None, w)
           | Some (obj, i) \<Rightarrow>
               (case mAdd M (EApi obj) (wModel w) of
                  (Some err, m) \<Rightarrow> (Some err, w\<lparr>wModel := m\<rparr>)
                | (None, m) \<Rightarrow>
                    (None, \<lparr>wModel = run_rule_evaluation M L ToUnstructured ruleEval api m,
                            wIndex = Put (wIndex w) KindAPI (NNString L nn) i\<rparr>)))
      | NotFound \<Rightarrow>
          (case Delete (wIndex w) KindAPI (NNString L nn) of
             (i, idx) \<Rightarrow>
               if i = uuid_Nil then (None, w\<lparr>wIndex := idx\<rparr>)
               else case mDelete M MApi i (wModel w) of
                 (r, m) \<Rightarrow> (ignore_not_found MApi r, \<lparr>wModel = m, wIndex = idx\<rparr>))
      | GetError err \<Rightarrow> (Some (ErrText err), w))"

definition ComponentReconcile ::
    "'m modelsrv \<Rightarrow> lib \<Rightarrow> (Component \<Rightarrow> error + Unstructured) \<Rightarrow> RuleEvaluation option \<Rightarrow> (Component, 'm) reconcile" where
  "ComponentReconcile M L ToUnstructured ruleEval nn got w =
     (case got of
        Found cmp \<Rightarrow>
          (case convertComponent L cmp of
             None \<Rightarrow> (None, w)
           | Some (obj, i) \<Rightarrow>
               (case mAdd M (EComponent obj) (wModel w) of
                  (Some err, m) \<Rightarrow> (Some err, w\<lparr>wModel := m\<rparr>)
                | (None, m) \<Rightarrow>
                    (None, \<lparr>wModel = run_rule_evaluation M L ToUnstructured ruleEval cmp m,
                            wIndex = Put (wIndex w) KindComponent (NNString L nn) i\<rparr>)))
      | NotFound \<Rightarrow>
          (case Delete (wIndex w) KindComponent (NNString L nn) of
             (i, idx) \<Rightarrow>
               if i = uuid_Nil then (None, w\<lparr>wIndex := idx\<rparr>)
               else case mDelete M MComponent i (wModel w) of
                 (r, m) \<Rightarrow> (ignore_not_found MComponent r, \<lparr>wModel = m, wIndex = idx\<rparr>))
      | GetError err \<Rightarrow> (Some (ErrText err), w))"

definition SystemInstanceReconcile ::
    "'m modelsrv \<Rightarrow> lib \<Rightarrow> (SystemInstance \<Rightarrow> error + Unstructured) \<Rightarrow> RuleEvaluation option \<Rightarrow> (SystemInstance, 'm) reconcile" where
  "SystemInstanceReconcile M L ToUnstructured ruleEval nn got w =
     (case got of
        Found inst \<Rightarrow>
          (case convertSystemInstance L inst of
             None \<Rightarrow> (None, w)
           | Some (obj, i) \<Rightarrow>
               (case mAdd M (ESystemInstance obj) (wModel w) of
                  (Some err, m) \<Rightarrow> (Some err, w\<lparr>wModel := m\<rparr>)
                | (None, m) \<Rightarrow>
                    (None, \<lparr>wModel = run_rule_evaluation M L ToUnstructured ruleEval inst m,
                            wIndex = Put (wIndex w) KindSystemInstance (NNString L nn) i\<rparr>)))
      | NotFound \<Rightarrow>
          (case Delete (wIndex w) KindSystemInstance (NNString L nn) of
             (i, idx) \<Rightarrow>
               if i = uuid_Nil then (None, w\<lparr>wIndex := idx\<rparr>)
               else case mDelete M MSystemInstance i (wModel w) of
                 (r, m) \<Rightarrow> (ignore_not_found MSystemInstance r, \<lparr>wModel = m, wIndex = idx\<rparr>))
      | GetError err \<Rightarrow> (Some (ErrText err), w))"

section \<open>The contract\<close>

text \<open>The conversion of each controller, as an entity.\<close>

definition sys_entity :: "lib \<Rightarrow> NamespacedName \<Rightarrow> System \<Rightarrow> (entity \<times> uuid) option" where
  "sys_entity L nn obj = map_option (\<lambda>(x, i). (ESystem x, i)) (convertSystem L obj)"

definition api_entity :: "lib \<Rightarrow> NamespacedName \<Rightarrow> API \<Rightarrow> (entity \<times> uuid) option" where
  "api_entity L nn obj = map_option (\<lambda>(x, i). (EApi x, i)) (convertAPI L obj)"

definition cmp_entity :: "lib \<Rightarrow> NamespacedName \<Rightarrow> Component \<Rightarrow> (entity \<times> uuid) option" where
  "cmp_entity L nn obj = map_option (\<lambda>(x, i). (EComponent x, i)) (convertComponent L obj)"

definition inst_entity :: "lib \<Rightarrow> NamespacedName \<Rightarrow> SystemInstance \<Rightarrow> (entity \<times> uuid) option" where
  "inst_entity L nn obj = map_option (\<lambda>(x, i). (ESystemInstance x, i)) (convertSystemInstance L obj)"

interpretation system_ctrl: entity_reconciler M L "SystemReconcile M L T ev" "\<lambda>_. sys_entity L" MSystem KindSystem
  for M L T ev
proof (unfold_locales, goal_cases)
  case (1 w nn obj)
  then show ?case by (auto simp: SystemReconcile_def sys_entity_def)
next
  case (2 w nn obj e i err m')
  then show ?case by (auto simp: SystemReconcile_def sys_entity_def)
next
  case (3 w nn obj e i m')
  then show ?case by (auto simp: SystemReconcile_def sys_entity_def)
next
  case (4 w nn obj e i m' k' j)
  then show ?case by (auto simp: SystemReconcile_def sys_entity_def run_entities)
next
  case (5 nn w)
  show ?case by (simp add: SystemReconcile_def Delete_result case_prod_beta)
next
  case (6 w nn)
  then show ?case by (simp add: SystemReconcile_def Delete_result case_prod_beta)
next
  case (7 w nn k' j)
  then show ?case
    by (simp add: SystemReconcile_def Delete_result case_prod_beta ignore_delete_result)
next
  case (8 nn msg w)
  show ?case by (simp add: SystemReconcile_def)
next
  case (9 idx nn obj e i)
  then show ?case by (auto simp: sys_entity_def convertSystem_def Let_def split: if_splits)
qed simp_all

interpretation api_ctrl: entity_reconciler M L "APIReconcile M L T ev" "\<lambda>_. api_entity L" MApi KindAPI
  for M L T ev
proof (unfold_locales, goal_cases)
  case (1 w nn obj)
  then show ?case by (auto simp: APIReconcile_def api_entity_def)
next
  case (2 w nn obj e i err m')
  then show ?case by (auto simp: APIReconcile_def api_entity_def)
next
  case (3 w nn obj e i m')
  then show ?case by (auto simp: APIReconcile_def api_entity_def)
next
  case (4 w nn obj e i m' k' j)
  then show ?case by (auto simp: APIReconcile_def api_entity_def run_entities)
next
  case (5 nn w)
  show ?case by (simp add: APIReconcile_def Delete_result case_prod_beta)
next
  case (6 w nn)
  then show ?case by (simp add: APIReconcile_def Delete_result case_prod_beta)
next
  case (7 w nn k' j)
  then show ?case
    by (simp add: APIReconcile_def Delete_result case_prod_beta ignore_delete_result)
next
  case (8 nn msg w)
  show ?case by (simp add: APIReconcile_def)
next
  case (9 idx nn obj e i)
  then show ?case by (auto simp: api_entity_def convertAPI_def Let_def split: if_splits)
qed simp_all

interpretation component_ctrl: entity_reconciler M L "ComponentReconcile M L T ev" "\<lambda>_. cmp_entity L" MComponent KindComponent
  for M L T ev
proof (unfold_locales, goal_cases)
  case (1 w nn obj)
  then show ?case by (auto simp: ComponentReconcile_def cmp_entity_def)
next
  case (2 w nn obj e i err m')
  then show ?case by (auto simp: ComponentReconcile_def cmp_entity_def)
next
  case (3 w nn obj e i m')
  then show ?case by (auto simp: ComponentReconcile_def cmp_entity_def)
next
  case (4 w nn obj e i m' k' j)
  then show ?case by (auto simp: ComponentReconcile_def cmp_entity_def run_entities)
next
  case (5 nn w)
  show ?case by (simp add: ComponentReconcile_def Delete_result case_prod_beta)
next
  case (6 w nn)
  then show ?case by (simp add: ComponentReconcile_def Delete_result case_prod_beta)
next
  case (7 w nn k' j)
  then show ?case
    by (simp add: ComponentReconcile_def Delete_result case_prod_beta ignore_delete_result)
next
  case (8 nn msg w)
  show ?case by (simp add: ComponentReconcile_def)
next
  case (9 idx nn obj e i)
  then show ?case by (auto simp: cmp_entity_def convertComponent_def Let_def split: if_splits)
qed simp_all

interpretation instance_ctrl: entity_reconciler M L "SystemInstanceReconcile M L T ev" "\<lambda>_. inst_entity L" MSystemInstance KindSystemInstance
  for M L T ev
proof (unfold_locales, goal_cases)
  case (1 w nn obj)
  then show ?case by (auto simp: SystemInstanceReconcile_def inst_entity_def)
next
  case (2 w nn obj e i err m')
  then show ?case by (auto simp: SystemInstanceReconcile_def inst_entity_def)
next
  case (3 w nn obj e i m')
  then show ?case by (auto simp: SystemInstanceReconcile_def inst_entity_def)
next
  case (4 w nn obj e i m' k' j)
  then show ?case by (auto simp: SystemInstanceReconcile_def inst_entity_def run_entities)
next
  case (5 nn w)
  show ?case by (simp add: SystemInstanceReconcile_def Delete_result case_prod_beta)
next
  case (6 w nn)
  then show ?case by (simp add: SystemInstanceReconcile_def Delete_result case_prod_beta)
next
  case (7 w nn k' j)
  then show ?case
    by (simp add: SystemInstanceReconcile_def Delete_result case_prod_beta ignore_delete_result)
next
  case (8 nn msg w)
  show ?case by (simp add: SystemInstanceReconcile_def)
next
  case (9 idx nn obj e i)
  then show ?case by (auto simp: inst_entity_def convertSystemInstance_def Let_def split: if_splits)
qed simp_all

section \<open>Properties\<close>

text \<open>
  (C36) When the \<open>systemId\<close> of a System is changed to another UUID, the model keeps the entity of the old UUID: the
  index is overwritten with the new UUID, nothing deletes the old entity, and deleting the
  object later removes only the new one.
\<close>

theorem stale_system_after_id_change:
  assumes "store_laws M" and "accepts M MSystem"
    and "convertSystem L sys = Some (x, i)" and "convertSystem L sys' = Some (x', i')" and "i \<noteq> i'"
  shows "mGet M MSystem i (wModel (run_events (SystemReconcile M L T ev)
     [(nn, Found sys), (nn, Found sys'), (nn, NotFound)] w)) = Some (ESystem x)"
  by (rule system_ctrl.old_id_stays [OF assms(1,2) _ _ assms(5)]) (simp_all add: sys_entity_def assms(3,4))

definition demo_system :: "string \<Rightarrow> System" where
  "demo_system i =
     \<lparr>s_Meta = \<lparr>Name = ''s'', Namespace = ''ns'', UID = ''a1'', Annotations = fmempty, OwnerKinds = []\<rparr>,
      s_Spec = \<lparr>ss_DisplayName = ''S'', ss_Description = [], ss_SystemId = i,
        ss_Version = \<lparr>v_Version = ''1'', v_AvailableFrom = [], v_DeprecatedFrom = [], v_TerminatedFrom = []\<rparr>,
        ss_Abstract = False, ss_ParentRef = None\<rparr>\<rparr>"

lemma demo_system_id:
  "\<exists>x. convertSystem mem_lib (demo_system ''5'') = Some (x, 5)"
  "\<exists>x. convertSystem mem_lib (demo_system ''6'') = Some (x, 6)"
  by (simp_all add: convertSystem_def demo_system_def resourceID_def parseOptionalUUID_def mem_lib_def
      hex_val_def Let_def)

theorem stale_system_after_id_change_witness:
  "mGet mem_store MSystem 5 (wModel (run_events (SystemReconcile mem_store mem_lib (\<lambda>_. Inl (ErrText [])) None)
     [(\<lparr>nn_Namespace = ''ns'', nn_Name = ''s''\<rparr>, Found (demo_system ''5'')),
      (\<lparr>nn_Namespace = ''ns'', nn_Name = ''s''\<rparr>, Found (demo_system ''6'')),
      (\<lparr>nn_Namespace = ''ns'', nn_Name = ''s''\<rparr>, NotFound)]
     \<lparr>wModel = [], wIndex = NewNameIndex\<rparr>)) \<noteq> None"
proof -
  obtain x x' where "convertSystem mem_lib (demo_system ''5'') = Some (x, 5)"
      "convertSystem mem_lib (demo_system ''6'') = Some (x', 6)"
    using demo_system_id by blast
  from stale_system_after_id_change [OF _ _ this, of mem_store] show ?thesis by simp
qed

end
