(* ===== verification/Instance_Controllers.thy ===== *)
theory Instance_Controllers
  imports Reconcilers
begin

text \<open>
  \<open>workload_controller.go\<close> (Deployment, StatefulSet, DaemonSet, CronJob, Job as component instances) and
  \<open>apiinstance_controller.go\<close> (Service, Ingress as API instances). An object is its metadata and
  a body that only the rule engine looks at. Both interpret \<open>entity_reconciler\<close> for the object and
  \<open>reference_findings\<close> for the check of its reference annotation.
\<close>

record 'b object =
  o_Meta :: ObjectMeta
  o_Body :: 'b

section \<open>Reference findings\<close>

definition workload_ref :: "lib \<Rightarrow> 'b object \<Rightarrow> uuid" where
  "workload_ref L obj =
     (let annotations = Annotations (o_Meta obj);
          compID = annotationUUID L annotations AnnotationComponentReference
      in if compID = uuid_Nil then annotationUUID L annotations AnnotationComponentID else compID)"

definition reconcileComponentReferenceFindings ::
    "'m modelsrv \<Rightarrow> lib \<Rightarrow> uuid \<Rightarrow> 'b object \<Rightarrow> 'm \<Rightarrow> 'm" where
  "reconcileComponentReferenceFindings M L i obj m =
     (let compID = workload_ref L obj
      in if compID = uuid_Nil then
           upsertMissingResourceReference M L
             (deleteReferenceFinding M L m i ReferencedResourceNotFound)
             i ComponentInstanceResource (Name (o_Meta obj)) AnnotationComponentReference
         else
           (let m1 = deleteReferenceFinding M L m i MissingResourceReference
            in if mGet M MComponent compID m1 = None then
                 upsertReferencedResourceNotFound M L m1 i ComponentInstanceResource compID ComponentResource (Name (o_Meta obj))
               else deleteReferenceFinding M L m1 i ReferencedResourceNotFound))"

interpretation workload_refs: reference_findings M L "reconcileComponentReferenceFindings M L" "workload_ref L"
    MComponent ComponentInstanceResource ComponentResource "\<lambda>obj. Name (o_Meta obj)" AnnotationComponentReference
  for M L
  by unfold_locales (auto simp: reconcileComponentReferenceFindings_def Let_def)

definition service_ref :: "lib \<Rightarrow> 'b object \<Rightarrow> uuid" where
  "service_ref L obj =
     (let annotations = Annotations (o_Meta obj);
          apiID = annotationUUID L annotations AnnotationAPIReference
      in if apiID = uuid_Nil then annotationUUID L annotations AnnotationAPIID else apiID)"

definition reconcileAPIReferenceFindings ::
    "'m modelsrv \<Rightarrow> lib \<Rightarrow> uuid \<Rightarrow> 'b object \<Rightarrow> 'm \<Rightarrow> 'm" where
  "reconcileAPIReferenceFindings M L i obj m =
     (let apiID = service_ref L obj
      in if apiID = uuid_Nil then
           upsertMissingResourceReference M L
             (deleteReferenceFinding M L m i ReferencedResourceNotFound)
             i APIInstanceResource (Name (o_Meta obj)) AnnotationAPIReference
         else
           (let m1 = deleteReferenceFinding M L m i MissingResourceReference
            in if mGet M MApi apiID m1 = None then
                 upsertReferencedResourceNotFound M L m1 i APIInstanceResource apiID APIResource (Name (o_Meta obj))
               else deleteReferenceFinding M L m1 i ReferencedResourceNotFound))"

interpretation service_refs: reference_findings M L "reconcileAPIReferenceFindings M L" "service_ref L"
    MApi APIInstanceResource APIResource "\<lambda>obj. Name (o_Meta obj)" AnnotationAPIReference
  for M L
  by unfold_locales (auto simp: reconcileAPIReferenceFindings_def Let_def)

section \<open>Reconcile\<close>

lemma delete_after_findings:
  assumes "store_laws M" and "k \<notin> {MFinding, MFindingType}" and "k' \<notin> {MFinding, MFindingType}"
  shows "mGet M k' j (snd (mDelete M k i (deleteReferenceFinding M L (deleteReferenceFinding M L m s kd) s' kd'))) =
     mGet M k' j (snd (mDelete M k i m))"
proof (cases "k' = k \<and> j = i")
  case True
  then show ?thesis using store_delete_get [OF assms(1)] by simp
next
  case False
  then show ?thesis
    using assms store_delete_frame [OF assms(1), of k' j k i] by (auto simp: deleteReferenceFinding_get)
qed

definition WorkloadReconcile ::
    "'m modelsrv \<Rightarrow> lib \<Rightarrow> ('b object \<Rightarrow> error + Unstructured) \<Rightarrow> RuleEvaluation option \<Rightarrow>
     ('b object \<Rightarrow> bool) option \<Rightarrow> ('b object, 'm) reconcile" where
  "WorkloadReconcile M L ToUnstructured ruleEval skipFunc nn got w =
     (case got of
        Found obj \<Rightarrow>
          if (case skipFunc of None \<Rightarrow> False | Some f \<Rightarrow> f obj) then (None, w)
          else (case componentInstanceFromMeta L (o_Meta obj) of
             None \<Rightarrow> (None, w)
           | Some (ci, i) \<Rightarrow>
               (let siID = GetHelmOwner (wIndex w) KindComponentInstance (NNString L nn);
                    ci' = (if ci_SystemInstance ci = None \<and> siID \<noteq> uuid_Nil
                           then ci\<lparr>ci_SystemInstance := Some siID\<rparr> else ci)
                in case mAdd M (EComponentInstance ci') (wModel w) of
                     (Some err, m) \<Rightarrow> (Some err, w\<lparr>wModel := m\<rparr>)
                   | (None, m) \<Rightarrow>
                       (let idx = Put (wIndex w) KindComponentInstance (NNString L nn) i;
                            m' = reconcileComponentReferenceFindings M L i obj m
                        in (None, \<lparr>wModel = run_rule_evaluation M L ToUnstructured ruleEval obj m', wIndex = idx\<rparr>))))
      | NotFound \<Rightarrow>
          (case Delete (wIndex w) KindComponentInstance (NNString L nn) of
             (i, idx) \<Rightarrow>
               if i = uuid_Nil then (None, w\<lparr>wIndex := idx\<rparr>)
               else
                 (let m1 = deleteReferenceFinding M L (wModel w) i ReferencedResourceNotFound;
                      m2 = deleteReferenceFinding M L m1 i MissingResourceReference
                  in case mDelete M MComponentInstance i m2 of
                       (r, m) \<Rightarrow> (ignore_not_found MComponentInstance r, \<lparr>wModel = m, wIndex = idx\<rparr>)))
      | GetError err \<Rightarrow> (Some (ErrText err), w))"

text \<open>The entity of an object, given the Helm owner recorded for its name.\<close>

definition ci_entity ::
    "lib \<Rightarrow> ('b object \<Rightarrow> bool) option \<Rightarrow> NameIndex \<Rightarrow> NamespacedName \<Rightarrow> 'b object \<Rightarrow> (entity \<times> uuid) option" where
  "ci_entity L skipFunc idx nn obj =
     (if (case skipFunc of None \<Rightarrow> False | Some f \<Rightarrow> f obj) then None
      else map_option
        (\<lambda>(ci, i). (EComponentInstance
           (if ci_SystemInstance ci = None \<and> GetHelmOwner idx KindComponentInstance (NNString L nn) \<noteq> uuid_Nil
            then ci\<lparr>ci_SystemInstance := Some (GetHelmOwner idx KindComponentInstance (NNString L nn))\<rparr> else ci), i))
        (componentInstanceFromMeta L (o_Meta obj)))"

lemma ci_entity_id:
  "ci_entity L skipFunc idx nn obj = Some (e, i) \<Longrightarrow> kind_of e = MComponentInstance \<and> id_of e = i \<and> i \<noteq> uuid_Nil"
  by (auto simp: ci_entity_def componentInstanceFromMeta_def Let_def split: if_splits)

lemma Workload_found:
  assumes "ci_entity L skipFunc (wIndex w) nn obj = Some (e, i)"
  shows "WorkloadReconcile M L T ev skipFunc nn (Found obj) w =
     (case mAdd M e (wModel w) of
        (Some err, m) \<Rightarrow> (Some err, w\<lparr>wModel := m\<rparr>)
      | (None, m) \<Rightarrow>
          (None, \<lparr>wModel = run_rule_evaluation M L T ev obj (reconcileComponentReferenceFindings M L i obj m),
                  wIndex = Put (wIndex w) KindComponentInstance (NNString L nn) i\<rparr>))"
  using assms unfolding WorkloadReconcile_def ci_entity_def Let_def by (auto split: if_splits)

interpretation workload_ctrl: entity_reconciler M L "WorkloadReconcile M L T ev skipFunc" "ci_entity L skipFunc" MComponentInstance KindComponentInstance
  for M L T ev skipFunc
proof (unfold_locales, goal_cases)
  case (1 w nn obj)
  then show ?case by (auto simp: WorkloadReconcile_def ci_entity_def)
next
  case (2 w nn obj e i err m')
  then show ?case by (simp add: Workload_found)
next
  case (3 w nn obj e i m')
  then show ?case by (simp add: Workload_found)
next
  case (4 w nn obj e i m' k' j)
  then show ?case by (simp add: Workload_found run_entities workload_refs.entities_kept)
next
  case (5 nn w)
  show ?case by (simp add: WorkloadReconcile_def Let_def case_prod_beta)
next
  case (6 w nn)
  then show ?case by (simp add: WorkloadReconcile_def Delete_result case_prod_beta)
next
  case (7 w nn k' j)
  then show ?case
    by (auto simp: WorkloadReconcile_def Delete_result case_prod_beta Let_def ignore_delete_result delete_after_findings)
next
  case (8 nn msg w)
  show ?case by (simp add: WorkloadReconcile_def)
next
  case (9 idx nn obj e i)
  then show ?case by (rule ci_entity_id)
next
  case (10 idx idx')
  then show ?case by (intro ext) (simp only: ci_entity_def)
qed simp_all

definition APIInstanceReconcile ::
    "'m modelsrv \<Rightarrow> lib \<Rightarrow> ('b object \<Rightarrow> error + Unstructured) \<Rightarrow> RuleEvaluation option \<Rightarrow>
     ('b object, 'm) reconcile" where
  "APIInstanceReconcile M L ToUnstructured ruleEval nn got w =
     (case got of
        Found obj \<Rightarrow>
          (case apiInstanceFromMeta L (o_Meta obj) of
             None \<Rightarrow> (None, w)
           | Some (ai, i) \<Rightarrow>
               (let siID = GetHelmOwner (wIndex w) KindAPIInstance (NNString L nn);
                    ai' = (if ai_SystemInstance ai = None \<and> siID \<noteq> uuid_Nil
                           then ai\<lparr>ai_SystemInstance := Some siID\<rparr> else ai)
                in case mAdd M (EApiInstance ai') (wModel w) of
                     (Some err, m) \<Rightarrow> (Some err, w\<lparr>wModel := m\<rparr>)
                   | (None, m) \<Rightarrow>
                       (let idx = Put (wIndex w) KindAPIInstance (NNString L nn) i;
                            m' = reconcileAPIReferenceFindings M L i obj m
                        in (None, \<lparr>wModel = run_rule_evaluation M L ToUnstructured ruleEval obj m', wIndex = idx\<rparr>))))
      | NotFound \<Rightarrow>
          (case Delete (wIndex w) KindAPIInstance (NNString L nn) of
             (i, idx) \<Rightarrow>
               if i = uuid_Nil then (None, w\<lparr>wIndex := idx\<rparr>)
               else
                 (let m1 = deleteReferenceFinding M L (wModel w) i ReferencedResourceNotFound;
                      m2 = deleteReferenceFinding M L m1 i MissingResourceReference
                  in case mDelete M MApiInstance i m2 of
                       (r, m) \<Rightarrow> (ignore_not_found MApiInstance r, \<lparr>wModel = m, wIndex = idx\<rparr>)))
      | GetError err \<Rightarrow> (Some (ErrText err), w))"

text \<open>The entity of an object, given the Helm owner recorded for its name.\<close>

definition ai_entity ::
    "lib \<Rightarrow> NameIndex \<Rightarrow> NamespacedName \<Rightarrow> 'b object \<Rightarrow> (entity \<times> uuid) option" where
  "ai_entity L idx nn obj =
     (map_option
        (\<lambda>(ai, i). (EApiInstance
           (if ai_SystemInstance ai = None \<and> GetHelmOwner idx KindAPIInstance (NNString L nn) \<noteq> uuid_Nil
            then ai\<lparr>ai_SystemInstance := Some (GetHelmOwner idx KindAPIInstance (NNString L nn))\<rparr> else ai), i))
        (apiInstanceFromMeta L (o_Meta obj)))"

lemma ai_entity_id:
  "ai_entity L idx nn obj = Some (e, i) \<Longrightarrow> kind_of e = MApiInstance \<and> id_of e = i \<and> i \<noteq> uuid_Nil"
  by (auto simp: ai_entity_def apiInstanceFromMeta_def Let_def split: if_splits)

lemma APIInstance_found:
  assumes "ai_entity L (wIndex w) nn obj = Some (e, i)"
  shows "APIInstanceReconcile M L T ev nn (Found obj) w =
     (case mAdd M e (wModel w) of
        (Some err, m) \<Rightarrow> (Some err, w\<lparr>wModel := m\<rparr>)
      | (None, m) \<Rightarrow>
          (None, \<lparr>wModel = run_rule_evaluation M L T ev obj (reconcileAPIReferenceFindings M L i obj m),
                  wIndex = Put (wIndex w) KindAPIInstance (NNString L nn) i\<rparr>))"
  using assms unfolding APIInstanceReconcile_def ai_entity_def Let_def by (auto split: if_splits)

interpretation service_ctrl: entity_reconciler M L "APIInstanceReconcile M L T ev" "ai_entity L" MApiInstance KindAPIInstance
  for M L T ev
proof (unfold_locales, goal_cases)
  case (1 w nn obj)
  then show ?case by (auto simp: APIInstanceReconcile_def ai_entity_def)
next
  case (2 w nn obj e i err m')
  then show ?case by (simp add: APIInstance_found)
next
  case (3 w nn obj e i m')
  then show ?case by (simp add: APIInstance_found)
next
  case (4 w nn obj e i m' k' j)
  then show ?case by (simp add: APIInstance_found run_entities service_refs.entities_kept)
next
  case (5 nn w)
  show ?case by (simp add: APIInstanceReconcile_def Let_def case_prod_beta)
next
  case (6 w nn)
  then show ?case by (simp add: APIInstanceReconcile_def Delete_result case_prod_beta)
next
  case (7 w nn k' j)
  then show ?case
    by (auto simp: APIInstanceReconcile_def Delete_result case_prod_beta Let_def ignore_delete_result delete_after_findings)
next
  case (8 nn msg w)
  show ?case by (simp add: APIInstanceReconcile_def)
next
  case (9 idx nn obj e i)
  then show ?case by (rule ai_entity_id)
next
  case (10 idx idx')
  then show ?case by (intro ext) (simp only: ai_entity_def)
qed simp_all

section \<open>Properties\<close>


definition demo_object_meta :: "string \<Rightarrow> string \<Rightarrow> (string, string) fmap \<Rightarrow> unit object" where
  "demo_object_meta n uid ann =
     \<lparr>o_Meta = \<lparr>Name = n, Namespace = ''ns'', UID = uid, Annotations = ann, OwnerKinds = []\<rparr>, o_Body = ()\<rparr>"

lemma demo_finding_ids:
  "referenceFindingID mem_lib 5 MissingResourceReference \<noteq> referenceFindingID mem_lib 5 ReferencedResourceNotFound"
  by (simp add: referenceFindingID_def referenceFindingKey_def mem_lib_def uuid_bytes_def findingNamespace_def
      MissingResourceReference_def ReferencedResourceNotFound_def upt_rec)


text \<open>
  The same for the API reference of a Service or Ingress.
\<close>

theorem service_reference_findings:
  assumes "store_laws M" and "accepts M MFinding"
    and "referenceFindingID L i MissingResourceReference \<noteq> referenceFindingID L i ReferencedResourceNotFound"
  shows "(mGet M MFinding (referenceFindingID L i MissingResourceReference)
        (reconcileAPIReferenceFindings M L i obj m) \<noteq> None) = (service_ref L obj = uuid_Nil) \<and>
    (mGet M MFinding (referenceFindingID L i ReferencedResourceNotFound)
        (reconcileAPIReferenceFindings M L i obj m) \<noteq> None) =
      (service_ref L obj \<noteq> uuid_Nil \<and> mGet M MApi (service_ref L obj) m = None) \<and>
    (k \<noteq> MFinding \<or> j \<notin> {referenceFindingID L i MissingResourceReference, referenceFindingID L i ReferencedResourceNotFound} \<longrightarrow>
      mGet M k j (reconcileAPIReferenceFindings M L i obj m) = mGet M k j m)"
  by (rule service_refs.verdict [OF assms])

theorem service_reference_findings_witness:
  "mGet mem_store MFinding (referenceFindingID mem_lib 5 MissingResourceReference)
     (reconcileAPIReferenceFindings mem_store mem_lib 5 (demo_object_meta ''w'' ''5'' fmempty) []) \<noteq> None"
  using service_reference_findings [of mem_store mem_lib 5, OF _ _ demo_finding_ids, of "demo_object_meta ''w'' ''5'' fmempty" "[]"]
  by (simp add: service_ref_def demo_object_meta_def annotationUUID_def parseOptionalUUID_def Let_def)

lemma workload_stored:
  assumes "store_laws M" and "accepts M MComponentInstance"
    and "\<not> (case skipFunc of None \<Rightarrow> False | Some f \<Rightarrow> f obj)"
    and "first_uuid L [UID (o_Meta obj)] = Some i"
  shows "\<exists>ci. mGet M MComponentInstance i (wModel (snd (WorkloadReconcile M L T ev skipFunc nn (Found obj) w))) =
        Some (EComponentInstance ci) \<and>
      Get (wIndex (snd (WorkloadReconcile M L T ev skipFunc nn (Found obj) w))) KindComponentInstance (NNString L nn) = i \<and>
      ci_SystemInstance ci =
        (case first_uuid L [annotation_value (Annotations (o_Meta obj)) AnnotationSystemInstanceID] of
           Some si \<Rightarrow> Some si
         | None \<Rightarrow>
             (let owner = GetHelmOwner (wIndex w) KindComponentInstance (NNString L nn)
              in if owner = uuid_Nil then None else Some owner))"
proof -
  obtain ci where c: "ci_entity L skipFunc (wIndex w) nn obj = Some (EComponentInstance ci, i)"
    and si: "ci_SystemInstance ci =
        (case first_uuid L [annotation_value (Annotations (o_Meta obj)) AnnotationSystemInstanceID] of
           Some si \<Rightarrow> Some si
         | None \<Rightarrow>
             (let owner = GetHelmOwner (wIndex w) KindComponentInstance (NNString L nn)
              in if owner = uuid_Nil then None else Some owner))"
    using assms(3,4)
    by (auto simp: ci_entity_def componentInstanceFromMeta_def annotationUUID_value first_uuid_parse Let_def
        simp del: first_uuid.simps(2) split: if_splits)
  from workload_ctrl.found_sync [OF assms(1,2) c] si show ?thesis by (auto simp: idx_simps)
qed

text \<open>
  The system instance of a reconciled workload. The annotation of the object wins; without a valid one
  the owner that the Helm controller recorded for the name is used; without either there is none. The
  stored component instance is in the model and the index maps the name to it.
\<close>

theorem workload_system_instance:
  assumes "store_laws M" and "accepts M MComponentInstance"
    and "\<not> (case skipFunc of None \<Rightarrow> False | Some f \<Rightarrow> f obj)"
    and "first_uuid L [UID (o_Meta obj)] = Some i"
  shows "\<exists>ci. mGet M MComponentInstance i (wModel (snd (WorkloadReconcile M L T ev skipFunc nn (Found obj) w))) =
        Some (EComponentInstance ci) \<and>
      Get (wIndex (snd (WorkloadReconcile M L T ev skipFunc nn (Found obj) w))) KindComponentInstance (NNString L nn) = i \<and>
      ci_SystemInstance ci =
        (case first_uuid L [annotation_value (Annotations (o_Meta obj)) AnnotationSystemInstanceID] of
           Some si \<Rightarrow> Some si
         | None \<Rightarrow>
             (let owner = GetHelmOwner (wIndex w) KindComponentInstance (NNString L nn)
              in if owner = uuid_Nil then None else Some owner))"
  using assms by (rule workload_stored)

theorem workload_system_instance_witness:
  "\<exists>ci. mGet mem_store MComponentInstance 5 (wModel (snd (WorkloadReconcile mem_store mem_lib (\<lambda>_. Inl (ErrText [])) None None
      \<lparr>nn_Namespace = ''ns'', nn_Name = ''w''\<rparr> (Found (demo_object_meta ''w'' ''5'' fmempty))
      \<lparr>wModel = [], wIndex = SetHelmOwner NewNameIndex KindComponentInstance ''ns/w'' 9\<rparr>))) =
     Some (EComponentInstance ci) \<and> ci_SystemInstance ci = Some 9"
proof -
  let ?o = "demo_object_meta ''w'' ''5'' fmempty"
  let ?nn = "\<lparr>nn_Namespace = ''ns'', nn_Name = ''w''\<rparr>"
  let ?w = "\<lparr>wModel = [], wIndex = SetHelmOwner NewNameIndex KindComponentInstance ''ns/w'' 9\<rparr>"
  have "first_uuid mem_lib [UID (o_Meta ?o)] = Some 5"
    by (simp add: demo_object_meta_def mem_lib_def hex_val_def)
  moreover have "first_uuid mem_lib [annotation_value (Annotations (o_Meta ?o)) AnnotationSystemInstanceID] = None"
    by (simp add: demo_object_meta_def annotation_value_def)
  moreover have "NNString mem_lib ?nn = ''ns/w''" by (simp add: mem_lib_def)
  ultimately show ?thesis
    using workload_system_instance [of mem_store ?o None mem_lib 5 "\<lambda>_. Inl (ErrText [])" None ?nn ?w]
    by (auto simp: idx_simps)
qed

end
