(* ===== verification/Manager.thy ===== *)
theory Manager
  imports Crd_Controllers Instance_Controllers
begin

text \<open>
  The controllers that \<open>main\<close> of \<open>cmd/main.go\<close> registers on one manager, one model and one
  name index: the four custom resources, the five workload kinds and the two API kinds, with the rule
  key and the skip function of its tables. A request names the controller and carries the
  answer of the API server; the rule registry may change from one request to the next. The
  requests run one after the other, in any interleaving of the controllers.
\<close>

section \<open>The tables of main\<close>

datatype workload_kind = Deployment | StatefulSet | DaemonSet | CronJob | Job

datatype api_kind = Service | Ingress

fun workload_resource :: "workload_kind \<Rightarrow> string" where
  "workload_resource Deployment = ''apps/deployments''"
| "workload_resource StatefulSet = ''apps/statefulsets''"
| "workload_resource DaemonSet = ''apps/daemonsets''"
| "workload_resource CronJob = ''batch/cronjobs''"
| "workload_resource Job = ''batch/jobs''"

fun workload_skip :: "workload_kind \<Rightarrow> ('b object \<Rightarrow> bool) option" where
  "workload_skip Job = Some (\<lambda>obj. IsOwnedByCronJob (o_Meta obj))"
| "workload_skip _ = None"

fun api_resource :: "api_kind \<Rightarrow> string" where
  "api_resource Service = ''/services''"
| "api_resource Ingress = ''networking.k8s.io/ingresses''"

section \<open>Requests\<close>

datatype 'b request =
    ReqSystem NamespacedName "System get_result"
  | ReqAPI NamespacedName "API get_result"
  | ReqComponent NamespacedName "Component get_result"
  | ReqSystemInstance NamespacedName "SystemInstance get_result"
  | ReqWorkload workload_kind NamespacedName "'b object get_result"
  | ReqAPIInstance api_kind NamespacedName "'b object get_result"

text \<open>\<open>ToUnstructured\<close> at each type of object.\<close>

record 'b converter =
  tuSystem :: "System \<Rightarrow> error + Unstructured"
  tuAPI :: "API \<Rightarrow> error + Unstructured"
  tuComponent :: "Component \<Rightarrow> error + Unstructured"
  tuSystemInstance :: "SystemInstance \<Rightarrow> error + Unstructured"
  tuObject :: "'b object \<Rightarrow> error + Unstructured"

fun dispatch ::
    "'m modelsrv \<Rightarrow> lib \<Rightarrow> 'b converter \<Rightarrow> RuleRepo \<times> 'b request \<Rightarrow> 'm world \<Rightarrow> error option \<times> 'm world" where
  "dispatch M L C (repo, ReqSystem nn g) w =
     SystemReconcile M L (tuSystem C) (Some (NewRuleEvaluation repo ''structure.emeland.io/systems'')) nn g w"
| "dispatch M L C (repo, ReqAPI nn g) w =
     APIReconcile M L (tuAPI C) (Some (NewRuleEvaluation repo ''structure.emeland.io/apis'')) nn g w"
| "dispatch M L C (repo, ReqComponent nn g) w =
     ComponentReconcile M L (tuComponent C) (Some (NewRuleEvaluation repo ''structure.emeland.io/components'')) nn g w"
| "dispatch M L C (repo, ReqSystemInstance nn g) w =
     SystemInstanceReconcile M L (tuSystemInstance C)
       (Some (NewRuleEvaluation repo ''structure.emeland.io/systeminstances'')) nn g w"
| "dispatch M L C (repo, ReqWorkload wk nn g) w =
     WorkloadReconcile M L (tuObject C) (Some (NewRuleEvaluation repo (workload_resource wk))) (workload_skip wk) nn g w"
| "dispatch M L C (repo, ReqAPIInstance ak nn g) w =
     APIInstanceReconcile M L (tuObject C) (Some (NewRuleEvaluation repo (api_resource ak))) nn g w"

section \<open>The contract of the manager\<close>

fun req_slot :: "RuleRepo \<times> 'b request \<Rightarrow> slot" where
  "req_slot (_, ReqSystem nn _) = (MSystem, nn)"
| "req_slot (_, ReqAPI nn _) = (MApi, nn)"
| "req_slot (_, ReqComponent nn _) = (MComponent, nn)"
| "req_slot (_, ReqSystemInstance nn _) = (MSystemInstance, nn)"
| "req_slot (_, ReqWorkload _ nn _) = (MComponentInstance, nn)"
| "req_slot (_, ReqAPIInstance _ nn _) = (MApiInstance, nn)"

fun req_answer :: "lib \<Rightarrow> NameIndex \<Rightarrow> RuleRepo \<times> 'b request \<Rightarrow> (entity \<times> uuid) option get_result" where
  "req_answer L idx (_, ReqSystem nn g) = answer_of (sys_entity L nn) g"
| "req_answer L idx (_, ReqAPI nn g) = answer_of (api_entity L nn) g"
| "req_answer L idx (_, ReqComponent nn g) = answer_of (cmp_entity L nn) g"
| "req_answer L idx (_, ReqSystemInstance nn g) = answer_of (inst_entity L nn) g"
| "req_answer L idx (_, ReqWorkload wk nn g) = answer_of (ci_entity L (workload_skip wk) idx nn) g"
| "req_answer L idx (_, ReqAPIInstance _ nn g) = answer_of (ai_entity L idx nn) g"

definition landscape_kinds :: "mkind set" where
  "landscape_kinds = {MSystem, MApi, MComponent, MSystemInstance, MComponentInstance, MApiInstance}"

fun index_kind :: "mkind \<Rightarrow> ResourceKind" where
  "index_kind MSystem = KindSystem"
| "index_kind MApi = KindAPI"
| "index_kind MComponent = KindComponent"
| "index_kind MSystemInstance = KindSystemInstance"
| "index_kind MComponentInstance = KindComponentInstance"
| "index_kind MApiInstance = KindAPIInstance"
| "index_kind MContext = KindContext"
| "index_kind MRole = KindRole"
| "index_kind MBinding = KindBinding"
| "index_kind MArtifact = KindArtifact"
| "index_kind _ = KindArtifactInstance"

lemma landscape_entity: "k \<in> landscape_kinds \<Longrightarrow> k \<notin> {MFinding, MFindingType}"
  by (auto simp: landscape_kinds_def)

lemma request_cases:
  obtains (System) repo nn g where "q = (repo, ReqSystem nn g)"
  | (API) repo nn g where "q = (repo, ReqAPI nn g)"
  | (Component) repo nn g where "q = (repo, ReqComponent nn g)"
  | (SystemInstance) repo nn g where "q = (repo, ReqSystemInstance nn g)"
  | (Workload) repo wk nn g where "q = (repo, ReqWorkload wk nn g)"
  | (APIInstance) repo ak nn g where "q = (repo, ReqAPIInstance ak nn g)"
  by (cases q) (metis request.exhaust)

lemmas owner_kept_all =
  system_ctrl.owner_kept api_ctrl.owner_kept component_ctrl.owner_kept instance_ctrl.owner_kept
  workload_ctrl.owner_kept service_ctrl.owner_kept

text \<open>What a request does to the entities and names of the landscape, by its answer.\<close>

lemma dispatch_skip:
  "req_answer L (wIndex w) q = Found None \<or> req_answer L (wIndex w) q = GetError msg \<Longrightarrow> snd (dispatch M L C q w) = w"
  by (cases q rule: request_cases)
    (simp_all add: system_ctrl.answer_skip api_ctrl.answer_skip component_ctrl.answer_skip
      instance_ctrl.answer_skip workload_ctrl.answer_skip service_ctrl.answer_skip)

lemma dispatch_upsert:
  assumes "store_laws M" and "accepts M k" and "req_slot q = (k, nn)" and "req_answer L (wIndex w) q = Found (Some (e, i))"
  shows "wIndex (snd (dispatch M L C q w)) = Put (wIndex w) (index_kind k) (NNString L nn) i"
    and "k' \<in> landscape_kinds \<Longrightarrow> mGet M k' j (wModel (snd (dispatch M L C q w))) =
      (if k' = k \<and> j = i then Some e else mGet M k' j (wModel w))"
proof -
  show "wIndex (snd (dispatch M L C q w)) = Put (wIndex w) (index_kind k) (NNString L nn) i"
    using assms
    by (cases q rule: request_cases)
      (auto dest: system_ctrl.answer_index api_ctrl.answer_index component_ctrl.answer_index
        instance_ctrl.answer_index workload_ctrl.answer_index service_ctrl.answer_index)
  assume "k' \<in> landscape_kinds"
  note k' = landscape_entity [OF this]
  show "mGet M k' j (wModel (snd (dispatch M L C q w))) = (if k' = k \<and> j = i then Some e else mGet M k' j (wModel w))"
  proof (cases q rule: request_cases)
    case (System repo nn' g)
    with assms show ?thesis using system_ctrl.answer_model [OF assms(1) _ _ k'] by fastforce
  next
    case (API repo nn' g)
    with assms show ?thesis using api_ctrl.answer_model [OF assms(1) _ _ k'] by fastforce
  next
    case (Component repo nn' g)
    with assms show ?thesis using component_ctrl.answer_model [OF assms(1) _ _ k'] by fastforce
  next
    case (SystemInstance repo nn' g)
    with assms show ?thesis using instance_ctrl.answer_model [OF assms(1) _ _ k'] by fastforce
  next
    case (Workload repo wk nn' g)
    with assms show ?thesis using workload_ctrl.answer_model [OF assms(1) _ _ k'] by fastforce
  next
    case (APIInstance repo ak nn' g)
    with assms show ?thesis using service_ctrl.answer_model [OF assms(1) _ _ k'] by fastforce
  qed
qed

lemma dispatch_gone:
  assumes "store_laws M" and "req_slot q = (k, nn)" and "req_answer L (wIndex w) q = NotFound"
  shows "wIndex (snd (dispatch M L C q w)) = snd (Delete (wIndex w) (index_kind k) (NNString L nn))"
    and "k' \<in> landscape_kinds \<Longrightarrow> mGet M k' j (wModel (snd (dispatch M L C q w))) =
      (if k' = k \<and> j = Get (wIndex w) (index_kind k) (NNString L nn) \<and> j \<noteq> uuid_Nil then None else mGet M k' j (wModel w))"
proof -
  show "wIndex (snd (dispatch M L C q w)) = snd (Delete (wIndex w) (index_kind k) (NNString L nn))"
    using assms
    by (cases q rule: request_cases)
      (auto dest: system_ctrl.answer_gone_index api_ctrl.answer_gone_index component_ctrl.answer_gone_index
        instance_ctrl.answer_gone_index workload_ctrl.answer_gone_index service_ctrl.answer_gone_index)
  assume "k' \<in> landscape_kinds"
  note k' = landscape_entity [OF this]
  show "mGet M k' j (wModel (snd (dispatch M L C q w))) =
      (if k' = k \<and> j = Get (wIndex w) (index_kind k) (NNString L nn) \<and> j \<noteq> uuid_Nil then None else mGet M k' j (wModel w))"
  proof (cases q rule: request_cases)
    case (System repo nn' g)
    with assms show ?thesis using system_ctrl.answer_gone_model [OF assms(1) _ k'] by fastforce
  next
    case (API repo nn' g)
    with assms show ?thesis using api_ctrl.answer_gone_model [OF assms(1) _ k'] by fastforce
  next
    case (Component repo nn' g)
    with assms show ?thesis using component_ctrl.answer_gone_model [OF assms(1) _ k'] by fastforce
  next
    case (SystemInstance repo nn' g)
    with assms show ?thesis using instance_ctrl.answer_gone_model [OF assms(1) _ k'] by fastforce
  next
    case (Workload repo wk nn' g)
    with assms show ?thesis using workload_ctrl.answer_gone_model [OF assms(1) _ k'] by fastforce
  next
    case (APIInstance repo ak nn' g)
    with assms show ?thesis using service_ctrl.answer_gone_model [OF assms(1) _ k'] by fastforce
  qed
qed

lemma dispatch_slot: "fst (req_slot q) \<in> landscape_kinds"
  by (cases q rule: request_cases) (simp_all add: landscape_kinds_def)

lemma dispatch_id: "req_answer L idx q = Found (Some (e, i)) \<Longrightarrow> i \<noteq> uuid_Nil"
  by (cases q rule: request_cases)
    (auto dest: system_ctrl.answer_not_Nil api_ctrl.answer_not_Nil component_ctrl.answer_not_Nil
      instance_ctrl.answer_not_Nil workload_ctrl.answer_not_Nil service_ctrl.answer_not_Nil)

lemma index_kind_inj: "inj_on index_kind (landscape_kinds \<union> {MRole})"
  by (auto simp: inj_on_def landscape_kinds_def)

lemma answer_by_owner:
  assumes "GetHelmOwner idx = GetHelmOwner idx'"
  shows "req_answer L idx q = req_answer L idx' q"
  by (cases q rule: request_cases) (simp_all add: workload_ctrl.conv_owner [OF assms] service_ctrl.conv_owner [OF assms])

lemma dispatch_owner: "GetHelmOwner (wIndex (snd (dispatch M L C q w))) = GetHelmOwner (wIndex w)"
  by (cases q rule: request_cases) (simp_all add: owner_kept_all)

interpretation landscape: mirror_system M "\<lambda>q w. snd (dispatch M L C q w)" wModel wIndex "\<lambda>q. Some (req_slot q)" "req_answer L"
    landscape_kinds index_kind "\<lambda>_. NNString L" "\<lambda>s. CHR ''/'' \<notin> set (nn_Namespace (snd s))" "nn_string_law L"
  for M L C
proof (unfold_locales, goal_cases)
  case (1 q s)
  then show ?case using dispatch_slot [of q] by simp
next
  case 2
  show ?case by (rule inj_on_subset [OF index_kind_inj]) blast
next
  case (3 k nn nn')
  then show ?case using NNString_inject by fastforce
next
  case (4 idx q e i)
  then show ?case by (rule dispatch_id)
next
  case (5 q w q')
  show ?case by (rule answer_by_owner [OF dispatch_owner])
next
  case (7 q s w msg k' j)
  then show ?case by (simp add: dispatch_skip [of L w q msg])
next
  case (8 k q nn w e i k' j n)
  then show ?case
    using dispatch_upsert [OF 8(1,2), where q = q and nn = nn and L = L and w = w and e = e and i = i and C = C] by (auto simp: idx_simps)
next
  case (9 q k nn w k' j n)
  then show ?case
    using dispatch_gone [OF 9(1), where q = q and k = k and nn = nn and L = L and w = w and C = C] by (auto simp: idx_simps)
qed simp

section \<open>Properties\<close>

text \<open>
  (C1) The model mirrors the cluster. Take any interleaved run of the eleven controllers in which every object
  keeps its UUID, different objects have different UUIDs and names (so no two kinds share a slot), and
  namespaces have no slash. Then for every object, the model holds the entity of its last answer: the
  converted object if it was last seen, nothing if it was last reported as gone; answers
  that were errors or had no UUID change nothing.
\<close>

theorem landscape_mirrors_cluster:
  assumes "store_laws M" and "\<And>k. k \<in> landscape_kinds \<Longrightarrow> accepts M k" and "nn_string_law L"
    and "stable u (map (\<lambda>q. (req_slot q, req_answer L (wIndex w) q)) qs)"
    and "\<And>k nn. (k, nn) \<in> req_slot ` set qs \<Longrightarrow>
      Get (wIndex w) (index_kind k) (NNString L nn) = uuid_Nil \<and> mGet M k (u (k, nn)) (wModel w) = None"
    and "(k, nn) \<in> req_slot ` set qs"
  shows "mGet M k (u (k, nn)) (wModel (run_requests (dispatch M L C) qs w)) =
    last_seen (map (\<lambda>q. (req_slot q, req_answer L (wIndex w) q)) qs) (k, nn) None"
proof -
  obtain q where q: "q \<in> set qs" "req_slot q = (k, nn)" using assms(6) by auto
  have start: "CHR ''/'' \<notin> set (nn_Namespace (snd s)) \<and>
      Get (wIndex w) (index_kind (fst s)) (NNString L (snd s)) = uuid_Nil \<and> mGet M (fst s) (u s) (wModel w) = None"
    if "q \<in> set qs" "Some (req_slot q) = Some s" for q s
  proof -
    have "s \<in> req_slot ` set qs" using that by auto
    then show ?thesis
      using assms(4) assms(5) [of "fst s" "snd s"] that by (auto simp: stable_def stable_answer_def list_all_iff)
  qed
  show ?thesis
    using landscape.mirror [OF assms(1,2,3) _ start q(1), where s = "(k, nn)" and C = C] assms(4) q(2) by (simp add: answers_total run_requests_fold)
qed

definition demo_converter :: "unit converter" where
  "demo_converter =
     \<lparr>tuSystem = (\<lambda>_. Inl (ErrText [])), tuAPI = (\<lambda>_. Inl (ErrText [])), tuComponent = (\<lambda>_. Inl (ErrText [])),
      tuSystemInstance = (\<lambda>_. Inl (ErrText [])), tuObject = (\<lambda>_. Inl (ErrText []))\<rparr>"

abbreviation demo_nn :: "string \<Rightarrow> NamespacedName" where
  "demo_nn n \<equiv> \<lparr>nn_Namespace = ''ns'', nn_Name = n\<rparr>"

theorem landscape_mirrors_cluster_witness:
  "mGet mem_store MSystem 5 (wModel (run_requests (dispatch mem_store mem_lib demo_converter)
      [(fmempty, ReqSystem (demo_nn ''x'') (Found (demo_system ''5''))),
       (fmempty, ReqWorkload Job (demo_nn ''x'') (Found (demo_object_meta ''x'' ''7'' fmempty))),
       (fmempty, ReqWorkload Job (demo_nn ''x'') NotFound)]
      \<lparr>wModel = [], wIndex = NewNameIndex\<rparr>)) \<noteq> None"
proof -
  let ?qs = "[(fmempty, ReqSystem (demo_nn ''x'') (Found (demo_system ''5''))),
       (fmempty, ReqWorkload Job (demo_nn ''x'') (Found (demo_object_meta ''x'' ''7'' fmempty))),
       (fmempty, ReqWorkload Job (demo_nn ''x'') NotFound)] :: (RuleRepo \<times> unit request) list"
  let ?w = "\<lparr>wModel = [], wIndex = NewNameIndex\<rparr> :: entity list world"
  let ?u = "\<lambda>(k, nn). (if k = MSystem then 5 else 7) :: uuid"
  let ?sgs = "map (\<lambda>q. (req_slot q, req_answer mem_lib (wIndex ?w) q)) ?qs"
  obtain x where x: "convertSystem mem_lib (demo_system ''5'') = Some (x, 5)" using demo_system_id by blast
  have "\<exists>y. componentInstanceFromMeta mem_lib (o_Meta (demo_object_meta ''x'' ''7'' fmempty)) = Some (y, 7)"
    by (simp add: componentInstanceFromMeta_def demo_object_meta_def parseOptionalUUID_def mem_lib_def hex_val_def Let_def)
  then obtain y where y: "componentInstanceFromMeta mem_lib (o_Meta (demo_object_meta ''x'' ''7'' fmempty)) = Some (y, 7)" ..
  have "stable ?u ?sgs"
    using x y by (auto simp: stable_def stable_answer_def answer_of_def sys_entity_def ci_entity_def
        IsOwnedByCronJob_def demo_object_meta_def inj_on_def idx_simps)
  moreover have "last_seen ?sgs (MSystem, demo_nn ''x'') None = Some (ESystem x)"
    using x by (simp add: answer_of_def sys_entity_def seen_def)
  ultimately show ?thesis
    using landscape_mirrors_cluster [of mem_store mem_lib ?u ?w ?qs MSystem "demo_nn ''x''" demo_converter]
    by (simp add: idx_simps) (simp add: mem_store_def)
qed

text \<open>
  (C26) Objects of different workload kinds share the name index. If a Deployment and a Job of one namespace
  have the same name, the Job overwrites the Deployment's index entry; when the Deployment is then
  deleted, the Job's component instance is removed although the Job exists, and the
  Deployment's instance stays in the model for ever. The same holds for any two different kinds.
\<close>

theorem workload_name_collision:
  assumes "store_laws M" and "accepts M MComponentInstance"
    and "ci_entity L (workload_skip k1) (wIndex w) nn a = Some (ea, ia)"
    and "ci_entity L (workload_skip k2) (wIndex w) nn b = Some (eb, ib)" and "ia \<noteq> ib"
  shows "mGet M MComponentInstance ib (wModel (run_requests (dispatch M L C)
       [(repo, ReqWorkload k1 nn (Found a)), (repo, ReqWorkload k2 nn (Found b)), (repo, ReqWorkload k1 nn NotFound)] w)) = None \<and>
     mGet M MComponentInstance ia (wModel (run_requests (dispatch M L C)
       [(repo, ReqWorkload k1 nn (Found a)), (repo, ReqWorkload k2 nn (Found b)), (repo, ReqWorkload k1 nn NotFound)] w)) = Some ea"
proof -
  let ?r = "\<lambda>k. WorkloadReconcile M L (tuObject C) (Some (NewRuleEvaluation repo (workload_resource k))) (workload_skip k) nn"
  let ?w1 = "snd (?r k1 (Found a) w)"
  let ?w2 = "snd (?r k2 (Found b) ?w1)"
  have e: "MComponentInstance \<notin> {MFinding, MFindingType}" by simp
  have b: "ci_entity L (workload_skip k2) (wIndex ?w1) nn b = Some (eb, ib)"
    using assms(4) workload_ctrl.conv_owner [OF workload_ctrl.owner_kept] by metis
  note s1 = workload_ctrl.found_sync [OF assms(1,2,3)] and s2 = workload_ctrl.found_sync [OF assms(1,2) b]
  have "mGet M MComponentInstance ia (wModel ?w2) = Some ea" using s1(3) [OF e] s2(3) [OF e] assms(5) by simp
  moreover have "Get (wIndex ?w2) KindComponentInstance (NNString L nn) = ib" using s2(2) by (simp add: idx_simps)
  moreover have "ib \<noteq> uuid_Nil" using workload_ctrl.conv_id [OF b] by blast
  ultimately show ?thesis
    using workload_ctrl.gone_sync(2) [OF assms(1) e, of _ L "tuObject C" "Some (NewRuleEvaluation repo (workload_resource k1))" "workload_skip k1" nn ?w2] assms(5)
    by simp
qed

theorem workload_name_collision_witness:
  "mGet mem_store MComponentInstance 7 (wModel (run_requests (dispatch mem_store mem_lib demo_converter)
       [(fmempty, ReqWorkload Deployment (demo_nn ''x'') (Found (demo_object_meta ''x'' ''5'' fmempty))),
        (fmempty, ReqWorkload Job (demo_nn ''x'') (Found (demo_object_meta ''x'' ''7'' fmempty))),
        (fmempty, ReqWorkload Deployment (demo_nn ''x'') NotFound)] \<lparr>wModel = [], wIndex = NewNameIndex\<rparr>)) = None"
proof -
  have "\<exists>e. ci_entity mem_lib (workload_skip Deployment) NewNameIndex (demo_nn ''x'') (demo_object_meta ''x'' ''5'' fmempty) = Some (e, 5)"
    and "\<exists>e. ci_entity mem_lib (workload_skip Job) NewNameIndex (demo_nn ''x'') (demo_object_meta ''x'' ''7'' fmempty) = Some (e, 7)"
    by (simp_all add: ci_entity_def componentInstanceFromMeta_def demo_object_meta_def parseOptionalUUID_def mem_lib_def
        hex_val_def IsOwnedByCronJob_def Let_def)
  then obtain e e' where
    "ci_entity mem_lib (workload_skip Deployment) NewNameIndex (demo_nn ''x'') (demo_object_meta ''x'' ''5'' fmempty) = Some (e, 5)"
    "ci_entity mem_lib (workload_skip Job) NewNameIndex (demo_nn ''x'') (demo_object_meta ''x'' ''7'' fmempty) = Some (e', 7)" by blast
  then show ?thesis
    using workload_name_collision [of mem_store mem_lib Deployment "\<lparr>wModel = [], wIndex = NewNameIndex\<rparr>" "demo_nn ''x''"
        "demo_object_meta ''x'' ''5'' fmempty" e 5 Job "demo_object_meta ''x'' ''7'' fmempty" e' 7 demo_converter fmempty] by simp
qed

end
