(* ===== verification/Glob.thy ===== *)
theory Glob
  imports Prelude
begin

text \<open>
  \<open>filepath.Match\<close> of the Go library on Unix, as the RBAC whitelist uses it, with the UTF-8 decoder
  it calls. The pattern is cut into chunks at the stars outside character classes. A malformed
  pattern is the value None. The lemmas show that a pattern is malformed independently of the
  name it is matched with, and what literal patterns and prefix patterns match.
\<close>

section \<open>UTF-8\<close>

definition RuneError :: nat where
  "RuneError = 0xFFFD"

definition byte_in :: "nat \<Rightarrow> nat \<Rightarrow> char \<Rightarrow> bool" where
  "byte_in lo hi c \<longleftrightarrow> lo \<le> of_char c \<and> of_char c \<le> hi"

text \<open>Range of the second byte after a first byte of three or four bytes.\<close>

definition second_range :: "nat \<Rightarrow> nat \<times> nat" where
  "second_range p0 =
     (if p0 = 0xE0 then (0xA0, 0xBF) else if p0 = 0xED then (0x80, 0x9F)
      else if p0 = 0xF0 then (0x90, 0xBF) else if p0 = 0xF4 then (0x80, 0x8F) else (0x80, 0xBF))"

text \<open>\<open>utf8.DecodeRuneInString\<close>: the rune and the number of bytes it takes.\<close>

fun DecodeRuneInString :: "string \<Rightarrow> nat \<times> nat" where
  "DecodeRuneInString [] = (RuneError, 0)"
| "DecodeRuneInString (c # cs) =
     (let p0 = of_char c :: nat; second = second_range p0
      in if p0 < 0x80 then (p0, 1)
         else if 0xC2 \<le> p0 \<and> p0 \<le> 0xDF then
           (case cs of
              b1 # _ \<Rightarrow> if byte_in 0x80 0xBF b1 then ((p0 mod 32) * 64 + of_char b1 mod 64, 2) else (RuneError, 1)
            | [] \<Rightarrow> (RuneError, 1))
         else if 0xE0 \<le> p0 \<and> p0 \<le> 0xEF then
           (case cs of
              b1 # b2 # _ \<Rightarrow>
                if byte_in (fst second) (snd second) b1 \<and> byte_in 0x80 0xBF b2
                then ((p0 mod 16) * 4096 + (of_char b1 mod 64) * 64 + of_char b2 mod 64, 3) else (RuneError, 1)
            | _ \<Rightarrow> (RuneError, 1))
         else if 0xF0 \<le> p0 \<and> p0 \<le> 0xF4 then
           (case cs of
              b1 # b2 # b3 # _ \<Rightarrow>
                if byte_in (fst second) (snd second) b1 \<and> byte_in 0x80 0xBF b2 \<and> byte_in 0x80 0xBF b3
                then ((p0 mod 8) * 262144 + (of_char b1 mod 64) * 4096 + (of_char b2 mod 64) * 64 + of_char b3 mod 64, 4)
                else (RuneError, 1)
            | _ \<Rightarrow> (RuneError, 1))
         else (RuneError, 1))"

lemma Decode_size_pos: "s \<noteq> [] \<Longrightarrow> 0 < snd (DecodeRuneInString s)"
  by (cases s) (auto simp: Let_def split: list.splits)

section \<open>Chunks\<close>

datatype chunk_result = BadPattern | ChunkNo | ChunkYes string

definition getEsc :: "string \<Rightarrow> (nat \<times> string) option" where
  "getEsc chunk =
     (case chunk of
        [] \<Rightarrow> None
      | c # cs \<Rightarrow>
          if c = CHR ''-'' \<or> c = CHR '']'' then None
          else
            (let chunk' = (if c = CHR 0x5C then cs else chunk)
             in if chunk' = [] then None
                else
                  (let (r, n) = DecodeRuneInString chunk'; nchunk = drop n chunk'
                   in if (r = RuneError \<and> n = 1) \<or> nchunk = [] then None else Some (r, nchunk))))"

lemma getEsc_shorter: "getEsc chunk = Some (r, rest) \<Longrightarrow> length rest < length chunk"
  using Decode_size_pos [of "if hd chunk = CHR 0x5C then tl chunk else chunk"]
  by (auto simp: getEsc_def Let_def split: list.splits if_splits prod.splits)

text \<open>The ranges of a class, up to its closing bracket: whether the rune is in one, and the rest.\<close>

function parseRanges :: "nat \<Rightarrow> string \<Rightarrow> bool \<Rightarrow> nat \<Rightarrow> (bool \<times> string) option" where
  "parseRanges r chunk matched nrange =
     (if chunk \<noteq> [] \<and> hd chunk = CHR '']'' \<and> 0 < nrange then Some (matched, tl chunk)
      else case getEsc chunk of
          None \<Rightarrow> None
        | Some (lo, chunk1) \<Rightarrow>
            (if hd chunk1 = CHR ''-'' then
               (case getEsc (tl chunk1) of
                  None \<Rightarrow> None
                | Some (hi, chunk2) \<Rightarrow> parseRanges r chunk2 (matched \<or> lo \<le> r \<and> r \<le> hi) (Suc nrange))
             else parseRanges r chunk1 (matched \<or> lo \<le> r \<and> r \<le> lo) (Suc nrange)))"
  by pat_completeness auto
termination
  by (relation "measure (\<lambda>(_, chunk, _). length chunk)") (auto dest!: getEsc_shorter)

declare parseRanges.simps [simp del]

lemma parseRanges_shorter:
  "parseRanges r chunk b n = Some (b', rest) \<Longrightarrow> length rest < length chunk"
proof (induction r chunk b n rule: parseRanges.induct)
  case (1 r chunk b n)
  show ?case
  proof (cases "chunk \<noteq> [] \<and> hd chunk = CHR '']'' \<and> 0 < n")
    case True
    with "1.prems" show ?thesis by (auto simp: parseRanges.simps [of r chunk])
  next
    case False
    with "1.prems" obtain lo chunk1 where g: "getEsc chunk = Some (lo, chunk1)"
      by (auto simp: parseRanges.simps [of r chunk] split: if_splits option.splits)
    note l1 = getEsc_shorter [OF g]
    show ?thesis
    proof (cases "hd chunk1 = CHR ''-''")
      case True
      with "1.prems" False g obtain hi chunk2 where h: "getEsc (tl chunk1) = Some (hi, chunk2)"
          and rec: "parseRanges r chunk2 (b \<or> lo \<le> r \<and> r \<le> hi) (Suc n) = Some (b', rest)"
        by (auto simp: parseRanges.simps [of r chunk] split: if_splits option.splits)
      from "1.IH"(1) [OF False g refl True h refl rec] getEsc_shorter [OF h] l1 show ?thesis by simp
    next
      case no: False
      with "1.prems" False g have rec: "parseRanges r chunk1 (b \<or> lo \<le> r \<and> r \<le> lo) (Suc n) = Some (b', rest)"
        by (auto simp: parseRanges.simps [of r chunk] split: if_splits)
      from "1.IH"(2) [OF False g refl no rec] l1 show ?thesis by simp
    qed
  qed
qed

text \<open>
  The loop of \<open>matchChunk\<close>: once the match has failed the rest of the chunk is only checked for
  its syntax.
\<close>

function matchLoop :: "bool \<Rightarrow> string \<Rightarrow> string \<Rightarrow> chunk_result" where
  "matchLoop failed [] s = (if failed then ChunkNo else ChunkYes s)"
| "matchLoop failed0 (c # cs) s =
     (let failed = (failed0 \<or> s = [])
      in if c = CHR ''['' then
           (let r = (if failed then 0 else fst (DecodeRuneInString s));
                s' = (if failed then s else drop (snd (DecodeRuneInString s)) s);
                negated = (cs \<noteq> [] \<and> hd cs = CHR ''^'');
                cs' = (if negated then tl cs else cs)
            in case parseRanges r cs' False 0 of
                 None \<Rightarrow> BadPattern
               | Some (matched, rest) \<Rightarrow> matchLoop (failed \<or> matched = negated) rest s')
         else if c = CHR ''?'' then
           (if failed then matchLoop True cs s
            else matchLoop (hd s = CHR ''/'') cs (drop (snd (DecodeRuneInString s)) s))
         else if c = CHR 0x5C then
           (case cs of
              [] \<Rightarrow> BadPattern
            | d # ds \<Rightarrow> if failed then matchLoop True ds s else matchLoop (d \<noteq> hd s) ds (tl s))
         else (if failed then matchLoop True cs s else matchLoop (c \<noteq> hd s) cs (tl s)))"
  by pat_completeness auto
termination
  by (relation "measure (\<lambda>(_, chunk, _). length chunk)", simp_all only: in_measure split_conv wf_measure)
    (auto dest!: parseRanges_shorter split: if_splits)

definition matchChunk :: "string \<Rightarrow> string \<Rightarrow> chunk_result" where
  "matchChunk chunk s = matchLoop False chunk s"

fun scan :: "bool \<Rightarrow> string \<Rightarrow> string \<times> string" where
  "scan inrange [] = ([], [])"
| "scan inrange (c # cs) =
     (if c = CHR 0x5C then
        (case cs of
           [] \<Rightarrow> ([c], [])
         | d # ds \<Rightarrow> (let (a, b) = scan inrange ds in (c # d # a, b)))
      else if c = CHR ''*'' \<and> \<not> inrange then ([], c # cs)
      else
        (let (a, b) = scan (if c = CHR ''['' then True else if c = CHR '']'' then False else inrange) cs
         in (c # a, b)))"

definition scanChunk :: "string \<Rightarrow> bool \<times> string \<times> string" where
  "scanChunk pattern =
     (let p = dropWhile (\<lambda>c. c = CHR ''*'') pattern; (chunk, rest) = scan False p
      in (p \<noteq> pattern, chunk, rest))"

lemma scan_rest: "length (snd (scan b p)) \<le> length p"
proof (induction b p rule: scan.induct)
  case (2 b c cs)
  show ?case
  proof (cases "c = CHR 0x5C")
    case True
    with "2.IH"(1) show ?thesis by (cases cs) (auto simp: case_prod_beta Let_def)
  next
    case False
    with "2.IH"(2) show ?thesis by (auto simp: case_prod_beta Let_def)
  qed
qed simp

lemma scan_progress:
  assumes "p \<noteq> []" and "hd p \<noteq> CHR ''*''"
  shows "length (snd (scan False p)) < length p"
proof (cases p)
  case (Cons c cs)
  have 1: "length (snd (scan b cs)) < Suc (length cs)" for b
    using scan_rest [of b cs] by simp
  have 2: "length (snd (scan b (tl cs))) < Suc (length cs)" for b
    using scan_rest [of b "tl cs"] by simp
  from 1 2 Cons assms show ?thesis by (cases cs) (auto simp: case_prod_beta Let_def)
qed (use assms in simp)

section \<open>Match\<close>

text \<open>Look for a match of the chunk after skipping bytes that are not separators.\<close>

fun skipSearch :: "string \<Rightarrow> bool \<Rightarrow> string \<Rightarrow> chunk_result" where
  "skipSearch chunk isLast [] = ChunkNo"
| "skipSearch chunk isLast (x # xs) =
     (if x = CHR ''/'' then ChunkNo
      else case matchChunk chunk xs of
          ChunkYes t \<Rightarrow> if isLast \<and> t \<noteq> [] then skipSearch chunk isLast xs else ChunkYes t
        | BadPattern \<Rightarrow> BadPattern
        | ChunkNo \<Rightarrow> skipSearch chunk isLast xs)"

lemma scanChunk_shorter:
  assumes "pattern \<noteq> []"
  shows "length (snd (snd (scanChunk pattern))) < length pattern"
proof -
  let ?p = "dropWhile (\<lambda>c. c = CHR ''*'') pattern"
  have l: "length ?p \<le> length pattern" by (rule length_dropWhile_le)
  show ?thesis
  proof (cases "?p = []")
    case True
    then have "snd (snd (scanChunk pattern)) = []" by (simp only: scanChunk_def Let_def) simp
    with assms show ?thesis by simp
  next
    case False
    then have "length (snd (scan False ?p)) < length ?p" by (intro scan_progress False) (rule hd_dropWhile [OF False])
    with l show ?thesis by (simp add: scanChunk_def Let_def case_prod_beta)
  qed
qed

text \<open>No match: the rest of the pattern is checked for its syntax.\<close>

function checkRest :: "string \<Rightarrow> bool option" where
  "checkRest pattern =
     (if pattern = [] then Some False
      else
        (let (star, chunk, rest) = scanChunk pattern
         in if matchChunk chunk [] = BadPattern then None else checkRest rest))"
  by pat_completeness auto
termination
  by (relation "measure length") (auto dest: scanChunk_shorter split: prod.splits, metis scanChunk_shorter snd_conv)

declare checkRest.simps [simp del]

text \<open>\<open>filepath.Match\<close>: None is \<open>ErrBadPattern\<close>.\<close>

function Match :: "string \<Rightarrow> string \<Rightarrow> bool option" where
  "Match pattern name =
     (if pattern = [] then Some (name = [])
      else
        (let (star, chunk, rest) = scanChunk pattern
         in if star \<and> chunk = [] then Some (CHR ''/'' \<notin> set name)
            else case matchChunk chunk name of
                BadPattern \<Rightarrow> None
              | ChunkYes t \<Rightarrow>
                  if t = [] \<or> rest \<noteq> [] then Match rest t
                  else if star then
                    (case skipSearch chunk (rest = []) name of
                       BadPattern \<Rightarrow> None | ChunkYes t' \<Rightarrow> Match rest t' | ChunkNo \<Rightarrow> checkRest rest)
                  else checkRest rest
              | ChunkNo \<Rightarrow>
                  if star then
                    (case skipSearch chunk (rest = []) name of
                       BadPattern \<Rightarrow> None | ChunkYes t' \<Rightarrow> Match rest t' | ChunkNo \<Rightarrow> checkRest rest)
                  else checkRest rest))"
  by pat_completeness auto
termination
proof (relation "measure (\<lambda>(pattern, _). length pattern)", goal_cases)
  case 1 show ?case by simp
qed (metis in_measure scanChunk_shorter snd_conv split_conv)+

declare Match.simps [simp del]

section \<open>A pattern is malformed independently of the name\<close>

lemma parseRanges_syntax:
  "map_option snd (parseRanges r chunk b n) = map_option snd (parseRanges r' chunk b' n)"
proof (induction r chunk b n arbitrary: b' rule: parseRanges.induct)
  case (1 r chunk b n)
  show ?case
  proof (cases "chunk \<noteq> [] \<and> hd chunk = CHR '']'' \<and> 0 < n")
    case True
    then show ?thesis by (simp add: parseRanges.simps [of _ chunk])
  next
    case False
    note IH = "1.IH" [OF False]
    show ?thesis
    proof (cases "getEsc chunk")
      case None
      with False show ?thesis by (auto simp: parseRanges.simps [of _ chunk])
    next
      case (Some lc)
      then obtain lo chunk1 where g: "getEsc chunk = Some (lo, chunk1)" by (cases lc) auto
      show ?thesis
      proof (cases "hd chunk1 = CHR ''-''")
        case True
        show ?thesis
        proof (cases "getEsc (tl chunk1)")
          case None
          with False g True show ?thesis by (auto simp: parseRanges.simps [of _ chunk])
        next
          case (Some hc)
          then obtain hi chunk2 where h: "getEsc (tl chunk1) = Some (hi, chunk2)" by (cases hc) auto
          have "map_option snd (parseRanges r chunk b n) =
              map_option snd (parseRanges r chunk2 (b \<or> lo \<le> r \<and> r \<le> hi) (Suc n))"
            using False g True h by (auto simp: parseRanges.simps [of _ chunk])
          also have "\<dots> = map_option snd (parseRanges r' chunk2 (b' \<or> lo \<le> r' \<and> r' \<le> hi) (Suc n))"
            by (rule IH(1) [OF g refl True h refl])
          also have "\<dots> = map_option snd (parseRanges r' chunk b' n)"
            using False g True h by (auto simp: parseRanges.simps [of _ chunk])
          finally show ?thesis .
        qed
      next
        case no: False
        have "map_option snd (parseRanges r chunk b n) =
            map_option snd (parseRanges r chunk1 (b \<or> lo \<le> r \<and> r \<le> lo) (Suc n))"
          using False g no by (auto simp: parseRanges.simps [of _ chunk])
        also have "\<dots> = map_option snd (parseRanges r' chunk1 (b' \<or> lo \<le> r' \<and> r' \<le> lo) (Suc n))"
          by (rule IH(2) [OF g refl no])
        also have "\<dots> = map_option snd (parseRanges r' chunk b' n)"
          using False g no by (auto simp: parseRanges.simps [of _ chunk])
        finally show ?thesis .
      qed
    qed
  qed
qed

definition bad_chunk :: "string \<Rightarrow> bool" where
  "bad_chunk chunk \<longleftrightarrow> matchLoop True chunk [] = BadPattern"

lemma matchLoop_bad: "(matchLoop failed chunk s = BadPattern) = bad_chunk chunk"
proof (induction failed chunk s rule: matchLoop.induct)
  case (1 failed s)
  show ?case by (simp add: bad_chunk_def)
next
  case (2 failed0 c cs s)
  let ?f = "failed0 \<or> s = []"
  let ?neg = "cs \<noteq> [] \<and> hd cs = CHR ''^''"
  let ?cs = "if ?neg then tl cs else cs"
  show ?case
  proof (cases "c = CHR ''[''")
    case True
    define r where "r = (if ?f then 0 else fst (DecodeRuneInString s))"
    define s' where "s' = (if ?f then s else drop (snd (DecodeRuneInString s)) s)"
    have syn: "map_option snd (parseRanges r ?cs False 0) = map_option snd (parseRanges 0 ?cs False 0)"
      by (rule parseRanges_syntax)
    have IH: "(matchLoop (?f \<or> m = ?neg) rest s' = BadPattern) = bad_chunk rest"
      if "parseRanges r ?cs False 0 = Some (m, rest)" for m rest
      using "2.IH"(1) [OF refl True refl refl refl refl, of "(m, rest)" m rest] that
      by (simp add: r_def s'_def)
    have l: "matchLoop failed0 (c # cs) s = (case parseRanges r ?cs False 0 of None \<Rightarrow> BadPattern
        | Some (m, rest) \<Rightarrow> matchLoop (?f \<or> m = ?neg) rest s')"
      unfolding matchLoop.simps(2) Let_def r_def s'_def by (simp only: True if_True refl)
    have rr: "bad_chunk (c # cs) \<longleftrightarrow> (case parseRanges 0 ?cs False 0 of None \<Rightarrow> True
        | Some (m, rest) \<Rightarrow> bad_chunk rest)"
      using True by (auto simp: bad_chunk_def Let_def split: option.splits)
    show ?thesis unfolding l rr using IH syn by (auto split: option.splits)
  next
    case False
    then show ?thesis
      using "2.IH"(2-) by (cases cs) (auto simp: bad_chunk_def Let_def)
  qed
qed

lemma matchChunk_bad: "matchChunk chunk s = BadPattern \<longleftrightarrow> bad_chunk chunk"
  by (simp add: matchChunk_def matchLoop_bad)

lemma skipSearch_bad: "\<not> bad_chunk chunk \<Longrightarrow> skipSearch chunk b s \<noteq> BadPattern"
  by (induction s) (auto simp: matchChunk_bad split: chunk_result.splits)

lemma Match_total:
  "checkRest pattern \<noteq> None \<Longrightarrow> Match pattern name \<noteq> None"
proof (induction pattern name rule: Match.induct)
  case (1 pattern name)
  show ?case
  proof (cases "pattern = []")
    case True
    then show ?thesis by (simp add: Match.simps)
  next
    case False
    obtain star chunk rest where sc: "scanChunk pattern = (star, chunk, rest)"
      by (cases "scanChunk pattern")
    with "1.prems" False have nb: "\<not> bad_chunk chunk" and cr: "checkRest rest \<noteq> None"
      by (auto simp: checkRest.simps [of pattern] matchChunk_bad split: if_splits)
    note IH = "1.IH" [OF False sc [symmetric] refl refl]
    show ?thesis
    proof (cases "star \<and> chunk = []")
      case True
      with False sc show ?thesis by (simp add: Match.simps [of pattern])
    next
      case nstar: False
      have sb: "skipSearch chunk (rest = []) name \<noteq> BadPattern" and mb: "matchChunk chunk name \<noteq> BadPattern"
        using nb by (simp_all add: skipSearch_bad matchChunk_bad)
      have "Match rest t \<noteq> None" if "matchChunk chunk name = ChunkYes t" "t = [] \<or> rest \<noteq> []" for t
        using IH(2) [OF nstar that cr] .
      moreover have "Match rest t' \<noteq> None" if "matchChunk chunk name = ChunkYes t" "\<not> (t = [] \<or> rest \<noteq> [])" star
          "skipSearch chunk (rest = []) name = ChunkYes t'" for t t'
        using IH(3) [OF nstar that cr] .
      moreover have "Match rest t' \<noteq> None" if "matchChunk chunk name = ChunkNo" star
          "skipSearch chunk (rest = []) name = ChunkYes t'" for t'
        using IH(1) [OF nstar that cr] .
      ultimately show ?thesis
        using False sc nstar sb mb cr
        by (auto simp: Match.simps [of pattern] Let_def split: chunk_result.splits)
    qed
  qed
qed

lemma Match_syntax:
  assumes "Match pattern [] \<noteq> None"
  shows "checkRest pattern \<noteq> None"
proof (cases "pattern = []")
  case True
  then show ?thesis by (simp add: checkRest.simps)
next
  case False
  obtain star chunk rest where sc: "scanChunk pattern = (star, chunk, rest)"
    by (cases "scanChunk pattern")
  show ?thesis
  proof (cases "chunk = []")
    case True
    have "rest = []"
    proof (rule ccontr)
      assume "rest \<noteq> []"
      let ?p = "dropWhile (\<lambda>c. c = CHR ''*'') pattern"
      from sc True have s: "scan False ?p = ([], rest)"
        by (simp only: scanChunk_def Let_def case_prod_beta prod.inject) (metis prod.collapse)
      with \<open>rest \<noteq> []\<close> have ne: "?p \<noteq> []" by (intro notI) (simp only: scan.simps prod.inject, simp)
      obtain c cs where p: "?p = c # cs" using ne by (cases ?p) auto
      with hd_dropWhile [OF ne] have "c \<noteq> CHR ''*''" by (metis list.sel(1))
      with s p show False by (auto simp: case_prod_beta Let_def split: if_splits list.splits)
    qed
    with sc True False show ?thesis
      by (simp add: checkRest.simps [of pattern] checkRest.simps [of "[]"] matchChunk_bad bad_chunk_def)
  next
    case nonempty: False
    then obtain c cs where chunk: "chunk = c # cs" by (cases chunk) auto
    have fail: "matchChunk chunk [] \<noteq> ChunkYes t" for t
    proof -
      have "matchLoop True q s \<noteq> ChunkYes t" for q s
        by (induction True q s rule: matchLoop.induct) (auto simp: Let_def split: option.splits list.splits)
      then show ?thesis using chunk by (auto simp: matchChunk_def Let_def split: option.splits list.splits)
    qed
    have step: "Match pattern [] = (if bad_chunk chunk then None else checkRest rest)"
      using fail sc False nonempty matchChunk_bad [of chunk "[]"]
      by (auto simp: Match.simps [of pattern] split: chunk_result.splits)
    with assms sc False show ?thesis
      by (auto simp: checkRest.simps [of pattern] matchChunk_bad split: if_splits)
  qed
qed

text \<open>Checking a pattern on the empty name is enough: it then never fails on any name.\<close>

lemma Match_valid: "Match pattern [] \<noteq> None \<Longrightarrow> Match pattern name \<noteq> None"
  by (rule Match_total [OF Match_syntax])

section \<open>Literal and prefix patterns\<close>

definition literal :: "string \<Rightarrow> bool" where
  "literal p \<longleftrightarrow> list_all (\<lambda>c. c \<noteq> CHR ''*'' \<and> c \<noteq> CHR ''?'' \<and> c \<noteq> CHR ''['' \<and> c \<noteq> CHR 0x5C) p"

lemma matchLoop_literal:
  "literal p \<Longrightarrow> matchLoop f p s =
     (if \<not> f \<and> HasPrefix s p then ChunkYes (drop (length p) s) else ChunkNo)"
proof (induction p arbitrary: f s)
  case (Cons c p)
  then have lit: "literal p" and c: "c \<noteq> CHR ''?''" "c \<noteq> CHR ''[''" "c \<noteq> CHR 0x5C"
    by (simp_all add: literal_def)
  note IH = Cons.IH [OF lit]
  show ?case
  proof (cases s)
    case Nil
    with c show ?thesis by (simp add: IH Let_def HasPrefix_def)
  next
    case (Cons x xs)
    have "HasPrefix s (c # p) \<longleftrightarrow> c = x \<and> HasPrefix xs p" using Cons by (auto simp: HasPrefix_def)
    with c Cons show ?thesis by (auto simp: IH Let_def)
  qed
qed simp

lemma scan_literal:
  "literal p \<Longrightarrow> scan False p = (p, [])"
  "literal p \<Longrightarrow> scan False (p @ ''*'') = (p, ''*'')"
  by (induction p) (auto simp: literal_def)

lemma scanChunk_literal:
  assumes "literal p"
  shows "scanChunk p = (False, p, [])" and "p \<noteq> [] \<Longrightarrow> scanChunk (p @ ''*'') = (False, p, ''*'')"
proof -
  have d: "dropWhile (\<lambda>c. c = CHR ''*'') p = p" using assms by (cases p) (auto simp: literal_def)
  then show "scanChunk p = (False, p, [])" by (simp add: scanChunk_def scan_literal [OF assms])
  assume "p \<noteq> []"
  then have "dropWhile (\<lambda>c. c = CHR ''*'') (p @ ''*'') = p @ ''*''"
    using assms by (cases p) (auto simp: literal_def)
  then show "scanChunk (p @ ''*'') = (False, p, ''*'')"
    by (simp only: scanChunk_def Let_def scan_literal [OF assms]) simp
qed

lemma star_pattern: "scanChunk ''*'' = (True, [], [])"
  by (simp add: scanChunk_def)

lemma Match_star: "Match ''*'' name = Some (CHR ''/'' \<notin> set name)"
  by (simp add: Match.simps star_pattern)

lemma checkRest_simps [simp]: "checkRest [] = Some False" "checkRest ''*'' = Some False"
  by (simp_all add: checkRest.simps star_pattern matchChunk_bad bad_chunk_def)

lemma Match_literal: "literal p \<Longrightarrow> Match p name = Some (name = p)"
proof (cases "p = []")
  case False
  assume lit: "literal p"
  have "Match p name = (if HasPrefix name p \<and> drop (length p) name = [] then Some True else Some False)"
    using False by (simp add: Match.simps [of p] scanChunk_literal(1) [OF lit] matchChunk_def
        matchLoop_literal [OF lit] Match.simps [of "[]"])
  then show ?thesis by (auto simp: go_str)
qed (simp add: Match.simps)

lemma Match_prefix:
  assumes "literal p"
  shows "Match (p @ ''*'') name =
     Some (HasPrefix name p \<and> CHR ''/'' \<notin> set (drop (length p) name))"
proof (cases "p = []")
  case False
  then show ?thesis
    by (simp add: Match.simps [of "p @ ''*''"] scanChunk_literal(2) [OF assms] matchChunk_def
        matchLoop_literal [OF assms] Match_star)
qed (simp add: Match_star)

end
