(* ===== verification/Whitelist.thy ===== *)
theory Whitelist
  imports Externals Glob
begin

text \<open>
  \<open>internal/controller/rbac_whitelist.go\<close>: name patterns of RBAC objects that raise no
  findings. Reading the file and decoding its YAML are arguments of \<open>LoadRBACWhitelist\<close>. The nil
  whitelist is None.
\<close>

record RBACWhitelist =
  wl_Roles :: "string list"
  wl_ClusterRoles :: "string list"
  wl_RoleBindings :: "string list"
  wl_ClusterRoleBindings :: "string list"

definition emptyWhitelist :: RBACWhitelist where
  "emptyWhitelist = \<lparr>wl_Roles = [], wl_ClusterRoles = [], wl_RoleBindings = [], wl_ClusterRoleBindings = []\<rparr>"

definition patterns_for :: "RBACWhitelist \<Rightarrow> string \<Rightarrow> string list option" where
  "patterns_for wl kind =
     (if kind = ''Role'' then Some (wl_Roles wl)
      else if kind = ''ClusterRole'' then Some (wl_ClusterRoles wl)
      else if kind = ''RoleBinding'' then Some (wl_RoleBindings wl)
      else if kind = ''ClusterRoleBinding'' then Some (wl_ClusterRoleBindings wl)
      else None)"

text \<open>The error of \<open>Match\<close> is dropped: a malformed pattern matches nothing.\<close>

definition IsWhitelisted :: "RBACWhitelist option \<Rightarrow> string \<Rightarrow> string \<Rightarrow> bool" where
  "IsWhitelisted wl kind name =
     (case wl of
        None \<Rightarrow> False
      | Some w \<Rightarrow>
          (case patterns_for w kind of
             None \<Rightarrow> False
           | Some patterns \<Rightarrow> list_ex (\<lambda>pattern. Match pattern name = Some True) patterns))"

fun first_invalid :: "string list \<Rightarrow> string option" where
  "first_invalid [] = None"
| "first_invalid (p # ps) = (if Match p [] = None then Some p else first_invalid ps)"

fun validate_fields :: "(string \<times> string list) list \<Rightarrow> error option" where
  "validate_fields [] = None"
| "validate_fields ((field, patterns) # fs) =
     (case first_invalid patterns of
        Some p \<Rightarrow> Some (ErrWrap (field @ '': invalid pattern '' @ goQuote p @ '': '') (ErrText ''syntax error in pattern''))
      | None \<Rightarrow> validate_fields fs)"

definition validate :: "RBACWhitelist \<Rightarrow> error option" where
  "validate wl =
     validate_fields [(''roles'', wl_Roles wl), (''clusterRoles'', wl_ClusterRoles wl),
       (''roleBindings'', wl_RoleBindings wl), (''clusterRoleBindings'', wl_ClusterRoleBindings wl)]"

definition LoadRBACWhitelist ::
    "(string \<Rightarrow> error + string) \<Rightarrow> (string \<Rightarrow> error + RBACWhitelist) \<Rightarrow> string \<Rightarrow> error + RBACWhitelist" where
  "LoadRBACWhitelist ReadFile Unmarshal path =
     (if path = [] then Inr emptyWhitelist
      else case ReadFile path of
          Inl err \<Rightarrow> Inl err
        | Inr text \<Rightarrow>
            (case Unmarshal text of
               Inl err \<Rightarrow> Inl err
             | Inr wl \<Rightarrow> (case validate wl of Some err \<Rightarrow> Inl err | None \<Rightarrow> Inr wl)))"

section \<open>Properties\<close>

lemma first_invalid_None: "first_invalid ps = None \<longleftrightarrow> (\<forall>p\<in>set ps. Match p [] \<noteq> None)"
  by (induction ps) auto

lemma validate_fields_None:
  "validate_fields fs = None \<longleftrightarrow> (\<forall>(f, ps)\<in>set fs. \<forall>p\<in>set ps. Match p [] \<noteq> None)"
proof (induction fs rule: validate_fields.induct)
  case (2 field patterns fs)
  then show ?case
    using first_invalid_None [of patterns] by (cases "first_invalid patterns") auto
qed simp

text \<open>
  (C28) A whitelist that was loaded has no malformed pattern: for every kind, every pattern and every
  resource name, \<open>filepath.Match\<close> returns no error. So the error that \<open>IsWhitelisted\<close> drops never
  occurs, although \<open>validate\<close> tries each pattern on the empty name only.
\<close>

theorem loaded_whitelist_never_malformed:
  assumes "LoadRBACWhitelist ReadFile Unmarshal path = Inr wl"
    and "patterns_for wl kind = Some ps" and "p \<in> set ps"
  shows "Match p name \<noteq> None"
proof -
  have "validate wl = None \<or> wl = emptyWhitelist"
    using assms(1) by (auto simp: LoadRBACWhitelist_def split: if_splits sum.splits option.splits)
  then have "Match p [] \<noteq> None"
    using assms(2,3) unfolding validate_def validate_fields_None
    by (auto simp: patterns_for_def emptyWhitelist_def split: if_splits)
  then show ?thesis by (rule Match_valid)
qed

theorem loaded_whitelist_never_malformed_witness:
  "Match ''system:*'' ''system:node'' \<noteq> None"
proof -
  let ?wl = "\<lparr>wl_Roles = [''system:*''], wl_ClusterRoles = [], wl_RoleBindings = [], wl_ClusterRoleBindings = []\<rparr>"
  have "Match ''system:*'' [] = Some False"
    using Match_prefix [of "''system:''" "[]"] by (simp add: literal_def HasPrefix_def)
  then have "LoadRBACWhitelist (\<lambda>_. Inr ''x'') (\<lambda>_. Inr ?wl) ''wl.yaml'' = Inr ?wl"
    by (simp add: LoadRBACWhitelist_def validate_def)
  then show ?thesis
    by (rule loaded_whitelist_never_malformed [where kind = "''Role''" and ps = "[''system:*'']"])
      (simp_all add: patterns_for_def)
qed

text \<open>A pattern as it is written in the examples: a literal name or a literal prefix followed by a star.\<close>

definition simple_pattern :: "string \<times> bool \<Rightarrow> string" where
  "simple_pattern ps = fst ps @ (if snd ps then ''*'' else [])"

text \<open>
  (C29) What a whitelist of such patterns suppresses. A resource is whitelisted exactly if its name is one
  of the literal names of its kind, or starts with one of the prefixes and has no slash after it;
  without a whitelist, and for a kind that is not one of the four RBAC kinds, nothing is.
\<close>

theorem whitelist_patterns:
  assumes "\<And>p s. (p, s) \<in> set specs \<Longrightarrow> literal p"
    and "patterns_for wl kind = Some (map simple_pattern specs)"
  shows "IsWhitelisted (Some wl) kind name \<longleftrightarrow>
     (\<exists>(p, star) \<in> set specs.
        if star then HasPrefix name p \<and> CHR ''/'' \<notin> set (drop (length p) name) else name = p)"
proof -
  let ?hit = "\<lambda>(p, star). if star then HasPrefix name p \<and> CHR ''/'' \<notin> set (drop (length p) name) else name = p"
  have "(Match (simple_pattern ps) name = Some True) = ?hit ps" if "ps \<in> set specs" for ps
    using assms(1) [of "fst ps" "snd ps"] that
    by (auto simp: simple_pattern_def Match_literal Match_prefix case_prod_beta)
  then have "(\<exists>ps\<in>set specs. Match (simple_pattern ps) name = Some True) = (\<exists>ps\<in>set specs. ?hit ps)"
    by (rule bex_cong [OF refl])
  then show ?thesis using assms(2) by (simp add: IsWhitelisted_def list_ex_iff)
qed

theorem whitelist_patterns_witness:
  "IsWhitelisted (Some \<lparr>wl_Roles = [], wl_ClusterRoles = [''system:*'', ''admin''], wl_RoleBindings = [],
      wl_ClusterRoleBindings = []\<rparr>) ''ClusterRole'' ''system:node''"
proof -
  let ?specs = "[(''system:'', True), (''admin'', False)]"
  let ?wl = "\<lparr>wl_Roles = [], wl_ClusterRoles = [''system:*'', ''admin''], wl_RoleBindings = [],
      wl_ClusterRoleBindings = []\<rparr>"
  have lit: "literal p" if "(p, s) \<in> set ?specs" for p s
    using that by (auto simp: literal_def)
  have "patterns_for ?wl ''ClusterRole'' = Some (map simple_pattern ?specs)"
    by (simp add: patterns_for_def simple_pattern_def)
  from whitelist_patterns [where specs = ?specs and name = "''system:node''", OF lit this] show ?thesis
    by (simp add: HasPrefix_def)
qed

end
