(* ===== verification/Rbac_Controllers.thy ===== *)
theory Rbac_Controllers
  imports Reconcilers Whitelist
begin

text \<open>
  \<open>role_controller.go\<close> and \<open>rolebinding_controller.go\<close>. A binding may arrive before its role: it then
  waits in the pending sets of the name index, and the role controller puts it into the
  requeue channel of the binding controller when the role arrives. The channels, of capacity 64,
  are part of the state. The handler of a binding is cut into the phases between its accesses to the
  index, so that the interleaving with a role can be stated; \<open>RoleBindingReconcile\<close> runs them in one go.
\<close>

section \<open>Data\<close>

datatype binding_kind = RoleBindingKind | ClusterRoleBindingKind

fun binding_kind_name :: "binding_kind \<Rightarrow> string" where
  "binding_kind_name RoleBindingKind = ''RoleBinding''"
| "binding_kind_name ClusterRoleBindingKind = ''ClusterRoleBinding''"

record RoleBinding =
  rb_Meta :: ObjectMeta
  rb_RoleRefKind :: string
  rb_RoleRefName :: string
  rb_SubjectKinds :: "string list"

record 'm rbac =
  rbModel :: 'm
  rbIndex :: NameIndex
  rbQueue :: "binding_kind \<Rightarrow> NamespacedName list"

section \<open>The requeue channel\<close>

fun parseNamespacedName :: "string \<Rightarrow> NamespacedName" where
  "parseNamespacedName s =
     (case dropWhile (\<lambda>c. c \<noteq> CHR ''/'') s of
        [] \<Rightarrow> \<lparr>nn_Namespace = [], nn_Name = s\<rparr>
      | _ # rest \<Rightarrow> \<lparr>nn_Namespace = takeWhile (\<lambda>c. c \<noteq> CHR ''/'') s, nn_Name = rest\<rparr>)"

declare parseNamespacedName.simps [simp del]

definition IsClusterScoped :: "binding_kind \<Rightarrow> bool" where
  "IsClusterScoped k \<longleftrightarrow> binding_kind_name k = ''ClusterRoleBinding''"

definition requeue_capacity :: nat where
  "requeue_capacity = 64"

text \<open>A full channel drops the event.\<close>

definition EnqueueBinding :: "string \<Rightarrow> binding_kind \<Rightarrow> 'm rbac \<Rightarrow> 'm rbac" where
  "EnqueueBinding nameKey k s =
     (let nn = parseNamespacedName nameKey
      in if length (rbQueue s k) < requeue_capacity
         then s\<lparr>rbQueue := (rbQueue s)(k := rbQueue s k @ [nn])\<rparr> else s)"

fun enqueue_matching :: "string \<Rightarrow> binding_kind list \<Rightarrow> 'm rbac \<Rightarrow> 'm rbac" where
  "enqueue_matching bindingName [] s = s"
| "enqueue_matching bindingName (k # ks) s =
     enqueue_matching bindingName ks
       (if IsClusterScoped k = (nn_Namespace (parseNamespacedName bindingName) = [])
        then EnqueueBinding bindingName k s else s)"

fun enqueue_all :: "binding_kind list \<Rightarrow> string list \<Rightarrow> 'm rbac \<Rightarrow> 'm rbac" where
  "enqueue_all ks [] s = s"
| "enqueue_all ks (b # bs) s = enqueue_all ks bs (enqueue_matching b ks s)"

section \<open>Roles\<close>

definition roleSpecFindingID :: "lib \<Rightarrow> uuid \<Rightarrow> uuid" where
  "roleSpecFindingID L roleID = NewSHA1 L MissingRoleSpecAnnotationFindingTypeID (uuid_bytes roleID)"

definition roleSpecFinding :: "lib \<Rightarrow> string \<Rightarrow> uuid \<Rightarrow> ObjectMeta \<Rightarrow> MFindingR" where
  "roleSpecFinding L kind roleID obj =
     \<lparr>f_Id = roleSpecFindingID L roleID,
      f_DisplayName = ''Missing RoleSpec annotation on '' @ kind @ ''/'' @ Name obj,
      f_Description = ''The '' @ kind @ '' '' @ goQuote (Name obj) @ '' does not have the '' @
        AnnotationRoleSpecID @ '' annotation set to a valid RoleSpec UUID.'',
      f_Type = Some MissingRoleSpecAnnotationFindingTypeID,
      f_Resources = [\<lparr>rr_ResourceId = roleID, rr_ResourceType = RoleResource\<rparr>],
      f_Annotations = fmempty\<rparr>"

definition reconcileRoleSpecFinding ::
    "'m modelsrv \<Rightarrow> lib \<Rightarrow> RBACWhitelist option \<Rightarrow> string \<Rightarrow> uuid \<Rightarrow> ObjectMeta \<Rightarrow> 'm \<Rightarrow> 'm" where
  "reconcileRoleSpecFinding M L wl kind roleID obj m =
     (if IsWhitelisted wl kind (Name obj) then DeleteFindingById M (roleSpecFindingID L roleID) m
      else
        (let specID = annotationUUID L (Annotations obj) AnnotationRoleSpecID
         in if specID \<noteq> uuid_Nil then DeleteFindingById M (roleSpecFindingID L roleID) m
            else AddFinding M (roleSpecFinding L kind roleID obj) m))"

definition RoleReconcile ::
    "'m modelsrv \<Rightarrow> lib \<Rightarrow> range_order \<Rightarrow> RBACWhitelist option \<Rightarrow> string \<Rightarrow> binding_kind list \<Rightarrow>
     NamespacedName \<Rightarrow> ObjectMeta get_result \<Rightarrow> 'm rbac \<Rightarrow> error option \<times> 'm rbac" where
  "RoleReconcile M L ord wl kind bindingReconcilers nn got s =
     (case got of
        Found obj \<Rightarrow>
          (case roleFromRBAC L obj of
             None \<Rightarrow> (None, s)
           | Some (role, i) \<Rightarrow>
               (case mAdd M (ERole role) (rbModel s) of
                  (Some err, m) \<Rightarrow> (Some err, s\<lparr>rbModel := m\<rparr>)
                | (None, m) \<Rightarrow>
                    (let indexKey = roleIndexKey nn;
                         idx = Put (rbIndex s) KindRole indexKey i;
                         m' = reconcileRoleSpecFinding M L wl kind i obj m;
                         resolved = ResolvePendingBindings ord idx indexKey
                     in (None, enqueue_all bindingReconcilers (fst resolved)
                                 (s\<lparr>rbModel := m', rbIndex := snd resolved\<rparr>)))))
      | NotFound \<Rightarrow>
          (case Delete (rbIndex s) KindRole (roleIndexKey nn) of
             (i, idx) \<Rightarrow>
               if i = uuid_Nil then (None, s\<lparr>rbIndex := idx\<rparr>)
               else
                 (let m1 = DeleteFindingById M (roleSpecFindingID L i) (rbModel s)
                  in case mDelete M MRole i m1 of
                       (r, m) \<Rightarrow> (ignore_not_found MRole r, s\<lparr>rbModel := m, rbIndex := idx\<rparr>)))
      | GetError err \<Rightarrow> (Some (ErrText err), s))"

section \<open>Bindings\<close>

definition subjectFindingID :: "lib \<Rightarrow> uuid \<Rightarrow> uuid" where
  "subjectFindingID L bindingID = NewSHA1 L MissingSubjectAnnotationFindingTypeID (uuid_bytes bindingID)"

definition subjectFinding :: "lib \<Rightarrow> string \<Rightarrow> uuid \<Rightarrow> ObjectMeta \<Rightarrow> MFindingR" where
  "subjectFinding L kind bindingID obj =
     \<lparr>f_Id = subjectFindingID L bindingID,
      f_DisplayName = ''Missing subject annotation on '' @ kind @ ''/'' @ Name obj,
      f_Description = ''The '' @ kind @ '' '' @ goQuote (Name obj) @ '' does not have the '' @
        AnnotationSubjectID @ '' annotation set to a valid Group or Identity UUID.'',
      f_Type = Some MissingSubjectAnnotationFindingTypeID,
      f_Resources = [\<lparr>rr_ResourceId = bindingID, rr_ResourceType = BindingResource\<rparr>],
      f_Annotations = fmempty\<rparr>"

definition reconcileSubjectFinding ::
    "'m modelsrv \<Rightarrow> lib \<Rightarrow> RBACWhitelist option \<Rightarrow> string \<Rightarrow> uuid \<Rightarrow> ObjectMeta \<Rightarrow> 'm \<Rightarrow> 'm" where
  "reconcileSubjectFinding M L wl kind bindingID obj m =
     (if IsWhitelisted wl kind (Name obj) then DeleteFindingById M (subjectFindingID L bindingID) m
      else
        (let subjectID = annotationUUID L (Annotations obj) AnnotationSubjectID
         in if subjectID \<noteq> uuid_Nil then DeleteFindingById M (subjectFindingID L bindingID) m
            else AddFinding M (subjectFinding L kind bindingID obj) m))"

definition extractRoleBindingFields :: "RoleBinding \<Rightarrow> string \<times> string \<times> string list" where
  "extractRoleBindingFields obj = (rb_RoleRefKind obj, rb_RoleRefName obj, rb_SubjectKinds obj)"

definition binding_role_key :: "RoleBinding \<Rightarrow> string" where
  "binding_role_key obj =
     (case extractRoleBindingFields obj of
        (roleRefKind, roleRefName, subjects) \<Rightarrow>
          if roleRefKind = ''Role'' \<and> Namespace (rb_Meta obj) \<noteq> []
          then Namespace (rb_Meta obj) @ ''/'' @ roleRefName else roleRefName)"

text \<open>Phase 1: build the binding; reads the role from the index.\<close>

definition binding_build :: "lib \<Rightarrow> RoleBinding \<Rightarrow> NameIndex \<Rightarrow> (MBindingR \<times> uuid) option" where
  "binding_build L obj idx =
     (case extractRoleBindingFields obj of
        (roleRefKind, roleRefName, subjects) \<Rightarrow>
          bindingFromRBAC L (rb_Meta obj) (binding_role_key obj) (firstSubjectKind subjects) idx)"

text \<open>Phase 2, without a valid subject: drop a stored binding, stop waiting, update the finding.\<close>

definition binding_drop ::
    "'m modelsrv \<Rightarrow> lib \<Rightarrow> RBACWhitelist option \<Rightarrow> string \<Rightarrow> NamespacedName \<Rightarrow> RoleBinding \<Rightarrow> uuid \<Rightarrow> 'm rbac \<Rightarrow>
     error option \<times> 'm rbac" where
  "binding_drop M L wl kind nn obj i s =
     (let (delErr, m) = (if mGet M MBinding i (rbModel s) \<noteq> None then mDelete M MBinding i (rbModel s) else (None, rbModel s))
      in if ignore_not_found MBinding delErr \<noteq> None then (delErr, s\<lparr>rbModel := m\<rparr>)
         else (None, s\<lparr>rbModel := reconcileSubjectFinding M L wl kind i (rb_Meta obj) m,
                       rbIndex := RemovePendingBinding (rbIndex s) (binding_role_key obj) (NNString L nn)\<rparr>))"

text \<open>Phase 3: is the role in the index? Phase 4: wait for it or not, and store the binding.\<close>

definition role_present :: "RoleBinding \<Rightarrow> 'm rbac \<Rightarrow> bool" where
  "role_present obj s \<longleftrightarrow> Get (rbIndex s) KindRole (binding_role_key obj) \<noteq> uuid_Nil"

definition binding_store ::
    "'m modelsrv \<Rightarrow> lib \<Rightarrow> RBACWhitelist option \<Rightarrow> string \<Rightarrow> NamespacedName \<Rightarrow> RoleBinding \<Rightarrow> MBindingR \<Rightarrow> uuid \<Rightarrow> bool \<Rightarrow>
     'm rbac \<Rightarrow> error option \<times> 'm rbac" where
  "binding_store M L wl kind nn obj binding i present s =
     (let idx = (if present then RemovePendingBinding (rbIndex s) (binding_role_key obj) (NNString L nn)
                 else AddPendingBinding (rbIndex s) (binding_role_key obj) (NNString L nn))
      in case mAdd M (EBinding binding) (rbModel s) of
           (Some err, m) \<Rightarrow> (Some err, s\<lparr>rbModel := m, rbIndex := idx\<rparr>)
         | (None, m) \<Rightarrow>
             (None, s\<lparr>rbModel := reconcileSubjectFinding M L wl kind i (rb_Meta obj) m, rbIndex := idx\<rparr>))"

definition RoleBindingReconcile ::
    "'m modelsrv \<Rightarrow> lib \<Rightarrow> RBACWhitelist option \<Rightarrow> binding_kind \<Rightarrow> NamespacedName \<Rightarrow> RoleBinding get_result \<Rightarrow> 'm rbac \<Rightarrow>
     error option \<times> 'm rbac" where
  "RoleBindingReconcile M L wl kind nn got s =
     (case got of
        Found obj \<Rightarrow>
          (case binding_build L obj (rbIndex s) of
             None \<Rightarrow> (None, s)
           | Some (binding, i) \<Rightarrow>
               (let s1 = s\<lparr>rbIndex := Put (rbIndex s) KindBinding (NNString L nn) i\<rparr>
                in if \<not> bindingHasValidSubject L (Some binding)
                   then binding_drop M L wl (binding_kind_name kind) nn obj i s1
                   else binding_store M L wl (binding_kind_name kind) nn obj binding i (role_present obj s1) s1))
      | NotFound \<Rightarrow>
          (case Delete (rbIndex s) KindBinding (NNString L nn) of
             (i, idx) \<Rightarrow>
               if i = uuid_Nil then (None, s\<lparr>rbIndex := idx\<rparr>)
               else
                 (let idx' = RemovePendingBindingByName idx (NNString L nn);
                      m1 = DeleteFindingById M (subjectFindingID L i) (rbModel s)
                  in case mDelete M MBinding i m1 of
                       (r, m) \<Rightarrow> (ignore_not_found MBinding r, s\<lparr>rbModel := m, rbIndex := idx'\<rparr>)))
      | GetError err \<Rightarrow> (Some (ErrText err), s))"

section \<open>The annotation findings\<close>

definition role_exempt :: "lib \<Rightarrow> RBACWhitelist option \<Rightarrow> string \<Rightarrow> ObjectMeta \<Rightarrow> bool" where
  "role_exempt L wl kind obj \<longleftrightarrow> IsWhitelisted wl kind (Name obj) \<or>
     first_uuid L [annotation_value (Annotations obj) AnnotationRoleSpecID] \<noteq> None"

definition binding_exempt :: "lib \<Rightarrow> RBACWhitelist option \<Rightarrow> string \<Rightarrow> ObjectMeta \<Rightarrow> bool" where
  "binding_exempt L wl kind obj \<longleftrightarrow> IsWhitelisted wl kind (Name obj) \<or>
     first_uuid L [annotation_value (Annotations obj) AnnotationSubjectID] \<noteq> None"

lemma first_uuid_annotation:
  "first_uuid L [annotation_value ann key] \<noteq> None \<longleftrightarrow> annotationUUID L ann key \<noteq> uuid_Nil"
  by (simp add: first_uuid_parse annotationUUID_value del: first_uuid.simps(2))

lemma exempt_alt:
  "role_exempt L wl kind obj \<longleftrightarrow>
     IsWhitelisted wl kind (Name obj) \<or> annotationUUID L (Annotations obj) AnnotationRoleSpecID \<noteq> uuid_Nil"
  "binding_exempt L wl kind obj \<longleftrightarrow>
     IsWhitelisted wl kind (Name obj) \<or> annotationUUID L (Annotations obj) AnnotationSubjectID \<noteq> uuid_Nil"
  by (simp_all only: role_exempt_def binding_exempt_def first_uuid_annotation)

lemma finding_ids [simp]:
  "f_Id (roleSpecFinding L kind i obj) = roleSpecFindingID L i"
  "f_Id (subjectFinding L kind i obj) = subjectFindingID L i"
  by (simp_all add: roleSpecFinding_def subjectFinding_def)

interpretation role_check: annotation_finding M "reconcileRoleSpecFinding M L wl kind" "role_exempt L wl kind"
    "roleSpecFindingID L" "roleSpecFinding L kind"
  for M L wl kind
  by unfold_locales (auto simp: reconcileRoleSpecFinding_def exempt_alt Let_def)

interpretation binding_check: annotation_finding M "reconcileSubjectFinding M L wl kind" "binding_exempt L wl kind"
    "subjectFindingID L" "subjectFinding L kind"
  for M L wl kind
  by unfold_locales (auto simp: reconcileSubjectFinding_def exempt_alt Let_def)

section \<open>The channel\<close>

text \<open>The binding controllers that \<open>main\<close> wires into each role controller.\<close>

definition wired_bindings :: "binding_kind list" where
  "wired_bindings = [RoleBindingKind, ClusterRoleBindingKind]"

lemma EnqueueBinding_frame [simp]:
  "rbModel (EnqueueBinding b k s) = rbModel s" "rbIndex (EnqueueBinding b k s) = rbIndex s"
  by (simp_all add: EnqueueBinding_def Let_def)

lemma enqueue_matching_frame [simp]:
  "rbModel (enqueue_matching b ks s) = rbModel s" "rbIndex (enqueue_matching b ks s) = rbIndex s"
  by (induction ks arbitrary: s) simp_all

lemma enqueue_all_frame [simp]:
  "rbModel (enqueue_all ks bs s) = rbModel s" "rbIndex (enqueue_all ks bs s) = rbIndex s"
  by (induction bs arbitrary: s) simp_all

lemma EnqueueBinding_queue:
  "rbQueue (EnqueueBinding b k s) k' =
     (if k' = k \<and> length (rbQueue s k) < requeue_capacity then rbQueue s k @ [parseNamespacedName b] else rbQueue s k')"
  by (simp add: EnqueueBinding_def Let_def)

text \<open>With the two wired controllers, a name goes to the channel of its scope, if there is room.\<close>

lemma enqueue_wired:
  "rbQueue (enqueue_matching b wired_bindings s) k =
     (if IsClusterScoped k = (nn_Namespace (parseNamespacedName b) = []) \<and> length (rbQueue s k) < requeue_capacity
      then rbQueue s k @ [parseNamespacedName b] else rbQueue s k)"
  by (cases k) (simp_all add: wired_bindings_def EnqueueBinding_queue IsClusterScoped_def)

lemma enqueue_all_wired:
  "length (rbQueue s k) + length bs \<le> requeue_capacity \<Longrightarrow>
   rbQueue (enqueue_all wired_bindings bs s) k =
     rbQueue s k @ filter (\<lambda>nn. IsClusterScoped k = (nn_Namespace nn = [])) (map parseNamespacedName bs)"
  by (induction bs arbitrary: s) (simp_all add: enqueue_wired)

lemma enqueue_all_bound:
  "length (rbQueue s k) \<le> requeue_capacity \<Longrightarrow> length (rbQueue (enqueue_all wired_bindings bs s) k) \<le> requeue_capacity"
  by (induction bs arbitrary: s) (simp_all add: enqueue_wired)

lemma parseNamespacedName_NNString:
  assumes "nn_string_law L" and "CHR ''/'' \<notin> set (nn_Namespace nn)"
  shows "parseNamespacedName (NNString L nn) = nn"
proof -
  have ns: "\<forall>c\<in>set (nn_Namespace nn). c \<noteq> CHR ''/''" using assms(2) by auto
  have s: "NNString L nn = nn_Namespace nn @ CHR ''/'' # nn_Name nn"
    using assms(1) by (simp add: nn_string_law_def)
  have "dropWhile (\<lambda>c. c \<noteq> CHR ''/'') (NNString L nn) = CHR ''/'' # nn_Name nn"
    using ns by (simp add: s dropWhile_append2)
  moreover have "takeWhile (\<lambda>c. c \<noteq> CHR ''/'') (NNString L nn) = nn_Namespace nn"
    using ns by (simp add: s takeWhile_append2)
  ultimately show ?thesis by (simp add: parseNamespacedName.simps)
qed

section \<open>Effects of the handlers\<close>

lemma role_bindings_kept:
  assumes "store_laws M"
  shows "mGet M MBinding j (rbModel (snd (RoleReconcile M L ord wl kind ks nn g s))) = mGet M MBinding j (rbModel s)"
proof -
  have add: "mGet M MBinding j m = mGet M MBinding j (rbModel s)" if "mAdd M (ERole r) (rbModel s) = (e, m)" for r e m
    using that store_add_frame [OF assms, of "ERole r" "rbModel s" m MBinding j]
      store_add_reject [OF assms, of "ERole r" "rbModel s"] by (cases e) auto
  have del: "mGet M MBinding j m = mGet M MBinding j (rbModel s)"
    if "mDelete M MRole i (DeleteFindingById M f (rbModel s)) = (e, m)" for i f e m
    using store_delete_frame [OF assms, of MBinding j MRole i "DeleteFindingById M f (rbModel s)"] that
    by (simp add: DeleteFindingById_get [OF assms])
  show ?thesis
    by (auto simp: RoleReconcile_def Let_def role_check.entities_unchanged [OF assms] add del
        split: get_result.splits option.splits prod.splits)
qed

lemma binding_store_model:
  assumes "store_laws M" and "mGet M MBinding j (rbModel (snd (binding_store M L wl kind nn obj b i p s))) = Some e"
  shows "mGet M MBinding j (rbModel s) = Some e \<or> e = EBinding b"
proof (cases "mAdd M (EBinding b) (rbModel s)")
  case (Pair r m)
  have "mGet M MBinding j m = mGet M MBinding j (rbModel s) \<or> mGet M MBinding j m = Some (EBinding b)"
    using Pair store_add_frame [OF assms(1), of "EBinding b" "rbModel s" m MBinding j]
      store_add_get [OF assms(1), of "EBinding b" "rbModel s" m] store_add_reject [OF assms(1), of "EBinding b" "rbModel s"]
    by (cases r) auto
  with Pair assms(2) show ?thesis
    by (cases r) (auto simp: binding_store_def Let_def binding_check.entities_unchanged [OF assms(1)])
qed

lemma binding_drop_model:
  assumes "store_laws M" and "mGet M MBinding j (rbModel (snd (binding_drop M L wl kind nn obj i s))) = Some e"
  shows "mGet M MBinding j (rbModel s) = Some e"
proof -
  have "mGet M MBinding j m = Some e \<Longrightarrow> mGet M MBinding j (rbModel s) = Some e"
    if "mDelete M MBinding i (rbModel s) = (r, m)" for r m
    using that store_delete_get [OF assms(1), of MBinding i "rbModel s"]
      store_delete_frame [OF assms(1), of MBinding j MBinding i "rbModel s"] by (cases "j = i") auto
  with assms(2) show ?thesis
    by (auto simp: binding_drop_def Let_def binding_check.entities_unchanged [OF assms(1)]
        split: if_splits prod.splits)
qed

lemma binding_model_cases:
  assumes "store_laws M" and "mGet M MBinding j (rbModel (snd (RoleBindingReconcile M L wl kind nn g s))) = Some e"
  shows "mGet M MBinding j (rbModel s) = Some e \<or> (\<exists>b. e = EBinding b \<and> bindingHasValidSubject L (Some b))"
proof (cases g)
  case (Found obj)
  show ?thesis
  proof (cases "binding_build L obj (rbIndex s)")
    case None
    with Found assms(2) show ?thesis by (simp add: RoleBindingReconcile_def)
  next
    case (Some bi)
    obtain b i where bi: "bi = (b, i)" by (cases bi)
    show ?thesis
    proof (cases "bindingHasValidSubject L (Some b)")
      case True
      with Found Some bi assms(2) show ?thesis
        by (auto simp: RoleBindingReconcile_def Let_def dest: binding_store_model [OF assms(1)])
    next
      case False
      with Found Some bi assms(2) show ?thesis
        by (auto simp: RoleBindingReconcile_def Let_def dest: binding_drop_model [OF assms(1)])
    qed
  qed
next
  case NotFound
  have "mGet M MBinding j m = Some e \<Longrightarrow> mGet M MBinding j (rbModel s) = Some e"
    if "mDelete M MBinding i (DeleteFindingById M f (rbModel s)) = (r, m)" for i f r m
    using that store_delete_get [OF assms(1), of MBinding i "DeleteFindingById M f (rbModel s)"]
      store_delete_frame [OF assms(1), of MBinding j MBinding i "DeleteFindingById M f (rbModel s)"]
    by (cases "j = i") (auto simp: DeleteFindingById_get [OF assms(1)])
  with NotFound assms(2) show ?thesis
    by (auto simp: RoleBindingReconcile_def Let_def split: if_splits prod.splits)
next
  case (GetError err)
  with assms(2) show ?thesis by (simp add: RoleBindingReconcile_def)
qed

text \<open>A binding waits only for a role that is not in the index.\<close>

definition waits_for_missing :: "NameIndex \<Rightarrow> bool" where
  "waits_for_missing idx \<longleftrightarrow> (\<forall>r b. waits idx r b \<longrightarrow> Get idx KindRole r = uuid_Nil)"

lemma waits_for_missing_ops:
  assumes "waits_for_missing idx"
  shows "waits_for_missing (snd (ResolvePendingBindings ord (Put idx KindRole r i) r))"
    and "waits_for_missing (snd (Delete idx kd n))"
    and "waits_for_missing (Put idx KindBinding n i)"
    and "waits_for_missing (RemovePendingBinding idx r b)"
    and "waits_for_missing (RemovePendingBindingByName idx b)"
    and "Get idx KindRole r = uuid_Nil \<Longrightarrow> waits_for_missing (AddPendingBinding idx r b)"
proof -
  have a: "Get idx KindRole r' = uuid_Nil" if "waits idx r' b'" for r' b'
    using assms that by (auto simp: waits_for_missing_def)
  show "waits_for_missing (snd (ResolvePendingBindings ord (Put idx KindRole r i) r))"
    and "waits_for_missing (snd (Delete idx kd n))"
    and "waits_for_missing (Put idx KindBinding n i)"
    and "waits_for_missing (RemovePendingBinding idx r b)"
    and "waits_for_missing (RemovePendingBindingByName idx b)"
    by (auto simp: waits_for_missing_def idx_simps dest: a)
  assume "Get idx KindRole r = uuid_Nil"
  then show "waits_for_missing (AddPendingBinding idx r b)"
    by (auto simp: waits_for_missing_def idx_simps dest: a)
qed

lemma waits_for_missing_role:
  assumes "waits_for_missing (rbIndex s)"
  shows "waits_for_missing (rbIndex (snd (RoleReconcile M L ord wl kind ks nn g s)))"
  using assms
  by (auto simp: RoleReconcile_def Let_def waits_for_missing_ops split: get_result.splits option.splits prod.splits)
    (metis snd_conv waits_for_missing_ops(2))+

lemma waits_for_missing_binding:
  assumes "waits_for_missing (rbIndex s)"
  shows "waits_for_missing (rbIndex (snd (RoleBindingReconcile M L wl kind nn g s)))"
proof -
  note ops = waits_for_missing_ops
  have drop: "waits_for_missing (rbIndex (snd (binding_drop M L wl kd nn obj i s')))" if "waits_for_missing (rbIndex s')" for kd obj i s'
    using that by (auto simp: binding_drop_def Let_def ops split: prod.splits)
  have store: "waits_for_missing (rbIndex (snd (binding_store M L wl kd nn obj b i (role_present obj s') s')))"
    if "waits_for_missing (rbIndex s')" for kd obj b i s'
    using that by (auto simp: binding_store_def role_present_def Let_def ops split: option.splits prod.splits)
  have del: "waits_for_missing idx" if "Delete (rbIndex s) KindBinding n = (i, idx)" for n i idx
    using ops(2) [OF assms, of KindBinding n] that by simp
  show ?thesis
    using assms
    by (auto simp: RoleBindingReconcile_def Let_def drop store del ops(3,5) split: get_result.splits option.splits prod.splits)
qed

lemma role_queue_bound:
  assumes "\<And>k. length (rbQueue s k) \<le> requeue_capacity"
  shows "length (rbQueue (snd (RoleReconcile M L ord wl kind wired_bindings nn g s)) k) \<le> requeue_capacity"
  using assms
  by (auto simp: RoleReconcile_def Let_def case_prod_beta intro!: enqueue_all_bound
      split: get_result.splits option.splits prod.splits)

lemma binding_queue [simp]: "rbQueue (snd (RoleBindingReconcile M L wl kind nn g s)) = rbQueue s"
  by (auto simp: RoleBindingReconcile_def binding_drop_def binding_store_def Let_def case_prod_beta
      split: get_result.splits option.splits prod.splits)

section \<open>Reachable states\<close>

text \<open>
  The role and binding controllers and the delivery of requeued names, in any order: each handler
  runs to its end before the next one starts.
\<close>

inductive rbac_reach :: "'m modelsrv \<Rightarrow> lib \<Rightarrow> range_order \<Rightarrow> RBACWhitelist option \<Rightarrow> 'm rbac \<Rightarrow> 'm rbac \<Rightarrow> bool"
  for M L ord wl s0 where
  start: "rbac_reach M L ord wl s0 s0"
| role: "rbac_reach M L ord wl s0 s \<Longrightarrow>
    rbac_reach M L ord wl s0 (snd (RoleReconcile M L ord wl kind wired_bindings nn g s))"
| binding: "rbac_reach M L ord wl s0 s \<Longrightarrow>
    rbac_reach M L ord wl s0 (snd (RoleBindingReconcile M L wl bk nn gb s))"
| deliver: "rbac_reach M L ord wl s0 s \<Longrightarrow> rbQueue s bk = nn # rest \<Longrightarrow>
    rbac_reach M L ord wl s0 (s\<lparr>rbQueue := (rbQueue s)(bk := rest)\<rparr>)"

definition rbac_start :: "'m \<Rightarrow> 'm rbac" where
  "rbac_start m = \<lparr>rbModel = m, rbIndex = NewNameIndex, rbQueue = (\<lambda>_. [])\<rparr>"

section \<open>One handler in detail\<close>

lemma binding_built:
  assumes "subject_laws L" and "first_uuid L [UID (rb_Meta obj)] = Some i"
  obtains b where "binding_build L obj idx = Some (b, i)" and "bnd_Id b = i" and "i \<noteq> uuid_Nil"
    and "bnd_Role b = (if Get idx KindRole (binding_role_key obj) \<noteq> uuid_Nil
                       then Some (Get idx KindRole (binding_role_key obj)) else None)"
    and "bindingHasValidSubject L (Some b) =
           (first_uuid L [annotation_value (Annotations (rb_Meta obj)) AnnotationSubjectID] \<noteq> None)"
proof -
  have i: "parseOptionalUUID L (UID (rb_Meta obj)) = i" "i \<noteq> uuid_Nil"
    using assms(2) by (auto simp: first_uuid_parse simp del: first_uuid.simps(2) split: if_splits)
  then obtain b where b: "bindingFromRBAC L (rb_Meta obj) (binding_role_key obj) (firstSubjectKind (rb_SubjectKinds obj)) idx = Some (b, i)"
    by (auto simp: bindingFromRBAC_def Let_def)
  have "binding_build L obj idx = Some (b, i)"
    using b by (simp add: binding_build_def extractRoleBindingFields_def)
  moreover have "bindingHasValidSubject L (Some b) =
      (first_uuid L [annotation_value (Annotations (rb_Meta obj)) AnnotationSubjectID] \<noteq> None)"
    unfolding first_uuid_annotation by (rule bindingFromRBAC_subject [OF assms(1) b])
  ultimately show ?thesis
    by (rule that [OF _ bindingFromRBAC_parts(1) [OF b] i(2) bindingFromRBAC_parts(4) [OF b]])
qed

lemma role_found:
  assumes "store_laws M" and "accepts M MRole" and "first_uuid L [UID obj] = Some i"
  obtains role m where "roleFromRBAC L obj = Some (role, i)" and "mAdd M (ERole role) (rbModel s) = (None, m)"
    and "mGet M MRole i m = Some (ERole role)" and "i \<noteq> uuid_Nil"
    and "RoleReconcile M L ord wl kind ks nn (Found obj) s =
      (None, enqueue_all ks (fst (ResolvePendingBindings ord (Put (rbIndex s) KindRole (roleIndexKey nn) i) (roleIndexKey nn)))
        (s\<lparr>rbModel := reconcileRoleSpecFinding M L wl kind i obj m,
           rbIndex := snd (ResolvePendingBindings ord (Put (rbIndex s) KindRole (roleIndexKey nn) i) (roleIndexKey nn))\<rparr>))"
proof -
  have i: "parseOptionalUUID L (UID obj) = i" "i \<noteq> uuid_Nil"
    using assms(3) by (auto simp: first_uuid_parse simp del: first_uuid.simps(2) split: if_splits)
  then obtain role where r: "roleFromRBAC L obj = Some (role, i)" and ri: "role_Id role = i"
    by (auto simp: roleFromRBAC_def Let_def)
  have "fst (mAdd M (ERole role) (rbModel s)) = None" using assms(2) by (intro accepts_add) simp
  then obtain m where m: "mAdd M (ERole role) (rbModel s) = (None, m)" by (metis prod.collapse)
  show ?thesis
    using that [OF r m] r m i(2) ri store_add_get [OF assms(1) m] by (simp add: RoleReconcile_def Let_def)
qed

lemma binding_found_store:
  assumes "binding_build L obj (rbIndex s) = Some (b, i)" and "bindingHasValidSubject L (Some b)"
  shows "RoleBindingReconcile M L wl bk nn (Found obj) s =
    binding_store M L wl (binding_kind_name bk) nn obj b i
      (Get (rbIndex s) KindRole (binding_role_key obj) \<noteq> uuid_Nil)
      (s\<lparr>rbIndex := Put (rbIndex s) KindBinding (NNString L nn) i\<rparr>)"
  using assms by (simp add: RoleBindingReconcile_def role_present_def idx_simps Let_def)

lemma binding_store_index:
  "rbIndex (snd (binding_store M L wl kind nn obj b i p s)) =
     (if p then RemovePendingBinding (rbIndex s) (binding_role_key obj) (NNString L nn)
      else AddPendingBinding (rbIndex s) (binding_role_key obj) (NNString L nn))"
  by (auto simp: binding_store_def Let_def split: prod.splits option.splits)

lemma binding_store_accepted:
  assumes "store_laws M" and "accepts M MBinding" and "bnd_Id b = i"
  shows "mGet M MBinding i (rbModel (snd (binding_store M L wl kind nn obj b i p s))) = Some (EBinding b)"
proof -
  have "fst (mAdd M (EBinding b) (rbModel s)) = None" using assms(2) by (intro accepts_add) simp
  then obtain m where m: "mAdd M (EBinding b) (rbModel s) = (None, m)" by (metis prod.collapse)
  then show ?thesis
    using store_add_get [OF assms(1) m] assms(3)
    by (simp add: binding_store_def Let_def binding_check.entities_unchanged [OF assms(1)])
qed

lemma binding_found_pending:
  assumes "subject_laws L" and "first_uuid L [UID (rb_Meta obj)] = Some i"
    and "first_uuid L [annotation_value (Annotations (rb_Meta obj)) AnnotationSubjectID] \<noteq> None"
    and "Get (rbIndex s) KindRole (binding_role_key obj) = uuid_Nil"
  shows "rbIndex (snd (RoleBindingReconcile M L wl bk nn (Found obj) s)) =
    AddPendingBinding (Put (rbIndex s) KindBinding (NNString L nn) i) (binding_role_key obj) (NNString L nn)"
proof -
  obtain b where b: "binding_build L obj (rbIndex s) = Some (b, i)" "bindingHasValidSubject L (Some b)"
    using binding_built [OF assms(1,2), of "rbIndex s"] assms(3) by metis
  show ?thesis using assms(4) by (simp add: binding_found_store [OF b] binding_store_index)
qed

lemma nobody_waits:
  assumes "\<And>b. \<not> waits idx r b" and "range_law ord"
  shows "fst (ResolvePendingBindings ord (Put idx KindRole r i) r) = []"
  using resolve_list(1) [OF assms(2), of "Put idx KindRole r i" r] assms(1) by (simp add: idx_simps)

lemma binding_with_role:
  assumes "store_laws M" and "accepts M MBinding" and "subject_laws L" and "first_uuid L [UID (rb_Meta obj)] = Some i"
    and "first_uuid L [annotation_value (Annotations (rb_Meta obj)) AnnotationSubjectID] \<noteq> None"
    and "Get (rbIndex s) KindRole (binding_role_key obj) = ri" and "ri \<noteq> uuid_Nil"
  shows "(\<exists>b. mGet M MBinding i (rbModel (snd (RoleBindingReconcile M L wl bk nn (Found obj) s))) = Some (EBinding b) \<and> bnd_Role b = Some ri) \<and>
    \<not> waits (rbIndex (snd (RoleBindingReconcile M L wl bk nn (Found obj) s))) (binding_role_key obj) (NNString L nn)"
proof -
  obtain b where b: "binding_build L obj (rbIndex s) = Some (b, i)" "bindingHasValidSubject L (Some b)"
    and parts: "bnd_Id b = i" "bnd_Role b = Some ri"
    using binding_built [OF assms(3,4), of "rbIndex s"] assms(5-7) by metis
  note final = binding_found_store [OF b, of M wl bk nn]
  have "mGet M MBinding i (rbModel (snd (RoleBindingReconcile M L wl bk nn (Found obj) s))) = Some (EBinding b)"
    unfolding final by (rule binding_store_accepted [OF assms(1,2) parts(1)])
  moreover have "\<not> waits (rbIndex (snd (RoleBindingReconcile M L wl bk nn (Found obj) s))) (binding_role_key obj) (NNString L nn)"
    unfolding final binding_store_index using assms(6,7) by (simp add: idx_simps)
  ultimately show ?thesis using parts(2) by blast
qed

lemma role_queues_waiting:
  assumes "store_laws M" and "accepts M MRole" and "nn_string_law L" and "range_law ord"
    and "first_uuid L [UID robj] = Some ri" and "waits (rbIndex s) (roleIndexKey rnn) (NNString L nn)"
    and "CHR ''/'' \<notin> set (nn_Namespace nn)" and "IsClusterScoped bk = (nn_Namespace nn = [])"
    and "length (rbQueue s bk) + length (fst (ResolvePendingBindings ord (rbIndex s) (roleIndexKey rnn))) \<le> requeue_capacity"
  shows "nn \<in> set (rbQueue (snd (RoleReconcile M L ord wl kind wired_bindings rnn (Found robj) s)) bk)"
    and "length (rbQueue (snd (RoleReconcile M L ord wl kind wired_bindings rnn (Found robj) s)) bk) \<le> requeue_capacity"
    and "Get (rbIndex (snd (RoleReconcile M L ord wl kind wired_bindings rnn (Found robj) s))) KindRole (roleIndexKey rnn) = ri"
    and "ri \<noteq> uuid_Nil"
proof -
  let ?key = "roleIndexKey rnn" and ?r = "RoleReconcile M L ord wl kind wired_bindings rnn (Found robj) s"
  obtain m where ri: "ri \<noteq> uuid_Nil" and rr: "?r =
      (None, enqueue_all wired_bindings (fst (ResolvePendingBindings ord (Put (rbIndex s) KindRole ?key ri) ?key))
        (s\<lparr>rbModel := m, rbIndex := snd (ResolvePendingBindings ord (Put (rbIndex s) KindRole ?key ri) ?key)\<rparr>))"
    using role_found [OF assms(1,2,5), of s ord wl kind wired_bindings rnn] by metis
  let ?names = "fst (ResolvePendingBindings ord (Put (rbIndex s) KindRole ?key ri) ?key)"
  have names: "?names = fst (ResolvePendingBindings ord (rbIndex s) ?key)"
    by (auto simp: ResolvePendingBindings_def idx_simps split: option.splits)
  have "NNString L nn \<in> set ?names" unfolding names using assms(6) by (simp add: resolve_list [OF assms(4)])
  then have "nn \<in> set (map parseNamespacedName ?names)" using parseNamespacedName_NNString [OF assms(3,7)] by force
  then show "nn \<in> set (rbQueue (snd ?r) bk)" using rr assms(8,9) names by (simp add: enqueue_all_wired)
  show "length (rbQueue (snd ?r) bk) \<le> requeue_capacity" using rr assms(9) by (simp add: enqueue_all_bound)
  show "Get (rbIndex (snd ?r)) KindRole ?key = ri" and "ri \<noteq> uuid_Nil" using rr ri by (simp_all add: idx_simps)
qed

section \<open>Concrete objects\<close>

definition demo_meta :: "string \<Rightarrow> string \<Rightarrow> (string, string) fmap \<Rightarrow> ObjectMeta" where
  "demo_meta n uid ann = \<lparr>Name = n, Namespace = ''ns'', UID = uid, Annotations = ann, OwnerKinds = []\<rparr>"

definition demo_binding :: RoleBinding where
  "demo_binding =
     \<lparr>rb_Meta = demo_meta ''b'' ''8'' (fmupd AnnotationSubjectID ''9'' fmempty), rb_RoleRefKind = ''Role'',
      rb_RoleRefName = ''r'', rb_SubjectKinds = [''Group'']\<rparr>"

lemma demo_binding_facts:
  "first_uuid mem_lib [UID (rb_Meta demo_binding)] = Some 8"
  "first_uuid mem_lib [annotation_value (Annotations (rb_Meta demo_binding)) AnnotationSubjectID] \<noteq> None"
  "binding_role_key demo_binding = ''ns/r''"
  by (simp_all add: demo_binding_def demo_meta_def mem_lib_def hex_val_def annotation_value_def binding_role_key_def
      extractRoleBindingFields_def)

lemma demo_role_facts:
  "first_uuid mem_lib [UID (demo_meta ''r'' ''5'' fmempty)] = Some 5"
  "roleIndexKey \<lparr>nn_Namespace = ''ns'', nn_Name = ''r''\<rparr> = ''ns/r''"
  "NNString mem_lib \<lparr>nn_Namespace = ''ns'', nn_Name = ''b''\<rparr> = ''ns/b''"
  by (simp_all add: demo_meta_def mem_lib_def hex_val_def roleIndexKey_def)

lemma start_index [simp]:
  "rbIndex (rbac_start m) = NewNameIndex" "rbQueue (rbac_start m) k = []" "rbModel (rbac_start m) = m"
  by (simp_all add: rbac_start_def)

lemma New_waits [simp]: "\<not> waits NewNameIndex r b"
  by (simp add: waits_def NewNameIndex_def)

lemma demo_absent:
  "Get (rbIndex (rbac_start ([] :: entity list))) KindRole (binding_role_key demo_binding) = uuid_Nil"
  by (simp add: idx_simps)

lemma demo_pending:
  "rbIndex (snd (RoleBindingReconcile mem_store mem_lib None RoleBindingKind \<lparr>nn_Namespace = ''ns'', nn_Name = ''b''\<rparr>
     (Found demo_binding) (rbac_start []))) =
   AddPendingBinding (Put NewNameIndex KindBinding ''ns/b'' 8) ''ns/r'' ''ns/b''"
  using binding_found_pending [OF mem_lib_subject_laws demo_binding_facts(1,2) demo_absent] demo_role_facts(3) demo_binding_facts(3)
  by simp

section \<open>Properties\<close>

text \<open>
  No binding without a subject reaches the model: in every state reachable from a start
  without bindings, by any sequence of role events, binding events and requeued names, every stored binding
  has a subject. (An empty subject aborts the replication snapshot.)
\<close>

theorem stored_bindings_have_subject:
  assumes "store_laws M" and "rbac_reach M L ord wl (rbac_start m) s" and "\<And>j. mGet M MBinding j m = None"
    and "mGet M MBinding i (rbModel s) = Some (EBinding b)"
  shows "bindingHasValidSubject L (Some b)"
proof -
  have "mGet M MBinding j (rbModel s) = Some e \<Longrightarrow> \<exists>b. e = EBinding b \<and> bindingHasValidSubject L (Some b)" for j e
    using assms(2)
  proof (induction arbitrary: j e rule: rbac_reach.induct)
    case start
    then show ?case using assms(3) by (simp add: rbac_start_def)
  next
    case (role s kind nn g)
    then show ?case by (simp add: role_bindings_kept [OF assms(1)])
  next
    case (binding s bk nn gb)
    then show ?case using binding_model_cases [OF assms(1) binding.prems] by blast
  next
    case (deliver s bk nn rest)
    then show ?case by simp
  qed
  with assms(4) show ?thesis by blast
qed

theorem stored_bindings_have_subject_witness:
  "\<exists>b. mGet mem_store MBinding 8 (rbModel (snd (RoleBindingReconcile mem_store mem_lib None RoleBindingKind
       \<lparr>nn_Namespace = ''ns'', nn_Name = ''b''\<rparr> (Found demo_binding) (rbac_start [])))) = Some (EBinding b) \<and>
     bindingHasValidSubject mem_lib (Some b)"
proof -
  let ?s = "snd (RoleBindingReconcile mem_store mem_lib None RoleBindingKind
       \<lparr>nn_Namespace = ''ns'', nn_Name = ''b''\<rparr> (Found demo_binding) (rbac_start []))"
  obtain b where b: "binding_build mem_lib demo_binding NewNameIndex = Some (b, 8)" "bindingHasValidSubject mem_lib (Some b)"
      "bnd_Id b = 8"
    using binding_built [OF mem_lib_subject_laws demo_binding_facts(1), of NewNameIndex] demo_binding_facts(2) by metis
  have stored: "mGet mem_store MBinding 8 (rbModel ?s) = Some (EBinding b)"
    using binding_store_accepted [OF mem_store_laws mem_store_accepts b(3)] by (simp add: binding_found_store b)
  have "rbac_reach mem_store mem_lib sorted_range None (rbac_start []) ?s"
    by (rule rbac_reach.binding [OF rbac_reach.start])
  then have "bindingHasValidSubject mem_lib (Some b)"
    by (rule stored_bindings_have_subject [OF mem_store_laws _ _ stored]) (simp add: mem_store_def)
  with stored show ?thesis by blast
qed

text \<open>
  Waiting bindings. In every reachable state a binding waits only for a role that is not in the
  index, so no binding waits for a role that is there, and the requeue channels hold at most 64 names.
\<close>

theorem waiting_means_role_missing:
  assumes "rbac_reach M L ord wl (rbac_start m) s"
  shows "(waits (rbIndex s) r b \<longrightarrow> Get (rbIndex s) KindRole r = uuid_Nil) \<and> length (rbQueue s k) \<le> requeue_capacity"
proof -
  from assms have "waits_for_missing (rbIndex s) \<and> (\<forall>k. length (rbQueue s k) \<le> requeue_capacity)"
  proof (induction rule: rbac_reach.induct)
    case start
    show ?case
      by (simp add: rbac_start_def waits_for_missing_def waits_def NewNameIndex_def)
  next
    case (role s kind nn g)
    then show ?case by (simp add: waits_for_missing_role role_queue_bound)
  next
    case (binding s bk nn gb)
    then show ?case by (simp add: waits_for_missing_binding)
  next
    case (deliver s bk nn rest)
    then have "length rest \<le> requeue_capacity" by (metis Suc_leD length_Cons)
    with deliver show ?case by simp
  qed
  then show ?thesis by (auto simp: waits_for_missing_def)
qed

theorem waiting_means_role_missing_witness:
  "waits (rbIndex (snd (RoleBindingReconcile mem_store mem_lib None RoleBindingKind
       \<lparr>nn_Namespace = ''ns'', nn_Name = ''b''\<rparr> (Found demo_binding) (rbac_start [])))) ''ns/r'' ''ns/b'' \<and>
   Get (rbIndex (snd (RoleBindingReconcile mem_store mem_lib None RoleBindingKind
       \<lparr>nn_Namespace = ''ns'', nn_Name = ''b''\<rparr> (Found demo_binding) (rbac_start [])))) KindRole ''ns/r'' = uuid_Nil"
proof -
  let ?s = "snd (RoleBindingReconcile mem_store mem_lib None RoleBindingKind
       \<lparr>nn_Namespace = ''ns'', nn_Name = ''b''\<rparr> (Found demo_binding) (rbac_start []))"
  have w: "waits (rbIndex ?s) ''ns/r'' ''ns/b''"
    by (simp add: demo_pending idx_simps)
  have "rbac_reach mem_store mem_lib sorted_range None (rbac_start []) ?s"
    by (rule rbac_reach.binding [OF rbac_reach.start])
  from waiting_means_role_missing [OF this, of "''ns/r''" "''ns/b''"] w show ?thesis by blast
qed

text \<open>
  A role that arrives late. When an annotated binding is reconciled while its role is missing and then the
  role is reconciled, the binding's name is in the requeue channel of its own controller, provided the
  channel has room for the waiting names; reconciling it again stores the binding with the UUID of the role and
  ends the waiting.
\<close>

theorem late_role_resolves:
  assumes laws: "store_laws M" "accepts M MRole" "accepts M MBinding" "subject_laws L" "nn_string_law L" "range_law ord"
    and obj: "first_uuid L [UID (rb_Meta obj)] = Some i"
      "first_uuid L [annotation_value (Annotations (rb_Meta obj)) AnnotationSubjectID] \<noteq> None"
    and nn: "CHR ''/'' \<notin> set (nn_Namespace nn)" "IsClusterScoped bk = (nn_Namespace nn = [])"
    and role: "first_uuid L [UID robj] = Some ri" "roleIndexKey rnn = binding_role_key obj"
      "Get (rbIndex s) KindRole (binding_role_key obj) = uuid_Nil"
    and s1: "s1 = snd (RoleBindingReconcile M L wl bk nn (Found obj) s)"
    and s2: "s2 = snd (RoleReconcile M L ord wl kind wired_bindings rnn (Found robj) s1)"
    and room: "length (rbQueue s bk) + length (fst (ResolvePendingBindings ord (rbIndex s1) (binding_role_key obj))) \<le> requeue_capacity"
  shows "nn \<in> set (rbQueue s2 bk) \<and>
    (\<exists>b. mGet M MBinding i (rbModel (snd (RoleBindingReconcile M L wl bk nn (Found obj) s2))) = Some (EBinding b) \<and>
      bnd_Role b = Some ri) \<and>
    \<not> waits (rbIndex (snd (RoleBindingReconcile M L wl bk nn (Found obj) s2))) (binding_role_key obj) (NNString L nn)"
proof -
  let ?key = "binding_role_key obj"
  have idx1: "rbIndex s1 = AddPendingBinding (Put (rbIndex s) KindBinding (NNString L nn) i) ?key (NNString L nn)"
    using s1 binding_found_pending [OF laws(4) obj role(3)] by simp
  then have "waits (rbIndex s1) (roleIndexKey rnn) (NNString L nn)" using role(2) by (simp add: idx_simps)
  moreover have "rbQueue s1 = rbQueue s" using s1 by simp
  ultimately have q: "nn \<in> set (rbQueue s2 bk)" "Get (rbIndex s2) KindRole ?key = ri" "ri \<noteq> uuid_Nil"
    using role_queues_waiting [OF laws(1,2,5,6) role(1), of s1 rnn nn bk] nn room role(2) s2 by simp_all
  show ?thesis using q(1) binding_with_role [OF laws(1,3,4) obj q(2,3)] by blast
qed

theorem late_role_resolves_witness:
  "\<exists>b. mGet mem_store MBinding 8 (rbModel (snd (RoleBindingReconcile mem_store mem_lib None RoleBindingKind
       \<lparr>nn_Namespace = ''ns'', nn_Name = ''b''\<rparr> (Found demo_binding)
       (snd (RoleReconcile mem_store mem_lib sorted_range None ''Role'' wired_bindings \<lparr>nn_Namespace = ''ns'', nn_Name = ''r''\<rparr>
          (Found (demo_meta ''r'' ''5'' fmempty))
          (snd (RoleBindingReconcile mem_store mem_lib None RoleBindingKind
             \<lparr>nn_Namespace = ''ns'', nn_Name = ''b''\<rparr> (Found demo_binding) (rbac_start [])))))))) = Some (EBinding b) \<and>
     bnd_Role b = Some 5"
proof -
  let ?nn = "\<lparr>nn_Namespace = ''ns'', nn_Name = ''b''\<rparr> :: NamespacedName"
  let ?s1 = "snd (RoleBindingReconcile mem_store mem_lib None RoleBindingKind ?nn (Found demo_binding) (rbac_start []))"
  have "fst (ResolvePendingBindings sorted_range (rbIndex ?s1) ''ns/r'') = [''ns/b'']"
    by (simp add: demo_pending ResolvePendingBindings_def AddPendingBinding_def Put_def NewNameIndex_def)
  then show ?thesis
    using late_role_resolves [OF mem_store_laws mem_store_accepts mem_store_accepts mem_lib_subject_laws mem_lib_nn_string_law
        sorted_range_law demo_binding_facts(1,2) _ _ demo_role_facts(1) _ demo_absent refl refl,
        where nn = ?nn and bk = RoleBindingKind and rnn = "\<lparr>nn_Namespace = ''ns'', nn_Name = ''r''\<rparr>" and wl = None and kind = "''Role''"]
    by (auto simp: demo_binding_facts(3) demo_role_facts(2) requeue_capacity_def IsClusterScoped_def)
qed



text \<open>
  (C37) A role that is deleted and created again. Bindings keep the UUID of the deleted role: neither the deletion nor the
  arrival of the new role, which has another UUID, changes a stored binding or requeues one, because
  only bindings that waited are woken.
\<close>

theorem recreated_role_leaves_bindings:
  assumes "store_laws M" and "accepts M MRole" and "range_law ord" and "waits_for_missing (rbIndex s)"
    and "Get (rbIndex s) KindRole (roleIndexKey nn) \<noteq> uuid_Nil" and "first_uuid L [UID robj] = Some ri"
    and "s' = snd (RoleReconcile M L ord wl kind wired_bindings nn (Found robj)
      (snd (RoleReconcile M L ord wl kind wired_bindings nn NotFound s)))"
  shows "mGet M MBinding j (rbModel s') = mGet M MBinding j (rbModel s) \<and> rbQueue s' = rbQueue s \<and>
    Get (rbIndex s') KindRole (roleIndexKey nn) = ri"
proof -
  let ?s1 = "snd (RoleReconcile M L ord wl kind wired_bindings nn NotFound s)"
  have q1: "rbQueue ?s1 = rbQueue s" and i1: "rbIndex ?s1 = snd (Delete (rbIndex s) KindRole (roleIndexKey nn))"
    by (auto simp: RoleReconcile_def Let_def split: prod.splits)
  have "\<not> waits (rbIndex ?s1) (roleIndexKey nn) b" for b
    using assms(4,5) by (auto simp: i1 idx_simps waits_for_missing_def)
  then have n: "fst (ResolvePendingBindings ord (Put (rbIndex ?s1) KindRole (roleIndexKey nn) ri) (roleIndexKey nn)) = []"
    by (rule nobody_waits [OF _ assms(3)])
  obtain m where "s' = ?s1\<lparr>rbModel := m,
      rbIndex := snd (ResolvePendingBindings ord (Put (rbIndex ?s1) KindRole (roleIndexKey nn) ri) (roleIndexKey nn))\<rparr>"
    using role_found [OF assms(1,2,6), of ?s1 ord wl kind wired_bindings nn] n assms(7) by (metis enqueue_all.simps(1) snd_conv)
  then have "rbQueue s' = rbQueue s" "Get (rbIndex s') KindRole (roleIndexKey nn) = ri" using q1 by (simp_all add: idx_simps)
  then show ?thesis using assms(1,7) by (simp add: role_bindings_kept)
qed

theorem recreated_role_leaves_bindings_witness:
  "rbQueue (snd (RoleReconcile mem_store mem_lib sorted_range None ''Role'' wired_bindings \<lparr>nn_Namespace = ''ns'', nn_Name = ''r''\<rparr>
      (Found (demo_meta ''r'' ''5'' fmempty))
      (snd (RoleReconcile mem_store mem_lib sorted_range None ''Role'' wired_bindings \<lparr>nn_Namespace = ''ns'', nn_Name = ''r''\<rparr>
         NotFound \<lparr>rbModel = [], rbIndex = Put NewNameIndex KindRole ''ns/r'' 4, rbQueue = (\<lambda>_. [])\<rparr>)))) = (\<lambda>_. [])"
  using recreated_role_leaves_bindings [OF mem_store_laws mem_store_accepts sorted_range_law _ _ demo_role_facts(1) refl,
      where s = "\<lparr>rbModel = [], rbIndex = Put NewNameIndex KindRole ''ns/r'' 4, rbQueue = (\<lambda>_. [])\<rparr>"
        and nn = "\<lparr>nn_Namespace = ''ns'', nn_Name = ''r''\<rparr>" and wl = None and kind = "''Role''"]
  by (simp add: demo_role_facts(2) waits_for_missing_def idx_simps)

text \<open>
  Reconciling a Role or ClusterRole stores the role and indexes it, and afterwards the finding about a missing
  RoleSpec annotation exists exactly if the role is neither whitelisted for its kind nor annotated with a valid UUID;
  the finding names the role. So a finding is withdrawn as soon as the annotation or the whitelist covers the role.
\<close>

theorem role_spec_finding_iff:
  assumes "store_laws M" and "accepts M MRole" and "accepts M MFinding" and "first_uuid L [UID obj] = Some i"
  shows "fst (RoleReconcile M L ord wl kind ks nn (Found obj) s) = None \<and>
    mGet M MRole i (rbModel (snd (RoleReconcile M L ord wl kind ks nn (Found obj) s))) \<noteq> None \<and>
    Get (rbIndex (snd (RoleReconcile M L ord wl kind ks nn (Found obj) s))) KindRole (roleIndexKey nn) = i \<and>
    mGet M MFinding (roleSpecFindingID L i) (rbModel (snd (RoleReconcile M L ord wl kind ks nn (Found obj) s))) =
      (if role_exempt L wl kind obj then None else Some (EFinding (roleSpecFinding L kind i obj)))"
proof -
  obtain role m where m: "mGet M MRole i m = Some (ERole role)" and rr: "RoleReconcile M L ord wl kind ks nn (Found obj) s =
      (None, enqueue_all ks (fst (ResolvePendingBindings ord (Put (rbIndex s) KindRole (roleIndexKey nn) i) (roleIndexKey nn)))
        (s\<lparr>rbModel := reconcileRoleSpecFinding M L wl kind i obj m,
           rbIndex := snd (ResolvePendingBindings ord (Put (rbIndex s) KindRole (roleIndexKey nn) i) (roleIndexKey nn))\<rparr>))"
    using role_found [OF assms(1,2,4), of s ord wl kind ks nn] by metis
  show ?thesis
    unfolding rr using m
    by (simp add: role_check.entities_unchanged [OF assms(1)] role_check.raised_iff [OF assms(1,3)] idx_simps)
qed

theorem role_spec_finding_iff_witness:
  "mGet mem_store MFinding (roleSpecFindingID mem_lib 5)
     (rbModel (snd (RoleReconcile mem_store mem_lib sorted_range None ''Role'' wired_bindings
        \<lparr>nn_Namespace = ''ns'', nn_Name = ''r''\<rparr> (Found (demo_meta ''r'' ''5'' fmempty)) (rbac_start [])))) =
   Some (EFinding (roleSpecFinding mem_lib ''Role'' 5 (demo_meta ''r'' ''5'' fmempty)))"
proof -
  have "\<not> role_exempt mem_lib None ''Role'' (demo_meta ''r'' ''5'' fmempty)"
    by (simp add: role_exempt_def IsWhitelisted_def demo_meta_def annotation_value_def)
  then show ?thesis
    using role_spec_finding_iff [OF mem_store_laws mem_store_accepts mem_store_accepts demo_role_facts(1),
        of sorted_range None "''Role''" wired_bindings "\<lparr>nn_Namespace = ''ns'', nn_Name = ''r''\<rparr>" "rbac_start []"]
    by simp
qed

text \<open>
  (C30) Reconciling a RoleBinding or ClusterRoleBinding stores the binding exactly if it is annotated with a valid subject UUID, and
  removes it otherwise; it is indexed in both cases. The finding about a missing subject exists
  afterwards exactly if the binding is neither whitelisted nor annotated.
\<close>

theorem binding_stored_iff_subject:
  assumes "store_laws M" and "accepts M MBinding" and "accepts M MFinding" and "subject_laws L"
    and "first_uuid L [UID (rb_Meta obj)] = Some i"
  shows "fst (RoleBindingReconcile M L wl bk nn (Found obj) s) = None \<and>
    Get (rbIndex (snd (RoleBindingReconcile M L wl bk nn (Found obj) s))) KindBinding (NNString L nn) = i \<and>
    (mGet M MBinding i (rbModel (snd (RoleBindingReconcile M L wl bk nn (Found obj) s))) \<noteq> None) =
      (first_uuid L [annotation_value (Annotations (rb_Meta obj)) AnnotationSubjectID] \<noteq> None) \<and>
    mGet M MFinding (subjectFindingID L i) (rbModel (snd (RoleBindingReconcile M L wl bk nn (Found obj) s))) =
      (if binding_exempt L wl (binding_kind_name bk) (rb_Meta obj) then None
       else Some (EFinding (subjectFinding L (binding_kind_name bk) i (rb_Meta obj))))"
proof -
  obtain b where b: "binding_build L obj (rbIndex s) = Some (b, i)" "bnd_Id b = i"
    and v: "bindingHasValidSubject L (Some b) = (first_uuid L [annotation_value (Annotations (rb_Meta obj)) AnnotationSubjectID] \<noteq> None)"
    using binding_built [OF assms(4,5), of "rbIndex s"] by metis
  note ent = binding_check.entities_unchanged [OF assms(1)] and fnd = binding_check.raised_iff [OF assms(1,3)]
  show ?thesis
  proof (cases "bindingHasValidSubject L (Some b)")
    case True
    have "fst (mAdd M (EBinding b) (rbModel s)) = None" using assms(2) by (intro accepts_add) simp
    then obtain m where m: "mAdd M (EBinding b) (rbModel s) = (None, m)" by (metis prod.collapse)
    then show ?thesis
      unfolding binding_found_store [OF b(1) True] v [symmetric] using True b(2) store_add_get [OF assms(1) m]
      by (simp add: binding_store_def Let_def ent fnd idx_simps)
  next
    case False
    have "mGet M MBinding i (snd (mDelete M MBinding i (rbModel s))) = None" by (rule store_delete_get [OF assms(1)])
    moreover have "mGet M MBinding i (rbModel s) \<noteq> None \<Longrightarrow> fst (mDelete M MBinding i (rbModel s)) = None"
      by (simp add: store_delete_result [OF assms(1)])
    moreover have "ignore_not_found MBinding None = None" by (simp add: ignore_not_found_def)
    ultimately show ?thesis
      unfolding v [symmetric] using False b(1)
      by (cases "mGet M MBinding i (rbModel s)")
        (simp_all add: RoleBindingReconcile_def binding_drop_def Let_def case_prod_beta ent fnd idx_simps)
  qed
qed

theorem binding_stored_iff_subject_witness:
  "mGet mem_store MBinding 8 (rbModel (snd (RoleBindingReconcile mem_store mem_lib None RoleBindingKind
     \<lparr>nn_Namespace = ''ns'', nn_Name = ''b''\<rparr> (Found demo_binding) (rbac_start [])))) \<noteq> None"
  using binding_stored_iff_subject [OF mem_store_laws mem_store_accepts mem_store_accepts mem_lib_subject_laws demo_binding_facts(1),
      of None RoleBindingKind "\<lparr>nn_Namespace = ''ns'', nn_Name = ''b''\<rparr>" "rbac_start []"] demo_binding_facts(2)
  by blast

text \<open>
  \<open>parseNamespacedName\<close> inverts the string form of a name whose namespace has no slash. For a cluster-scoped object that
  form is a slash followed by the name, not the bare name; the namespace comes back empty, so the requeued
  binding goes to the cluster-scoped controller.
\<close>

theorem parse_inverts_string:
  assumes "nn_string_law L" and "CHR ''/'' \<notin> set (nn_Namespace nn)"
  shows "parseNamespacedName (NNString L nn) = nn \<and>
    (nn_Namespace nn = [] \<longrightarrow> NNString L nn = ''/'' @ nn_Name nn)"
  using parseNamespacedName_NNString [OF assms] assms(1) by (simp add: nn_string_law_def)

theorem parse_inverts_string_witness:
  "parseNamespacedName (NNString mem_lib \<lparr>nn_Namespace = [], nn_Name = ''admin''\<rparr>) = \<lparr>nn_Namespace = [], nn_Name = ''admin''\<rparr>"
proof -
  have "CHR ''/'' \<notin> set (nn_Namespace (\<lparr>nn_Namespace = [], nn_Name = ''admin''\<rparr> :: NamespacedName))" by simp
  from parse_inverts_string [OF mem_lib_nn_string_law this] show ?thesis by blast
qed

end
