(* ===== verification/Crd_Check.thy ===== *)
theory Crd_Check
  imports Rule_Eval "HOL-Library.Multiset"
begin

text \<open>
  \<open>internal/crdcheck/crdcheck.go\<close>: the list of expected CRDs, its override on the command line, the comparison
  with what the discovery API returns, and the reporter that attaches the findings about
  missing CRDs to the cluster context or, as long as there is none, to the sensor's node. The
  answer of the discovery client is an argument. The log output is in the theory \<open>Diagnostics\<close>.
\<close>

section \<open>Checklist\<close>

record CRDEntry =
  e_Group :: string
  e_Version :: string
  e_Resource :: string
  e_DisplayName :: string
  e_Category :: string

definition CRDEntry_String :: "CRDEntry \<Rightarrow> string" where
  "CRDEntry_String e = e_Group e @ ''/'' @ e_Version e @ ''/'' @ e_Resource e"

abbreviation crd :: "string \<Rightarrow> string \<Rightarrow> string \<Rightarrow> string \<Rightarrow> string \<Rightarrow> CRDEntry" where
  "crd g v r d c \<equiv> \<lparr>e_Group = g, e_Version = v, e_Resource = r, e_DisplayName = d, e_Category = c\<rparr>"

definition DefaultChecklist :: "CRDEntry list" where
  "DefaultChecklist =
     [crd ''structure.emeland.io'' ''v1alpha1'' ''systems'' ''EmELand System'' ''EmELand'',
      crd ''structure.emeland.io'' ''v1alpha1'' ''apis'' ''EmELand API'' ''EmELand'',
      crd ''structure.emeland.io'' ''v1alpha1'' ''components'' ''EmELand Component'' ''EmELand'',
      crd ''structure.emeland.io'' ''v1alpha1'' ''systeminstances'' ''EmELand SystemInstance'' ''EmELand'',
      crd ''structure.emeland.io'' ''v1alpha1'' ''findingrules'' ''EmELand FindingRule'' ''EmELand'',
      crd ''cert-manager.io'' ''v1'' ''certificates'' ''Certificate'' ''CertManager'',
      crd ''cert-manager.io'' ''v1'' ''issuers'' ''Issuer'' ''CertManager'',
      crd ''cert-manager.io'' ''v1'' ''clusterissuers'' ''ClusterIssuer'' ''CertManager'',
      crd ''monitoring.coreos.com'' ''v1'' ''servicemonitors'' ''ServiceMonitor'' ''Prometheus Operator'',
      crd ''monitoring.coreos.com'' ''v1'' ''prometheusrules'' ''PrometheusRule'' ''Prometheus Operator'',
      crd ''grafana.integreatly.org'' ''v1beta1'' ''grafanadashboards'' ''GrafanaDashboard'' ''Grafana Operator'']"

text \<open>The lookup map: a later entry with the same key would overwrite an earlier one.\<close>

definition checklist_lookup :: "string \<Rightarrow> CRDEntry option" where
  "checklist_lookup token = find (\<lambda>e. CRDEntry_String e = token) (rev DefaultChecklist)"

definition parseCRDToken :: "string \<Rightarrow> error + CRDEntry" where
  "parseCRDToken token =
     (case SplitN token CHR ''/'' 4 of
        [g, v, r] \<Rightarrow>
          if g = [] \<or> v = [] \<or> r = [] then Inl (ErrText ''expected format group/version/resource'')
          else Inr \<lparr>e_Group = g, e_Version = v, e_Resource = r, e_DisplayName = r, e_Category = g\<rparr>
      | _ \<Rightarrow> Inl (ErrText ''expected format group/version/resource''))"

fun parse_tokens :: "string list \<Rightarrow> error + CRDEntry list" where
  "parse_tokens [] = Inr []"
| "parse_tokens (t # ts) =
     (let token = TrimSpace t
      in if token = [] then parse_tokens ts
         else case checklist_lookup token of
             Some known \<Rightarrow> (case parse_tokens ts of Inl err \<Rightarrow> Inl err | Inr es \<Rightarrow> Inr (known # es))
           | None \<Rightarrow>
               (case parseCRDToken token of
                  Inl err \<Rightarrow> Inl (ErrWrap (''invalid CRD entry '' @ goQuote token @ '': '') err)
                | Inr entry \<Rightarrow> (case parse_tokens ts of Inl err \<Rightarrow> Inl err | Inr es \<Rightarrow> Inr (entry # es))))"

definition ParseChecklist :: "string \<Rightarrow> error + CRDEntry list" where
  "ParseChecklist raw = (if raw = [] then Inr [] else parse_tokens (Split raw CHR '',''))"

section \<open>Check\<close>

record DiscoveredResource =
  ar_Name :: string
  ar_Kind :: string
  ar_Namespaced :: bool
  ar_Verbs :: "string list"

record APIResourceList =
  rl_GroupVersion :: string
  rl_APIResources :: "DiscoveredResource list"

abbreviation rl_Names :: "APIResourceList \<Rightarrow> string list" where
  "rl_Names rl \<equiv> map ar_Name (rl_APIResources rl)"

record CheckResult =
  cr_Available :: "CRDEntry list"
  cr_Missing :: "CRDEntry list"
  cr_DiscoveryErr :: "error option"

text \<open>
  The discovery answer: an error or none, and the resource lists, nil or a list of pointers that may be nil.
\<close>

fun discovered_keys :: "APIResourceList option list \<Rightarrow> string list" where
  "discovered_keys [] = []"
| "discovered_keys (None # rls) = discovered_keys rls"
| "discovered_keys (Some rl # rls) = map (\<lambda>n. rl_GroupVersion rl @ ''/'' @ n) (rl_Names rl) @ discovered_keys rls"

fun check_entries :: "string list \<Rightarrow> CRDEntry list \<Rightarrow> CheckResult \<Rightarrow> CheckResult" where
  "check_entries available [] res = res"
| "check_entries available (entry # es) res =
     (let key = e_Group entry @ ''/'' @ e_Version entry @ ''/'' @ e_Resource entry
      in if key \<in> set available then check_entries available es (res\<lparr>cr_Available := cr_Available res @ [entry]\<rparr>)
         else check_entries available es (res\<lparr>cr_Missing := cr_Missing res @ [entry]\<rparr>))"

definition Check :: "error option \<Rightarrow> APIResourceList option list option \<Rightarrow> CRDEntry list \<Rightarrow> CheckResult" where
  "Check err resourceLists checklist =
     (case (err, resourceLists) of
        (Some e, None) \<Rightarrow> \<lparr>cr_Available = [], cr_Missing = checklist, cr_DiscoveryErr = Some e\<rparr>
      | _ \<Rightarrow>
          check_entries (discovered_keys (case resourceLists of None \<Rightarrow> [] | Some rls \<Rightarrow> rls)) checklist
            \<lparr>cr_Available = [], cr_Missing = [], cr_DiscoveryErr = err\<rparr>)"

section \<open>Findings\<close>

definition crdMissingFindingKind :: string where
  "crdMissingFindingKind = ''CRDNotAvailable''"

definition ensureCRDMissingFindingType :: "'m modelsrv \<Rightarrow> lib \<Rightarrow> 'm \<Rightarrow> 'm" where
  "ensureCRDMissingFindingType M L m =
     (let i = TypeIDForKind L crdMissingFindingKind
      in if GetFindingTypeById M i m \<noteq> None then m
         else snd (mAdd M (EFindingType \<lparr>ft_Id = i, ft_DisplayName = crdMissingFindingKind,
                ft_Description = ''A CRD expected by the k8s sensor is not installed in the cluster.''\<rparr>) m))"

definition crdMissingFinding :: "lib \<Rightarrow> CRDEntry \<Rightarrow> ResourceRef \<Rightarrow> MFindingR" where
  "crdMissingFinding L entry subject =
     \<lparr>f_Id = NewSHA1 L (TypeIDForKind L crdMissingFindingKind) (CRDEntry_String entry),
      f_DisplayName = ''CRD not available: '' @ e_DisplayName entry,
      f_Description = ''The CRD '' @ CRDEntry_String entry @ '' (category: '' @ e_Category entry @
        '') is not installed in this cluster. The sensor cannot watch resources of this type.'',
      f_Type = Some (TypeIDForKind L crdMissingFindingKind),
      f_Resources = [\<lparr>rr_ResourceId = rr_ResourceId subject, rr_ResourceType = rr_ResourceType subject\<rparr>],
      f_Annotations = fmempty\<rparr>"

definition createCRDMissingFinding :: "'m modelsrv \<Rightarrow> lib \<Rightarrow> CRDEntry \<Rightarrow> ResourceRef \<Rightarrow> 'm \<Rightarrow> 'm" where
  "createCRDMissingFinding M L entry subject m = AddFinding M (crdMissingFinding L entry subject) m"

definition Report :: "'m modelsrv \<Rightarrow> lib \<Rightarrow> CheckResult \<Rightarrow> ResourceRef \<Rightarrow> 'm \<Rightarrow> 'm" where
  "Report M L res subject m =
     (if cr_Missing res = [] then m
      else if rr_ResourceId subject = uuid_Nil then m
      else fold (\<lambda>entry. createCRDMissingFinding M L entry subject) (cr_Missing res) (ensureCRDMissingFindingType M L m))"

section \<open>Reporter\<close>

record Reporter =
  rp_Result :: CheckResult
  rp_Fallback :: "ResourceRef option"
  rp_ReportedWithContext :: bool

definition NewReporter :: "CheckResult \<Rightarrow> uuid \<Rightarrow> Reporter" where
  "NewReporter res fallbackNodeID =
     \<lparr>rp_Result = res,
      rp_Fallback = (if fallbackNodeID \<noteq> uuid_Nil
        then Some \<lparr>rr_ResourceId = fallbackNodeID, rr_ResourceType = NodeResource\<rparr> else None),
      rp_ReportedWithContext = False\<rparr>"

text \<open>The methods may be called on a nil reporter.\<close>

definition ReportWithContext ::
    "'m modelsrv \<Rightarrow> lib \<Rightarrow> uuid \<Rightarrow> Reporter option \<times> 'm \<Rightarrow> Reporter option \<times> 'm" where
  "ReportWithContext M L clusterContextID st =
     (case st of
        (None, m) \<Rightarrow> (None, m)
      | (Some r, m) \<Rightarrow>
          if clusterContextID = uuid_Nil then (Some r, m)
          else (Some (r\<lparr>rp_ReportedWithContext := True\<rparr>),
                Report M L (rp_Result r) \<lparr>rr_ResourceId = clusterContextID, rr_ResourceType = ContextResource\<rparr> m))"

definition ReportFallback :: "'m modelsrv \<Rightarrow> lib \<Rightarrow> Reporter option \<times> 'm \<Rightarrow> Reporter option \<times> 'm" where
  "ReportFallback M L st =
     (case st of
        (None, m) \<Rightarrow> (None, m)
      | (Some r, m) \<Rightarrow>
          (case rp_Fallback r of
             None \<Rightarrow> (Some r, m)
           | Some fb \<Rightarrow> if rp_ReportedWithContext r then (Some r, m) else (Some r, Report M L (rp_Result r) fb m)))"

definition ClearContext :: "'m modelsrv \<Rightarrow> lib \<Rightarrow> Reporter option \<times> 'm \<Rightarrow> Reporter option \<times> 'm" where
  "ClearContext M L st =
     (case st of
        (None, m) \<Rightarrow> (None, m)
      | (Some r, m) \<Rightarrow> ReportFallback M L (Some (r\<lparr>rp_ReportedWithContext := False\<rparr>), m))"

datatype reporter_call = WithContext uuid | Fallback | Clear

fun reporter_step :: "'m modelsrv \<Rightarrow> lib \<Rightarrow> reporter_call \<Rightarrow> Reporter option \<times> 'm \<Rightarrow> Reporter option \<times> 'm" where
  "reporter_step M L (WithContext c) st = ReportWithContext M L c st"
| "reporter_step M L Fallback st = ReportFallback M L st"
| "reporter_step M L Clear st = ClearContext M L st"

section \<open>Laws of the parser\<close>

definition well_formed_token :: "string \<Rightarrow> bool" where
  "well_formed_token t \<longleftrightarrow> length (Split t CHR ''/'') = 3 \<and> [] \<notin> set (Split t CHR ''/'')"

lemma parseCRDToken_iff:
  "parseCRDToken t = Inr e \<longleftrightarrow> well_formed_token t \<and>
     (\<exists>g v r. Split t CHR ''/'' = [g, v, r] \<and> e = \<lparr>e_Group = g, e_Version = v, e_Resource = r, e_DisplayName = r, e_Category = g\<rparr>)"
proof -
  have "SplitN t CHR ''/'' 4 = (let ps = Split t CHR ''/'' in
      if length ps \<le> 4 then ps else take 3 ps @ [Join (drop 3 ps) [CHR ''/'']])"
    using SplitN_Split [of t "CHR ''/''" 3] by simp
  then have "SplitN t CHR ''/'' 4 = [g, v, r] \<longleftrightarrow> Split t CHR ''/'' = [g, v, r]" for g v r
    by (auto simp: Let_def split: if_splits dest: arg_cong [where f = length])
  note eq = this
  show ?thesis
  proof (cases "\<exists>g v r. Split t CHR ''/'' = [g, v, r]")
    case True
    then obtain g v r where s: "Split t CHR ''/'' = [g, v, r]" by blast
    with eq have "SplitN t CHR ''/'' 4 = [g, v, r]" by blast
    with s show ?thesis by (auto simp: parseCRDToken_def well_formed_token_def)
  next
    case False
    with eq have "SplitN t CHR ''/'' 4 \<noteq> [g, v, r]" for g v r by blast
    then have "parseCRDToken t \<noteq> Inr e" by (auto simp: parseCRDToken_def split: list.splits)
    with False show ?thesis by blast
  qed
qed

lemma parseCRDToken_String:
  assumes "parseCRDToken t = Inr e"
  shows "CRDEntry_String e = t"
proof -
  from assms obtain g v r where s: "Split t CHR ''/'' = [g, v, r]"
    and e: "e = \<lparr>e_Group = g, e_Version = v, e_Resource = r, e_DisplayName = r, e_Category = g\<rparr>"
    by (auto simp: parseCRDToken_iff)
  have "t = Join [g, v, r] [CHR ''/'']" using Join_Split [of t "CHR ''/''"] s by simp
  then show ?thesis by (simp add: e CRDEntry_String_def)
qed

lemma checklist_lookup_String: "checklist_lookup t = Some e \<Longrightarrow> CRDEntry_String e = t"
  by (auto simp: checklist_lookup_def find_Some_iff)

lemma default_tokens: "list_all (\<lambda>e. well_formed_token (CRDEntry_String e)) DefaultChecklist"
  by (simp add: DefaultChecklist_def well_formed_token_def CRDEntry_String_def)

lemma checklist_lookup_well_formed:
  assumes "checklist_lookup t = Some e"
  shows "well_formed_token t"
proof -
  have "e \<in> set DefaultChecklist"
    using find_in_set assms unfolding checklist_lookup_def by (metis set_rev)
  moreover have "well_formed_token (CRDEntry_String e')" if "e' \<in> set DefaultChecklist" for e'
    using that default_tokens by (simp add: list_all_iff)
  ultimately show ?thesis using checklist_lookup_String [OF assms] by metis
qed

definition checklist_tokens :: "string \<Rightarrow> string list" where
  "checklist_tokens raw = filter (\<lambda>t. t \<noteq> []) (map TrimSpace (Split raw CHR '',''))"

lemma parse_tokens_iff:
  "(\<exists>es. parse_tokens ts = Inr es) \<longleftrightarrow> list_all well_formed_token (filter (\<lambda>t. t \<noteq> []) (map TrimSpace ts))"
proof (induction ts)
  case (Cons t ts)
  have "well_formed_token (TrimSpace t) \<longleftrightarrow> (\<exists>e. parseCRDToken (TrimSpace t) = Inr e)"
  proof
    assume w: "well_formed_token (TrimSpace t)"
    then obtain g v r where "Split (TrimSpace t) CHR ''/'' = [g, v, r]"
      by (auto simp: well_formed_token_def numeral_eq_Suc length_Suc_conv)
    with w show "\<exists>e. parseCRDToken (TrimSpace t) = Inr e" by (simp add: parseCRDToken_iff)
  qed (auto simp: parseCRDToken_iff)
  with Cons show ?case
    by (cases "parse_tokens ts"; cases "parseCRDToken (TrimSpace t)")
      (auto simp: Let_def dest: checklist_lookup_well_formed split: option.splits)
qed simp

lemma parse_tokens_String:
  "parse_tokens ts = Inr es \<Longrightarrow> map CRDEntry_String es = filter (\<lambda>t. t \<noteq> []) (map TrimSpace ts)"
proof (induction ts arbitrary: es)
  case (Cons t ts)
  then show ?case
    by (auto simp: Let_def dest: checklist_lookup_String parseCRDToken_String split: if_splits option.splits sum.splits)
qed simp

section \<open>Laws of the check\<close>

text \<open>Some returned list has the resource.\<close>

definition discovered :: "APIResourceList option list option \<Rightarrow> string \<Rightarrow> bool" where
  "discovered rls key \<longleftrightarrow> (\<exists>ls rl n. rls = Some ls \<and> Some rl \<in> set ls \<and> n \<in> set (rl_Names rl) \<and>
     key = rl_GroupVersion rl @ ''/'' @ n)"

lemma discovered_iff: "x \<in> set (discovered_keys ls) \<longleftrightarrow> discovered (Some ls) x"
  by (induction ls rule: discovered_keys.induct) (auto simp: discovered_def)

lemma check_entries_filter:
  "check_entries av es res = res\<lparr>cr_Available := cr_Available res @ filter (\<lambda>e. CRDEntry_String e \<in> set av) es,
     cr_Missing := cr_Missing res @ filter (\<lambda>e. CRDEntry_String e \<notin> set av) es\<rparr>"
  by (induction es arbitrary: res) (simp_all add: CRDEntry_String_def Let_def)

lemma ensureType_frame:
  assumes "store_laws M" and "k \<noteq> MFindingType"
  shows "mGet M k i (ensureCRDMissingFindingType M L m) = mGet M k i m"
proof -
  have "mGet M k i (snd (mAdd M (EFindingType x) m)) = mGet M k i m" for x
  proof (cases "mAdd M (EFindingType x) m")
    case (Pair r m')
    with assms store_add_frame [OF assms(1), of "EFindingType x" m m' k i] store_add_reject [OF assms(1), of "EFindingType x" m]
    show ?thesis by (cases r) auto
  qed
  then show ?thesis by (simp add: ensureCRDMissingFindingType_def Let_def)
qed

abbreviation crd_finding_id :: "lib \<Rightarrow> CRDEntry \<Rightarrow> uuid" where
  "crd_finding_id L e \<equiv> NewSHA1 L (TypeIDForKind L crdMissingFindingKind) (CRDEntry_String e)"

lemma create_all:
  assumes "store_laws M" and "accepts M MFinding" and "inj_on (crd_finding_id L) (set es)"
  shows "mGet M MFinding i (fold (\<lambda>e. createCRDMissingFinding M L e subject) es m) =
     (case find (\<lambda>e. crd_finding_id L e = i) es of
        None \<Rightarrow> mGet M MFinding i m | Some e \<Rightarrow> Some (EFinding (crdMissingFinding L e subject)))"
  using assms(3)
proof (induction es arbitrary: m)
  case (Cons e es)
  have id: "f_Id (crdMissingFinding L e subject) = crd_finding_id L e" by (simp add: crdMissingFinding_def)
  have "inj_on (crd_finding_id L) (set es)" using Cons.prems by (auto intro: inj_on_subset)
  moreover have "e' = e" if "find (\<lambda>e'. crd_finding_id L e' = crd_finding_id L e) es = Some e'" for e'
    using that Cons.prems by (auto simp: find_Some_iff inj_on_def)
  ultimately show ?case
    using Cons.IH id by (auto simp: createCRDMissingFinding_def AddFinding_get [OF assms(1,2)] split: option.splits)
qed simp

lemma Report_findings:
  assumes "store_laws M" and "accepts M MFinding" and "inj_on (crd_finding_id L) (set (cr_Missing res))"
    and "rr_ResourceId subject \<noteq> uuid_Nil"
  shows "mGet M MFinding i (Report M L res subject m) =
     (case find (\<lambda>e. crd_finding_id L e = i) (cr_Missing res) of
        None \<Rightarrow> mGet M MFinding i m | Some e \<Rightarrow> Some (EFinding (crdMissingFinding L e subject)))"
  using assms(4) create_all [OF assms(1-3), of i subject "ensureCRDMissingFindingType M L m"]
  by (simp add: Report_def ensureType_frame [OF assms(1)] split: option.split)

lemma Report_entities:
  assumes "store_laws M" and "k \<notin> {MFinding, MFindingType}"
  shows "mGet M k i (Report M L res subject m) = mGet M k i m"
proof -
  have "mGet M k i (fold (\<lambda>e. createCRDMissingFinding M L e subject) es m') = mGet M k i m'" for es m'
    using assms by (induction es arbitrary: m') (simp_all add: createCRDMissingFinding_def AddFinding_get_entity)
  then show ?thesis using assms by (simp add: Report_def ensureType_frame)
qed

lemma reporter_entities:
  assumes "store_laws M" and "k \<notin> {MFinding, MFindingType}"
  shows "mGet M k i (snd (ReportWithContext M L c st)) = mGet M k i (snd st)"
    and "mGet M k i (snd (ReportFallback M L st)) = mGet M k i (snd st)"
    and "mGet M k i (snd (ClearContext M L st)) = mGet M k i (snd st)"
  by (auto simp: ReportWithContext_def ReportFallback_def ClearContext_def Report_entities [OF assms]
      split: prod.splits option.splits)

text \<open>The resource the findings are attached to, and whether that is the cluster context.\<close>

fun subject_step :: "ResourceRef \<Rightarrow> reporter_call \<Rightarrow> bool \<times> ResourceRef option \<Rightarrow> bool \<times> ResourceRef option" where
  "subject_step node (WithContext c) (ctx, subj) =
     (if c = uuid_Nil then (ctx, subj) else (True, Some \<lparr>rr_ResourceId = c, rr_ResourceType = ContextResource\<rparr>))"
| "subject_step node Fallback (ctx, subj) = (if ctx then (ctx, subj) else (ctx, Some node))"
| "subject_step node Clear (ctx, subj) = (False, Some node)"

lemma reporter_run:
  assumes laws: "store_laws M" "accepts M MFinding" and inj: "inj_on (crd_finding_id L) (set (cr_Missing res))"
    and node: "nodeID \<noteq> uuid_Nil" and e: "e \<in> set (cr_Missing res)"
    and r: "rp_Result r = res" "rp_Fallback r = Some \<lparr>rr_ResourceId = nodeID, rr_ResourceType = NodeResource\<rparr>"
      "rp_ReportedWithContext r = ctx"
    and start: "mGet M MFinding (crd_finding_id L e) m = map_option (\<lambda>s. EFinding (crdMissingFinding L e s)) subj"
  shows "mGet M MFinding (crd_finding_id L e) (snd (fold (reporter_step M L) calls (Some r, m))) =
     map_option (\<lambda>s. EFinding (crdMissingFinding L e s))
       (snd (fold (subject_step \<lparr>rr_ResourceId = nodeID, rr_ResourceType = NodeResource\<rparr>) calls (ctx, subj)))"
  using r start
proof (induction calls arbitrary: r m ctx subj)
  case (Cons call calls)
  let ?node = "\<lparr>rr_ResourceId = nodeID, rr_ResourceType = NodeResource\<rparr> :: ResourceRef"
  have find: "find (\<lambda>e'. crd_finding_id L e' = crd_finding_id L e) (cr_Missing res) = Some e"
  proof (cases "find (\<lambda>e'. crd_finding_id L e' = crd_finding_id L e) (cr_Missing res)")
    case None
    then show ?thesis using e by (auto simp: find_None_iff)
  next
    case (Some e')
    then have "e' \<in> set (cr_Missing res)" "crd_finding_id L e' = crd_finding_id L e"
      by (auto simp: find_Some_iff)
    then show ?thesis using Some inj e by (metis inj_onD)
  qed
  have rep: "mGet M MFinding (crd_finding_id L e) (Report M L res subject m) = Some (EFinding (crdMissingFinding L e subject))"
    if "rr_ResourceId subject \<noteq> uuid_Nil" for subject
    using Report_findings [OF laws inj that, of "crd_finding_id L e" m] find by simp
  have "\<exists>r' m'. reporter_step M L call (Some r, m) = (Some r', m') \<and> rp_Result r' = res \<and> rp_Fallback r' = Some ?node \<and>
      rp_ReportedWithContext r' = fst (subject_step ?node call (ctx, subj)) \<and>
      mGet M MFinding (crd_finding_id L e) m' =
        map_option (\<lambda>s. EFinding (crdMissingFinding L e s)) (snd (subject_step ?node call (ctx, subj)))"
    using Cons.prems rep node
    by (cases call) (auto simp: ReportWithContext_def ReportFallback_def ClearContext_def)
  then obtain r' m' where st: "reporter_step M L call (Some r, m) = (Some r', m')"
    and r': "rp_Result r' = res" "rp_Fallback r' = Some ?node"
      "rp_ReportedWithContext r' = fst (subject_step ?node call (ctx, subj))"
    and m': "mGet M MFinding (crd_finding_id L e) m' =
      map_option (\<lambda>s. EFinding (crdMissingFinding L e s)) (snd (subject_step ?node call (ctx, subj)))" by blast
  from Cons.IH [OF r' m'] show ?case by (simp add: st)
qed simp

section \<open>Properties\<close>

text \<open>
  (C33) The override of the checklist. Parsing succeeds exactly if every non-empty trimmed token is three non-empty parts
  separated by slashes, and then the entries are the tokens, in order: their string forms are the tokens.
  An entry of the built-in list keeps its metadata.
\<close>

theorem parse_checklist_exact:
  "((\<exists>es. ParseChecklist raw = Inr es) \<longleftrightarrow> list_all well_formed_token (checklist_tokens raw)) \<and>
   (ParseChecklist raw = Inr es \<longrightarrow> map CRDEntry_String es = checklist_tokens raw)"
proof (cases "raw = []")
  case True
  have "TrimSpace [] = []" using TrimSpace_infix [of "[]"] by simp
  with True show ?thesis by (auto simp: ParseChecklist_def checklist_tokens_def)
next
  case False
  then show ?thesis
    using parse_tokens_iff [of "Split raw CHR '',''"] parse_tokens_String [of "Split raw CHR '',''" es]
    by (simp add: ParseChecklist_def checklist_tokens_def)
qed

theorem parse_checklist_exact_witness:
  "ParseChecklist ''a/b'' \<noteq> Inr []"
proof -
  have "strip_front ws s = s" if "\<forall>w\<in>set ws. w \<noteq> [] \<longrightarrow> \<not> HasPrefix s w" for ws s
    using strip_front_stop that by blast
  then have "TrimSpace ''a/b'' = ''a/b''"
    by (simp add: TrimSpace_def space_encodings_def ascii_spaces_def wide_spaces_def HasPrefix_def)
  then have "\<not> list_all well_formed_token (checklist_tokens ''a/b'')"
    by (simp add: checklist_tokens_def well_formed_token_def)
  with parse_checklist_exact [of "''a/b''" "[]"] show ?thesis by blast
qed

text \<open>
  The check partitions the checklist: an entry is missing exactly if no returned resource list has its
  group, version and resource, and available otherwise, with every entry counted once. When
  discovery fails without any list, every entry is missing; a partial failure does not hide what was returned.
\<close>

theorem check_partitions_checklist:
  "mset (cr_Available (Check err rls checklist)) + mset (cr_Missing (Check err rls checklist)) = mset checklist \<and>
   (e \<in> set (cr_Missing (Check err rls checklist)) \<longleftrightarrow> e \<in> set checklist \<and> \<not> discovered rls (CRDEntry_String e)) \<and>
   cr_DiscoveryErr (Check err rls checklist) = err"
proof -
  have mset: "mset (filter P xs) + mset (filter (\<lambda>x. \<not> P x) xs) = mset xs" for P and xs :: "CRDEntry list"
    by (induction xs) auto
  have none: "\<not> discovered None x" for x by (simp add: discovered_def)
  show ?thesis
    by (cases err; cases rls) (auto simp: Check_def check_entries_filter mset none discovered_iff [symmetric])
qed

text \<open>
  (C27) Where the findings about missing CRDs are attached. After any sequence of calls of the reporter, the finding of every
  missing CRD refers to the cluster context named last by \<open>ReportWithContext\<close>, as long as \<open>ClearContext\<close> was not called since, and to the
  sensor's node after \<open>ClearContext\<close> or after \<open>ReportFallback\<close> without a context; a fallback never displaces the context, and
  before the first effective call there is no finding.
\<close>

theorem crd_findings_subject:
  assumes "store_laws M" and "accepts M MFinding" and "inj_on (crd_finding_id L) (set (cr_Missing res))"
    and "nodeID \<noteq> uuid_Nil" and "e \<in> set (cr_Missing res)" and "mGet M MFinding (crd_finding_id L e) m = None"
  shows "mGet M MFinding (crd_finding_id L e) (snd (fold (reporter_step M L) calls (Some (NewReporter res nodeID), m))) =
     map_option (\<lambda>s. EFinding (crdMissingFinding L e s))
       (snd (fold (subject_step \<lparr>rr_ResourceId = nodeID, rr_ResourceType = NodeResource\<rparr>) calls (False, None)))"
  by (rule reporter_run [OF assms(1-5)]) (simp_all add: NewReporter_def assms(4,6))

theorem crd_findings_subject_witness:
  "mGet mem_store MFinding (crd_finding_id mem_lib (crd ''g'' ''v1'' ''r'' ''R'' ''G''))
     (snd (fold (reporter_step mem_store mem_lib) [Fallback, WithContext 5, Fallback]
       (Some (NewReporter \<lparr>cr_Available = [], cr_Missing = [crd ''g'' ''v1'' ''r'' ''R'' ''G''], cr_DiscoveryErr = None\<rparr> 3), []))) =
   Some (EFinding (crdMissingFinding mem_lib (crd ''g'' ''v1'' ''r'' ''R'' ''G'')
     \<lparr>rr_ResourceId = 5, rr_ResourceType = ContextResource\<rparr>))"
proof -
  let ?res = "\<lparr>cr_Available = [], cr_Missing = [crd ''g'' ''v1'' ''r'' ''R'' ''G''], cr_DiscoveryErr = None\<rparr> :: CheckResult"
  have "mGet mem_store MFinding i [] = None" for i by (simp add: mem_store_def)
  then show ?thesis
    using crd_findings_subject [of mem_store mem_lib ?res 3 "crd ''g'' ''v1'' ''r'' ''R'' ''G''" "[]" "[Fallback, WithContext 5, Fallback]"]
    by (simp del: fold_simps reporter_step.simps)
qed

end
