(* ===== verification/Namespace_Controller.thy ===== *)
theory Namespace_Controller
  imports Reconcilers Crd_Check Instance_Controllers
begin

text \<open>
  \<open>namespace_controller.go\<close>: namespaces as contexts. The namespace \<open>kube-system\<close> is the cluster's own context and
  the parent of the others; its UUID is kept in the controller, and a namespace that is seen
  before it is requeued after two seconds. The controller also drives the reporter of missing
  CRDs. A result is the delay in seconds (0 for none) and the error.
\<close>

record 'm ns_world =
  nsModel :: 'm
  nsIndex :: NameIndex
  nsCluster :: uuid
  nsReporter :: "Reporter option"

definition kube_system :: string where
  "kube_system = ''kube-system''"

definition reconcileContextParentFinding ::
    "'m modelsrv \<Rightarrow> lib \<Rightarrow> uuid \<Rightarrow> ObjectMeta \<Rightarrow> 'm \<Rightarrow> 'm" where
  "reconcileContextParentFinding M L i ns m =
     (let parentID = annotationUUID L (Annotations ns) AnnotationContextParent
      in if parentID = uuid_Nil then deleteReferenceFinding M L m i ReferencedResourceNotFound
         else if mGet M MContext parentID m = None
              then upsertReferencedResourceNotFound M L m i ContextResource parentID ContextResource (Name ns)
              else deleteReferenceFinding M L m i ReferencedResourceNotFound)"

definition NamespaceReconcile ::
    "'m modelsrv \<Rightarrow> lib \<Rightarrow> ('b object \<Rightarrow> error + Unstructured) \<Rightarrow> RuleEvaluation option \<Rightarrow>
     NamespacedName \<Rightarrow> 'b object get_result \<Rightarrow> 'm ns_world \<Rightarrow> (nat \<times> error option) \<times> 'm ns_world" where
  "NamespaceReconcile M L ToUnstructured ruleEval nn got s =
     (case got of
        NotFound \<Rightarrow>
          (let s1 = (if nn_Name nn = kube_system
                     then (case ClearContext M L (nsReporter s, nsModel s) of
                             (rp, m) \<Rightarrow> s\<lparr>nsCluster := uuid_Nil, nsReporter := rp, nsModel := m\<rparr>)
                     else s)
           in case Delete (nsIndex s1) KindContext (nn_Name nn) of
                (i, idx) \<Rightarrow>
                  if i \<noteq> uuid_Nil then
                    (let m1 = deleteReferenceFinding M L (nsModel s1) i ReferencedResourceNotFound
                     in case mDelete M MContext i m1 of
                          (r, m2) \<Rightarrow> ((0, ignore_not_found MContext r), s1\<lparr>nsModel := m2, nsIndex := idx\<rparr>))
                  else ((0, Some ErrK8sNotFound), s1\<lparr>nsIndex := idx\<rparr>))
      | GetError err \<Rightarrow> ((0, Some (ErrText err)), s)
      | Found obj \<Rightarrow>
          (let ns = o_Meta obj; clusterID = nsCluster s
           in if Name ns \<noteq> kube_system \<and> clusterID = uuid_Nil then ((2, None), s)
              else case convertNamespaceToContext L ns clusterID of
                  None \<Rightarrow> ((0, None), s)
                | Some (emCtx, i) \<Rightarrow>
                    (let s1 = (if Name ns = kube_system then s\<lparr>nsCluster := i\<rparr> else s)
                     in case mAdd M (EContext emCtx) (nsModel s1) of
                          (Some err, m) \<Rightarrow> ((0, Some err), s1\<lparr>nsModel := m\<rparr>)
                        | (None, m) \<Rightarrow>
                            (let idx = Put (nsIndex s1) KindContext (nn_Name nn) i;
                                 rm = (if Name ns = kube_system then ReportWithContext M L i (nsReporter s1, m) else (nsReporter s1, m));
                                 m2 = reconcileContextParentFinding M L i ns (snd rm);
                                 m3 = run_rule_evaluation M L ToUnstructured ruleEval obj m2
                             in ((0, None), s1\<lparr>nsModel := m3, nsIndex := idx, nsReporter := fst rm\<rparr>)))))"

text \<open>
  The runnable \<open>crdMissingFallback\<close>: any error of the lookup of \<open>kube-system\<close> triggers the fallback.
\<close>

definition crdMissingFallback_Start :: "'m modelsrv \<Rightarrow> lib \<Rightarrow> 'o get_result \<Rightarrow> 'm ns_world \<Rightarrow> 'm ns_world" where
  "crdMissingFallback_Start M L got s =
     (case got of
        Found _ \<Rightarrow> s
      | _ \<Rightarrow> (case ReportFallback M L (nsReporter s, nsModel s) of (rp, m) \<Rightarrow> s\<lparr>nsReporter := rp, nsModel := m\<rparr>))"

section \<open>Effects\<close>

lemma Namespace_wait:
  "Name (o_Meta obj) \<noteq> kube_system \<and> nsCluster s = uuid_Nil \<Longrightarrow> NamespaceReconcile M L T ev nn (Found obj) s = ((2, None), s)"
  by (simp add: NamespaceReconcile_def Let_def)

lemma Namespace_skip:
  assumes "\<not> (Name (o_Meta obj) \<noteq> kube_system \<and> nsCluster s = uuid_Nil)"
    and "convertNamespaceToContext L (o_Meta obj) (nsCluster s) = None"
  shows "NamespaceReconcile M L T ev nn (Found obj) s = ((0, None), s)"
  unfolding NamespaceReconcile_def Let_def using assms by (simp only: get_result.case if_False option.case)

lemma Namespace_add:
  assumes "\<not> (Name (o_Meta obj) \<noteq> kube_system \<and> nsCluster s = uuid_Nil)"
    and "convertNamespaceToContext L (o_Meta obj) (nsCluster s) = Some (c, i)"
  shows "NamespaceReconcile M L T ev nn (Found obj) s =
    (let s1 = (if Name (o_Meta obj) = kube_system then s\<lparr>nsCluster := i\<rparr> else s)
     in case mAdd M (EContext c) (nsModel s) of
          (Some err, m) \<Rightarrow> ((0, Some err), s1\<lparr>nsModel := m\<rparr>)
        | (None, m) \<Rightarrow>
            (let rm = (if Name (o_Meta obj) = kube_system then ReportWithContext M L i (nsReporter s, m) else (nsReporter s, m))
             in ((0, None), s1\<lparr>nsModel := run_rule_evaluation M L T ev obj (reconcileContextParentFinding M L i (o_Meta obj) (snd rm)),
                  nsIndex := Put (nsIndex s) KindContext (nn_Name nn) i, nsReporter := fst rm\<rparr>)))"
proof -
  have m: "nsModel (if b then s\<lparr>nsCluster := i\<rparr> else s) = nsModel s" "nsIndex (if b then s\<lparr>nsCluster := i\<rparr> else s) = nsIndex s"
    "nsReporter (if b then s\<lparr>nsCluster := i\<rparr> else s) = nsReporter s" for b by simp_all
  show ?thesis
    unfolding NamespaceReconcile_def Let_def
    using assms by (simp only: get_result.case if_False option.case prod.case m)
qed

lemma parent_finding_entities:
  assumes "store_laws M" and "k \<noteq> MFinding"
  shows "mGet M k j (reconcileContextParentFinding M L i ns m) = mGet M k j m"
  using assms by (simp add: reconcileContextParentFinding_def Let_def model_simps)

lemma found_contexts:
  assumes "store_laws M" and "mAdd M (EContext c) m = (None, m')"
  shows "mGet M MContext j (run_rule_evaluation M L T ev obj
      (reconcileContextParentFinding M L i ns (snd (if b then ReportWithContext M L x (rp, m') else (rp, m'))))) =
    (if j = ctx_Id c then Some (EContext c) else mGet M MContext j m)"
  using store_add_get [OF assms] store_add_frame [OF assms, of MContext j]
  by (simp add: run_entities [OF assms(1)] parent_finding_entities [OF assms(1)] reporter_entities [OF assms(1)])

lemma gone_contexts:
  assumes "store_laws M"
  shows "mGet M MContext j (snd (mDelete M MContext i (deleteReferenceFinding M L m s kd))) =
    (if j = i then None else mGet M MContext j m)"
  using store_delete_get [OF assms] store_delete_frame [OF assms, of MContext j MContext i]
  by (simp add: deleteReferenceFinding_get [OF assms])

text \<open>A stored context is the cluster's or has a parent.\<close>

definition rooted :: "entity \<Rightarrow> bool" where
  "rooted e \<longleftrightarrow> (case e of EContext c \<Rightarrow> ctx_DisplayName c = kube_system \<or> ctx_Parent c \<noteq> None | _ \<Rightarrow> False)"

lemma convert_rooted:
  assumes "convertNamespaceToContext L ns cl = Some (c, i)" and "Name ns = kube_system \<or> cl \<noteq> uuid_Nil"
  shows "rooted (EContext c)" and "ctx_Id c = i" and "i \<noteq> uuid_Nil" and "i = parseOptionalUUID L (UID ns)"
    and "ctx_Parent c = (case first_uuid L [annotation_value (Annotations ns) AnnotationContextParent] of Some p \<Rightarrow> Some p
       | None \<Rightarrow> if Name ns = kube_system then None else Some cl)"
  using assms
  by (auto simp: convertNamespaceToContext_def rooted_def kube_system_def Let_def annotationUUID_value uuidFromMeta_def
      first_uuid_parse simp del: first_uuid.simps(2) split: if_splits)

lemma reconcile_rooted:
  assumes "store_laws M" and "\<And>j e. mGet M MContext j (nsModel s) = Some e \<Longrightarrow> rooted e"
    and "mGet M MContext j (nsModel (snd (NamespaceReconcile M L T ev nn g s))) = Some e"
  shows "rooted e"
proof (cases g)
  case (Found obj)
  let ?ns = "o_Meta obj"
  show ?thesis
  proof (cases "Name ?ns \<noteq> kube_system \<and> nsCluster s = uuid_Nil \<or> convertNamespaceToContext L ?ns (nsCluster s) = None")
    case True
    with Found assms(3) have "mGet M MContext j (nsModel s) = Some e"
      by (cases "Name ?ns \<noteq> kube_system \<and> nsCluster s = uuid_Nil") (auto simp: Namespace_wait Namespace_skip)
    then show ?thesis by (rule assms(2))
  next
    case False
    then have nw: "\<not> (Name ?ns \<noteq> kube_system \<and> nsCluster s = uuid_Nil)" by blast
    from False obtain c i where c: "convertNamespaceToContext L ?ns (nsCluster s) = Some (c, i)" by auto
    note r = convert_rooted [OF c]
    obtain err m where a: "mAdd M (EContext c) (nsModel s) = (err, m)" by (cases "mAdd M (EContext c) (nsModel s)")
    show ?thesis
    proof (cases err)
      case None
      with a have a': "mAdd M (EContext c) (nsModel s) = (None, m)" by simp
      from Found False c a' assms(3) have "(if j = ctx_Id c then Some (EContext c) else mGet M MContext j (nsModel s)) = Some e"
        by (simp add: Namespace_add [OF nw c] Let_def found_contexts [OF assms(1) a'] split: if_splits)
      with r False assms(2) show ?thesis by (auto split: if_splits)
    next
      case (Some x)
      with Found a assms(3) have "mGet M MContext j (nsModel s) = Some e"
        by (simp add: Namespace_add [OF nw c] Let_def store_add_reject [OF assms(1), of _ _ x] split: if_splits)
      then show ?thesis by (rule assms(2))
    qed
  qed
next
  case NotFound
  let ?m = "if nn_Name nn = kube_system then snd (ClearContext M L (nsReporter s, nsModel s)) else nsModel s"
  have "mGet M MContext j ?m = Some e"
    using assms(3) NotFound gone_contexts [OF assms(1)]
    by (auto simp: NamespaceReconcile_def Let_def case_prod_beta split: if_splits)
  then show ?thesis
    using assms(2) by (auto simp: reporter_entities [OF assms(1)] split: if_splits)
next
  case (GetError err)
  with assms(2,3) show ?thesis by (simp add: NamespaceReconcile_def)
qed

inductive ns_reach :: "'m modelsrv \<Rightarrow> lib \<Rightarrow> ('b object \<Rightarrow> error + Unstructured) \<Rightarrow> 'm ns_world \<Rightarrow> 'm ns_world \<Rightarrow> bool"
  for M L T s0 where
  ns_start: "ns_reach M L T s0 s0"
| ns_event: "ns_reach M L T s0 s \<Longrightarrow> ns_reach M L T s0 (snd (NamespaceReconcile M L T ev nn g s))"
| ns_fallback: "ns_reach M L T s0 s \<Longrightarrow> ns_reach M L T s0 (crdMissingFallback_Start M L (g :: unit get_result) s)"

lemma namespace_stored:
  assumes "store_laws M" and "accepts M MContext" and "first_uuid L [UID (o_Meta obj)] = Some i"
    and "NamespaceReconcile M L T ev nn (Found obj) s = (res, s')"
  shows "if Name (o_Meta obj) \<noteq> kube_system \<and> nsCluster s = uuid_Nil then res = (2, None) \<and> s' = s
    else res = (0, None) \<and> Get (nsIndex s') KindContext (nn_Name nn) = i \<and>
      nsCluster s' = (if Name (o_Meta obj) = kube_system then i else nsCluster s) \<and>
      (\<exists>c. mGet M MContext i (nsModel s') = Some (EContext c) \<and> ctx_DisplayName c = Name (o_Meta obj) \<and>
        ctx_Parent c = (case first_uuid L [annotation_value (Annotations (o_Meta obj)) AnnotationContextParent] of
            Some p \<Rightarrow> Some p
          | None \<Rightarrow> if Name (o_Meta obj) = kube_system then None else Some (nsCluster s)))"
proof (cases "Name (o_Meta obj) \<noteq> kube_system \<and> nsCluster s = uuid_Nil")
  case True
  with assms(4) show ?thesis by (simp add: NamespaceReconcile_def Let_def)
next
  case False
  let ?ns = "o_Meta obj"
  have u: "parseOptionalUUID L (UID ?ns) = i" "i \<noteq> uuid_Nil"
    using assms(3) by (auto simp: first_uuid_parse simp del: first_uuid.simps(2) split: if_splits)
  then obtain c where c: "convertNamespaceToContext L ?ns (nsCluster s) = Some (c, i)" and n: "ctx_DisplayName c = Name ?ns"
    by (auto simp: convertNamespaceToContext_def uuidFromMeta_def Let_def)
  note r = convert_rooted [OF c]
  have "fst (mAdd M (EContext c) (nsModel s)) = None" using assms(2) by (intro accepts_add) simp
  then obtain m where m: "mAdd M (EContext c) (nsModel s) = (None, m)" by (metis prod.collapse)
  have "res = (0, None) \<and> Get (nsIndex s') KindContext (nn_Name nn) = i \<and>
      nsCluster s' = (if Name ?ns = kube_system then i else nsCluster s)"
    using assms(4) by (auto simp: Namespace_add [OF False c] m Let_def idx_simps)
  moreover have "mGet M MContext i (nsModel s') = Some (EContext c)"
    using assms(4) r(2) False by (auto simp: Namespace_add [OF False c] m Let_def found_contexts [OF assms(1) m, where b = True, simplified] found_contexts [OF assms(1) m, where b = False, simplified])
  ultimately show ?thesis using False n r(5) by auto
qed

lemma demo_ns_uid: "first_uuid mem_lib [UID (o_Meta (demo_object_meta ''a'' ''5'' fmempty))] = Some 5"
  by (simp add: demo_object_meta_def mem_lib_def hex_val_def)

section \<open>Properties\<close>

text \<open>
  The tree of contexts is rooted in the cluster. In every state that namespace events and the CRD fallback can reach from a
  model without contexts, every stored context is that of \<open>kube-system\<close> or has a parent: no
  namespace becomes a second root because it was seen before \<open>kube-system\<close>.
\<close>

theorem contexts_rooted_in_cluster:
  assumes "store_laws M" and "\<And>j. mGet M MContext j (nsModel s0) = None" and "ns_reach M L T s0 s"
    and "mGet M MContext i (nsModel s) = Some (EContext c)"
  shows "ctx_DisplayName c = kube_system \<or> ctx_Parent c \<noteq> None"
proof -
  have "mGet M MContext j (nsModel s) = Some e \<Longrightarrow> rooted e" for j e
    using assms(3)
  proof (induction arbitrary: j e rule: ns_reach.induct)
    case ns_start
    then show ?case using assms(2) by simp
  next
    case (ns_event s ev nn g)
    then show ?case using reconcile_rooted [OF assms(1)] by blast
  next
    case (ns_fallback s g)
    then show ?case
      by (cases g) (auto simp: crdMissingFallback_Start_def case_prod_beta reporter_entities [OF assms(1)])
  qed
  from this [OF assms(4)] show ?thesis by (simp add: rooted_def)
qed

theorem contexts_rooted_in_cluster_witness:
  "\<exists>c. mGet mem_store MContext 5 (nsModel (snd (NamespaceReconcile mem_store mem_lib (\<lambda>_. Inl (ErrText [])) None
       \<lparr>nn_Namespace = [], nn_Name = ''a''\<rparr> (Found (demo_object_meta ''a'' ''5'' fmempty))
       \<lparr>nsModel = [], nsIndex = NewNameIndex, nsCluster = 9, nsReporter = None\<rparr>))) = Some (EContext c) \<and>
     (ctx_DisplayName c = kube_system \<or> ctx_Parent c \<noteq> None)"
proof -
  let ?T = "\<lambda>_ :: unit object. Inl (ErrText []) :: error + Unstructured"
  let ?s0 = "\<lparr>nsModel = [], nsIndex = NewNameIndex, nsCluster = 9, nsReporter = None\<rparr> :: entity list ns_world"
  let ?r = "NamespaceReconcile mem_store mem_lib ?T None \<lparr>nn_Namespace = [], nn_Name = ''a''\<rparr>
      (Found (demo_object_meta ''a'' ''5'' fmempty)) ?s0"
  obtain c where c: "mGet mem_store MContext 5 (nsModel (snd ?r)) = Some (EContext c)"
    using namespace_stored [OF mem_store_laws mem_store_accepts demo_ns_uid prod.collapse [symmetric], where T = ?T and ev = None
        and nn = "\<lparr>nn_Namespace = [], nn_Name = ''a''\<rparr>" and s = ?s0] by (auto split: if_splits)
  have reach: "ns_reach mem_store mem_lib ?T ?s0 (snd ?r)" by (rule ns_event [OF ns_start])
  have "mGet mem_store MContext j (nsModel ?s0) = None" for j by (simp add: mem_store_def)
  from contexts_rooted_in_cluster [OF mem_store_laws this reach c] c show ?thesis by blast
qed

text \<open>
  A namespace event in detail. A namespace other than \<open>kube-system\<close> that is seen before it changes nothing and is requeued after two
  seconds. Otherwise a namespace with a UUID is stored and indexed, its parent is the annotated
  UUID, else the cluster's context (none for \<open>kube-system\<close>), and \<open>kube-system\<close> sets the cluster's UUID.
\<close>

theorem namespace_found:
  assumes "store_laws M" and "accepts M MContext" and "first_uuid L [UID (o_Meta obj)] = Some i"
    and "NamespaceReconcile M L T ev nn (Found obj) s = (res, s')"
  shows "if Name (o_Meta obj) \<noteq> kube_system \<and> nsCluster s = uuid_Nil then res = (2, None) \<and> s' = s
    else res = (0, None) \<and> Get (nsIndex s') KindContext (nn_Name nn) = i \<and>
      nsCluster s' = (if Name (o_Meta obj) = kube_system then i else nsCluster s) \<and>
      (\<exists>c. mGet M MContext i (nsModel s') = Some (EContext c) \<and> ctx_DisplayName c = Name (o_Meta obj) \<and>
        ctx_Parent c = (case first_uuid L [annotation_value (Annotations (o_Meta obj)) AnnotationContextParent] of
            Some p \<Rightarrow> Some p
          | None \<Rightarrow> if Name (o_Meta obj) = kube_system then None else Some (nsCluster s)))"
  by (rule namespace_stored [OF assms])

theorem namespace_found_witness:
  "fst (NamespaceReconcile mem_store mem_lib (\<lambda>_. Inl (ErrText [])) None \<lparr>nn_Namespace = [], nn_Name = ''a''\<rparr>
     (Found (demo_object_meta ''a'' ''5'' fmempty))
     \<lparr>nsModel = [], nsIndex = NewNameIndex, nsCluster = uuid_Nil, nsReporter = None\<rparr>) = (2, None)"
  using namespace_found [OF mem_store_laws mem_store_accepts demo_ns_uid prod.collapse [symmetric],
      where T = "\<lambda>_. Inl (ErrText [])" and ev = None and nn = "\<lparr>nn_Namespace = [], nn_Name = ''a''\<rparr>"
        and s = "\<lparr>nsModel = [], nsIndex = NewNameIndex, nsCluster = uuid_Nil, nsReporter = None\<rparr>"]
  by (simp add: demo_object_meta_def kube_system_def)

text \<open>
  (C38) A deleted namespace that is not in the index, because it was never stored (for instance while it waited for \<open>kube-system\<close>) or because its
  deletion was handled before, makes the handler return the API server's not-found error. The
  manager then retries the request again and again; the other controllers return no error here.
\<close>

theorem deleted_unknown_namespace_errs:
  assumes "Get (nsIndex s) KindContext (nn_Name nn) = uuid_Nil"
  shows "fst (NamespaceReconcile M L T ev nn NotFound s) = (0, Some ErrK8sNotFound) \<and>
    (\<forall>s'. s' = snd (NamespaceReconcile M L T ev nn NotFound s) \<longrightarrow>
       fst (NamespaceReconcile M L T ev nn NotFound s') = (0, Some ErrK8sNotFound))"
proof -
  have err: "fst (NamespaceReconcile M L T ev nn NotFound t) = (0, Some ErrK8sNotFound) \<and>
      Get (nsIndex (snd (NamespaceReconcile M L T ev nn NotFound t))) KindContext (nn_Name nn) = uuid_Nil"
    if "Get (nsIndex t) KindContext (nn_Name nn) = uuid_Nil" for t
    using that by (auto simp: NamespaceReconcile_def Let_def case_prod_beta Delete_result idx_simps)
  from err [OF assms] err show ?thesis by blast
qed

theorem deleted_unknown_namespace_errs_witness:
  "fst (NamespaceReconcile mem_store mem_lib (\<lambda>_ :: unit object. Inl (ErrText [])) None \<lparr>nn_Namespace = [], nn_Name = ''a''\<rparr> NotFound
     \<lparr>nsModel = [], nsIndex = NewNameIndex, nsCluster = uuid_Nil, nsReporter = None\<rparr>) = (0, Some ErrK8sNotFound)"
  using deleted_unknown_namespace_errs [of "\<lparr>nsModel = [], nsIndex = NewNameIndex, nsCluster = uuid_Nil, nsReporter = None\<rparr>"
      "\<lparr>nn_Namespace = [], nn_Name = ''a''\<rparr>" mem_store mem_lib "\<lambda>_ :: unit object. Inl (ErrText [])" None]
  by (simp add: idx_simps)

end
