(* ===== verification/Base64.thy ===== *)
theory Base64
  imports Prelude
begin

text \<open>
  \<open>base64.StdEncoding\<close> of the Go library, which wraps the release data of a Helm secret
  (\<open>internal/helm/decode.go\<close> and \<open>encode.go\<close>): the standard alphabet with padding. The decoder skips carriage
  returns and line feeds wherever they stand, does not look at the unused bits of the last
  group, and fails on anything after the padding. A failed decode is None; the offset in its error is
  not modelled.
\<close>

definition b64_char :: "nat \<Rightarrow> char" where
  "b64_char n =
     (if n < 26 then char_of (n + 65) else if n < 52 then char_of (n + 71)
      else if n < 62 then char_of (n - 4) else if n = 62 then CHR ''+'' else CHR ''/'')"

definition b64_value :: "char \<Rightarrow> nat option" where
  "b64_value c =
     (let n = of_char c
      in if 65 \<le> n \<and> n \<le> 90 then Some (n - 65) else if 97 \<le> n \<and> n \<le> 122 then Some (n - 71)
         else if 48 \<le> n \<and> n \<le> 57 then Some (n + 4)
         else if c = CHR ''+'' then Some 62 else if c = CHR ''/'' then Some 63 else None)"

definition group_val :: "char \<Rightarrow> char \<Rightarrow> char \<Rightarrow> nat" where
  "group_val a b c = of_char a * 65536 + of_char b * 256 + of_char c"

fun EncodeToString :: "string \<Rightarrow> string" where
  "EncodeToString [] = []"
| "EncodeToString [a] =
     (let n = group_val a (CHR 0x00) (CHR 0x00)
      in [b64_char (n div 262144 mod 64), b64_char (n div 4096 mod 64), CHR ''='', CHR ''=''])"
| "EncodeToString [a, b] =
     (let n = group_val a b (CHR 0x00)
      in [b64_char (n div 262144 mod 64), b64_char (n div 4096 mod 64), b64_char (n div 64 mod 64), CHR ''=''])"
| "EncodeToString (a # b # c # r) =
     (let n = group_val a b c
      in b64_char (n div 262144 mod 64) # b64_char (n div 4096 mod 64) # b64_char (n div 64 mod 64) #
         b64_char (n mod 64) # EncodeToString r)"

definition quantum_val :: "nat \<Rightarrow> nat \<Rightarrow> nat \<Rightarrow> nat \<Rightarrow> nat" where
  "quantum_val x y z w = x * 262144 + y * 4096 + z * 64 + w"

fun decode_quanta :: "string \<Rightarrow> string option" where
  "decode_quanta [] = Some []"
| "decode_quanta (a # b # c # d # r) =
     (case (b64_value a, b64_value b) of
        (Some x, Some y) \<Rightarrow>
          if c = CHR ''='' then
            (if d = CHR ''='' \<and> r = [] then Some [char_of (quantum_val x y 0 0 div 65536)] else None)
          else (case b64_value c of
              None \<Rightarrow> None
            | Some z \<Rightarrow>
                if d = CHR ''='' then
                  (if r = [] then Some [char_of (quantum_val x y z 0 div 65536), char_of (quantum_val x y z 0 div 256)]
                   else None)
                else (case b64_value d of
                    None \<Rightarrow> None
                  | Some w \<Rightarrow>
                      map_option (\<lambda>bs. char_of (quantum_val x y z w div 65536) #
                          char_of (quantum_val x y z w div 256) # char_of (quantum_val x y z w) # bs)
                        (decode_quanta r)))
      | _ \<Rightarrow> None)"
| "decode_quanta _ = None"

definition DecodeString :: "string \<Rightarrow> string option" where
  "DecodeString s = decode_quanta (filter (\<lambda>c. c \<noteq> CHR 0x0A \<and> c \<noteq> CHR 0x0D) s)"

section \<open>Round trip\<close>

lemma b64_value_char [simp]: "n < 64 \<Longrightarrow> b64_value (b64_char n) = Some n"
  by (auto simp: b64_char_def b64_value_def of_char_of Let_def)

lemma b64_value_pad: "b64_value (CHR ''='') = None" "b64_value (CHR 0x0A) = None" "b64_value (CHR 0x0D) = None"
  by (simp_all add: b64_value_def)

lemma b64_char_special [simp]:
  assumes "n < 64"
  shows "b64_char n \<noteq> CHR ''=''" and "b64_char n \<noteq> CHR 0x0A" and "b64_char n \<noteq> CHR 0x0D"
  using b64_value_char [OF assms] by (auto simp: b64_value_pad)

lemma group_split:
  fixes n :: nat
  assumes "n < 16777216"
  shows "quantum_val (n div 262144 mod 64) (n div 4096 mod 64) (n div 64 mod 64) (n mod 64) = n"
proof -
  have "n div 262144 mod 64 = n div 262144" using assms by (intro mod_less) (simp add: less_mult_imp_div_less)
  moreover have "n div 262144 * 64 + n div 4096 mod 64 = n div 4096"
    using div_mult_mod_eq [of "n div 4096" 64] by (simp add: div_mult2_eq [symmetric])
  moreover have "n div 4096 * 64 + n div 64 mod 64 = n div 64"
    using div_mult_mod_eq [of "n div 64" 64] by (simp add: div_mult2_eq [symmetric])
  moreover have "n div 64 * 64 + n mod 64 = n" by simp
  ultimately show ?thesis unfolding quantum_val_def by linarith
qed

lemma group_split_pad:
  fixes n :: nat
  assumes "n < 16777216"
  shows "n mod 64 = 0 \<Longrightarrow> quantum_val (n div 262144 mod 64) (n div 4096 mod 64) (n div 64 mod 64) 0 = n"
    and "n mod 4096 = 0 \<Longrightarrow> quantum_val (n div 262144 mod 64) (n div 4096 mod 64) 0 0 = n"
  using group_split [OF assms] mod_mult2_eq [of n 64 64] by auto

lemma three_bytes:
  fixes x y z :: nat
  assumes "y < 256" and "z < 256"
  shows "(x * 65536 + y * 256 + z) div 65536 = x" and "(x * 65536 + y * 256 + z) div 256 = x * 256 + y"
proof -
  have "x * 65536 + y * 256 + z = (y * 256 + z) + x * 65536" by simp
  then have "(x * 65536 + y * 256 + z) div 65536 = x + (y * 256 + z) div 65536"
    by (metis div_mult_self1 zero_neq_numeral)
  moreover have "y * 256 + z < 65536" using assms by linarith
  ultimately show "(x * 65536 + y * 256 + z) div 65536 = x" by simp
  have "x * 65536 + y * 256 + z = z + (x * 256 + y) * 256" by simp
  then have "(x * 65536 + y * 256 + z) div 256 = (x * 256 + y) + z div 256"
    by (metis div_mult_self1 zero_neq_numeral)
  with assms show "(x * 65536 + y * 256 + z) div 256 = x * 256 + y" by simp
qed

lemma group_bytes:
  shows "group_val a b c < 16777216"
    and "char_of (group_val a b c div 65536) = a" and "char_of (group_val a b c div 256) = b"
    and "char_of (group_val a b c) = c"
    and "group_val a b (CHR 0x00) mod 64 = 0" and "group_val a (CHR 0x00) (CHR 0x00) mod 4096 = 0"
proof -
  have a: "of_char x < (256::nat)" for x :: char
    by (metis of_char_mod_256 mod_less_divisor zero_less_numeral)
  note bounds = a [of a] a [of b] a [of c]
  show "group_val a b c < 16777216" using bounds unfolding group_val_def by linarith
  have "group_val a b c div 65536 = of_char a"
    using bounds by (simp add: group_val_def three_bytes)
  then show "char_of (group_val a b c div 65536) = a" by simp
  have "group_val a b c div 256 = of_char a * 256 + of_char b"
    using bounds by (simp add: group_val_def three_bytes)
  then have "group_val a b c div 256 mod 256 = of_char b" using bounds by simp
  then show "char_of (group_val a b c div 256) = b" by (metis char_of_mod_256 char_of_char)
  have "group_val a b c mod 256 = of_char c"
  proof -
    have "group_val a b c = of_char c + (of_char a * 256 + of_char b) * 256" by (simp add: group_val_def)
    then show ?thesis by (metis mod_mult_self1 of_char_mod_256)
  qed
  then show "char_of (group_val a b c) = c" by (metis char_of_mod_256 char_of_char)
  have "group_val a b (CHR 0x00) = (of_char a * 1024 + of_char b * 4) * 64"
    and "group_val a (CHR 0x00) (CHR 0x00) = of_char a * 16 * 4096" by (simp_all add: group_val_def)
  then show "group_val a b (CHR 0x00) mod 64 = 0" and "group_val a (CHR 0x00) (CHR 0x00) mod 4096 = 0"
    by (metis mod_mult_self2_is_0)+
qed

lemma decode_encode_quanta: "decode_quanta (EncodeToString s) = Some s"
  by (induction s rule: EncodeToString.induct)
    (simp_all add: Let_def group_split group_split_pad group_bytes)

lemma EncodeToString_no_newline: "c \<in> set (EncodeToString s) \<Longrightarrow> c \<noteq> CHR 0x0A \<and> c \<noteq> CHR 0x0D"
  by (induction s rule: EncodeToString.induct) (auto simp: Let_def)

lemma DecodeString_EncodeToString: "DecodeString (EncodeToString s) = Some s"
proof -
  have "filter (\<lambda>c. c \<noteq> CHR 0x0A \<and> c \<noteq> CHR 0x0D) (EncodeToString s) = EncodeToString s"
    using EncodeToString_no_newline [of _ s] by (simp add: filter_id_conv)
  then show ?thesis by (simp add: DecodeString_def decode_encode_quanta)
qed

lemma EncodeToString_Nil [simp]: "EncodeToString s = [] \<longleftrightarrow> s = []"
  by (cases s rule: EncodeToString.cases) (simp_all add: Let_def)

end
