(* ===== verification/Helm.thy ===== *)
theory Helm
  imports Dates Base64
begin

text \<open>
  Package \<open>internal/helm\<close>: the name of a Helm release secret, its payload and the resources of
  its manifest. JSON, gzip and YAML are fields of the record \<open>codec\<close>; base64 is modelled in \<open>Base64\<close>. A Go
  \<open>int\<close> is a word of 64 bits.
\<close>

section \<open>Data\<close>

type_synonym go_int = "64 word"

record ChartMetadata =
  cm_Name :: string
  cm_Version :: string

record Info =
  inf_Status :: string

record Release =
  rel_Name :: string
  rel_Namespace :: string
  rel_Version :: go_int
  rel_Info :: Info
  rel_Chart :: ChartMetadata
  rel_Manifest :: string

record ManifestResource =
  mr_Kind :: string
  mr_Name :: string
  mr_Namespace :: string

record manifestDoc =
  md_Kind :: string
  md_Name :: string
  md_Namespace :: string

text \<open>
  \<open>json_Marshal\<close> and \<open>json_Unmarshal\<close> are \<open>encoding/json\<close> at the type \<open>Release\<close>. \<open>gzip_Write\<close> is the error of
  writing to a \<open>gzip.Writer\<close>, \<open>gzip_Close\<close> the buffer after closing it, \<open>gzip_NewReader\<close> the error of
  opening a reader and \<open>gzip_ReadAll\<close> what it yields. \<open>yaml_Decode\<close> gives the results of the successive
  calls of \<open>Decode\<close> on one decoder; the end of the list is \<open>io.EOF\<close>.
\<close>

record codec =
  json_Marshal :: "Release \<Rightarrow> error + string"
  json_Unmarshal :: "string \<Rightarrow> error + Release"
  gzip_Write :: "string \<Rightarrow> error option"
  gzip_Close :: "string \<Rightarrow> error + string"
  gzip_NewReader :: "string \<Rightarrow> error option"
  gzip_ReadAll :: "string \<Rightarrow> error + string"
  yaml_Decode :: "string \<Rightarrow> (error + manifestDoc) list"

section \<open>Release data\<close>

definition magicGzip :: string where
  "magicGzip = [CHR 0x1F, CHR 0x8B, CHR 0x08]"

definition gunzip_if_magic :: "codec \<Rightarrow> string \<Rightarrow> error + string" where
  "gunzip_if_magic C decoded =
     (if 3 \<le> length decoded \<and> take 3 decoded = magicGzip
      then (case gzip_NewReader C decoded of
              Some err \<Rightarrow> Inl (ErrWrap ''gzip open: '' err)
            | None \<Rightarrow> (case gzip_ReadAll C decoded of
                         Inl err \<Rightarrow> Inl (ErrWrap ''gzip read: '' err)
                       | Inr decompressed \<Rightarrow> Inr decompressed))
      else Inr decoded)"

definition DecodeReleaseData :: "codec \<Rightarrow> string \<Rightarrow> error + Release" where
  "DecodeReleaseData C data =
     (if data = [] then Inl (ErrText ''empty release data'')
      else case DecodeString data of
          None \<Rightarrow> Inl (ErrWrap ''base64 decode: '' (ErrText ''illegal base64 data''))
        | Some decoded \<Rightarrow>
            (case gunzip_if_magic C decoded of
               Inl err \<Rightarrow> Inl err
             | Inr bs \<Rightarrow> (case json_Unmarshal C bs of
                           Inl err \<Rightarrow> Inl (ErrWrap ''json unmarshal: '' err)
                         | Inr rel \<Rightarrow> Inr rel)))"

definition EncodeRelease :: "codec \<Rightarrow> Release \<Rightarrow> error + string" where
  "EncodeRelease C rel =
     (case json_Marshal C rel of
        Inl err \<Rightarrow> Inl (ErrWrap ''json marshal: '' err)
      | Inr jsonBytes \<Rightarrow>
          (case gzip_Write C jsonBytes of
             Some err \<Rightarrow> Inl (ErrWrap ''gzip write: '' err)
           | None \<Rightarrow> (case gzip_Close C jsonBytes of
                        Inl err \<Rightarrow> Inl (ErrWrap ''gzip close: '' err)
                      | Inr buf \<Rightarrow> Inr (EncodeToString buf))))"

section \<open>Manifest\<close>

fun parse_docs :: "(error + manifestDoc) list \<Rightarrow> ManifestResource list \<Rightarrow> ManifestResource list" where
  "parse_docs [] resources = resources"
| "parse_docs (Inl err # ds) resources = resources"
| "parse_docs (Inr doc # ds) resources =
     parse_docs ds
       (if md_Kind doc \<noteq> [] \<and> md_Name doc \<noteq> []
        then resources @ [\<lparr>mr_Kind = md_Kind doc, mr_Name = md_Name doc, mr_Namespace = md_Namespace doc\<rparr>]
        else resources)"

definition ParseManifestResources :: "codec \<Rightarrow> string \<Rightarrow> ManifestResource list" where
  "ParseManifestResources C manifest = parse_docs (yaml_Decode C manifest) []"

definition HasSystemInstance :: "ManifestResource list \<Rightarrow> bool" where
  "HasSystemInstance resources = list_ex (\<lambda>r. mr_Kind r = ''SystemInstance'') resources"

section \<open>Secret names\<close>

text \<open>
  The loop of the source ranges over runes. A byte above 127 belongs to a rune that is not a digit, so
  ranging over the bytes gives the same answer. The sum wraps at 64 bits.
\<close>

fun revision_value :: "string \<Rightarrow> go_int \<Rightarrow> go_int option" where
  "revision_value [] revn = Some revn"
| "revision_value (c # cs) revn =
     (let n = of_char c :: nat
      in if n < 48 \<or> 57 < n then None else revision_value cs (revn * 10 + of_nat (n - 48)))"

definition SecretNameParts :: "string \<Rightarrow> (string \<times> go_int) option" where
  "SecretNameParts secretName =
     (let parts = Split secretName (CHR ''.'')
      in if length parts < 6 then None
         else if parts ! 0 \<noteq> ''sh'' \<or> parts ! 1 \<noteq> ''helm'' \<or> parts ! 2 \<noteq> ''release'' \<or> parts ! 3 \<noteq> ''v1'' then None
         else
           (let last = parts ! (length parts - 1)
            in if \<not> HasPrefix last ''v'' then None
               else case revision_value (TrimPrefix last ''v'') 0 of
                   None \<Rightarrow> None
                 | Some revn \<Rightarrow> Some (Join (drop 4 (take (length parts - 1) parts)) ''.'', revn)))"

section \<open>Lemmas\<close>

lemma revision_digits: "revision_value ds (of_nat n) = map_option of_nat (digits_value ds n)"
proof (induction ds arbitrary: n)
  case (Cons c ds)
  define d where "d = of_char c - (48 :: nat)"
  have "(of_nat n * 10 + of_nat d :: go_int) = of_nat (10 * n + d)"
    by (simp add: mult.commute)
  with Cons [of "10 * n + d"] show ?case
    unfolding revision_value.simps digits_value.simps digit_def Let_def d_def [symmetric]
    by (auto simp del: of_nat_add of_nat_mult)
qed simp

lemma revision_from_zero: "revision_value ds 0 = map_option of_nat (digits_value ds 0)"
  using revision_digits [of ds 0] by simp

lemma digits_value_digits: "digits_value ds n = Some v \<Longrightarrow> c \<in> set ds \<Longrightarrow> digit c \<noteq> None"
  by (induction ds arbitrary: n) (auto split: option.splits)

lemma digits_no_dot: "digits_value ds n = Some v \<Longrightarrow> CHR ''.'' \<notin> set ds"
  using digits_value_digits [of ds n v "CHR ''.''"] by (auto simp: digit_def)

lemma Join_append:
  "xs \<noteq> [] \<Longrightarrow> ys \<noteq> [] \<Longrightarrow> Join (xs @ ys) sep = Join xs sep @ sep @ Join ys sep"
proof (induction xs)
  case (Cons x xs)
  then show ?case by (cases "xs = []") (simp_all add: Join_Cons)
qed simp

lemma helm_name_split:
  assumes "CHR ''.'' \<notin> set ds"
  shows "Split (''sh.helm.release.v1.'' @ name @ ''.v'' @ ds) (CHR ''.'') =
     [''sh'', ''helm'', ''release'', ''v1''] @ Split name (CHR ''.'') @ [''v'' @ ds]"
proof -
  have "Split (''sh.helm.release.v1.'' @ name @ ''.v'' @ ds) (CHR ''.'') =
      [''sh'', ''helm'', ''release'', ''v1''] @ Split (name @ CHR ''.'' # (''v'' @ ds)) (CHR ''.'')"
    by simp
  also have "Split (name @ CHR ''.'' # (''v'' @ ds)) (CHR ''.'') = Split name (CHR ''.'') @ [''v'' @ ds]"
    using assms by (subst Split_append) (simp add: Split_no_sep)
  finally show ?thesis .
qed

lemma SecretNameParts_complete:
  assumes "digits_value ds 0 = Some n"
  shows "SecretNameParts (''sh.helm.release.v1.'' @ name @ ''.v'' @ ds) = Some (name, of_nat n)"
proof -
  let ?m = "Split name (CHR ''.'')"
  have sp: "Split (''sh.helm.release.v1.'' @ name @ ''.v'' @ ds) (CHR ''.'') =
      [''sh'', ''helm'', ''release'', ''v1''] @ ?m @ [''v'' @ ds]"
    by (rule helm_name_split [OF digits_no_dot [OF assms]])
  have len: "0 < length ?m" by simp
  show ?thesis
    unfolding SecretNameParts_def sp Let_def using assms len
    by (simp add: revision_from_zero nth_append Join_Split HasPrefix_def TrimPrefix_def del: length_greater_0_conv)
qed

lemma six_parts:
  assumes "6 \<le> length (parts :: string list)"
  shows "parts = [parts ! 0, parts ! 1, parts ! 2, parts ! 3] @ drop 4 (take (length parts - 1) parts) @
     [parts ! (length parts - 1)]"
proof -
  have "parts = take 4 parts @ drop 4 (take (length parts - 1) parts) @ drop (length parts - 1) parts"
  proof -
    have "parts = take (length parts - 1) parts @ drop (length parts - 1) parts" by simp
    moreover have "take (length parts - 1) parts = take 4 parts @ drop 4 (take (length parts - 1) parts)"
    proof -
      have "min 4 (length parts - 1) = 4" using assms by simp
      then show ?thesis by (metis append_take_drop_id take_take)
    qed
    ultimately show ?thesis by (metis append.assoc)
  qed
  moreover have "take 4 parts = [parts ! 0, parts ! 1, parts ! 2, parts ! 3]"
    using assms by (auto simp: Suc_le_length_iff numeral_eq_Suc)
  moreover have "drop (length parts - 1) parts = [parts ! (length parts - 1)]"
    using assms Cons_nth_drop_Suc [of "length parts - 1" parts] by simp
  ultimately show ?thesis by simp
qed

lemma SecretNameParts_sound:
  assumes "SecretNameParts s = Some (name, revn)"
  shows "\<exists>ds n. s = ''sh.helm.release.v1.'' @ name @ ''.v'' @ ds \<and> digits_value ds 0 = Some n \<and> revn = of_nat n"
proof -
  let ?p = "Split s (CHR ''.'')"
  let ?mid = "drop 4 (take (length ?p - 1) ?p)"
  from assms have six: "6 \<le> length ?p"
    and pre: "?p ! 0 = ''sh''" "?p ! 1 = ''helm''" "?p ! 2 = ''release''" "?p ! 3 = ''v1''"
    and v: "HasPrefix (?p ! (length ?p - 1)) ''v''"
    and r: "revision_value (TrimPrefix (?p ! (length ?p - 1)) ''v'') 0 = Some revn"
    and nm: "name = Join ?mid ''.''"
    by (auto simp: SecretNameParts_def Let_def split: if_splits option.splits)
  obtain ds where ds: "?p ! (length ?p - 1) = ''v'' @ ds" using v by (auto simp: HasPrefix_iff)
  have mid: "?mid \<noteq> []" using six by simp
  have "s = Join ?p ''.''" by (simp add: Join_Split)
  also have "\<dots> = Join ([''sh'', ''helm'', ''release'', ''v1''] @ ?mid @ [''v'' @ ds]) ''.''"
    using six_parts [OF six] pre ds by simp
  also have "\<dots> = ''sh.helm.release.v1.'' @ name @ ''.v'' @ ds"
    using mid nm by (simp add: Join_append Join_Cons)
  finally have s: "s = ''sh.helm.release.v1.'' @ name @ ''.v'' @ ds" .
  from r ds obtain n where "digits_value ds 0 = Some n" "revn = of_nat n"
    by (auto simp: revision_from_zero TrimPrefix_def HasPrefix_def)
  with s show ?thesis by blast
qed

section \<open>Properties\<close>

text \<open>
  (C17) A secret name is accepted exactly if it is the prefix \<open>sh.helm.release.v1.\<close>, a release name (with
  any number of dots, or empty), \<open>.v\<close> and decimal digits; the result is that release name and
  the number, reduced to 64 bits. The list of digits may be empty and then counts as revision 0.
\<close>

theorem secret_name_exact:
  "SecretNameParts s = Some (name, revn) \<longleftrightarrow>
     (\<exists>ds n. s = ''sh.helm.release.v1.'' @ name @ ''.v'' @ ds \<and> digits_value ds 0 = Some n \<and> revn = of_nat n)"
  using SecretNameParts_sound SecretNameParts_complete by blast

text \<open>What is relied on of gzip: its output starts with the magic bytes and reads back.\<close>

definition gzip_law :: "codec \<Rightarrow> bool" where
  "gzip_law C \<longleftrightarrow>
     (\<forall>s b. gzip_Close C s = Inr b \<longrightarrow>
        HasPrefix b magicGzip \<and> gzip_NewReader C b = None \<and> gzip_ReadAll C b = Inr s)"

text \<open>
  (C18) Decoding inverts encoding: a release whose JSON text reads back survives the way through
  JSON, gzip and base64 into a secret and back. Data without the gzip header, as older versions of Helm
  write it, is decoded too.
\<close>

theorem release_roundtrip:
  assumes "gzip_law C"
    and "json_Marshal C rel = Inr js" and "json_Unmarshal C js = Inr rel"
    and "EncodeRelease C rel = Inr data"
  shows "DecodeReleaseData C data = Inr rel \<and>
     (js \<noteq> [] \<and> \<not> HasPrefix js magicGzip \<longrightarrow> DecodeReleaseData C (EncodeToString js) = Inr rel)"
proof -
  obtain buf where buf: "gzip_Close C js = Inr buf" and data: "data = EncodeToString buf"
    using assms(2,4) by (auto simp: EncodeRelease_def split: option.splits sum.splits)
  have z: "HasPrefix buf magicGzip" "gzip_NewReader C buf = None" "gzip_ReadAll C buf = Inr js"
    using assms(1) buf by (auto simp: gzip_law_def)
  then have "3 \<le> length buf" "take 3 buf = magicGzip"
    by (auto simp: HasPrefix_iff magicGzip_def)
  then have "gunzip_if_magic C buf = Inr js" using z by (simp add: gunzip_if_magic_def)
  moreover have "buf \<noteq> []" using \<open>3 \<le> length buf\<close> by auto
  moreover have "gunzip_if_magic C js = Inr js" if "\<not> HasPrefix js magicGzip"
    using that by (auto simp: gunzip_if_magic_def HasPrefix_def magicGzip_def numeral_3_eq_3)
  ultimately show ?thesis
    using assms(3) by (simp add: DecodeReleaseData_def data DecodeString_EncodeToString)
qed

definition demo_release :: "go_int \<Rightarrow> string \<Rightarrow> Release" where
  "demo_release v status =
     \<lparr>rel_Name = ''app'', rel_Namespace = ''ns'', rel_Version = v, rel_Info = \<lparr>inf_Status = status\<rparr>,
      rel_Chart = \<lparr>cm_Name = ''chart'', cm_Version = (if v = 1 then ''1'' else ''2'')\<rparr>, rel_Manifest = ''m''\<rparr>"

text \<open>A concrete codec: releases \<open>demo_release v status\<close> as version 1 or 2 and status, gzip as the bare magic.\<close>

definition demo_codec :: codec where
  "demo_codec =
     \<lparr>json_Marshal = (\<lambda>r. Inr ((if rel_Version r = 1 then CHR ''1'' else CHR ''2'') # inf_Status (rel_Info r))),
      json_Unmarshal = (\<lambda>s. case s of [] \<Rightarrow> Inl (ErrText ''eof'') | c # st \<Rightarrow> Inr (demo_release (if c = CHR ''1'' then 1 else 2) st)),
      gzip_Write = (\<lambda>_. None),
      gzip_Close = (\<lambda>s. Inr (magicGzip @ s)),
      gzip_NewReader = (\<lambda>_. None),
      gzip_ReadAll = (\<lambda>b. Inr (drop 3 b)),
      yaml_Decode = (\<lambda>s. if s = ''m'' then [Inr \<lparr>md_Kind = ''Deployment'', md_Name = ''web'', md_Namespace = []\<rparr>] else [])\<rparr>"

lemma demo_codec_gzip: "gzip_law demo_codec"
  by (simp add: gzip_law_def demo_codec_def magicGzip_def HasPrefix_def)

lemma demo_decode:
  "DecodeReleaseData demo_codec (EncodeToString (magicGzip @ c # st)) =
     Inr (demo_release (if c = CHR ''1'' then 1 else 2) st)"
proof -
  have "gunzip_if_magic demo_codec (magicGzip @ c # st) = Inr (c # st)"
    by (simp add: gunzip_if_magic_def magicGzip_def demo_codec_def)
  moreover have "json_Unmarshal demo_codec (c # st) = Inr (demo_release (if c = CHR ''1'' then 1 else 2) st)"
    by (simp add: demo_codec_def)
  ultimately show ?thesis
    by (simp add: DecodeReleaseData_def DecodeString_EncodeToString del: EncodeToString.simps)
qed

theorem release_roundtrip_witness:
  "DecodeReleaseData demo_codec (EncodeToString (magicGzip @ ''2deployed'')) = Inr (demo_release 2 ''deployed'')"
proof -
  have "json_Marshal demo_codec (demo_release 2 ''deployed'') = Inr ''2deployed''"
    and "json_Unmarshal demo_codec ''2deployed'' = Inr (demo_release 2 ''deployed'')"
    by (simp_all add: demo_codec_def demo_release_def)
  moreover from this have "EncodeRelease demo_codec (demo_release 2 ''deployed'') = Inr (EncodeToString (magicGzip @ ''2deployed''))"
    by (simp add: EncodeRelease_def) (simp add: demo_codec_def)
  ultimately show ?thesis using release_roundtrip [OF demo_codec_gzip] by blast
qed

end
