(* ===== verification/Helm_Controller.thy ===== *)
theory Helm_Controller
  imports Helm Crd_Controllers Instance_Controllers
begin

text \<open>
  \<open>helmrelease_controller.go\<close>: a Helm release, seen through its secrets, becomes a system instance, and
  the workloads and services of its manifest are linked to it, either at once or, through the
  owner table of the name index, when their own controllers see them. The controller remembers the
  highest revision per release. The answer of the API server is an argument; log output is not modelled.
\<close>

section \<open>Data\<close>

record Secret =
  sec_Meta :: ObjectMeta
  sec_Type :: string
  sec_Data :: "(string, string) fmap"

text \<open>The model and the index, shared with the other controllers, and the controller's own map.\<close>

record 'm helm_state =
  hWorld :: "'m world"
  latestRevision :: "(string, go_int) fmap"

text \<open>a3e4c5d6-1234-5678-9abc-def012345678\<close>

definition helmNamespaceUUID :: uuid where
  "helmNamespaceUUID = 0xa3e4c5d6123456789abcdef012345678"

definition helm_release_type :: string where
  "helm_release_type = ''helm.sh/release.v1''"

text \<open>The predicate on events: the object as a secret, if it is one.\<close>

definition helmSecretPredicate :: "Secret option \<Rightarrow> bool" where
  "helmSecretPredicate obj =
     (case obj of None \<Rightarrow> False | Some secret \<Rightarrow> sec_Type secret = helm_release_type)"

definition helmKindToResourceKind :: "string \<Rightarrow> ResourceKind option" where
  "helmKindToResourceKind kind =
     (if kind \<in> {''Deployment'', ''StatefulSet'', ''DaemonSet'', ''Job'', ''CronJob''} then Some KindComponentInstance
      else if kind \<in> {''Service'', ''Ingress''} then Some KindAPIInstance
      else None)"

section \<open>Correlation\<close>

text \<open>
  An instance that the model holds is fetched, changed and added again. A rejected \<open>Add\<close> is only logged.
\<close>

definition link_instance :: "'m modelsrv \<Rightarrow> ResourceKind \<Rightarrow> uuid \<Rightarrow> uuid \<Rightarrow> 'm \<Rightarrow> 'm" where
  "link_instance M kind rid si m =
     (case kind of
        KindComponentInstance \<Rightarrow>
          (case mGet M MComponentInstance rid m of
             Some (EComponentInstance ci) \<Rightarrow> snd (mAdd M (EComponentInstance (ci\<lparr>ci_SystemInstance := Some si\<rparr>)) m)
           | _ \<Rightarrow> m)
      | KindAPIInstance \<Rightarrow>
          (case mGet M MApiInstance rid m of
             Some (EApiInstance ai) \<Rightarrow> snd (mAdd M (EApiInstance (ai\<lparr>ai_SystemInstance := Some si\<rparr>)) m)
           | _ \<Rightarrow> m)
      | _ \<Rightarrow> m)"

definition resource_key :: "string \<Rightarrow> ManifestResource \<Rightarrow> string" where
  "resource_key releaseNamespace res =
     (if mr_Namespace res = [] then releaseNamespace else mr_Namespace res) @ ''/'' @ mr_Name res"

definition correlate_one :: "'m modelsrv \<Rightarrow> string \<Rightarrow> uuid \<Rightarrow> ManifestResource \<Rightarrow> 'm world \<Rightarrow> 'm world" where
  "correlate_one M releaseNamespace si res w =
     (case helmKindToResourceKind (mr_Kind res) of
        None \<Rightarrow> w
      | Some kind \<Rightarrow>
          (let nameKey = resource_key releaseNamespace res;
               idx = SetHelmOwner (wIndex w) kind nameKey si;
               rid = Get idx kind nameKey
           in if rid = uuid_Nil then w\<lparr>wIndex := idx\<rparr>
              else \<lparr>wModel = link_instance M kind rid si (wModel w), wIndex = idx\<rparr>))"

fun correlateResources :: "'m modelsrv \<Rightarrow> ManifestResource list \<Rightarrow> string \<Rightarrow> uuid \<Rightarrow> 'm world \<Rightarrow> 'm world" where
  "correlateResources M [] releaseNamespace si w = w"
| "correlateResources M (res # resources) releaseNamespace si w =
     correlateResources M resources releaseNamespace si (correlate_one M releaseNamespace si res w)"

section \<open>Reference findings\<close>

definition reconcileSystemReferenceFindings ::
    "'m modelsrv \<Rightarrow> lib \<Rightarrow> uuid \<Rightarrow> Secret \<Rightarrow> string \<Rightarrow> 'm \<Rightarrow> 'm" where
  "reconcileSystemReferenceFindings M L i secret releaseName m =
     (let sysID = annotationUUID L (Annotations (sec_Meta secret)) AnnotationSystemReference
      in if sysID = uuid_Nil then
           upsertMissingResourceReference M L
             (deleteReferenceFinding M L m i ReferencedResourceNotFound)
             i SystemInstanceResource releaseName AnnotationSystemReference
         else
           (let m1 = deleteReferenceFinding M L m i MissingResourceReference
            in if mGet M MSystem sysID m1 = None then
                 upsertReferencedResourceNotFound M L m1 i SystemInstanceResource sysID SystemResource releaseName
               else deleteReferenceFinding M L m1 i ReferencedResourceNotFound))"

interpretation release_refs: reference_findings M L
    "\<lambda>i (secret, releaseName). reconcileSystemReferenceFindings M L i secret releaseName"
    "\<lambda>(secret, releaseName). annotationUUID L (Annotations (sec_Meta secret)) AnnotationSystemReference"
    MSystem SystemInstanceResource SystemResource snd AnnotationSystemReference
  for M L
  by unfold_locales (auto simp: reconcileSystemReferenceFindings_def Let_def)

section \<open>Reconcile\<close>

definition release_key :: "string \<Rightarrow> string \<Rightarrow> string" where
  "release_key ns releaseName = ns @ ''/'' @ releaseName"

definition helm_id :: "lib \<Rightarrow> string \<Rightarrow> string \<Rightarrow> uuid" where
  "helm_id L ns releaseName = NewSHA1 L helmNamespaceUUID (release_key ns releaseName)"

definition helm_instance :: "lib \<Rightarrow> string \<Rightarrow> string \<Rightarrow> Release \<Rightarrow> MSystemInstanceR" where
  "helm_instance L ns releaseName rel =
     \<lparr>si_Id = helm_id L ns releaseName, si_DisplayName = releaseName, si_System = None,
      si_Annotations = fmupd ''helm.sh/chart''
        (cm_Name (rel_Chart rel) @ ''-'' @ cm_Version (rel_Chart rel)) fmempty\<rparr>"

text \<open>The critical section on the revision map: None if the revision is older than the tracked one.\<close>

definition track_revision :: "string \<Rightarrow> go_int \<Rightarrow> (string, go_int) fmap \<Rightarrow> (string, go_int) fmap option" where
  "track_revision releaseKey revision lr =
     (case fmlookup lr releaseKey of
        Some existing \<Rightarrow> if revision <s existing then None else Some (fmupd releaseKey revision lr)
      | None \<Rightarrow> Some (fmupd releaseKey revision lr))"

text \<open>The release in the secret that is to become a system instance, if there is one.\<close>

definition deployed_release :: "codec \<Rightarrow> Secret \<Rightarrow> (Release \<times> ManifestResource list) option" where
  "deployed_release C secret =
     (case DecodeReleaseData C (case fmlookup (sec_Data secret) ''release'' of None \<Rightarrow> [] | Some d \<Rightarrow> d) of
        Inl decErr \<Rightarrow> None
      | Inr rel \<Rightarrow>
          if inf_Status (rel_Info rel) \<noteq> ''deployed'' then None
          else
            (let resources = ParseManifestResources C (rel_Manifest rel)
             in if HasSystemInstance resources then None else Some (rel, resources)))"

definition helm_register ::
    "'m modelsrv \<Rightarrow> lib \<Rightarrow> string \<Rightarrow> Secret \<Rightarrow> string \<Rightarrow> Release \<Rightarrow> ManifestResource list \<Rightarrow> 'm world \<Rightarrow>
     error option \<times> 'm world" where
  "helm_register M L ns secret releaseName rel resources w =
     (let i = helm_id L ns releaseName
      in case mAdd M (ESystemInstance (helm_instance L ns releaseName rel)) (wModel w) of
           (Some err, m) \<Rightarrow> (Some err, w\<lparr>wModel := m\<rparr>)
         | (None, m) \<Rightarrow>
             (let w1 = \<lparr>wModel = m, wIndex = Put (wIndex w) KindSystemInstance (release_key ns releaseName) i\<rparr>;
                  w2 = correlateResources M resources ns i w1
              in (None, w2\<lparr>wModel := reconcileSystemReferenceFindings M L i secret releaseName (wModel w2)\<rparr>)))"

definition helm_unregister :: "'m modelsrv \<Rightarrow> lib \<Rightarrow> string \<Rightarrow> 'm world \<Rightarrow> error option \<times> 'm world" where
  "helm_unregister M L releaseKey w =
     (case Delete (wIndex w) KindSystemInstance releaseKey of
        (i, idx) \<Rightarrow>
          if i = uuid_Nil then (None, w\<lparr>wIndex := idx\<rparr>)
          else
            (let idx' = DeleteHelmOwnersBySystemInstance idx i;
                 m1 = deleteReferenceFinding M L (wModel w) i ReferencedResourceNotFound;
                 m2 = deleteReferenceFinding M L m1 i MissingResourceReference
             in case mDelete M MSystemInstance i m2 of
                  (delErr, m) \<Rightarrow> (ignore_not_found MSystemInstance delErr, \<lparr>wModel = m, wIndex = idx'\<rparr>)))"

definition HelmReleaseReconcile ::
    "'m modelsrv \<Rightarrow> lib \<Rightarrow> codec \<Rightarrow> NamespacedName \<Rightarrow> Secret get_result \<Rightarrow> 'm helm_state \<Rightarrow>
     error option \<times> 'm helm_state" where
  "HelmReleaseReconcile M L C nn got s =
     (case got of
        Found secret \<Rightarrow>
          if sec_Type secret \<noteq> helm_release_type then (None, s)
          else (case SecretNameParts (Name (sec_Meta secret)) of
              None \<Rightarrow> (None, s)
            | Some (releaseName, revision) \<Rightarrow>
                (case track_revision (release_key (nn_Namespace nn) releaseName) revision (latestRevision s) of
                   None \<Rightarrow> (None, s)
                 | Some lr \<Rightarrow>
                     (case deployed_release C secret of
                        None \<Rightarrow> (None, s\<lparr>latestRevision := lr\<rparr>)
                      | Some (rel, resources) \<Rightarrow>
                          (case helm_register M L (nn_Namespace nn) secret releaseName rel resources (hWorld s) of
                             (err, w) \<Rightarrow> (err, \<lparr>hWorld = w, latestRevision = lr\<rparr>)))))
      | NotFound \<Rightarrow>
          (case SecretNameParts (nn_Name nn) of
             None \<Rightarrow> (None, s)
           | Some (releaseName, revision) \<Rightarrow>
               (let releaseKey = release_key (nn_Namespace nn) releaseName
                in if fmlookup (latestRevision s) releaseKey \<noteq> Some revision then (None, s)
                   else (case helm_unregister M L releaseKey (hWorld s) of
                       (err, w) \<Rightarrow> (err, \<lparr>hWorld = w, latestRevision = fmdrop releaseKey (latestRevision s)\<rparr>))))
      | GetError err \<Rightarrow> (Some (ErrText err), s))"

section \<open>Start-up\<close>

definition tracked :: "(string, go_int) fmap \<Rightarrow> string \<Rightarrow> go_int" where
  "tracked lr key = (case fmlookup lr key of None \<Rightarrow> 0 | Some r \<Rightarrow> r)"

definition populate_one :: "Secret \<Rightarrow> (string, go_int) fmap \<Rightarrow> (string, go_int) fmap" where
  "populate_one sec lr =
     (if sec_Type sec \<noteq> helm_release_type then lr
      else (case SecretNameParts (Name (sec_Meta sec)) of
          None \<Rightarrow> lr
        | Some (releaseName, revision) \<Rightarrow>
            (let releaseKey = release_key (Namespace (sec_Meta sec)) releaseName
             in if tracked lr releaseKey <s revision then fmupd releaseKey revision lr else lr)))"

text \<open>The argument is what \<open>client.List\<close> returns.\<close>

definition populateLatestRevisions :: "error + Secret list \<Rightarrow> 'm helm_state \<Rightarrow> error option \<times> 'm helm_state" where
  "populateLatestRevisions listed s =
     (case listed of
        Inl err \<Rightarrow> (Some (ErrWrap ''list secrets: '' err), s)
      | Inr items \<Rightarrow> (None, s\<lparr>latestRevision := fold populate_one items (latestRevision s)\<rparr>))"

section \<open>Lemmas\<close>

lemma link_frame:
  assumes "store_laws M" and "k \<notin> {MComponentInstance, MApiInstance, MFinding}"
  shows "mGet M k j (link_instance M kind rid si m) = mGet M k j m"
proof -
  have "mGet M k j (snd (mAdd M e m)) = mGet M k j m" if "kind_of e \<in> {MComponentInstance, MApiInstance}" for e
    using assms(2) that store_add_frame [OF assms(1), of e m _ k j] store_add_reject [OF assms(1), of e m]
    by (cases "mAdd M e m"; cases "fst (mAdd M e m)") auto
  then show ?thesis by (auto simp: link_instance_def split: ResourceKind.splits option.splits entity.splits)
qed

lemma link_component:
  assumes "store_laws M" and "accepts M MComponentInstance"
    and "mGet M MComponentInstance j m = Some (EComponentInstance ci)"
  shows "mGet M MComponentInstance j (link_instance M kind rid si m) =
    Some (EComponentInstance (if kind = KindComponentInstance \<and> rid = j then ci\<lparr>ci_SystemInstance := Some si\<rparr> else ci))"
proof -
  have id: "ci_Id c = r" if "mGet M MComponentInstance r m = Some (EComponentInstance c)" for c r
    using store_typed [OF assms(1) that] by simp
  have other: "mGet M MComponentInstance j (snd (mAdd M e m)) = mGet M MComponentInstance j m"
    if "(MComponentInstance, j) \<noteq> (kind_of e, id_of e)" for e
    using that store_add_frame [OF assms(1), of e m _ MComponentInstance j] store_add_reject [OF assms(1), of e m]
    by (cases "mAdd M e m"; cases "fst (mAdd M e m)") auto
  have same: "mGet M MComponentInstance (ci_Id c) (snd (mAdd M (EComponentInstance c) m)) = Some (EComponentInstance c)" for c
    using accepts_add [of M "EComponentInstance c" m] assms(2) store_add_get [OF assms(1), of "EComponentInstance c" m]
    by (cases "mAdd M (EComponentInstance c) m") simp
  show ?thesis
    using assms(3) id same [of "ci\<lparr>ci_SystemInstance := Some si\<rparr>"]
    by (auto simp: link_instance_def other split: ResourceKind.splits option.splits entity.splits)
qed

lemma correlate_one_index:
  "wIndex (correlate_one M ns si res w) =
     (case helmKindToResourceKind (mr_Kind res) of
        None \<Rightarrow> wIndex w | Some kind \<Rightarrow> SetHelmOwner (wIndex w) kind (resource_key ns res) si)"
  by (simp add: correlate_one_def Let_def split: option.splits)

lemma correlate_one_model:
  "wModel (correlate_one M ns si res w) =
     (case helmKindToResourceKind (mr_Kind res) of
        None \<Rightarrow> wModel w
      | Some kind \<Rightarrow>
          if Get (wIndex w) kind (resource_key ns res) = uuid_Nil then wModel w
          else link_instance M kind (Get (wIndex w) kind (resource_key ns res)) si (wModel w))"
  by (simp add: correlate_one_def Let_def idx_simps split: option.splits)

lemma correlate_Get: "Get (wIndex (correlateResources M rs ns si w)) = Get (wIndex w)"
  by (induction rs arbitrary: w) (simp_all add: correlate_one_index idx_simps split: option.splits)

lemma correlate_frame:
  assumes "store_laws M" and "k \<notin> {MComponentInstance, MApiInstance, MFinding}"
  shows "mGet M k j (wModel (correlateResources M rs ns si w)) = mGet M k j (wModel w)"
  by (induction rs arbitrary: w) (simp_all add: correlate_one_model link_frame [OF assms] split: option.splits)

definition listed :: "ManifestResource list \<Rightarrow> string \<Rightarrow> ResourceKind \<Rightarrow> string \<Rightarrow> bool" where
  "listed rs ns k n \<longleftrightarrow> (\<exists>res\<in>set rs. helmKindToResourceKind (mr_Kind res) = Some k \<and> resource_key ns res = n)"

lemma listed_simps [simp]:
  "listed [] ns k n = False"
  "listed (res # rs) ns k n = ((helmKindToResourceKind (mr_Kind res) = Some k \<and> resource_key ns res = n) \<or> listed rs ns k n)"
  by (auto simp: listed_def)

lemma correlate_owner:
  "GetHelmOwner (wIndex (correlateResources M rs ns si w)) k n =
     (if listed rs ns k n then si else GetHelmOwner (wIndex w) k n)"
  by (induction rs arbitrary: w) (auto simp: correlate_one_index idx_simps split: option.splits)

lemma correlate_component:
  assumes "store_laws M" and "accepts M MComponentInstance" and "j \<noteq> uuid_Nil"
    and "mGet M MComponentInstance j (wModel w) = Some (EComponentInstance ci)"
  shows "mGet M MComponentInstance j (wModel (correlateResources M rs ns si w)) =
    Some (EComponentInstance
      (if \<exists>n. listed rs ns KindComponentInstance n \<and> Get (wIndex w) KindComponentInstance n = j
       then ci\<lparr>ci_SystemInstance := Some si\<rparr> else ci))"
  using assms(4)
proof (induction rs arbitrary: w ci)
  case (Cons res rs)
  let ?hit = "helmKindToResourceKind (mr_Kind res) = Some KindComponentInstance \<and>
    Get (wIndex w) KindComponentInstance (resource_key ns res) = j"
  have "mGet M MComponentInstance j (wModel (correlate_one M ns si res w)) =
      Some (EComponentInstance (if ?hit then ci\<lparr>ci_SystemInstance := Some si\<rparr> else ci))"
    using Cons.prems assms(3) by (auto simp: correlate_one_model link_component [OF assms(1,2)] split: option.splits)
  moreover have "Get (wIndex (correlate_one M ns si res w)) = Get (wIndex w)"
    by (simp add: correlate_one_index idx_simps split: option.splits)
  ultimately show ?case using Cons.IH by auto
qed simp

lemma register_eq:
  assumes "accepts M MSystemInstance"
  shows "\<exists>m. mAdd M (ESystemInstance (helm_instance L ns n rel)) (wModel w) = (None, m) \<and>
    helm_register M L ns secret n rel rs w =
      (let w2 = correlateResources M rs ns (helm_id L ns n)
          \<lparr>wModel = m, wIndex = Put (wIndex w) KindSystemInstance (release_key ns n) (helm_id L ns n)\<rparr>
       in (None, w2\<lparr>wModel := reconcileSystemReferenceFindings M L (helm_id L ns n) secret n (wModel w2)\<rparr>))"
proof -
  have "fst (mAdd M (ESystemInstance (helm_instance L ns n rel)) (wModel w)) = None"
    using assms by (intro accepts_add) simp
  then obtain m where "mAdd M (ESystemInstance (helm_instance L ns n rel)) (wModel w) = (None, m)"
    by (metis prod.collapse)
  then show ?thesis by (simp add: helm_register_def Let_def)
qed

lemma helm_refs_entities:
  "store_laws M \<Longrightarrow> k \<noteq> MFinding \<Longrightarrow> mGet M k j (reconcileSystemReferenceFindings M L i secret n m) = mGet M k j m"
  using release_refs.entities_kept [of M k j L i "(secret, n)" m] by simp

lemma register_instance:
  assumes "store_laws M" and "accepts M MSystemInstance"
  shows "fst (helm_register M L ns secret n rel rs w) = None"
    and "mGet M MSystemInstance j (wModel (snd (helm_register M L ns secret n rel rs w))) =
      (if j = helm_id L ns n then Some (ESystemInstance (helm_instance L ns n rel)) else mGet M MSystemInstance j (wModel w))"
    and "Get (wIndex (snd (helm_register M L ns secret n rel rs w))) k nm =
      (if k = KindSystemInstance \<and> nm = release_key ns n then helm_id L ns n else Get (wIndex w) k nm)"
    and "GetHelmOwner (wIndex (snd (helm_register M L ns secret n rel rs w))) k nm =
      (if listed rs ns k nm then helm_id L ns n else GetHelmOwner (wIndex w) k nm)"
proof -
  let ?e = "ESystemInstance (helm_instance L ns n rel)"
  obtain m where m: "mAdd M ?e (wModel w) = (None, m)"
    and eq: "helm_register M L ns secret n rel rs w =
      (let w2 = correlateResources M rs ns (helm_id L ns n)
          \<lparr>wModel = m, wIndex = Put (wIndex w) KindSystemInstance (release_key ns n) (helm_id L ns n)\<rparr>
       in (None, w2\<lparr>wModel := reconcileSystemReferenceFindings M L (helm_id L ns n) secret n (wModel w2)\<rparr>))"
    using register_eq [OF assms(2)] by blast
  have id: "kind_of ?e = MSystemInstance" "id_of ?e = helm_id L ns n" by (simp_all add: helm_instance_def)
  show "fst (helm_register M L ns secret n rel rs w) = None" by (simp add: eq Let_def)
  have "mGet M MSystemInstance j m = (if j = helm_id L ns n then Some ?e else mGet M MSystemInstance j (wModel w))"
    using store_add_get [OF assms(1) m] store_add_frame [OF assms(1) m, of MSystemInstance j] id by auto
  then show "mGet M MSystemInstance j (wModel (snd (helm_register M L ns secret n rel rs w))) =
      (if j = helm_id L ns n then Some ?e else mGet M MSystemInstance j (wModel w))"
    by (simp add: eq Let_def helm_refs_entities assms(1) correlate_frame [OF assms(1)])
  show "Get (wIndex (snd (helm_register M L ns secret n rel rs w))) k nm =
      (if k = KindSystemInstance \<and> nm = release_key ns n then helm_id L ns n else Get (wIndex w) k nm)"
    by (simp add: eq Let_def correlate_Get idx_simps)
  show "GetHelmOwner (wIndex (snd (helm_register M L ns secret n rel rs w))) k nm =
      (if listed rs ns k nm then helm_id L ns n else GetHelmOwner (wIndex w) k nm)"
    by (simp add: eq Let_def correlate_owner idx_simps)
qed

lemma register_component:
  assumes "store_laws M" and "accepts M MSystemInstance" and "accepts M MComponentInstance" and "j \<noteq> uuid_Nil"
    and "mGet M MComponentInstance j (wModel w) = Some (EComponentInstance ci)"
  shows "mGet M MComponentInstance j (wModel (snd (helm_register M L ns secret n rel rs w))) =
    Some (EComponentInstance
      (if \<exists>nm. listed rs ns KindComponentInstance nm \<and> Get (wIndex w) KindComponentInstance nm = j
       then ci\<lparr>ci_SystemInstance := Some (helm_id L ns n)\<rparr> else ci))"
proof -
  let ?e = "ESystemInstance (helm_instance L ns n rel)"
  obtain m where m: "mAdd M ?e (wModel w) = (None, m)"
    and eq: "helm_register M L ns secret n rel rs w =
      (let w2 = correlateResources M rs ns (helm_id L ns n)
          \<lparr>wModel = m, wIndex = Put (wIndex w) KindSystemInstance (release_key ns n) (helm_id L ns n)\<rparr>
       in (None, w2\<lparr>wModel := reconcileSystemReferenceFindings M L (helm_id L ns n) secret n (wModel w2)\<rparr>))"
    using register_eq [OF assms(2)] by blast
  have "mGet M MComponentInstance j m = Some (EComponentInstance ci)"
    using store_add_frame [OF assms(1) m, of MComponentInstance j] assms(5) by simp
  then show ?thesis
    by (simp add: eq Let_def helm_refs_entities assms(1) correlate_component [OF assms(1,3,4)] idx_simps)
qed

section \<open>Runs\<close>

type_synonym helm_event = "NamespacedName \<times> Secret"

fun run_helm :: "'m modelsrv \<Rightarrow> lib \<Rightarrow> codec \<Rightarrow> helm_event list \<Rightarrow> 'm helm_state \<Rightarrow> 'm helm_state" where
  "run_helm M L C [] s = s"
| "run_helm M L C ((nn, secret) # evs) s = run_helm M L C evs (snd (HelmReleaseReconcile M L C nn (Found secret) s))"

text \<open>A secret of the release: its revision. And, if it is to be registered, its content.\<close>

definition secret_of :: "string \<Rightarrow> string \<Rightarrow> helm_event \<Rightarrow> go_int \<Rightarrow> bool" where
  "secret_of ns name ev r \<longleftrightarrow> sec_Type (snd ev) = helm_release_type \<and> nn_Namespace (fst ev) = ns \<and>
     SecretNameParts (Name (sec_Meta (snd ev))) = Some (name, r)"

definition release_event ::
    "codec \<Rightarrow> string \<Rightarrow> string \<Rightarrow> helm_event \<Rightarrow> (go_int \<times> Release \<times> ManifestResource list) option" where
  "release_event C ns name ev =
     (case SecretNameParts (Name (sec_Meta (snd ev))) of
        None \<Rightarrow> None
      | Some (n, r) \<Rightarrow>
          if secret_of ns name ev r then map_option (Pair r) (deployed_release C (snd ev)) else None)"

lemma release_event_Some:
  "release_event C ns name ev = Some (r, rel, rs) \<longleftrightarrow>
     secret_of ns name ev r \<and> deployed_release C (snd ev) = Some (rel, rs)"
  by (auto simp: release_event_def secret_of_def split: option.splits if_splits)

lemma step_stale:
  assumes "secret_of ns name (nn, secret) r"
    and "fmlookup (latestRevision s) (release_key ns name) = Some r0" and "r <s r0"
  shows "HelmReleaseReconcile M L C nn (Found secret) s = (None, s)"
  using assms by (simp add: HelmReleaseReconcile_def secret_of_def track_revision_def)

lemma step_current:
  assumes "secret_of ns name (nn, secret) r"
    and "\<And>r0. fmlookup (latestRevision s) (release_key ns name) = Some r0 \<Longrightarrow> \<not> r <s r0"
  shows "HelmReleaseReconcile M L C nn (Found secret) s =
    (case deployed_release C secret of
       None \<Rightarrow> (None, s\<lparr>latestRevision := fmupd (release_key ns name) r (latestRevision s)\<rparr>)
     | Some (rel, rs) \<Rightarrow>
         (fst (helm_register M L ns secret name rel rs (hWorld s)),
          \<lparr>hWorld = snd (helm_register M L ns secret name rel rs (hWorld s)),
           latestRevision = fmupd (release_key ns name) r (latestRevision s)\<rparr>))"
proof -
  have "track_revision (release_key ns name) r (latestRevision s) =
      Some (fmupd (release_key ns name) r (latestRevision s))"
    using assms(2) by (auto simp: track_revision_def split: option.splits)
  then show ?thesis
    using assms(1) by (auto simp: HelmReleaseReconcile_def secret_of_def split: option.splits prod.splits)
qed

text \<open>The release is registered with a revision and its content.\<close>

definition registered :: "'m modelsrv \<Rightarrow> lib \<Rightarrow> string \<Rightarrow> string \<Rightarrow> go_int \<Rightarrow> Release \<Rightarrow> 'm helm_state \<Rightarrow> bool" where
  "registered M L ns name r rel s \<longleftrightarrow>
     fmlookup (latestRevision s) (release_key ns name) = Some r \<and>
     mGet M MSystemInstance (helm_id L ns name) (wModel (hWorld s)) = Some (ESystemInstance (helm_instance L ns name rel)) \<and>
     Get (wIndex (hWorld s)) KindSystemInstance (release_key ns name) = helm_id L ns name"

lemma step_registers:
  assumes "store_laws M" and "accepts M MSystemInstance"
    and "release_event C ns name (nn, secret) = Some (r, rel, rs)"
    and "\<And>r0. fmlookup (latestRevision s) (release_key ns name) = Some r0 \<Longrightarrow> \<not> r <s r0"
  shows "registered M L ns name r rel (snd (HelmReleaseReconcile M L C nn (Found secret) s))"
  using assms(3) step_current [of ns name nn secret r s M L C] assms(4)
  by (simp add: release_event_Some registered_def register_instance [OF assms(1,2)])

lemma run_highest:
  assumes "store_laws M" and "accepts M MSystemInstance"
    and "map (release_event C ns name) evs = map Some rels"
    and "registered M L ns name r0 rel0 s"
    and "(r, rel) \<in> insert (r0, rel0) ((\<lambda>(r, rel, rs). (r, rel)) ` set rels)"
    and "\<forall>(r', rel') \<in> insert (r0, rel0) ((\<lambda>(r, rel, rs). (r, rel)) ` set rels). r' \<le>s r \<and> (r' = r \<longrightarrow> rel' = rel)"
  shows "registered M L ns name r rel (run_helm M L C evs s)"
  using assms(3-)
proof (induction evs arbitrary: rels r0 rel0 s)
  case (Cons ev evs)
  obtain nn secret where ev: "ev = (nn, secret)" by (cases ev)
  obtain r1 rel1 rs1 rels' where rels: "rels = (r1, rel1, rs1) # rels'"
    and e1: "release_event C ns name (nn, secret) = Some (r1, rel1, rs1)"
    and rest: "map (release_event C ns name) evs = map Some rels'"
    using Cons.prems(1) ev by (cases rels) auto
  let ?s = "snd (HelmReleaseReconcile M L C nn (Found secret) s)"
  have lr: "fmlookup (latestRevision s) (release_key ns name) = Some r0"
    using Cons.prems(2) by (simp add: registered_def)
  show ?case
  proof (cases "r1 <s r0")
    case True
    then have "?s = s" using step_stale [of ns name nn secret r1 s r0] e1 lr by (simp add: release_event_Some)
    moreover have "r1 \<noteq> r"
      using True Cons.prems(4) by (auto simp: word_sless_alt word_sle_eq)
    ultimately show ?thesis
      using Cons.IH [OF rest, of r0 rel0 s] Cons.prems rels ev by auto
  next
    case False
    then have reg: "registered M L ns name r1 rel1 ?s"
      by (intro step_registers [OF assms(1,2) e1]) (simp add: lr)
    have "(r, rel) \<in> insert (r1, rel1) ((\<lambda>(r, rel, rs). (r, rel)) ` set rels')"
    proof (cases "(r, rel) = (r0, rel0)")
      case True
      then have "r1 \<le>s r0" "r1 = r0 \<Longrightarrow> rel1 = rel0" using Cons.prems(4) rels by auto
      with False have "(r1, rel1) = (r0, rel0)"
        by (auto simp: word_sless_alt word_sle_eq intro!: signed_word_eqI)
      with True show ?thesis by simp
    qed (use Cons.prems(3) rels in auto)
    then show ?thesis using Cons.IH [OF rest reg] Cons.prems(4) rels ev by auto
  qed
qed auto

section \<open>Properties\<close>


definition demo_secret :: "char \<Rightarrow> string \<Rightarrow> Secret" where
  "demo_secret v status =
     \<lparr>sec_Meta = \<lparr>Name = ''sh.helm.release.v1.app.v'' @ [v], Namespace = ''ns'', UID = ''1'', Annotations = fmempty, OwnerKinds = []\<rparr>,
      sec_Type = ''helm.sh/release.v1'',
      sec_Data = fmupd ''release'' (EncodeToString (magicGzip @ v # status)) fmempty\<rparr>"

definition demo_event :: "char \<Rightarrow> string \<Rightarrow> helm_event" where
  "demo_event v status = (\<lparr>nn_Namespace = ''ns'', nn_Name = ''sh.helm.release.v1.app.v'' @ [v]\<rparr>, demo_secret v status)"

definition demo_resources :: "ManifestResource list" where
  "demo_resources = [\<lparr>mr_Kind = ''Deployment'', mr_Name = ''web'', mr_Namespace = []\<rparr>]"

lemma demo_parts:
  "SecretNameParts ''sh.helm.release.v1.app.v1'' = Some (''app'', 1)"
  "SecretNameParts ''sh.helm.release.v1.app.v2'' = Some (''app'', 2)"
  using SecretNameParts_complete [of "''1''" 1 "''app''"] SecretNameParts_complete [of "''2''" 2 "''app''"]
  by (simp_all add: digit_def)

lemma demo_secret_of:
  "secret_of ''ns'' ''app'' (demo_event (CHR ''1'') st) 1" "secret_of ''ns'' ''app'' (demo_event (CHR ''2'') st) 2"
  by (simp_all add: secret_of_def demo_event_def demo_secret_def demo_parts helm_release_type_def)

lemma demo_deployed:
  "deployed_release demo_codec (demo_secret v st) =
     (if st = ''deployed'' then Some (demo_release (if v = CHR ''1'' then 1 else 2) st, demo_resources) else None)"
proof -
  have "fmlookup (sec_Data (demo_secret v st)) ''release'' = Some (EncodeToString (magicGzip @ v # st))"
    by (simp add: demo_secret_def)
  moreover have "ParseManifestResources demo_codec (rel_Manifest (demo_release x st)) = demo_resources" for x
    by (simp add: ParseManifestResources_def demo_codec_def demo_release_def demo_resources_def)
  ultimately show ?thesis
    by (simp add: deployed_release_def demo_decode) (simp add: demo_release_def HasSystemInstance_def demo_resources_def)
qed

lemma demo_release_event:
  "release_event demo_codec ''ns'' ''app'' (demo_event (CHR ''1'') ''deployed'') = Some (1, demo_release 1 ''deployed'', demo_resources)"
  "release_event demo_codec ''ns'' ''app'' (demo_event (CHR ''2'') ''deployed'') = Some (2, demo_release 2 ''deployed'', demo_resources)"
  by (simp_all add: release_event_Some demo_secret_of) (simp_all add: demo_event_def demo_deployed)

definition demo_helm_state :: "entity list helm_state" where
  "demo_helm_state = \<lparr>hWorld = \<lparr>wModel = [], wIndex = NewNameIndex\<rparr>, latestRevision = fmempty\<rparr>"


text \<open>
  (C14) A failed upgrade hides the deployed release. Let revision \<open>r1\<close> of a release be deployed and a
  higher revision \<open>r2\<close> not be (a failed upgrade leaves such secrets). If the secret of \<open>r2\<close> is
  reconciled first, or if the revisions are populated at start-up, the release is never registered: the
  model and the index stay as they are. In the other order it is registered, so the outcome
  depends on the order of the two secrets.
\<close>

theorem failed_upgrade_hides_release:
  assumes "store_laws M" and "accepts M MSystemInstance"
    and "secret_of ns name ev1 r1" and "secret_of ns name ev2 r2" and "r1 <s r2" and "0 <s r2"
    and "deployed_release C (snd ev1) = Some (rel, rs)" and "deployed_release C (snd ev2) = None"
    and "Namespace (sec_Meta (snd ev2)) = ns"
    and "fmlookup (latestRevision s) (release_key ns name) = None"
  shows "hWorld (run_helm M L C [ev2, ev1] s) = hWorld s \<and>
     hWorld (run_helm M L C [ev1, ev2] (snd (populateLatestRevisions (Inr [snd ev2]) s))) = hWorld s \<and>
     mGet M MSystemInstance (helm_id L ns name) (wModel (hWorld (run_helm M L C [ev1, ev2] s))) =
       Some (ESystemInstance (helm_instance L ns name rel))"
proof -
  obtain nn1 sec1 nn2 sec2 where ev: "ev1 = (nn1, sec1)" "ev2 = (nn2, sec2)" by (cases ev1; cases ev2)
  have late: "HelmReleaseReconcile M L C nn2 (Found sec2) s' =
      (None, s'\<lparr>latestRevision := fmupd (release_key ns name) r2 (latestRevision s')\<rparr>)"
    if "fmlookup (latestRevision s') (release_key ns name) \<in> {None, Some r1, Some r2}" for s'
    using step_current [of ns name nn2 sec2 r2 s' M L C] assms(4,5,8) ev that by (auto simp: word_sless_alt)
  have stale: "HelmReleaseReconcile M L C nn1 (Found sec1) s' = (None, s')"
    if "fmlookup (latestRevision s') (release_key ns name) = Some r2" for s'
    using step_stale [of ns name nn1 sec1 r1 s' r2] assms(3,5) ev that by simp
  let ?p = "snd (populateLatestRevisions (Inr [sec2]) s)"
  have p: "latestRevision ?p = fmupd (release_key ns name) r2 (latestRevision s)" "hWorld ?p = hWorld s"
    using assms(4,6,9,10) ev
    by (simp_all add: populateLatestRevisions_def populate_one_def secret_of_def tracked_def Let_def)
  then have "HelmReleaseReconcile M L C nn2 (Found sec2) ?p =
      (None, ?p\<lparr>latestRevision := fmupd (release_key ns name) r2 (latestRevision ?p)\<rparr>)"
    by (intro late) simp
  then have "hWorld (run_helm M L C [ev1, ev2] ?p) = hWorld s" using p by (simp add: ev stale)
  moreover have "hWorld (run_helm M L C [ev2, ev1] s) = hWorld s"
    using assms(10) by (simp add: ev late stale)
  moreover have reg: "registered M L ns name r1 rel (snd (HelmReleaseReconcile M L C nn1 (Found sec1) s))"
    using assms(3,7,10) ev by (intro step_registers [OF assms(1,2), where rs = rs]) (auto simp: release_event_Some)
  ultimately show ?thesis by (simp add: ev late registered_def)
qed

theorem failed_upgrade_hides_release_witness:
  "run_helm mem_store mem_lib demo_codec [demo_event (CHR ''2'') ''failed'', demo_event (CHR ''1'') ''deployed''] demo_helm_state
     \<noteq> run_helm mem_store mem_lib demo_codec [demo_event (CHR ''1'') ''deployed'', demo_event (CHR ''2'') ''failed''] demo_helm_state"
proof -
  have "(1 :: go_int) <s 2" "(0 :: go_int) <s 2" by (simp_all add: word_sless_alt)
  moreover have "deployed_release demo_codec (snd (demo_event (CHR ''1'') ''deployed'')) =
        Some (demo_release 1 ''deployed'', demo_resources)"
    and "deployed_release demo_codec (snd (demo_event (CHR ''2'') ''failed'')) = None"
    and "Namespace (sec_Meta (snd (demo_event (CHR ''2'') ''failed''))) = ''ns''"
    by (simp_all add: demo_event_def demo_deployed) (simp add: demo_secret_def)
  moreover have "fmlookup (latestRevision demo_helm_state) k = None" "wModel (hWorld demo_helm_state) = []" for k
    by (simp_all add: demo_helm_state_def)
  ultimately show ?thesis
    using failed_upgrade_hides_release [OF mem_store_laws mem_store_accepts demo_secret_of(1) [of "''deployed''"]
        demo_secret_of(2) [of "''failed''"], where C = demo_codec and s = demo_helm_state and L = mem_lib]
    by (auto simp: mem_store_def)
qed



text \<open>The revisions of a release in a list of secrets.\<close>

definition secret_revision :: "string \<Rightarrow> Secret \<Rightarrow> go_int list" where
  "secret_revision key sec =
     (if sec_Type sec \<noteq> helm_release_type then []
      else (case SecretNameParts (Name (sec_Meta sec)) of
          None \<Rightarrow> []
        | Some (n, r) \<Rightarrow> if release_key (Namespace (sec_Meta sec)) n = key then [r] else []))"

definition revisions_of :: "string \<Rightarrow> Secret list \<Rightarrow> go_int list" where
  "revisions_of key items = concat (map (secret_revision key) items)"

lemma populate_one_tracked:
  "sint (tracked (populate_one sec lr) key) = Max (insert (sint (tracked lr key)) (sint ` set (secret_revision key sec)))"
proof (cases "sec_Type sec \<noteq> helm_release_type \<or> SecretNameParts (Name (sec_Meta sec)) = None")
  case True
  then show ?thesis by (auto simp: populate_one_def secret_revision_def)
next
  case False
  then obtain n r where "sec_Type sec = helm_release_type" "SecretNameParts (Name (sec_Meta sec)) = Some (n, r)" by auto
  then show ?thesis
    by (simp add: populate_one_def secret_revision_def word_sless_alt Let_def max_def) (auto simp: tracked_def)
qed

lemma populate_fold:
  "sint (tracked (fold populate_one items lr) key) =
     Max (insert (sint (tracked lr key)) (sint ` set (revisions_of key items)))"
proof (induction items arbitrary: lr)
  case Nil
  show ?case by (simp add: revisions_of_def)
next
  case (Cons sec items)
  let ?A = "sint ` set (secret_revision key sec)" and ?B = "sint ` set (revisions_of key items)"
  have split: "insert (sint (tracked lr key)) (sint ` set (revisions_of key (sec # items))) =
      insert (sint (tracked lr key)) ?A \<union> ?B"
    by (simp add: revisions_of_def image_Un)
  have "sint (tracked (fold populate_one (sec # items) lr) key) =
      Max (insert (Max (insert (sint (tracked lr key)) ?A)) ?B)"
    using Cons [of "populate_one sec lr"] by (simp add: populate_one_tracked)
  also have "\<dots> = Max (insert (sint (tracked lr key)) ?A \<union> ?B)"
    using Max_Un [of "insert (sint (tracked lr key)) ?A" ?B]
    by (cases "?B = {}") (simp_all only: finite_insert finite_imageI finite_set insert_not_empty Max_insert Max_singleton
        Un_empty_right if_False not_False_eq_True simp_thms)
  finally show ?case unfolding split .
qed

text \<open>
  The revision cache at start-up. After the secrets were listed, the tracked revision of every release is
  the largest among the one tracked before (0 if none) and the revisions of its secrets; a failing
  list changes nothing and is reported.
\<close>

theorem populate_takes_maximum:
  "fst (populateLatestRevisions (Inr items) s) = None \<and>
   sint (tracked (latestRevision (snd (populateLatestRevisions (Inr items) s))) key) =
     Max (insert (sint (tracked (latestRevision s) key)) (sint ` set (revisions_of key items))) \<and>
   hWorld (snd (populateLatestRevisions (Inr items) s)) = hWorld s \<and>
   populateLatestRevisions (Inl err) s = (Some (ErrWrap ''list secrets: '' err), s)"
  by (simp add: populateLatestRevisions_def populate_fold)

end
