(* ===== verification/Image.thy ===== *)
theory Image
  imports Externals
begin

text \<open>
  \<open>internal/controller/image.go\<close>: the identity of a container image and the observations that a walk over all pods
  aggregates per image. The map of observations holds pointers in the source; every pointer is written back
  under its key here. The regular expression for a digest is a recursive matcher.
\<close>

section \<open>Data\<close>

record imageObservation =
  ob_key :: string
  ob_displayName :: string
  ob_hash :: string
  ob_started :: bool
  ob_pullFailed :: bool
  ob_locations :: "string list"
  ob_failingPods :: "string list"

record imageIdentity =
  id_key :: string
  id_displayName :: string
  id_hash :: string

text \<open>
  The parts of a container status and of a pod that the sensor reads: whether the state is running
  or terminated, the reason of a waiting state, and the images of the containers.
\<close>

record ContainerStatus =
  cs_Image :: string
  cs_ImageID :: string
  cs_Running :: bool
  cs_Terminated :: bool
  cs_Waiting :: "string option"

record Pod =
  p_Namespace :: string
  p_Name :: string
  p_NodeName :: string
  p_Containers :: "string list"
  p_InitContainers :: "string list"
  p_EphemeralContainers :: "string list"
  p_ContainerStatuses :: "ContainerStatus list"
  p_InitContainerStatuses :: "ContainerStatus list"
  p_EphemeralContainerStatuses :: "ContainerStatus list"

type_synonym observations = "(string, imageObservation) fmap"

text \<open>b4c5d6e7-2345-6789-abcd-ef0123456789\<close>

definition imageArtifactNamespaceUUID :: uuid where
  "imageArtifactNamespaceUUID = 0xb4c5d6e723456789abcdef0123456789"

definition ArtifactInstanceLocationAnnotation :: string where
  "ArtifactInstanceLocationAnnotation = ''emeland.io/p8-artifact-instance-location''"

definition pullFailureReasons :: "string set" where
  "pullFailureReasons = {''ErrImagePull'', ''ImagePullBackOff'', ''InvalidImageName''}"

section \<open>Digests\<close>

text \<open>
  The regular expression \<open>(?i)(?:sha256:)?([a-f0-9]{64})\<close>: leftmost match, the optional prefix tried first. Under
  \<open>(?i)\<close> the letter s also matches U+017F, two bytes in UTF-8.
\<close>

definition hex_char :: "char \<Rightarrow> bool" where
  "hex_char c \<longleftrightarrow> (let n = of_char c :: nat in (48 \<le> n \<and> n \<le> 57) \<or> (65 \<le> n \<and> n \<le> 70) \<or> (97 \<le> n \<and> n \<le> 102))"

definition hex64 :: "string \<Rightarrow> bool" where
  "hex64 s \<longleftrightarrow> 64 \<le> length s \<and> list_all hex_char (take 64 s)"

definition drop_sha256 :: "string \<Rightarrow> string option" where
  "drop_sha256 s =
     (if map lower_char (take 7 s) = ''sha256:'' then Some (drop 7 s)
      else if take 2 s = [CHR 0xC5, CHR 0xBF] \<and> map lower_char (take 6 (drop 2 s)) = ''ha256:'' then Some (drop 8 s)
      else None)"

definition digest_here :: "string \<Rightarrow> string option" where
  "digest_here s =
     (case drop_sha256 s of
        Some r \<Rightarrow> if hex64 r then Some (take 64 r) else if hex64 s then Some (take 64 s) else None
      | None \<Rightarrow> if hex64 s then Some (take 64 s) else None)"

fun FindDigest :: "string \<Rightarrow> string option" where
  "FindDigest [] = digest_here []"
| "FindDigest (c # cs) = (case digest_here (c # cs) of Some d \<Rightarrow> Some d | None \<Rightarrow> FindDigest cs)"

definition parseImageID :: "string \<Rightarrow> string" where
  "parseImageID imageID =
     (if imageID = [] then []
      else case FindDigest imageID of None \<Rightarrow> [] | Some d \<Rightarrow> ''SHA256:'' @ map lower_char d)"

section \<open>Identity\<close>

definition normalizeImageRef :: "string \<Rightarrow> string" where
  "normalizeImageRef ref = TrimSpace ref"

definition displayNameForDigest :: "string \<Rightarrow> string \<Rightarrow> string" where
  "displayNameForDigest ref hex =
     (let at = LastIndex ref (CHR ''@'')
      in if 0 \<le> at then take (nat at) ref @ ''@sha256:'' @ hex
         else if ref \<noteq> [] then
           (let i = LastIndex ref (CHR '':'');
                base = (if LastIndex ref (CHR ''/'') < i then take (nat i) ref else ref)
            in base @ ''@sha256:'' @ hex)
         else ''sha256:'' @ hex)"

definition identityFromImage :: "string \<Rightarrow> string \<Rightarrow> imageIdentity" where
  "identityFromImage imageRef imageID =
     (let ref = normalizeImageRef imageRef;
          h = parseImageID imageID;
          hash = (if h = [] then parseImageID ref else h)
      in if hash \<noteq> [] then
           (let hex = TrimPrefix hash ''SHA256:''
            in \<lparr>id_key = ''sha256:'' @ hex, id_displayName = displayNameForDigest ref hex, id_hash = hash\<rparr>)
         else \<lparr>id_key = ref, id_displayName = ref, id_hash = []\<rparr>)"

definition artifactIDForImage :: "lib \<Rightarrow> string \<Rightarrow> uuid" where
  "artifactIDForImage L key = NewSHA1 L imageArtifactNamespaceUUID (''artifact:'' @ key)"

definition artifactInstanceIDForImage :: "lib \<Rightarrow> string \<Rightarrow> uuid" where
  "artifactInstanceIDForImage L key = NewSHA1 L imageArtifactNamespaceUUID (''instance:'' @ key)"

definition isSensorMintedArtifact :: "lib \<Rightarrow> uuid \<Rightarrow> string \<Rightarrow> bool" where
  "isSensorMintedArtifact L i key \<longleftrightarrow> i = artifactIDForImage L key"

definition containerStarted :: "ContainerStatus \<Rightarrow> bool" where
  "containerStarted cs \<longleftrightarrow> (if cs_ImageID cs = [] then False else cs_Running cs \<or> cs_Terminated cs)"

definition containerPullFailed :: "ContainerStatus \<Rightarrow> bool" where
  "containerPullFailed cs \<longleftrightarrow> (case cs_Waiting cs of None \<Rightarrow> False | Some reason \<Rightarrow> reason \<in> pullFailureReasons)"

section \<open>Observations\<close>

definition addUnique :: "string \<Rightarrow> string list \<Rightarrow> string list" where
  "addUnique value xs = (if value = [] then xs else if value \<in> set xs then xs else xs @ [value])"

definition new_observation :: "imageIdentity \<Rightarrow> imageObservation" where
  "new_observation i =
     \<lparr>ob_key = id_key i, ob_displayName = id_displayName i, ob_hash = id_hash i, ob_started = False,
      ob_pullFailed = False, ob_locations = [], ob_failingPods = []\<rparr>"

text \<open>The observation of the identity, which is also stored under its key.\<close>

definition ensureObservation :: "observations \<Rightarrow> imageIdentity \<Rightarrow> imageObservation \<times> observations" where
  "ensureObservation obs i =
     (case fmlookup obs (id_key i) of
        None \<Rightarrow> (new_observation i, fmupd (id_key i) (new_observation i) obs)
      | Some x \<Rightarrow>
          (let x' = (if ob_hash x = [] \<and> id_hash i \<noteq> [] then x\<lparr>ob_hash := id_hash i, ob_displayName := id_displayName i\<rparr> else x)
           in (x', fmupd (id_key i) x' obs)))"

definition mergeTagObservation :: "observations \<Rightarrow> imageObservation \<Rightarrow> string \<Rightarrow> imageObservation \<times> observations" where
  "mergeTagObservation obs digestObs tagKey =
     (if tagKey = [] \<or> tagKey = ob_key digestObs then (digestObs, obs)
      else case fmlookup obs tagKey of
          None \<Rightarrow> (digestObs, obs)
        | Some prev \<Rightarrow>
            (let d = digestObs\<lparr>
                   ob_started := (ob_started digestObs \<or> ob_started prev),
                   ob_pullFailed := (ob_pullFailed digestObs \<or> ob_pullFailed prev),
                   ob_locations := fold addUnique (ob_locations prev) (ob_locations digestObs),
                   ob_failingPods := fold addUnique (ob_failingPods prev) (ob_failingPods digestObs)\<rparr>
             in (d, fmdrop tagKey (fmupd (ob_key digestObs) d obs))))"

fun registerDeclaredImages :: "string list \<Rightarrow> observations \<Rightarrow> observations" where
  "registerDeclaredImages [] obs = obs"
| "registerDeclaredImages (img # images) obs =
     registerDeclaredImages images
       (if img = [] then obs else snd (ensureObservation obs (identityFromImage img [])))"

definition mark_started :: "Pod \<Rightarrow> ContainerStatus \<Rightarrow> imageObservation \<Rightarrow> imageObservation" where
  "mark_started pod cs x =
     (if containerStarted cs then
        (let locs = addUnique (''oci://'' @ ob_displayName x) (ob_locations x)
         in x\<lparr>ob_started := True,
              ob_locations := (if p_NodeName pod \<noteq> [] then addUnique (''node://'' @ p_NodeName pod) locs else locs)\<rparr>)
      else x)"

definition mark_failed :: "string \<Rightarrow> ContainerStatus \<Rightarrow> imageObservation \<Rightarrow> imageObservation" where
  "mark_failed podKey cs x =
     (if containerPullFailed cs then x\<lparr>ob_pullFailed := True, ob_failingPods := addUnique podKey (ob_failingPods x)\<rparr> else x)"

definition observeContainerStatus :: "Pod \<Rightarrow> string \<Rightarrow> ContainerStatus \<Rightarrow> observations \<Rightarrow> observations" where
  "observeContainerStatus pod podKey cs obs =
     (let i = identityFromImage (cs_Image cs) (cs_ImageID cs)
      in if id_key i = [] then obs
         else case ensureObservation obs i of
             (x, obs1) \<Rightarrow>
               (case (if id_hash i \<noteq> [] then mergeTagObservation obs1 x (normalizeImageRef (cs_Image cs)) else (x, obs1)) of
                  (y, obs2) \<Rightarrow> fmupd (ob_key y) (mark_failed podKey cs (mark_started pod cs y)) obs2))"

definition observePodImages :: "Pod \<Rightarrow> observations \<Rightarrow> observations" where
  "observePodImages pod obs =
     (let podKey = p_Namespace pod @ ''/'' @ p_Name pod;
          declared = p_Containers pod @ p_InitContainers pod @ p_EphemeralContainers pod;
          obs0 = registerDeclaredImages declared obs;
          obs1 = fold (observeContainerStatus pod podKey) (p_ContainerStatuses pod) obs0;
          obs2 = fold (observeContainerStatus pod podKey) (p_InitContainerStatuses pod) obs1
      in fold (observeContainerStatus pod podKey) (p_EphemeralContainerStatuses pod) obs2)"

definition settle :: "imageObservation \<Rightarrow> imageObservation" where
  "settle x = (if ob_started x then x\<lparr>ob_pullFailed := False, ob_failingPods := []\<rparr> else x)"

definition collectImageObservations :: "Pod list \<Rightarrow> observations" where
  "collectImageObservations pods = fmmap settle (fold observePodImages pods fmempty)"

text \<open>\<open>json.Marshal\<close> of a list of strings is the argument \<open>J\<close>.\<close>

definition locationAnnotationValue :: "(string list \<Rightarrow> error + string) \<Rightarrow> string list \<Rightarrow> string" where
  "locationAnnotationValue J locations =
     (if locations = [] then ''[]''
      else case J locations of Inl err \<Rightarrow> goQuote (locations ! 0) | Inr b \<Rightarrow> b)"

section \<open>The matcher finds the leftmost digest\<close>

lemma not_hex [simp]:
  "\<not> hex_char (CHR ''s'')" "\<not> hex_char (CHR ''h'')" "\<not> hex_char (CHR '':'')" "\<not> hex_char (CHR 0xC5)"
  by (simp_all add: hex_char_def)

lemma hex_lower [simp]: "hex_char (lower_char c) = hex_char c"
  by (auto simp: hex_char_def lower_char_def Let_def of_char_of)

lemma hex64_iff: "hex64 s \<longleftrightarrow> (\<exists>h q. s = h @ q \<and> length h = 64 \<and> list_all hex_char h)"
  by (auto simp: hex64_def) (metis append_take_drop_id length_take min.absorb2)

lemma hex64_lookup: "hex64 s \<Longrightarrow> i < 64 \<Longrightarrow> hex_char (s ! i)"
  by (auto simp: hex64_def list_all_length)

lemma hex64_Nil [simp]: "\<not> hex64 []"
  by (simp add: hex64_def)

fun first_window :: "string \<Rightarrow> string option" where
  "first_window [] = None"
| "first_window (c # cs) = (if hex64 (c # cs) then Some (take 64 (c # cs)) else first_window cs)"

text \<open>No digest starts inside a word that ends with another character.\<close>

lemma blocked:
  assumes "p \<noteq> []" and "\<not> hex_char (last p)" and "length p \<le> 64"
  shows "\<not> hex64 (p @ r)"
proof
  assume "hex64 (p @ r)"
  then have "hex_char ((p @ r) ! (length p - 1))"
    using assms(1,3) by (intro hex64_lookup) (cases p, auto)
  with assms(1,2) show False by (simp add: nth_append last_conv_nth)
qed

lemma window_skip:
  "\<not> hex_char (last p) \<Longrightarrow> length p \<le> 64 \<Longrightarrow> first_window (p @ r) = first_window r"
proof (induction p)
  case (Cons c p)
  have "\<not> hex64 ((c # p) @ r)" using Cons.prems by (intro blocked) auto
  with Cons show ?case by (cases "p = []") auto
qed simp

lemma colon_not_hex: "lower_char c = CHR '':'' \<Longrightarrow> \<not> hex_char c"
  by (metis hex_lower not_hex(3))

lemma drop_sha256_prefix:
  assumes "drop_sha256 s = Some r"
  shows "\<exists>p. s = p @ r \<and> p \<noteq> [] \<and> \<not> hex_char (last p) \<and> length p \<le> 64"
proof -
  define n where "n = length s - length r"
  have n: "n \<in> {7, 8}" "r = drop n s" "n \<le> length s" "lower_char (s ! (n - 1)) = CHR '':''"
  proof -
    have "(7 \<le> length s \<and> lower_char (s ! 6) = CHR '':'' \<and> r = drop 7 s) \<or>
        (8 \<le> length s \<and> lower_char (s ! 7) = CHR '':'' \<and> r = drop 8 s)"
    proof (cases "map lower_char (take 7 s) = ''sha256:''")
      case True
      have "length (map lower_char (take 7 s)) = 7" using True by simp
      then have "7 \<le> length s" by simp
      moreover from this have "lower_char (s ! 6) = map lower_char (take 7 s) ! 6" by simp
      then have "lower_char (s ! 6) = CHR '':''" unfolding True by simp
      ultimately show ?thesis using assms True by (simp add: drop_sha256_def)
    next
      case False
      then have t: "map lower_char (take 6 (drop 2 s)) = ''ha256:''" and r: "r = drop 8 s"
        using assms by (auto simp: drop_sha256_def split: if_splits)
      have "length (map lower_char (take 6 (drop 2 s))) = 6" using t by simp
      then have "8 \<le> length s" by simp
      moreover from this have "lower_char (s ! 7) = map lower_char (take 6 (drop 2 s)) ! 5" by simp
      then have "lower_char (s ! 7) = CHR '':''" unfolding t by simp
      ultimately show ?thesis using r by simp
    qed
    then show "n \<in> {7, 8}" "r = drop n s" "n \<le> length s" "lower_char (s ! (n - 1)) = CHR '':''"
      by (auto simp: n_def)
  qed
  then have "s = take n s @ r" "take n s \<noteq> []" "length (take n s) \<le> 64" by auto
  moreover have "last (take n s) = s ! (n - 1)" using n by (subst last_conv_nth) (auto simp: min_def)
  ultimately show ?thesis using n(4) colon_not_hex by metis
qed

lemma FindDigest_window: "FindDigest s = first_window s"
proof (induction s)
  case Nil
  have "drop_sha256 [] = None" by (simp add: drop_sha256_def)
  then show ?case by (simp add: digest_here_def)
next
  case (Cons c cs)
  show ?case
  proof (cases "drop_sha256 (c # cs)")
    case None
    with Cons show ?thesis by (simp add: digest_here_def)
  next
    case (Some r)
    then obtain p where p: "c # cs = p @ r" "p \<noteq> []" "\<not> hex_char (last p)" "length p \<le> 64"
      using drop_sha256_prefix by blast
    have "\<not> hex64 (c # cs)" using blocked [OF p(2-4)] p(1) by simp
    moreover have "first_window (c # cs) = first_window r" using window_skip [OF p(3,4)] p(1) by simp
    moreover have "first_window r = Some (take 64 r)" if "hex64 r" using that by (cases r) auto
    ultimately show ?thesis using Some Cons by (cases "hex64 r") (auto simp: digest_here_def)
  qed
qed

lemma first_window_iff:
  "first_window s = Some h \<longleftrightarrow>
     (\<exists>p q. s = p @ h @ q \<and> length h = 64 \<and> list_all hex_char h \<and> (\<forall>i < length p. \<not> hex64 (drop i s)))"
proof (induction s)
  case (Cons c cs)
  show ?case
  proof (cases "hex64 (c # cs)")
    case True
    have "take 64 (c # cs) = h \<longleftrightarrow>
       (\<exists>p q. c # cs = p @ h @ q \<and> length h = 64 \<and> list_all hex_char h \<and> (\<forall>i < length p. \<not> hex64 (drop i (c # cs))))"
      (is "_ \<longleftrightarrow> ?r")
    proof
      assume "take 64 (c # cs) = h"
      then show ?r using True unfolding hex64_def
        by (intro exI [of _ "[]"] exI [of _ "drop 64 (c # cs)"]) (auto simp del: take_Cons_numeral drop_Cons_numeral)
    next
      assume ?r
      then obtain p q where r: "c # cs = p @ h @ q" "length h = 64" "\<forall>i < length p. \<not> hex64 (drop i (c # cs))" by blast
      have "p = []" using r(3) True by (cases p) auto
      with r show "take 64 (c # cs) = h" by simp
    qed
    with True show ?thesis by simp
  next
    case False
    then have "first_window (c # cs) = first_window cs" by simp
    also have "\<dots> = Some h \<longleftrightarrow>
       (\<exists>p q. cs = p @ h @ q \<and> length h = 64 \<and> list_all hex_char h \<and> (\<forall>i < length p. \<not> hex64 (drop i cs)))"
      by (rule Cons)
    also have "\<dots> \<longleftrightarrow>
       (\<exists>p q. c # cs = p @ h @ q \<and> length h = 64 \<and> list_all hex_char h \<and> (\<forall>i < length p. \<not> hex64 (drop i (c # cs))))"
      (is "?l \<longleftrightarrow> ?r")
    proof
      assume ?l
      then obtain p q where "cs = p @ h @ q" "length h = 64" "list_all hex_char h" "\<forall>i < length p. \<not> hex64 (drop i cs)" by blast
      then show ?r using False
        by (intro exI [of _ "c # p"] exI [of _ q]) (auto simp: less_Suc_eq_0_disj)
    next
      assume ?r
      then obtain p q where r: "c # cs = p @ h @ q" "length h = 64" "list_all hex_char h"
        "\<forall>i < length p. \<not> hex64 (drop i (c # cs))" by blast
      then have "p \<noteq> []" using False by (auto simp: hex64_iff)
      then obtain p' where "p = c # p'" using r(1) by (cases p) auto
      then show ?l using r by (intro exI [of _ p'] exI [of _ q]) fastforce
    qed
    finally show ?thesis .
  qed
qed auto

lemma parseImageID_window:
  "parseImageID s = (case first_window s of None \<Rightarrow> [] | Some d \<Rightarrow> ''SHA256:'' @ map lower_char d)"
  by (simp add: parseImageID_def FindDigest_window)

text \<open>
  (C23) The digest of an image id. A digest is found exactly if the text contains 64 hexadecimal
  digits in a row, and then it is the first such run, in lower case, with or without a prefix \<open>sha256:\<close>.
\<close>

theorem parse_image_id_exact:
  "parseImageID s = d \<and> d \<noteq> [] \<longleftrightarrow>
     (\<exists>p h q. s = p @ h @ q \<and> length h = 64 \<and> list_all hex_char h \<and> \<not> (\<exists>i < length p. hex64 (drop i s)) \<and>
        d = ''SHA256:'' @ map lower_char h)"
proof -
  have "parseImageID s = d \<and> d \<noteq> [] \<longleftrightarrow> (\<exists>h. first_window s = Some h \<and> d = ''SHA256:'' @ map lower_char h)"
    by (auto simp: parseImageID_window split: option.splits)
  then show ?thesis unfolding first_window_iff by blast
qed

section \<open>Well-formed observations\<close>

lemma lower_idem [simp]: "lower_char (lower_char c) = lower_char c"
  by (auto simp: lower_char_def Let_def of_char_of)

lemma parseImageID_form:
  "parseImageID s \<noteq> [] \<Longrightarrow>
     \<exists>h. parseImageID s = ''SHA256:'' @ h \<and> length h = 64 \<and> list_all hex_char h \<and> map lower_char h = h"
  by (auto simp: parseImageID_window list_all_iff split: option.splits) (auto simp: first_window_iff list_all_iff)

lemma parse_digest_key:
  assumes "length h = 64" and "list_all hex_char h" and "map lower_char h = h"
  shows "parseImageID (''sha256:'' @ h) = ''SHA256:'' @ h"
proof -
  have "first_window (''sha256:'' @ h) = first_window h" by (rule window_skip) simp_all
  moreover have "hex64 h" using assms by (simp add: hex64_def)
  ultimately have "first_window (''sha256:'' @ h) = Some h" using assms(1) by (cases h) simp_all
  then show ?thesis using assms(3) by (simp only: parseImageID_window option.case)
qed

lemma identity_hash: "id_hash (identityFromImage ref iid) = parseImageID (id_key (identityFromImage ref iid))"
proof -
  let ?h = "parseImageID iid" and ?r = "parseImageID (normalizeImageRef ref)"
  let ?hash = "if ?h = [] then ?r else ?h"
  show ?thesis
  proof (cases "?hash = []")
    case True
    then show ?thesis by (simp add: identityFromImage_def Let_def split: if_splits)
  next
    case False
    then obtain h where h: "?hash = ''SHA256:'' @ h" "length h = 64" "list_all hex_char h" "map lower_char h = h"
      using parseImageID_form [of iid] parseImageID_form [of "normalizeImageRef ref"] by (auto split: if_splits)
    have "identityFromImage ref iid =
        \<lparr>id_key = ''sha256:'' @ h, id_displayName = displayNameForDigest (normalizeImageRef ref) h, id_hash = ''SHA256:'' @ h\<rparr>"
      unfolding identityFromImage_def Let_def h(1) TrimPrefix_append by simp
    then show ?thesis using parse_digest_key [OF h(2-4)] by simp
  qed
qed

definition obs_wf :: "string \<Rightarrow> imageObservation \<Rightarrow> bool" where
  "obs_wf key x \<longleftrightarrow> ob_key x = key \<and> ob_hash x = parseImageID key \<and>
     distinct (ob_locations x) \<and> [] \<notin> set (ob_locations x) \<and> (ob_started x = (ob_locations x \<noteq> [])) \<and>
     distinct (ob_failingPods x) \<and> [] \<notin> set (ob_failingPods x) \<and> (ob_pullFailed x = (ob_failingPods x \<noteq> []))"

abbreviation obs_inv :: "observations \<Rightarrow> bool" where
  "obs_inv obs \<equiv> fmpred obs_wf obs"

lemma obs_invD: "obs_inv obs \<Longrightarrow> fmlookup obs k = Some x \<Longrightarrow> obs_wf k x"
  by (simp add: fmpred_iff)

lemma addUnique_props [simp]:
  "distinct (addUnique v xs) = distinct xs"
  "set (addUnique v xs) = (if v = [] then set xs else insert v (set xs))"
  "(addUnique v xs = []) = (v = [] \<and> xs = [])"
  by (auto simp: addUnique_def)

lemma fold_addUnique_props:
  "distinct (fold addUnique vs xs) = distinct xs"
  "set (fold addUnique vs xs) = set xs \<union> (set vs - {[]})"
  by (induction vs arbitrary: xs) (auto simp: addUnique_def)

lemma fold_addUnique_Nil: "[] \<notin> set vs \<Longrightarrow> (fold addUnique vs xs = []) = (vs = [] \<and> xs = [])"
  using fold_addUnique_props(2) [of vs xs] by (metis Diff_empty Diff_insert0 Un_empty set_empty)

lemma ensure_wf:
  assumes "obs_inv obs" and "id_hash i = parseImageID (id_key i)"
  shows "obs_wf (id_key i) (fst (ensureObservation obs i)) \<and> obs_inv (snd (ensureObservation obs i)) \<and>
     fmlookup (snd (ensureObservation obs i)) (id_key i) = Some (fst (ensureObservation obs i))"
proof (cases "fmlookup obs (id_key i)")
  case None
  have "obs_wf (id_key i) (new_observation i)" using assms(2) by (simp add: obs_wf_def new_observation_def)
  with None assms(1) show ?thesis by (simp add: ensureObservation_def fmpred_upd)
next
  case (Some x)
  with assms have x: "obs_wf (id_key i) x" by (auto dest: obs_invD)
  then have "\<not> (ob_hash x = [] \<and> id_hash i \<noteq> [])" using assms(2) by (simp add: obs_wf_def)
  with Some x assms(1) show ?thesis by (auto simp: ensureObservation_def Let_def)
qed

lemma merge_wf:
  assumes "obs_inv obs" and "obs_wf k x" and "fmlookup obs k = Some x"
  shows "obs_wf k (fst (mergeTagObservation obs x t)) \<and> obs_inv (snd (mergeTagObservation obs x t))"
proof (cases "t = [] \<or> t = ob_key x \<or> fmlookup obs t = None")
  case True
  then show ?thesis using assms by (auto simp: mergeTagObservation_def)
next
  case False
  then obtain prev where prev: "fmlookup obs t = Some prev" by auto
  with assms(1) have p: "obs_wf t prev" by (auto dest: obs_invD)
  let ?d = "fst (mergeTagObservation obs x t)"
  have "obs_wf k ?d"
    using assms(2) p prev False
    by (auto simp: obs_wf_def mergeTagObservation_def Let_def fold_addUnique_props fold_addUnique_Nil)
  moreover have "snd (mergeTagObservation obs x t) = fmdrop t (fmupd k ?d obs)"
    using False prev assms(2) by (simp add: mergeTagObservation_def Let_def obs_wf_def)
  ultimately show ?thesis using assms(1) by (auto intro!: fmpred_drop fmpred_upd)
qed

lemma mark_wf:
  assumes "obs_wf k x" and "podKey \<noteq> []"
  shows "obs_wf k (mark_failed podKey cs (mark_started pod cs x))"
  using assms by (auto simp: obs_wf_def mark_failed_def mark_started_def Let_def)

lemma status_wf:
  assumes "obs_inv obs" and "podKey \<noteq> []"
  shows "obs_inv (observeContainerStatus pod podKey cs obs)"
proof -
  let ?i = "identityFromImage (cs_Image cs) (cs_ImageID cs)"
  obtain x obs1 where e: "ensureObservation obs ?i = (x, obs1)" by (cases "ensureObservation obs ?i")
  with ensure_wf [OF assms(1) identity_hash] have x: "obs_wf (id_key ?i) x" "obs_inv obs1" "fmlookup obs1 (id_key ?i) = Some x"
    by (metis fst_conv snd_conv)+
  let ?m = "if id_hash ?i \<noteq> [] then mergeTagObservation obs1 x (normalizeImageRef (cs_Image cs)) else (x, obs1)"
  have m: "obs_wf (id_key ?i) (fst ?m)" "obs_inv (snd ?m)" using merge_wf [OF x(2,1,3)] x by simp_all
  then have "ob_key (fst ?m) = id_key ?i" by (simp only: obs_wf_def)
  then have "obs_inv (fmupd (ob_key (fst ?m)) (mark_failed podKey cs (mark_started pod cs (fst ?m))) (snd ?m))"
    by (simp only:) (rule fmpred_upd [OF m(2) mark_wf [OF m(1) assms(2)]])
  then show ?thesis
    using assms(1) unfolding observeContainerStatus_def Let_def e prod.case
    by (cases "id_key ?i = []") (simp_all add: case_prod_beta)
qed

lemma register_wf: "obs_inv obs \<Longrightarrow> obs_inv (registerDeclaredImages images obs)"
  by (induction images arbitrary: obs) (simp_all add: ensure_wf identity_hash)

lemma fold_status_wf:
  "obs_inv obs \<Longrightarrow> podKey \<noteq> [] \<Longrightarrow> obs_inv (fold (observeContainerStatus pod podKey) css obs)"
  by (induction css arbitrary: obs) (simp_all add: status_wf)

lemma pod_wf: "obs_inv obs \<Longrightarrow> obs_inv (observePodImages pod obs)"
  unfolding observePodImages_def Let_def by (intro fold_status_wf register_wf) simp_all

lemma pods_wf: "obs_inv obs \<Longrightarrow> obs_inv (fold observePodImages pods obs)"
  by (induction pods arbitrary: obs) (simp_all add: pod_wf)

lemma collect_wf:
  assumes "fmlookup (collectImageObservations pods) key = Some x"
  shows "obs_wf key x \<and> \<not> (ob_started x \<and> ob_pullFailed x)"
proof -
  from assms obtain y where y: "fmlookup (fold observePodImages pods fmempty) key = Some y" and x: "x = settle y"
    by (auto simp: collectImageObservations_def)
  have "obs_inv (fold observePodImages pods fmempty)" by (rule pods_wf) simp
  with y have "obs_wf key y" by (rule obs_invD [rotated])
  then show ?thesis by (auto simp: x settle_def obs_wf_def)
qed

text \<open>
  (C19) Invariant of the observations. Whatever pods are listed, every observation is stored under
  its own key, its hash is the digest in that key (so a hash is never learned later for a
  key without one), it has locations exactly if a container started and failing pods exactly if
  a pull failed, neither with duplicates, and it is never both started and failed.
\<close>

theorem image_observations_wf:
  assumes "fmlookup (collectImageObservations pods) key = Some x"
  shows "ob_key x = key \<and> ob_hash x = parseImageID key \<and>
     distinct (ob_locations x) \<and> (ob_started x \<longleftrightarrow> ob_locations x \<noteq> []) \<and>
     distinct (ob_failingPods x) \<and> (ob_pullFailed x \<longleftrightarrow> ob_failingPods x \<noteq> []) \<and>
     \<not> (ob_started x \<and> ob_pullFailed x)"
  using collect_wf [OF assms] by (auto simp: obs_wf_def)

definition demo_pod :: "string list \<Rightarrow> ContainerStatus list \<Rightarrow> Pod" where
  "demo_pod images css =
     \<lparr>p_Namespace = ''ns'', p_Name = ''p'', p_NodeName = ''n1'', p_Containers = images, p_InitContainers = [],
      p_EphemeralContainers = [], p_ContainerStatuses = css, p_InitContainerStatuses = [], p_EphemeralContainerStatuses = []\<rparr>"

definition demo_digest :: string where
  "demo_digest = replicate 64 (CHR ''0'')"

definition running_status :: "string \<Rightarrow> string \<Rightarrow> ContainerStatus" where
  "running_status img iid =
     \<lparr>cs_Image = img, cs_ImageID = iid, cs_Running = True, cs_Terminated = False, cs_Waiting = None\<rparr>"

definition waiting_status :: "string \<Rightarrow> string \<Rightarrow> ContainerStatus" where
  "waiting_status img reason =
     \<lparr>cs_Image = img, cs_ImageID = [], cs_Running = False, cs_Terminated = False, cs_Waiting = Some reason\<rparr>"

lemma hex64_short: "length s < 64 \<Longrightarrow> \<not> hex64 s"
  by (simp add: hex64_def)

lemma first_window_short: "length s < 64 \<Longrightarrow> first_window s = None"
  by (induction s) (simp_all add: hex64_short)

lemma parseImageID_short: "length s < 64 \<Longrightarrow> parseImageID s = []"
  by (simp add: parseImageID_window first_window_short)

lemma demo_identity:
  "identityFromImage ''web'' [] = \<lparr>id_key = ''web'', id_displayName = ''web'', id_hash = []\<rparr>"
proof -
  have "normalizeImageRef ''web'' = ''web''" by code_simp
  then show ?thesis by (simp add: identityFromImage_def parseImageID_short Let_def)
qed

theorem image_observations_wf_witness:
  "ob_key (the (fmlookup (collectImageObservations [demo_pod [''web''] [waiting_status ''web'' ''ErrImagePull'']]) ''web'')) = ''web'' \<and>
   ob_pullFailed (the (fmlookup (collectImageObservations [demo_pod [''web''] [waiting_status ''web'' ''ErrImagePull'']]) ''web''))"
proof -
  let ?pods = "[demo_pod [''web''] [waiting_status ''web'' ''ErrImagePull'']]"
  obtain x where x: "fmlookup (collectImageObservations ?pods) ''web'' = Some x" "ob_failingPods x = [''ns/p'']"
    by (simp add: collectImageObservations_def observePodImages_def demo_pod_def waiting_status_def demo_identity
        ensureObservation_def new_observation_def observeContainerStatus_def mark_failed_def mark_started_def
        containerStarted_def containerPullFailed_def pullFailureReasons_def addUnique_def settle_def Let_def)
  then show ?thesis using image_observations_wf [OF x(1)] by simp
qed

section \<open>The order of the pods\<close>

lemma tag_observed:
  assumes "normalizeImageRef ref = ref" and "ref \<noteq> []" and "parseImageID ref = []"
  shows "identityFromImage ref [] = \<lparr>id_key = ref, id_displayName = ref, id_hash = []\<rparr>"
  using assms by (simp add: identityFromImage_def parseImageID_def)

lemma register_tag:
  assumes "normalizeImageRef ref = ref" and "ref \<noteq> []" and "parseImageID ref = []"
  shows "ref |\<in>| fmdom (registerDeclaredImages [ref] obs)"
  by (simp add: tag_observed [OF assms] assms(2) ensureObservation_def Let_def split: option.splits)

lemma merge_removes_tag:
  assumes "t \<noteq> []" and "t \<noteq> ob_key x"
  shows "t |\<notin>| fmdom (snd (mergeTagObservation obs x t))"
  using assms by (auto simp: mergeTagObservation_def Let_def fmdom_notI split: option.splits)

lemma digest_status_removes_tag:
  assumes "normalizeImageRef ref = ref" and "ref \<noteq> []" and "parseImageID ref = []" and "parseImageID iid \<noteq> []"
    and "cs_Image cs = ref" and "cs_ImageID cs = iid" and "obs_inv obs"
  shows "ref |\<notin>| fmdom (observeContainerStatus pod podKey cs obs)"
proof -
  let ?i = "identityFromImage ref iid"
  obtain h where h: "parseImageID iid = ''SHA256:'' @ h" using parseImageID_form [OF assms(4)] by blast
  have i: "id_key ?i = ''sha256:'' @ h" "id_hash ?i = ''SHA256:'' @ h"
    by (simp_all add: identityFromImage_def h TrimPrefix_def HasPrefix_def)
  have ne: "ref \<noteq> id_key ?i" using assms(3) identity_hash [of ref iid] i(2) by auto
  obtain x obs1 where e: "ensureObservation obs ?i = (x, obs1)" by (cases "ensureObservation obs ?i")
  have x: "ob_key x = id_key ?i" "obs_wf (id_key ?i) x" "obs_inv obs1" "fmlookup obs1 (id_key ?i) = Some x"
    using ensure_wf [OF assms(7) identity_hash, of ref iid] by (simp_all add: e obs_wf_def)
  let ?m = "mergeTagObservation obs1 x ref"
  have "ref |\<notin>| fmdom (snd ?m)" using merge_removes_tag [OF assms(2)] ne x(1) by simp
  moreover have "ob_key (fst ?m) = id_key ?i" using merge_wf [OF x(3,2,4), of ref] by (simp only: obs_wf_def)
  moreover have "observeContainerStatus pod podKey cs obs =
      fmupd (ob_key (fst ?m)) (mark_failed podKey cs (mark_started pod cs (fst ?m))) (snd ?m)"
    using i by (simp add: observeContainerStatus_def assms(1,5,6) e case_prod_beta Let_def)
  ultimately show ?thesis using ne by simp
qed

text \<open>
  (C20) The observations depend on the order in which the pods are listed. Let one pod run an image given
  by tag, so that its digest is known, and another pod declare the same tag without any
  status yet. If the declaring pod is listed first, the tag is merged into the digest; if it is
  listed last, the tag is observed as a second image.
\<close>

theorem image_pod_order:
  assumes "normalizeImageRef ref = ref" and "ref \<noteq> []" and "parseImageID ref = []" and "parseImageID iid \<noteq> []"
    and "cs_Image cs = ref" and "cs_ImageID cs = iid"
    and "p_ContainerStatuses p1 = [cs]" "p_InitContainerStatuses p1 = []" "p_EphemeralContainerStatuses p1 = []"
    and "p_Containers p2 = [ref]" "p_InitContainers p2 = []" "p_EphemeralContainers p2 = []"
    and "p_ContainerStatuses p2 = []" "p_InitContainerStatuses p2 = []" "p_EphemeralContainerStatuses p2 = []"
  shows "ref |\<notin>| fmdom (collectImageObservations [p2, p1]) \<and> ref |\<in>| fmdom (collectImageObservations [p1, p2])"
proof -
  have "observePodImages p2 obs = registerDeclaredImages [ref] obs" for obs
    using assms(10-15) by (simp add: observePodImages_def)
  moreover have "ref |\<notin>| fmdom (observePodImages p1 obs)" if "obs_inv obs" for obs
    unfolding observePodImages_def Let_def assms(7-9) fold.simps id_apply o_apply
    using that by (intro digest_status_removes_tag [OF assms(1-6)] register_wf)
  ultimately show ?thesis
    using register_tag [OF assms(1-3)] register_wf [of fmempty "[ref]"] by (simp add: collectImageObservations_def)
qed

lemma hex64_window: "hex64 s \<Longrightarrow> first_window s = Some (take 64 s)"
  by (cases s) auto

lemma demo_digest_parse: "parseImageID demo_digest \<noteq> []"
proof -
  have "hex64 demo_digest" by (simp add: demo_digest_def hex64_def list_all_iff hex_char_def)
  then show ?thesis by (simp add: parseImageID_window hex64_window)
qed

theorem image_pod_order_witness:
  "collectImageObservations [demo_pod [''web''] [], demo_pod [''web''] [running_status ''web'' demo_digest]] \<noteq>
   collectImageObservations [demo_pod [''web''] [running_status ''web'' demo_digest], demo_pod [''web''] []]"
proof -
  have ref: "normalizeImageRef ''web'' = ''web''" by code_simp
  have tag: "parseImageID ''web'' = []" by (simp add: parseImageID_short)
  show ?thesis
    using image_pod_order [OF ref _ tag demo_digest_parse, of "running_status ''web'' demo_digest"
        "demo_pod [''web''] [running_status ''web'' demo_digest]" "demo_pod [''web''] []"]
    by (auto simp: demo_pod_def running_status_def)
qed

end
