(* ===== verification/Image_Scan.thy ===== *)
theory Image_Scan
  imports Image Reconcilers
begin

text \<open>
  \<open>image_scan_controller.go\<close>: the cluster-wide scan that keeps one artifact per observed image, one artifact
  instance per started image and a finding per image that could not be pulled. The pods the API
  server lists, the order in which maps are ranged over (\<open>ord\<close>) and \<open>json.Marshal\<close> (\<open>J\<close>) are arguments.
\<close>

section \<open>Findings\<close>

definition ImageNotRetrieved :: string where
  "ImageNotRetrieved = ''ImageNotRetrieved''"

definition imageNotRetrievedFinding :: "lib \<Rightarrow> uuid \<Rightarrow> imageObservation \<Rightarrow> MFindingR" where
  "imageNotRetrievedFinding L artID x =
     \<lparr>f_Id = referenceFindingID L artID ImageNotRetrieved,
      f_DisplayName = ''Image not retrieved: '' @ ob_displayName x,
      f_Description = ''Container image '' @ ob_displayName x @
        '' is declared in the cluster but has not been retrieved successfully.'' @
        (if ob_failingPods x \<noteq> [] then '' Failing pods: '' @ Join (ob_failingPods x) '', '' @ ''.'' else []),
      f_Type = Some (TypeIDForKind L ImageNotRetrieved),
      f_Resources = [\<lparr>rr_ResourceId = artID, rr_ResourceType = ArtifactResource\<rparr>],
      f_Annotations = fmempty\<rparr>"

definition upsertImageNotRetrieved :: "'m modelsrv \<Rightarrow> lib \<Rightarrow> uuid \<Rightarrow> imageObservation \<Rightarrow> 'm \<Rightarrow> 'm" where
  "upsertImageNotRetrieved M L artID x m = AddFinding M (imageNotRetrievedFinding L artID x) m"

definition deleteImageNotRetrievedFinding :: "'m modelsrv \<Rightarrow> lib \<Rightarrow> uuid \<Rightarrow> 'm \<Rightarrow> 'm" where
  "deleteImageNotRetrievedFinding M L artID m = deleteReferenceFinding M L m artID ImageNotRetrieved"

definition RegisterImageFindingTypes :: "'m modelsrv \<Rightarrow> lib \<Rightarrow> 'm \<Rightarrow> error option \<times> 'm" where
  "RegisterImageFindingTypes M L m =
     mAdd M (EFindingType \<lparr>ft_Id = TypeIDForKind L ImageNotRetrieved, ft_DisplayName = ''ImageNotRetrieved'',
       ft_Description = ''A container image is declared in the cluster but has not been retrieved successfully.''\<rparr>) m"

section \<open>Artifacts and instances\<close>

definition findExistingArtifact :: "'m modelsrv \<Rightarrow> imageObservation \<Rightarrow> 'm world \<Rightarrow> MArtifactR option" where
  "findExistingArtifact M x w =
     (case mArtifacts M (wModel w) of
        None \<Rightarrow> None
      | Some all \<Rightarrow>
          (case (if ob_hash x \<noteq> [] then find (\<lambda>a. art_Hash a = ob_hash x) all else None) of
             Some a \<Rightarrow> Some a
           | None \<Rightarrow>
               (case find (\<lambda>a. art_DisplayName a = ob_displayName x) all of
                  Some a \<Rightarrow> Some a
                | None \<Rightarrow>
                    (let i = Get (wIndex w) KindArtifact (ob_key x)
                     in if i \<noteq> uuid_Nil
                        then (case mGet M MArtifact i (wModel w) of Some (EArtifact a) \<Rightarrow> Some a | _ \<Rightarrow> None)
                        else None))))"

definition image_artifact :: "lib \<Rightarrow> imageObservation \<Rightarrow> MArtifactR" where
  "image_artifact L x =
     \<lparr>art_Id = artifactIDForImage L (ob_key x), art_DisplayName = ob_displayName x,
      art_Description = ''Container image observed in the Kubernetes cluster'', art_Hash = ob_hash x\<rparr>"

definition ensureArtifact :: "'m modelsrv \<Rightarrow> lib \<Rightarrow> imageObservation \<Rightarrow> 'm world \<Rightarrow> (error + uuid) \<times> 'm world" where
  "ensureArtifact M L x w =
     (case findExistingArtifact M x w of
        Some existing \<Rightarrow>
          (Inr (art_Id existing), w\<lparr>wIndex := Put (wIndex w) KindArtifact (ob_key x) (art_Id existing)\<rparr>)
      | None \<Rightarrow>
          (case mAdd M (EArtifact (image_artifact L x)) (wModel w) of
             (Some err, m) \<Rightarrow> (Inl err, w\<lparr>wModel := m\<rparr>)
           | (None, m) \<Rightarrow>
               (Inr (artifactIDForImage L (ob_key x)),
                \<lparr>wModel = m, wIndex = Put (wIndex w) KindArtifact (ob_key x) (artifactIDForImage L (ob_key x))\<rparr>)))"

definition image_instance :: "lib \<Rightarrow> (string list \<Rightarrow> error + string) \<Rightarrow> imageObservation \<Rightarrow> uuid \<Rightarrow> MArtifactInstanceR" where
  "image_instance L J x artID =
     \<lparr>ari_Id = artifactInstanceIDForImage L (ob_key x), ari_DisplayName = ob_displayName x,
      ari_Description = ''Retrieved and started container image in this cluster'', ari_Artifact = artID,
      ari_Annotations = fmupd ArtifactInstanceLocationAnnotation (locationAnnotationValue J (ob_locations x)) fmempty\<rparr>"

definition ensureArtifactInstance ::
    "'m modelsrv \<Rightarrow> lib \<Rightarrow> (string list \<Rightarrow> error + string) \<Rightarrow> imageObservation \<Rightarrow> uuid \<Rightarrow> 'm world \<Rightarrow> error option \<times> 'm world" where
  "ensureArtifactInstance M L J x artID w =
     (case mAdd M (EArtifactInstance (image_instance L J x artID)) (wModel w) of
        (Some err, m) \<Rightarrow> (Some err, w\<lparr>wModel := m\<rparr>)
      | (None, m) \<Rightarrow>
          (None, \<lparr>wModel = m,
                  wIndex = Put (wIndex w) KindArtifactInstance (ob_key x) (artifactInstanceIDForImage L (ob_key x))\<rparr>))"

definition deleteArtifactInstance :: "'m modelsrv \<Rightarrow> lib \<Rightarrow> string \<Rightarrow> 'm world \<Rightarrow> 'm world" where
  "deleteArtifactInstance M L key w =
     (case Delete (wIndex w) KindArtifactInstance key of
        (i, idx) \<Rightarrow>
          (let i' = (if i = uuid_Nil then artifactInstanceIDForImage L key else i)
           in \<lparr>wModel = snd (mDelete M MArtifactInstance i' (wModel w)), wIndex = idx\<rparr>))"

section \<open>The scan\<close>

definition scan_image ::
    "'m modelsrv \<Rightarrow> lib \<Rightarrow> (string list \<Rightarrow> error + string) \<Rightarrow> string \<Rightarrow> imageObservation \<Rightarrow> 'm world \<Rightarrow> error option \<times> 'm world" where
  "scan_image M L J key x w =
     (case ensureArtifact M L x w of
        (Inl err, w1) \<Rightarrow> (Some err, w1)
      | (Inr artID, w1) \<Rightarrow>
          if ob_started x then
            (case ensureArtifactInstance M L J x artID w1 of
               (Some err, w2) \<Rightarrow> (Some err, w2)
             | (None, w2) \<Rightarrow> (None, w2\<lparr>wModel := deleteImageNotRetrievedFinding M L artID (wModel w2)\<rparr>))
          else
            (let w2 = deleteArtifactInstance M L key w1
             in (None, w2\<lparr>wModel :=
                   (if ob_pullFailed x then upsertImageNotRetrieved M L artID x (wModel w2)
                    else deleteImageNotRetrievedFinding M L artID (wModel w2))\<rparr>)))"

fun scan_images ::
    "'m modelsrv \<Rightarrow> lib \<Rightarrow> (string list \<Rightarrow> error + string) \<Rightarrow> observations \<Rightarrow> string list \<Rightarrow> 'm world \<Rightarrow> error option \<times> 'm world" where
  "scan_images M L J obs [] w = (None, w)"
| "scan_images M L J obs (key # keys) w =
     (case fmlookup obs key of
        None \<Rightarrow> scan_images M L J obs keys w
      | Some x \<Rightarrow>
          (case scan_image M L J key x w of
             (Some err, w') \<Rightarrow> (Some err, w')
           | (None, w') \<Rightarrow> scan_images M L J obs keys w'))"

definition drop_instance :: "'m modelsrv \<Rightarrow> string \<Rightarrow> 'm world \<Rightarrow> 'm world" where
  "drop_instance M key w =
     (case Delete (wIndex w) KindArtifactInstance key of
        (i, idx) \<Rightarrow>
          if i = uuid_Nil then w\<lparr>wIndex := idx\<rparr>
          else \<lparr>wModel = snd (mDelete M MArtifactInstance i (wModel w)), wIndex = idx\<rparr>)"

definition drop_artifact :: "'m modelsrv \<Rightarrow> lib \<Rightarrow> string \<Rightarrow> 'm world \<Rightarrow> 'm world" where
  "drop_artifact M L key w =
     (case Delete (wIndex w) KindArtifact key of
        (i, idx) \<Rightarrow>
          if i = uuid_Nil then w\<lparr>wIndex := idx\<rparr>
          else
            (let m = deleteImageNotRetrievedFinding M L i (wModel w)
             in \<lparr>wModel = (if isSensorMintedArtifact L i key then snd (mDelete M MArtifact i m) else m), wIndex = idx\<rparr>))"

definition cleanupStale :: "'m modelsrv \<Rightarrow> lib \<Rightarrow> range_order \<Rightarrow> string fset \<Rightarrow> 'm world \<Rightarrow> 'm world" where
  "cleanupStale M L ord desiredKeys w =
     (let stale = (\<lambda>kind v. filter (\<lambda>key. key |\<notin>| desiredKeys) (Keys ord (wIndex v) kind));
          w1 = fold (drop_instance M) (stale KindArtifactInstance w) w
      in fold (drop_artifact M L) (stale KindArtifact w1) w1)"

definition ImageScanReconcile ::
    "'m modelsrv \<Rightarrow> lib \<Rightarrow> (string list \<Rightarrow> error + string) \<Rightarrow> range_order \<Rightarrow> error + Pod list \<Rightarrow> 'm world \<Rightarrow> error option \<times> 'm world" where
  "ImageScanReconcile M L J ord listed w =
     (case listed of
        Inl err \<Rightarrow> (Some err, w)
      | Inr pods \<Rightarrow>
          (let observations = collectImageObservations pods
           in case scan_images M L J observations (ord (fmdom observations)) w of
                (Some err, w') \<Rightarrow> (Some err, w')
              | (None, w') \<Rightarrow> (None, cleanupStale M L ord (fmdom observations) w')))"

section \<open>Lemmas\<close>

lemma image_finding_entities [model_simps]:
  assumes "store_laws M" and "k \<noteq> MFinding"
  shows "mGet M k j (upsertImageNotRetrieved M L a x m) = mGet M k j m"
    and "mGet M k j (deleteImageNotRetrievedFinding M L a m) = mGet M k j m"
  using assms by (simp_all add: upsertImageNotRetrieved_def deleteImageNotRetrievedFinding_def model_simps)

lemma ensureArtifact_spec:
  assumes "store_laws M" and "accepts M MArtifact"
  shows "\<exists>a m. ensureArtifact M L x w = (Inr a, \<lparr>wModel = m, wIndex = Put (wIndex w) KindArtifact (ob_key x) a\<rparr>) \<and>
    mGet M MArtifact a m \<noteq> None \<and>
    (\<forall>k j. k \<noteq> MFinding \<and> (k \<noteq> MArtifact \<or> j \<noteq> artifactIDForImage L (ob_key x)) \<longrightarrow> mGet M k j m = mGet M k j (wModel w))"
proof (cases "findExistingArtifact M x w")
  case None
  let ?e = "EArtifact (image_artifact L x)"
  have "fst (mAdd M ?e (wModel w)) = None" using assms(2) by (intro accepts_add) simp
  then obtain m where m: "mAdd M ?e (wModel w) = (None, m)" by (metis prod.collapse)
  have "id_of ?e = artifactIDForImage L (ob_key x)" "kind_of ?e = MArtifact" by (simp_all add: image_artifact_def)
  then have "mGet M MArtifact (artifactIDForImage L (ob_key x)) m \<noteq> None"
    and "\<forall>k j. k \<noteq> MFinding \<and> (k \<noteq> MArtifact \<or> j \<noteq> artifactIDForImage L (ob_key x)) \<longrightarrow> mGet M k j m = mGet M k j (wModel w)"
    using store_add_get [OF assms(1) m] store_add_frame [OF assms(1) m] by auto
  with None m show ?thesis by (simp add: ensureArtifact_def)
next
  case (Some a)
  have listed: "mGet M MArtifact (art_Id b) (wModel w) \<noteq> None"
    if "mArtifacts M (wModel w) = Some all" "find P all = Some b" for all P b
    using store_artifacts [OF assms(1) that(1), of b] find_in_set [OF that(2)] by simp
  have "mGet M MArtifact (art_Id a) (wModel w) \<noteq> None"
    using Some listed store_typed [OF assms(1)] unfolding findExistingArtifact_def Let_def
    by (auto split: option.splits if_splits entity.splits) force+
  with Some show ?thesis by (cases w) (simp add: ensureArtifact_def)
qed

lemma ensureInstance_spec:
  assumes "store_laws M" and "accepts M MArtifactInstance"
  shows "\<exists>m. ensureArtifactInstance M L J x a w =
      (None, \<lparr>wModel = m, wIndex = Put (wIndex w) KindArtifactInstance (ob_key x) (artifactInstanceIDForImage L (ob_key x))\<rparr>) \<and>
    mGet M MArtifactInstance (artifactInstanceIDForImage L (ob_key x)) m = Some (EArtifactInstance (image_instance L J x a)) \<and>
    (\<forall>k j. k \<noteq> MFinding \<and> (k \<noteq> MArtifactInstance \<or> j \<noteq> artifactInstanceIDForImage L (ob_key x)) \<longrightarrow>
      mGet M k j m = mGet M k j (wModel w))"
proof -
  let ?e = "EArtifactInstance (image_instance L J x a)"
  have "fst (mAdd M ?e (wModel w)) = None" using assms(2) by (intro accepts_add) simp
  then obtain m where m: "mAdd M ?e (wModel w) = (None, m)" by (metis prod.collapse)
  have "id_of ?e = artifactInstanceIDForImage L (ob_key x)" "kind_of ?e = MArtifactInstance"
    by (simp_all add: image_instance_def)
  then show ?thesis
    using m store_add_get [OF assms(1) m] store_add_frame [OF assms(1) m] by (auto simp: ensureArtifactInstance_def)
qed

text \<open>
  The keys of interest are a finite set on which the instance ids do not collide. The
  index and the model agree on the instances of these keys.
\<close>

definition instance_ids :: "lib \<Rightarrow> string set \<Rightarrow> bool" where
  "instance_ids L K \<longleftrightarrow> inj_on (artifactInstanceIDForImage L) K \<and> uuid_Nil \<notin> artifactInstanceIDForImage L ` K"

definition instance_of_key :: "'m modelsrv \<Rightarrow> lib \<Rightarrow> string \<Rightarrow> 'm world \<Rightarrow> bool" where
  "instance_of_key M L key w \<longleftrightarrow> mGet M MArtifactInstance (artifactInstanceIDForImage L key) (wModel w) \<noteq> None"

definition inst_inv :: "'m modelsrv \<Rightarrow> lib \<Rightarrow> string set \<Rightarrow> 'm world \<Rightarrow> bool" where
  "inst_inv M L K w \<longleftrightarrow>
     (\<forall>key. Get (wIndex w) KindArtifactInstance key =
        (if key \<in> K \<and> instance_of_key M L key w then artifactInstanceIDForImage L key else uuid_Nil))"

lemma instance_ids_eq:
  "instance_ids L K \<Longrightarrow> k \<in> K \<Longrightarrow> k' \<in> K \<Longrightarrow> (artifactInstanceIDForImage L k = artifactInstanceIDForImage L k') = (k = k')"
  by (auto simp: instance_ids_def inj_on_def)

lemma scan_image_step:
  assumes laws: "store_laws M" "accepts M MArtifact" "accepts M MArtifactInstance"
    and K: "instance_ids L K" "key \<in> K" and inv: "inst_inv M L K w" and x: "ob_key x = key"
  shows "fst (scan_image M L J key x w) = None"
    and "inst_inv M L K (snd (scan_image M L J key x w))"
    and "k \<in> K \<Longrightarrow> instance_of_key M L k (snd (scan_image M L J key x w)) =
      (if k = key then ob_started x else instance_of_key M L k w)"
proof -
  obtain a m1 where e: "ensureArtifact M L x w = (Inr a, \<lparr>wModel = m1, wIndex = Put (wIndex w) KindArtifact key a\<rparr>)"
    and m1: "\<And>j. mGet M MArtifactInstance j m1 = mGet M MArtifactInstance j (wModel w)"
    using ensureArtifact_spec [OF laws(1,2), of L x w] x by auto
  let ?w1 = "\<lparr>wModel = m1, wIndex = Put (wIndex w) KindArtifact key a\<rparr>"
  let ?id = "artifactInstanceIDForImage L"
  let ?s = "snd (scan_image M L J key x w)"
  have inj: "k \<in> K \<Longrightarrow> (?id k = ?id key) = (k = key)" for k using instance_ids_eq [OF K(1) _ K(2)] .
  have idkey: "?id key \<noteq> uuid_Nil" using K by (auto simp: instance_ids_def)
  have res: "fst (scan_image M L J key x w) = None \<and>
      (\<forall>k. Get (wIndex ?s) KindArtifactInstance k =
         (if k = key then (if ob_started x then ?id key else uuid_Nil) else Get (wIndex w) KindArtifactInstance k)) \<and>
      (\<forall>j. mGet M MArtifactInstance j (wModel ?s) =
         (if j = ?id key then (if ob_started x then Some (EArtifactInstance (image_instance L J x a)) else None)
          else mGet M MArtifactInstance j (wModel w)))"
  proof (cases "ob_started x")
    case True
    obtain m2 where m2: "ensureArtifactInstance M L J x a ?w1 =
          (None, \<lparr>wModel = m2, wIndex = Put (wIndex ?w1) KindArtifactInstance key (?id key)\<rparr>)"
        "mGet M MArtifactInstance (?id key) m2 = Some (EArtifactInstance (image_instance L J x a))"
        "\<And>j. j \<noteq> ?id key \<Longrightarrow> mGet M MArtifactInstance j m2 = mGet M MArtifactInstance j m1"
      using ensureInstance_spec [OF laws(1,3), of L J x a ?w1] x by auto
    then show ?thesis
      using True m1 by (simp add: scan_image_def e idx_simps image_finding_entities [OF laws(1)])
  next
    case False
    have "Get (wIndex w) KindArtifactInstance key \<in> {uuid_Nil, ?id key}"
      using inv by (simp add: inst_inv_def)
    then have "deleteArtifactInstance M L key ?w1 =
        \<lparr>wModel = snd (mDelete M MArtifactInstance (?id key) m1), wIndex = snd (Delete (wIndex ?w1) KindArtifactInstance key)\<rparr>"
      by (auto simp: deleteArtifactInstance_def case_prod_beta Let_def Delete_result Put_get)
    then show ?thesis
      using False m1 store_delete_get [OF laws(1)] store_delete_frame [OF laws(1), of MArtifactInstance _ MArtifactInstance]
      by (auto simp: scan_image_def e idx_simps image_finding_entities [OF laws(1)] Let_def)
  qed
  then show "fst (scan_image M L J key x w) = None" by blast
  have inst: "instance_of_key M L k ?s = (if k = key then ob_started x else instance_of_key M L k w)" if "k \<in> K" for k
    using res inj [OF that] by (simp add: instance_of_key_def)
  then show "k \<in> K \<Longrightarrow> instance_of_key M L k ?s = (if k = key then ob_started x else instance_of_key M L k w)" .
  show "inst_inv M L K ?s"
    using res inv inst K(2) unfolding inst_inv_def by auto
qed

lemma scan_images_step:
  assumes laws: "store_laws M" "accepts M MArtifact" "accepts M MArtifactInstance"
    and K: "instance_ids L K" "set keys \<subseteq> K" and inv: "inst_inv M L K w"
    and obs: "\<And>key x. fmlookup obs key = Some x \<Longrightarrow> ob_key x = key" and keys: "set keys \<subseteq> fmdom' obs"
  shows "fst (scan_images M L J obs keys w) = None \<and> inst_inv M L K (snd (scan_images M L J obs keys w)) \<and>
    (\<forall>k\<in>K. instance_of_key M L k (snd (scan_images M L J obs keys w)) =
      (if k \<in> set keys then ob_started (the (fmlookup obs k)) else instance_of_key M L k w))"
  using K(2) inv keys
proof (induction keys arbitrary: w)
  case (Cons key keys)
  then obtain x where x: "fmlookup obs key = Some x" by (auto simp: fmlookup_dom'_iff)
  have "key \<in> K" using Cons.prems by simp
  note step = scan_image_step [OF laws K(1) this Cons.prems(2) obs [OF x], where J = J]
  let ?w = "snd (scan_image M L J key x w)"
  have "scan_images M L J obs (key # keys) w = scan_images M L J obs keys ?w"
    using x step(1) by (simp add: case_prod_beta split: option.splits)
  then show ?case using Cons.IH [of ?w] Cons.prems step x by auto
qed simp

lemma drop_instance_spec:
  assumes "store_laws M"
  shows "Get (wIndex (drop_instance M key w)) k n =
      (if k = KindArtifactInstance \<and> n = key then uuid_Nil else Get (wIndex w) k n)"
    and "mGet M MArtifactInstance j (wModel (drop_instance M key w)) =
      (if j = Get (wIndex w) KindArtifactInstance key \<and> j \<noteq> uuid_Nil then None else mGet M MArtifactInstance j (wModel w))"
    and "k' \<notin> {MArtifactInstance, MFinding} \<Longrightarrow> mGet M k' j (wModel (drop_instance M key w)) = mGet M k' j (wModel w)"
  using store_delete_get [OF assms]
    store_delete_frame [OF assms, of MArtifactInstance j MArtifactInstance "Get (wIndex w) KindArtifactInstance key" "wModel w"]
    store_delete_frame [OF assms, of k' j MArtifactInstance "Get (wIndex w) KindArtifactInstance key" "wModel w"]
  by (auto simp: drop_instance_def case_prod_beta Delete_result Delete_get)

lemma drop_artifact_spec:
  assumes "store_laws M"
  shows "Get (wIndex (drop_artifact M L key w)) k n =
      (if k = KindArtifact \<and> n = key then uuid_Nil else Get (wIndex w) k n)"
    and "k' \<notin> {MArtifact, MFinding} \<Longrightarrow> mGet M k' j (wModel (drop_artifact M L key w)) = mGet M k' j (wModel w)"
    and "j \<noteq> artifactIDForImage L key \<Longrightarrow> mGet M MArtifact j (wModel (drop_artifact M L key w)) = mGet M MArtifact j (wModel w)"
  using store_delete_frame [OF assms, of k' j MArtifact] store_delete_frame [OF assms, of MArtifact j MArtifact]
  by (auto simp: drop_artifact_def case_prod_beta Delete_result Delete_get Let_def image_finding_entities [OF assms]
      isSensorMintedArtifact_def)

lemma drop_instances_fold:
  assumes "store_laws M" and "instance_ids L K" and "inst_inv M L K w"
  shows "inst_inv M L K (fold (drop_instance M) ks w) \<and>
    (\<forall>k\<in>K. instance_of_key M L k (fold (drop_instance M) ks w) = (k \<notin> set ks \<and> instance_of_key M L k w))"
  using assms(3)
proof (induction ks arbitrary: w)
  case (Cons key ks)
  let ?w = "drop_instance M key w"
  have inst: "instance_of_key M L k ?w = (k \<noteq> key \<and> instance_of_key M L k w)" if "k \<in> K" for k
    using Cons.prems instance_ids_eq [OF assms(2) that, of key] that assms(2)
    by (auto simp: instance_of_key_def drop_instance_spec [OF assms(1)] inst_inv_def instance_ids_def split: if_splits)
  have "inst_inv M L K ?w"
    using Cons.prems inst unfolding inst_inv_def by (auto simp: drop_instance_spec(1) [OF assms(1)])
  with Cons.IH [of ?w] inst show ?case by auto
qed simp

lemma drop_artifacts_fold:
  assumes "store_laws M"
  shows "Get (wIndex (fold (drop_artifact M L) ks w)) KindArtifactInstance n = Get (wIndex w) KindArtifactInstance n"
    and "mGet M MArtifactInstance j (wModel (fold (drop_artifact M L) ks w)) = mGet M MArtifactInstance j (wModel w)"
  by (induction ks arbitrary: w) (simp_all add: drop_artifact_spec [OF assms])

lemma scan_step:
  assumes laws: "store_laws M" "accepts M MArtifact" "accepts M MArtifactInstance" "range_law ord"
    and K: "instance_ids L K" "fmdom' (collectImageObservations pods) \<subseteq> K" and inv: "inst_inv M L K w"
  shows "fst (ImageScanReconcile M L J ord (Inr pods) w) = None"
    and "inst_inv M L K (snd (ImageScanReconcile M L J ord (Inr pods) w))"
    and "k \<in> K \<Longrightarrow> instance_of_key M L k (snd (ImageScanReconcile M L J ord (Inr pods) w)) =
      (\<exists>x. fmlookup (collectImageObservations pods) k = Some x \<and> ob_started x)"
proof -
  let ?obs = "collectImageObservations pods"
  let ?keys = "ord (fmdom ?obs)"
  have keys: "set ?keys = fmdom' ?obs" by (simp add: range_set [OF laws(4)] fmdom'_alt_def)
  obtain w1 where w1: "scan_images M L J ?obs ?keys w = (None, w1)" and inv1: "inst_inv M L K w1"
    and inst1: "\<And>k. k \<in> K \<Longrightarrow> instance_of_key M L k w1 =
      (if k \<in> set ?keys then ob_started (the (fmlookup ?obs k)) else instance_of_key M L k w)"
    using scan_images_step [OF laws(1-3) K(1), of ?keys w ?obs J] K(2) keys inv collect_wf
    by (cases "scan_images M L J ?obs ?keys w") (auto simp: obs_wf_def)
  let ?stale = "filter (\<lambda>key. key |\<notin>| fmdom ?obs) (Keys ord (wIndex w1) KindArtifactInstance)"
  let ?w2 = "fold (drop_instance M) ?stale w1"
  let ?s = "snd (ImageScanReconcile M L J ord (Inr pods) w)"
  have inv2: "inst_inv M L K ?w2"
    and inst2: "\<And>k. k \<in> K \<Longrightarrow> instance_of_key M L k ?w2 = (k \<notin> set ?stale \<and> instance_of_key M L k w1)"
    using drop_instances_fold [OF laws(1) K(1) inv1] by blast+
  have s: "?s = fold (drop_artifact M L) (filter (\<lambda>key. key |\<notin>| fmdom ?obs) (Keys ord (wIndex ?w2) KindArtifact)) ?w2"
    by (simp add: ImageScanReconcile_def w1 cleanupStale_def Let_def)
  show "fst (ImageScanReconcile M L J ord (Inr pods) w) = None" by (simp add: ImageScanReconcile_def w1 Let_def)
  have same: "instance_of_key M L k ?s = instance_of_key M L k ?w2" for k
    by (simp add: s instance_of_key_def drop_artifacts_fold [OF laws(1)])
  show "inst_inv M L K ?s"
    using inv2 unfolding inst_inv_def same by (simp add: s drop_artifacts_fold [OF laws(1)])
  assume k: "k \<in> K"
  have "k \<in> set ?stale" if "k \<notin> fmdom' ?obs" "instance_of_key M L k w1"
  proof -
    have "Get (wIndex w1) KindArtifactInstance k \<noteq> uuid_Nil"
      using inv1 that k K(1) by (auto simp: inst_inv_def instance_ids_def)
    then show ?thesis using that(1) Get_in_Keys [OF laws(4)] by (simp add: fmdom'_alt_def)
  qed
  moreover have "k \<notin> set ?stale" if "k \<in> fmdom' ?obs" using that by (simp add: fmdom'_alt_def)
  ultimately show "instance_of_key M L k ?s = (\<exists>x. fmlookup ?obs k = Some x \<and> ob_started x)"
    using inst1 [OF k] inst2 [OF k] keys same by (auto simp: fmlookup_dom'_iff)
qed

fun run_scans ::
    "'m modelsrv \<Rightarrow> lib \<Rightarrow> (string list \<Rightarrow> error + string) \<Rightarrow> range_order \<Rightarrow> (error + Pod list) list \<Rightarrow> 'm world \<Rightarrow> 'm world" where
  "run_scans M L J ord [] w = w"
| "run_scans M L J ord (l # ls) w = run_scans M L J ord ls (snd (ImageScanReconcile M L J ord l w))"

lemma run_scans_append: "run_scans M L J ord (ls @ ls') w = run_scans M L J ord ls' (run_scans M L J ord ls w)"
  by (induction ls arbitrary: w) simp_all

lemma run_scans_inv:
  assumes "store_laws M" "accepts M MArtifact" "accepts M MArtifactInstance" "range_law ord" "instance_ids L K"
    and "list_all (\<lambda>l. case l of Inl _ \<Rightarrow> True | Inr pods \<Rightarrow> fmdom' (collectImageObservations pods) \<subseteq> K) ls" and "inst_inv M L K w"
  shows "inst_inv M L K (run_scans M L J ord ls w)"
  using assms(6,7)
proof (induction ls arbitrary: w)
  case (Cons l ls)
  then have "inst_inv M L K (snd (ImageScanReconcile M L J ord l w))"
    using scan_step(2) [OF assms(1-5)] by (cases l) (auto simp: ImageScanReconcile_def)
  with Cons show ?case by simp
qed simp

section \<open>Properties\<close>

text \<open>
  (C10) The artifact instances mirror the last scan. Starting without tracked instances, after any sequence of scans
  (some of which may fail to list the pods) followed by one that lists the pods, the model holds the
  artifact instance of an image key exactly if the pods of that last scan have a started
  container with that image, whatever the order in which the maps are ranged over. The set \<open>K\<close> contains the
  keys that ever occur; the ids of its instances must not collide.
\<close>

theorem scan_mirrors_started:
  assumes "store_laws M" "accepts M MArtifact" "accepts M MArtifactInstance" "range_law ord" and "instance_ids L K"
    and "list_all (\<lambda>l. case l of Inl _ \<Rightarrow> True | Inr pods \<Rightarrow> fmdom' (collectImageObservations pods) \<subseteq> K) (scans @ [Inr pods])"
    and "wIndex w = NewNameIndex" and "\<forall>key\<in>K. mGet M MArtifactInstance (artifactInstanceIDForImage L key) (wModel w) = None"
    and "key \<in> K"
  shows "mGet M MArtifactInstance (artifactInstanceIDForImage L key) (wModel (run_scans M L J ord (scans @ [Inr pods]) w)) \<noteq> None \<longleftrightarrow>
     (\<exists>x. fmlookup (collectImageObservations pods) key = Some x \<and> ob_started x)"
proof -
  have "inst_inv M L K w" using assms(7,8) by (auto simp: inst_inv_def instance_of_key_def idx_simps)
  then have inv: "inst_inv M L K (run_scans M L J ord scans w)"
    using run_scans_inv [OF assms(1-5)] assms(6) by simp
  show ?thesis
    using scan_step(3) [OF assms(1-5) _ inv assms(9), of pods J] assms(6)
    by (simp add: run_scans_append instance_of_key_def)
qed

lemma drop_artifact_foreign:
  assumes "store_laws M" and "Get (wIndex w) KindArtifact key \<noteq> uuid_Nil \<Longrightarrow> j \<noteq> artifactIDForImage L key"
  shows "mGet M MArtifact j (wModel (drop_artifact M L key w)) = mGet M MArtifact j (wModel w)"
proof (cases "Get (wIndex w) KindArtifact key = uuid_Nil")
  case True
  then show ?thesis by (simp add: drop_artifact_def case_prod_beta Delete_result)
next
  case False
  with assms show ?thesis by (intro drop_artifact_spec(3)) auto
qed

lemma drop_artifacts_foreign:
  assumes "store_laws M" and "\<And>key. Get (wIndex w) KindArtifact key \<noteq> uuid_Nil \<Longrightarrow> key \<in> set ks \<Longrightarrow> j \<noteq> artifactIDForImage L key"
  shows "mGet M MArtifact j (wModel (fold (drop_artifact M L) ks w)) = mGet M MArtifact j (wModel w)"
  using assms(2)
proof (induction ks arbitrary: w)
  case (Cons key ks)
  have "mGet M MArtifact j (wModel (drop_artifact M L key w)) = mGet M MArtifact j (wModel w)"
    using Cons.prems by (intro drop_artifact_foreign [OF assms(1)]) auto
  moreover have "Get (wIndex (drop_artifact M L key w)) KindArtifact k \<noteq> uuid_Nil \<Longrightarrow> Get (wIndex w) KindArtifact k \<noteq> uuid_Nil" for k
    by (auto simp: drop_artifact_spec(1) [OF assms(1)] split: if_splits)
  ultimately show ?case using Cons.IH [of "drop_artifact M L key w"] Cons.prems by fastforce
qed simp

lemma drop_instances_artifacts:
  assumes "store_laws M"
  shows "mGet M MArtifact j (wModel (fold (drop_instance M) ks w)) = mGet M MArtifact j (wModel w)"
    and "Get (wIndex (fold (drop_instance M) ks w)) KindArtifact n = Get (wIndex w) KindArtifact n"
  by (induction ks arbitrary: w) (simp_all add: drop_instance_spec [OF assms])

lemma scan_image_artifacts:
  assumes laws: "store_laws M" "accepts M MArtifact" "accepts M MArtifactInstance" and x: "ob_key x = key"
  shows "fst (scan_image M L J key x w) = None"
    and "j \<noteq> artifactIDForImage L key \<Longrightarrow> mGet M MArtifact j (wModel (snd (scan_image M L J key x w))) = mGet M MArtifact j (wModel w)"
    and "n \<noteq> key \<Longrightarrow> Get (wIndex (snd (scan_image M L J key x w))) KindArtifact n = Get (wIndex w) KindArtifact n"
proof -
  obtain a m1 where e: "ensureArtifact M L x w = (Inr a, \<lparr>wModel = m1, wIndex = Put (wIndex w) KindArtifact key a\<rparr>)"
    and m1: "\<And>j. j \<noteq> artifactIDForImage L key \<Longrightarrow> mGet M MArtifact j m1 = mGet M MArtifact j (wModel w)"
    using ensureArtifact_spec [OF laws(1,2), of L x w] x by auto
  let ?w1 = "\<lparr>wModel = m1, wIndex = Put (wIndex w) KindArtifact key a\<rparr>"
  obtain m2 where m2: "ensureArtifactInstance M L J x a ?w1 =
        (None, \<lparr>wModel = m2, wIndex = Put (wIndex ?w1) KindArtifactInstance key (artifactInstanceIDForImage L key)\<rparr>)"
      "\<And>j. mGet M MArtifact j m2 = mGet M MArtifact j m1"
    using ensureInstance_spec [OF laws(1,3), of L J x a ?w1] x by auto
  have d: "mGet M MArtifact j (snd (mDelete M MArtifactInstance i m1)) = mGet M MArtifact j m1" for i j
    using store_delete_frame [OF laws(1), of MArtifact j MArtifactInstance i m1] by simp
  show "fst (scan_image M L J key x w) = None" by (simp add: scan_image_def e m2(1) Let_def)
  show "j \<noteq> artifactIDForImage L key \<Longrightarrow> mGet M MArtifact j (wModel (snd (scan_image M L J key x w))) = mGet M MArtifact j (wModel w)"
    by (simp add: scan_image_def e m2 m1 d Let_def deleteArtifactInstance_def case_prod_beta image_finding_entities [OF laws(1)])
  show "n \<noteq> key \<Longrightarrow> Get (wIndex (snd (scan_image M L J key x w))) KindArtifact n = Get (wIndex w) KindArtifact n"
    by (simp add: scan_image_def e m2(1) Let_def deleteArtifactInstance_def case_prod_beta idx_simps)
qed

lemma scan_images_artifacts:
  assumes laws: "store_laws M" "accepts M MArtifact" "accepts M MArtifactInstance"
    and obs: "\<And>key x. fmlookup obs key = Some x \<Longrightarrow> ob_key x = key"
  shows "fst (scan_images M L J obs keys w) = None \<and>
    ((\<forall>key\<in>set keys. j \<noteq> artifactIDForImage L key) \<longrightarrow>
      mGet M MArtifact j (wModel (snd (scan_images M L J obs keys w))) = mGet M MArtifact j (wModel w)) \<and>
    (n \<notin> set keys \<longrightarrow> Get (wIndex (snd (scan_images M L J obs keys w))) KindArtifact n = Get (wIndex w) KindArtifact n)"
proof (induction keys arbitrary: w)
  case (Cons key keys)
  show ?case
  proof (cases "fmlookup obs key")
    case (Some x)
    note step = scan_image_artifacts [OF laws obs [OF Some], where L = L and J = J and w = w]
    have "scan_images M L J obs (key # keys) w = scan_images M L J obs keys (snd (scan_image M L J key x w))"
      using Some step(1) by (simp add: case_prod_beta split: option.splits)
    with Cons [of "snd (scan_image M L J key x w)"] step show ?thesis by auto
  qed (use Cons in simp)
qed simp

text \<open>
  (C21) A scan leaves artifacts it did not create alone: an artifact whose id is not the one the sensor derives
  from an observed or an indexed image key is neither changed nor deleted.
\<close>

theorem foreign_artifacts_kept:
  assumes laws: "store_laws M" "accepts M MArtifact" "accepts M MArtifactInstance" "range_law ord"
    and obs: "\<forall>key. key |\<in>| fmdom (collectImageObservations pods) \<or> Get (wIndex w) KindArtifact key \<noteq> uuid_Nil \<longrightarrow>
      j \<noteq> artifactIDForImage L key"
  shows "mGet M MArtifact j (wModel (snd (ImageScanReconcile M L J ord (Inr pods) w))) = mGet M MArtifact j (wModel w)"
proof -
  let ?obs = "collectImageObservations pods"
  let ?keys = "ord (fmdom ?obs)"
  have keys: "set ?keys = fset (fmdom ?obs)" by (simp add: range_set [OF laws(4)])
  have wf: "fmlookup ?obs key = Some x \<Longrightarrow> ob_key x = key" for key x using collect_wf by (simp add: obs_wf_def)
  note scan = scan_images_artifacts [OF laws(1-3), of ?obs, OF wf, where L = L and J = J and keys = ?keys and w = w]
  obtain w1 where w1: "scan_images M L J ?obs ?keys w = (None, w1)"
    using scan by (metis prod.collapse)
  have m1: "mGet M MArtifact j (wModel w1) = mGet M MArtifact j (wModel w)"
    and i1: "n |\<notin>| fmdom ?obs \<Longrightarrow> Get (wIndex w1) KindArtifact n = Get (wIndex w) KindArtifact n" for n
    using scan obs keys by (auto simp: w1)
  let ?w2 = "fold (drop_instance M) (filter (\<lambda>key. key |\<notin>| fmdom ?obs) (Keys ord (wIndex w1) KindArtifactInstance)) w1"
  have "mGet M MArtifact j (wModel (fold (drop_artifact M L)
      (filter (\<lambda>key. key |\<notin>| fmdom ?obs) (Keys ord (wIndex ?w2) KindArtifact)) ?w2)) = mGet M MArtifact j (wModel ?w2)"
    using obs i1 by (intro drop_artifacts_foreign [OF laws(1)]) (auto simp: drop_instances_artifacts [OF laws(1)])
  then show ?thesis
    by (simp add: ImageScanReconcile_def w1 cleanupStale_def Let_def drop_instances_artifacts [OF laws(1)] m1)
qed

text \<open>
  The outcome for one observed image. The index names an artifact that is in the model; the finding that the image was
  not retrieved is there exactly if a pull failed and no container started; and if one started,
  the artifact instance refers to that artifact.
\<close>

theorem scan_image_outcome:
  assumes laws: "store_laws M" "accepts M MArtifact" "accepts M MArtifactInstance" "accepts M MFinding"
    and x: "ob_key x = key" and w': "w' = snd (scan_image M L J key x w)"
  shows "\<exists>a. Get (wIndex w') KindArtifact key = a \<and> mGet M MArtifact a (wModel w') \<noteq> None \<and>
    (mGet M MFinding (referenceFindingID L a ImageNotRetrieved) (wModel w') \<noteq> None) = (\<not> ob_started x \<and> ob_pullFailed x) \<and>
    (ob_started x \<longrightarrow> mGet M MArtifactInstance (artifactInstanceIDForImage L key) (wModel w') =
      Some (EArtifactInstance (image_instance L J x a)))"
proof -
  obtain a m1 where e: "ensureArtifact M L x w = (Inr a, \<lparr>wModel = m1, wIndex = Put (wIndex w) KindArtifact key a\<rparr>)"
    and a: "mGet M MArtifact a m1 \<noteq> None"
    using ensureArtifact_spec [OF laws(1,2), of L x w] x by auto
  let ?w1 = "\<lparr>wModel = m1, wIndex = Put (wIndex w) KindArtifact key a\<rparr>"
  obtain m2 where m2: "ensureArtifactInstance M L J x a ?w1 =
        (None, \<lparr>wModel = m2, wIndex = Put (wIndex ?w1) KindArtifactInstance key (artifactInstanceIDForImage L key)\<rparr>)"
      "mGet M MArtifactInstance (artifactInstanceIDForImage L key) m2 = Some (EArtifactInstance (image_instance L J x a))"
      "mGet M MArtifact a m2 = mGet M MArtifact a m1"
    using ensureInstance_spec [OF laws(1,3), of L J x a ?w1] x by auto
  have d: "mGet M MArtifact a (snd (mDelete M MArtifactInstance i m1)) = mGet M MArtifact a m1" for i
    using store_delete_frame [OF laws(1), of MArtifact a MArtifactInstance i m1] by simp
  have fid: "f_Id (imageNotRetrievedFinding L a x) = referenceFindingID L a ImageNotRetrieved"
    by (simp add: imageNotRetrievedFinding_def)
  have f: "mGet M MFinding (referenceFindingID L a ImageNotRetrieved) (upsertImageNotRetrieved M L a x m) \<noteq> None"
    "mGet M MFinding (referenceFindingID L a ImageNotRetrieved) (deleteImageNotRetrievedFinding M L a m) = None" for m
    by (simp_all add: upsertImageNotRetrieved_def deleteImageNotRetrievedFinding_def fid AddFinding_get [OF laws(1,4)]
        deleteReferenceFinding_get [OF laws(1)])
  show ?thesis
    using a f by (intro exI [of _ a])
      (auto simp: w' scan_image_def e m2 d Let_def deleteArtifactInstance_def case_prod_beta idx_simps
        image_finding_entities [OF laws(1)])
qed

section \<open>Witnesses\<close>

definition demo_pods :: "Pod list" where
  "demo_pods = [demo_pod [''web''] [running_status ''web'' ''id'']]"

lemma demo_identity_id:
  "identityFromImage ''web'' ''id'' = \<lparr>id_key = ''web'', id_displayName = ''web'', id_hash = []\<rparr>"
proof -
  have "normalizeImageRef ''web'' = ''web''" by code_simp
  then show ?thesis by (simp add: identityFromImage_def parseImageID_short Let_def)
qed

lemma demo_observations:
  "collectImageObservations demo_pods = fmupd ''web''
     \<lparr>ob_key = ''web'', ob_displayName = ''web'', ob_hash = [], ob_started = True, ob_pullFailed = False,
      ob_locations = [''oci://web'', ''node://n1''], ob_failingPods = []\<rparr> fmempty"
proof -
  have "fold observePodImages demo_pods fmempty = fmupd ''web''
     \<lparr>ob_key = ''web'', ob_displayName = ''web'', ob_hash = [], ob_started = True, ob_pullFailed = False,
      ob_locations = [''oci://web'', ''node://n1''], ob_failingPods = []\<rparr> fmempty"
    by (simp add: demo_pods_def observePodImages_def demo_pod_def running_status_def demo_identity demo_identity_id
        ensureObservation_def new_observation_def observeContainerStatus_def mark_failed_def mark_started_def
        containerStarted_def containerPullFailed_def addUnique_def Let_def)
  then show ?thesis by (simp add: collectImageObservations_def settle_def fmmap_fmupd)
qed

lemma demo_image_ids:
  "artifactInstanceIDForImage mem_lib ''web'' \<noteq> uuid_Nil" "artifactIDForImage mem_lib ''web'' \<noteq> 3"
  by (simp_all add: artifactInstanceIDForImage_def artifactIDForImage_def mem_lib_def imageArtifactNamespaceUUID_def)

theorem scan_mirrors_started_witness:
  "mGet mem_store MArtifactInstance (artifactInstanceIDForImage mem_lib ''web'')
     (wModel (run_scans mem_store mem_lib (\<lambda>_. Inr []) sorted_range ([Inl (ErrText ''down'')] @ [Inr demo_pods])
        \<lparr>wModel = [], wIndex = NewNameIndex\<rparr>)) \<noteq> None"
proof -
  have K: "instance_ids mem_lib {''web''}" using demo_image_ids(1) by (auto simp: instance_ids_def)
  have dom: "list_all (\<lambda>l. case l of Inl _ \<Rightarrow> True | Inr pods \<Rightarrow> fmdom' (collectImageObservations pods) \<subseteq> {''web''})
      ([Inl (ErrText ''down'')] @ [Inr demo_pods])"
    by (simp add: demo_observations)
  show ?thesis
    using scan_mirrors_started [OF mem_store_laws mem_store_accepts mem_store_accepts sorted_range_law K dom,
        of "\<lparr>wModel = [], wIndex = NewNameIndex\<rparr>" "''web''" "\<lambda>_. Inr []"]
    by (simp add: demo_observations mem_store_def)
qed

definition demo_artifact :: MArtifactR where
  "demo_artifact = \<lparr>art_Id = 3, art_DisplayName = ''other'', art_Description = [], art_Hash = []\<rparr>"

theorem foreign_artifacts_kept_witness:
  "mGet mem_store MArtifact 3 (wModel (snd (ImageScanReconcile mem_store mem_lib (\<lambda>_. Inr []) sorted_range (Inr demo_pods)
     \<lparr>wModel = [EArtifact demo_artifact], wIndex = NewNameIndex\<rparr>))) = Some (EArtifact demo_artifact)"
proof -
  have "mGet mem_store MArtifact 3 [EArtifact demo_artifact] = Some (EArtifact demo_artifact)"
    by (simp add: mem_store_def same_key_def demo_artifact_def)
  then show ?thesis
    using foreign_artifacts_kept [OF mem_store_laws mem_store_accepts mem_store_accepts sorted_range_law,
        of demo_pods "\<lparr>wModel = [EArtifact demo_artifact], wIndex = NewNameIndex\<rparr>" 3 mem_lib "\<lambda>_. Inr []"] demo_image_ids(2)
    by (auto simp: demo_observations idx_simps)
qed

theorem scan_image_outcome_witness:
  "\<exists>a. mGet mem_store MFinding (referenceFindingID mem_lib a ImageNotRetrieved)
     (wModel (snd (scan_image mem_store mem_lib (\<lambda>_. Inr []) ''web''
        ((new_observation \<lparr>id_key = ''web'', id_displayName = ''web'', id_hash = []\<rparr>)\<lparr>ob_pullFailed := True\<rparr>)
        \<lparr>wModel = [], wIndex = NewNameIndex\<rparr>))) \<noteq> None"
  using scan_image_outcome [OF mem_store_laws mem_store_accepts mem_store_accepts mem_store_accepts _ refl,
      of "(new_observation \<lparr>id_key = ''web'', id_displayName = ''web'', id_hash = []\<rparr>)\<lparr>ob_pullFailed := True\<rparr>" "''web''"
        mem_lib "\<lambda>_. Inr []" "\<lparr>wModel = [], wIndex = NewNameIndex\<rparr>"]
  by (auto simp: new_observation_def)

end
