(* ===== verification/Footprints.thy ===== *)
theory Footprints
  imports Manager Rbac_Controllers Namespace_Controller Helm_Controller Image_Scan
begin

text \<open>
  What each controller may do to the model. \<open>touched M L K D m m'\<close> says that \<open>m'\<close> comes from \<open>m\<close> by accepted or rejected
  additions of sound entities of the kinds \<open>K\<close> and deletions of entities of the kinds \<open>D\<close>. One lemma per
  controller gives its kinds; what holds for all controllers together then follows
  by induction on \<open>touched\<close>, without a look at the code of a controller.
\<close>

section \<open>Sound entities\<close>

text \<open>The finding types registered at start-up.\<close>

definition well_known_types :: "lib \<Rightarrow> uuid list" where
  "well_known_types L =
     [TypeIDForKind L ReferencedResourceNotFound, TypeIDForKind L MissingResourceReference,
      MissingRoleSpecAnnotationFindingTypeID, MissingSubjectAnnotationFindingTypeID, TypeIDForKind L ImageNotRetrieved]"

text \<open>
  Entities that take their id from the cluster have one, a binding has a subject, a context is rooted and has the
  type of the sensor, and the type of a finding is well known or in the model.
\<close>

fun sound :: "'m modelsrv \<Rightarrow> lib \<Rightarrow> 'm \<Rightarrow> entity \<Rightarrow> bool" where
  "sound M L m (EBinding b) = (bnd_Id b \<noteq> uuid_Nil \<and> bindingHasValidSubject L (Some b))"
| "sound M L m (EContext c) = (ctx_Id c \<noteq> uuid_Nil \<and> rooted (EContext c) \<and> ctx_Type c = K8sNamespaceContextTypeID)"
| "sound M L m (EFinding f) =
     (case f_Type f of None \<Rightarrow> True | Some t \<Rightarrow> t \<in> set (well_known_types L) \<or> mGet M MFindingType t m \<noteq> None)"
| "sound M L m e = (kind_of e \<in> {MSystem, MApi, MComponent, MComponentInstance, MApiInstance, MRole} \<longrightarrow> id_of e \<noteq> uuid_Nil)"

inductive touched :: "'m modelsrv \<Rightarrow> lib \<Rightarrow> mkind set \<Rightarrow> mkind set \<Rightarrow> 'm \<Rightarrow> 'm \<Rightarrow> bool" for M L K D m0 where
  touched_refl: "touched M L K D m0 m0"
| touched_add: "touched M L K D m0 m \<Longrightarrow> sound M L m e \<Longrightarrow> kind_of e \<in> K \<Longrightarrow> touched M L K D m0 (snd (mAdd M e m))"
| touched_delete: "touched M L K D m0 m \<Longrightarrow> k \<in> D \<Longrightarrow> touched M L K D m0 (snd (mDelete M k i m))"

declare touched.intros [touch_intros]

lemma touched_trans: "touched M L K D m1 m2 \<Longrightarrow> touched M L K D m0 m1 \<Longrightarrow> touched M L K D m0 m2"
  by (induction rule: touched.induct) (auto intro: touched.intros)

lemma touched_mono: "touched M L K D m0 m \<Longrightarrow> K \<subseteq> K' \<Longrightarrow> D \<subseteq> D' \<Longrightarrow> touched M L K' D' m0 m"
  by (induction rule: touched.induct) (auto intro: touched.intros)

section \<open>Consequences\<close>

lemma add_cases:
  assumes "store_laws M" and "k \<noteq> MFinding"
  shows "mGet M k i (snd (mAdd M e m)) = mGet M k i m \<or>
    kind_of e = k \<and> id_of e = i \<and> mGet M k i (snd (mAdd M e m)) = Some e"
proof (cases "mAdd M e m")
  case (Pair r m')
  then show ?thesis
    using assms store_add_get [OF assms(1), of e m m'] store_add_frame [OF assms(1), of e m m' k i]
      store_add_reject [OF assms(1), of e m _ m' k i] by (cases r) auto
qed

lemma add_keeps:
  "store_laws M \<Longrightarrow> k \<noteq> MFinding \<Longrightarrow> mGet M k i m \<noteq> None \<Longrightarrow> mGet M k i (snd (mAdd M e m)) \<noteq> None"
  using add_cases [of M k i e m] by auto

lemma delete_cases:
  assumes "store_laws M" and "k \<noteq> MFinding"
  shows "mGet M k i (snd (mDelete M k' i' m)) = mGet M k i m \<or>
    k = k' \<and> i = i' \<and> mGet M k i (snd (mDelete M k' i' m)) = None"
  using assms store_delete_get [OF assms(1), of k i m] store_delete_frame [OF assms(1), of k i k' i' m]
  by (cases "k = k' \<and> i = i'") auto

lemma touched_frame:
  assumes "store_laws M" and "touched M L K D m m'" and "k \<notin> K" and "k \<notin> D" and "k \<noteq> MFinding"
  shows "mGet M k i m' = mGet M k i m"
  using assms(2)
proof induction
  case (touched_add m1 e)
  then show ?case using add_cases [OF assms(1,5), of i e m1] assms(3) by auto
next
  case (touched_delete m1 k' j)
  then show ?case using delete_cases [OF assms(1,5), of i k' j m1] assms(4) by auto
qed simp

lemma touched_persistent:
  assumes "store_laws M" and "touched M L K D m m'" and "k \<notin> D" and "k \<noteq> MFinding" and "mGet M k i m \<noteq> None"
  shows "mGet M k i m' \<noteq> None"
  using assms(2,5)
proof induction
  case (touched_add m1 e)
  then show ?case using add_cases [OF assms(1,4), of i e m1] by auto
next
  case (touched_delete m1 k' j)
  then show ?case using delete_cases [OF assms(1,4), of i k' j m1] assms(3) by auto
qed simp

text \<open>A property of the sound entities of a kind that does not look at the model holds of all stored ones.\<close>

lemma touched_all:
  assumes "store_laws M" and "touched M L K D m m'" and "k \<noteq> MFinding"
    and "\<And>m e. sound M L m e \<Longrightarrow> kind_of e = k \<Longrightarrow> P e"
    and "\<And>i e. mGet M k i m = Some e \<Longrightarrow> P e" and "mGet M k i m' = Some e"
  shows "P e"
  using assms(2,6)
proof (induction arbitrary: i e)
  case (touched_add m1 e')
  then show ?case using add_cases [OF assms(1,3), of i e' m1] assms(4) [of m1 e'] by auto
next
  case (touched_delete m1 k' j)
  then show ?case using delete_cases [OF assms(1,3), of i k' j m1] by auto
qed (use assms(5) in simp)

text \<open>
  The event filters of the library only resolve findings: a change of another entity may remove a finding and never adds or
  rewrites one.
\<close>

definition filters_resolve :: "'m modelsrv \<Rightarrow> bool" where
  "filters_resolve M \<longleftrightarrow>
     (\<forall>e m i x. mGet M MFinding i (snd (mAdd M e m)) = Some x \<longrightarrow> mGet M MFinding i m = Some x \<or> x = e) \<and>
     (\<forall>k j m i x. mGet M MFinding i (snd (mDelete M k j m)) = Some x \<longrightarrow> mGet M MFinding i m = Some x)"

lemma filters_resolveD:
  assumes "filters_resolve M"
  shows "mGet M MFinding i (snd (mAdd M e m)) = Some x \<Longrightarrow> mGet M MFinding i m = Some x \<or> x = e"
    and "mGet M MFinding i (snd (mDelete M k j m)) = Some x \<Longrightarrow> mGet M MFinding i m = Some x"
  using assms unfolding filters_resolve_def by blast+

definition finding_typed :: "'m modelsrv \<Rightarrow> lib \<Rightarrow> 'm \<Rightarrow> entity \<Rightarrow> bool" where
  "finding_typed M L m x \<longleftrightarrow> (\<forall>f t. x = EFinding f \<and> f_Type f = Some t \<longrightarrow> mGet M MFindingType t m \<noteq> None)"

lemma touched_typed:
  assumes "store_laws M" and "filters_resolve M" and "touched M L K D m m'" and "MFindingType \<notin> D"
    and "\<And>t. t \<in> set (well_known_types L) \<Longrightarrow> mGet M MFindingType t m \<noteq> None"
    and "\<And>i x. mGet M MFinding i m = Some x \<Longrightarrow> finding_typed M L m x" and "mGet M MFinding i m' = Some x"
  shows "finding_typed M L m' x"
  using assms(3,7)
proof (induction arbitrary: i x)
  case touched_refl
  then show ?case by (rule assms(6))
next
  case (touched_add m1 e)
  have known: "mGet M MFindingType t m1 \<noteq> None" if "t \<in> set (well_known_types L)" for t
    using touched_persistent [OF assms(1) touched_add(1) assms(4)] assms(5) [OF that] by simp
  have keep: "mGet M MFindingType t m1 \<noteq> None \<Longrightarrow> mGet M MFindingType t (snd (mAdd M e m1)) \<noteq> None" for t
    using add_keeps [OF assms(1), of MFindingType] by simp
  have "mGet M MFinding i m1 = Some x \<or> x = e" using touched_add.prems by (rule filters_resolveD(1) [OF assms(2)])
  then have "finding_typed M L m1 x"
    using touched_add known by (auto simp: finding_typed_def)
  then show ?case using keep by (auto simp: finding_typed_def)
next
  case (touched_delete m1 k j)
  have "finding_typed M L m1 x"
    using filters_resolveD(2) [OF assms(2) touched_delete.prems] by (rule touched_delete.IH)
  moreover have "mGet M MFindingType t (snd (mDelete M k j m1)) = mGet M MFindingType t m1" for t
    using delete_cases [OF assms(1), of MFindingType t k j m1] touched_delete(2) assms(4) by auto
  ultimately show ?case by (simp add: finding_typed_def)
qed

section \<open>Findings and rules\<close>

text \<open>Every controller may add and remove findings; the rules may register finding types.\<close>

lemma touched_findings [touch_intros]:
  assumes "MFinding \<in> K" and "MFinding \<in> D" and "touched M L K D m0 m"
  shows "touched M L K D m0 (DeleteFindingById M i m)"
    and "touched M L K D m0 (deleteReferenceFinding M L m i kd)"
    and "touched M L K D m0 (upsertReferencedResourceNotFound M L m s st t tt n)"
    and "touched M L K D m0 (upsertMissingResourceReference M L m s st n a)"
    and "touched M L K D m0 (deleteImageNotRetrievedFinding M L i m)"
    and "touched M L K D m0 (upsertImageNotRetrieved M L i x m)"
    and "touched M L K D m0 (reconcileRoleSpecFinding M L wl kind i obj m)"
    and "touched M L K D m0 (reconcileSubjectFinding M L wl kind i obj m)"
  using assms
  by (auto simp: DeleteFindingById_def deleteReferenceFinding_def upsertReferencedResourceNotFound_def
      upsertMissingResourceReference_def deleteImageNotRetrievedFinding_def upsertImageNotRetrieved_def
      reconcileRoleSpecFinding_def reconcileSubjectFinding_def AddFinding_def referencedNotFoundFinding_def
      missingReferenceFinding_def imageNotRetrievedFinding_def roleSpecFinding_def subjectFinding_def
      well_known_types_def Let_def intro!: touched.intros)

lemma touched_reference_checks [touch_intros]:
  assumes "MFinding \<in> K" and "MFinding \<in> D" and "touched M L K D m0 m"
  shows "touched M L K D m0 (reconcileComponentReferenceFindings M L i obj m)"
    and "touched M L K D m0 (reconcileAPIReferenceFindings M L i obj m)"
    and "touched M L K D m0 (reconcileSystemReferenceFindings M L i sec n m)"
    and "touched M L K D m0 (reconcileContextParentFinding M L i ns m)"
  using assms
  by (simp_all add: reconcileComponentReferenceFindings_def reconcileAPIReferenceFindings_def
      reconcileSystemReferenceFindings_def reconcileContextParentFinding_def Let_def touch_intros)

lemma ensureFindingType_touched:
  assumes "store_laws M" and "MFindingType \<in> K" and "touched M L K D m0 m"
  shows "touched M L K D m0 (snd (ensureFindingType M L m meta))"
    and "fst (ensureFindingType M L m meta) = Inr (Some ft) \<Longrightarrow>
      mGet M MFindingType (ft_Id ft) (snd (ensureFindingType M L m meta)) \<noteq> None"
proof -
  have add: "touched M L K D m0 m'" if "mAdd M (EFindingType ft) m = (r, m')" for ft r m'
    using touched_add [OF assms(3), of "EFindingType ft"] assms(2) that by simp
  have known: "ft_Id ft = i \<and> (\<exists>y. mGet M MFindingType i m' = Some y)" if "GetFindingTypeById M i m' = Some ft" for i m' ft
    using that GetFindingTypeById_id [OF assms(1) that] by (auto simp: GetFindingTypeById_def split: option.splits)
  show "touched M L K D m0 (snd (ensureFindingType M L m meta))"
    using assms(3) by (auto simp: ensureFindingType_def Let_def split: option.splits prod.splits dest: add)
  assume "fst (ensureFindingType M L m meta) = Inr (Some ft)"
  then show "mGet M MFindingType (ft_Id ft) (snd (ensureFindingType M L m meta)) \<noteq> None"
    using store_add_get [OF assms(1), of "EFindingType _" m]
    by (auto simp: ensureFindingType_def Let_def split: option.splits prod.splits if_splits dest!: known)
qed


lemma EvaluateRule_touched:
  assumes "store_laws M" and "MFinding \<in> K" and "MFindingType \<in> K" and "touched M L K D m0 m"
  shows "touched M L K D m0 (snd (EvaluateRule M L m rule obj rt))"
proof -
  have build: "touched M L K D m0 m' \<and> (\<forall>f. r = Inr f \<longrightarrow> sound M L m' (EFinding f))"
    if "buildFinding M L m rule u rt = (r, m')" for u r m'
    using that assms(4) ensureFindingType_touched [OF assms(1,3,4), of "fnd_Type (cr_Finding rule)"]
    by (auto simp: buildFinding_def Let_def split: if_splits prod.splits sum.splits option.splits)
  have add: "touched M L K D m0 m''" if "buildFinding M L m rule u rt = (Inr f, m')" "mAdd M (EFinding f) m' = (e, m'')" for u f m' e m''
    using build [OF that(1)] touched_add [of M L K D m0 m' "EFinding f"] assms(2) that(2) by simp
  show ?thesis
    using assms(4)
    by (auto simp: EvaluateRule_def Let_def split: option.splits sum.splits cel_value.splits prod.splits dest: build add)
qed

lemma run_touched [touch_intros]:
  assumes "store_laws M" and "MFinding \<in> K" and "MFindingType \<in> K" and "touched M L K D m0 m"
  shows "touched M L K D m0 (run_rule_evaluation M L T ev obj m)"
proof -
  have "touched M L K D m0 (run_rules M L u rt rules m)" for u rt rules
    using assms(4) by (induction rules arbitrary: m) (auto intro: EvaluateRule_touched [OF assms(1-3)])
  then show ?thesis using assms(4) by (auto simp: run_rule_evaluation_def Let_def split: option.splits sum.splits)
qed

lemma Report_touched:
  assumes "store_laws M" and "accepts M MFindingType" and "MFinding \<in> K" and "MFindingType \<in> K" and "touched M L K D m0 m"
  shows "touched M L K D m0 (Report M L res subject m)"
proof -
  let ?t = "TypeIDForKind L crdMissingFindingKind" and ?m = "ensureCRDMissingFindingType M L m"
  have add: "mGet M MFindingType (ft_Id ft) (snd (mAdd M (EFindingType ft) m)) = Some (EFindingType ft)" for ft
    using accepts_add [of M "EFindingType ft" m] assms(2) store_add_get [OF assms(1), of "EFindingType ft" m]
    by (cases "mAdd M (EFindingType ft) m") simp
  have t: "mGet M MFindingType ?t ?m \<noteq> None"
  proof (cases "GetFindingTypeById M ?t m = None")
    case True
    then show ?thesis
      using add [of "\<lparr>ft_Id = ?t, ft_DisplayName = crdMissingFindingKind,
          ft_Description = ''A CRD expected by the k8s sensor is not installed in the cluster.''\<rparr>"]
      by (simp add: ensureCRDMissingFindingType_def Let_def)
  qed (auto simp: ensureCRDMissingFindingType_def GetFindingTypeById_def Let_def split: option.splits)
  have m: "touched M L K D m0 ?m"
    using assms(4,5) by (auto simp: ensureCRDMissingFindingType_def Let_def intro!: touched_add)
  have "touched M L K D m0 (fold (\<lambda>entry. createCRDMissingFinding M L entry subject) es n)"
    if "mGet M MFindingType ?t n \<noteq> None" "touched M L K D m0 n" for es n
    using that
  proof (induction es arbitrary: n)
    case (Cons e es)
    have "touched M L K D m0 (createCRDMissingFinding M L e subject n)"
      using Cons.prems assms(3)
      by (auto simp: createCRDMissingFinding_def AddFinding_def crdMissingFinding_def intro!: touched_add)
    moreover have "mGet M MFindingType ?t (createCRDMissingFinding M L e subject n) \<noteq> None"
      unfolding createCRDMissingFinding_def AddFinding_def by (rule add_keeps [OF assms(1) _ Cons.prems(1)]) simp
    ultimately show ?case using Cons.IH by simp
  qed simp
  from this [OF t m] show ?thesis using assms(5) by (simp add: Report_def)
qed

lemma reporter_touched:
  assumes "store_laws M" and "accepts M MFindingType" and "MFinding \<in> K" and "MFindingType \<in> K" and "touched M L K D m0 m"
  shows "touched M L K D m0 (snd (ReportWithContext M L i (rp, m)))"
    and "touched M L K D m0 (snd (ReportFallback M L (rp, m)))"
    and "touched M L K D m0 (snd (ClearContext M L (rp, m)))"
  using assms(5) Report_touched [OF assms]
  by (auto simp: ReportWithContext_def ReportFallback_def ClearContext_def split: option.splits)


section \<open>The controllers\<close>

abbreviation findings_and :: "mkind \<Rightarrow> mkind set" where
  "findings_and k \<equiv> {k, MFinding}"

lemma converted_ids:
  "convertSystem L x = Some (a, i) \<Longrightarrow> sys_Id a \<noteq> uuid_Nil"
  "convertAPI L y = Some (b, i) \<Longrightarrow> api_Id b \<noteq> uuid_Nil"
  "convertComponent L z = Some (c, i) \<Longrightarrow> cmp_Id c \<noteq> uuid_Nil"
  "componentInstanceFromMeta L m = Some (d, i) \<Longrightarrow> ci_Id d \<noteq> uuid_Nil"
  "apiInstanceFromMeta L m = Some (e, i) \<Longrightarrow> ai_Id e \<noteq> uuid_Nil"
  "roleFromRBAC L m = Some (f, i) \<Longrightarrow> role_Id f \<noteq> uuid_Nil"
  "convertNamespaceToContext L m cl = Some (g, i) \<Longrightarrow> ctx_Id g \<noteq> uuid_Nil \<and> ctx_Type g = K8sNamespaceContextTypeID"
  by (auto simp: convertSystem_def convertAPI_def convertComponent_def componentInstanceFromMeta_def apiInstanceFromMeta_def
      roleFromRBAC_def convertNamespaceToContext_def Let_def split: if_splits)

lemma bindingFromRBAC_id: "bindingFromRBAC L m r sk idx = Some (b, i) \<Longrightarrow> bnd_Id b \<noteq> uuid_Nil"
  by (auto simp: bindingFromRBAC_def Let_def split: if_splits)

lemma dispatch_touched:
  assumes "store_laws M" and "fst (req_slot q) = k"
  shows "touched M L {k, MFinding, MFindingType} {k, MFinding} (wModel w) (wModel (snd (dispatch M L C q w)))"
  using assms(2)
  by (cases q rule: request_cases)
    (auto simp: SystemReconcile_def APIReconcile_def ComponentReconcile_def SystemInstanceReconcile_def
      WorkloadReconcile_def APIInstanceReconcile_def Let_def case_prod_beta converted_ids
      split: get_result.splits option.splits intro!: touch_intros assms(1))

lemma role_touched:
  "touched M L (findings_and MRole) (findings_and MRole) (rbModel s) (rbModel (snd (RoleReconcile M L ord wl kind ks nn g s)))"
  by (auto simp: RoleReconcile_def Let_def case_prod_beta converted_ids
      split: get_result.splits option.splits intro!: touch_intros)

lemma binding_touched:
  "touched M L (findings_and MBinding) (findings_and MBinding) (rbModel s) (rbModel (snd (RoleBindingReconcile M L wl bk nn g s)))"
  by (auto simp: RoleBindingReconcile_def binding_drop_def binding_store_def binding_build_def extractRoleBindingFields_def
      Let_def case_prod_beta dest: bindingFromRBAC_id split: get_result.splits option.splits intro!: touch_intros)

lemma namespace_touched:
  assumes "store_laws M" and "accepts M MFindingType"
  shows "touched M L {MContext, MFinding, MFindingType} (findings_and MContext) (nsModel s)
    (nsModel (snd (NamespaceReconcile M L T ev nn g s)))"
proof (cases g)
  case (Found obj)
  have "sound M L m (EContext c)"
    if "convertNamespaceToContext L (o_Meta obj) (nsCluster s) = Some (c, i)" "Name (o_Meta obj) = kube_system \<or> nsCluster s \<noteq> uuid_Nil" for m c i
    using converted_ids(7) [OF that(1)] convert_rooted(1) [OF that] by simp
  then show ?thesis
    using Found
    by (auto simp: NamespaceReconcile_def Let_def case_prod_beta simp del: sound.simps split: option.splits
        intro!: touch_intros reporter_touched [OF assms] assms(1))
qed (auto simp: NamespaceReconcile_def Let_def case_prod_beta intro!: touch_intros reporter_touched [OF assms])

lemma fallback_touched:
  assumes "store_laws M" and "accepts M MFindingType"
  shows "touched M L {MFinding, MFindingType} {} (nsModel s) (nsModel (crdMissingFallback_Start M L g s))"
  by (auto simp: crdMissingFallback_Start_def case_prod_beta split: get_result.splits
      intro!: touch_intros reporter_touched [OF assms])


abbreviation helm_kinds :: "mkind set" where
  "helm_kinds \<equiv> {MSystemInstance, MComponentInstance, MApiInstance, MFinding}"

lemma link_touched [touch_intros]:
  assumes "store_laws M" and "rid \<noteq> uuid_Nil" and "touched M L helm_kinds D m0 m"
  shows "touched M L helm_kinds D m0 (link_instance M kind rid si m)"
proof -
  have "ci_Id ci = rid" if "mGet M MComponentInstance rid m = Some (EComponentInstance ci)" for ci
    using store_typed [OF assms(1) that] by simp
  moreover have "ai_Id ai = rid" if "mGet M MApiInstance rid m = Some (EApiInstance ai)" for ai
    using store_typed [OF assms(1) that] by simp
  ultimately show ?thesis
    using assms(2,3)
    by (auto simp: link_instance_def split: ResourceKind.splits option.splits entity.splits intro!: touched_add)
qed

lemma correlate_touched [touch_intros]:
  assumes "store_laws M" and "touched M L helm_kinds D m0 (wModel w)"
  shows "touched M L helm_kinds D m0 (wModel (correlateResources M rs ns si w))"
  using assms(2)
proof (induction rs arbitrary: w)
  case (Cons r rs)
  have "touched M L helm_kinds D m0 (wModel (correlate_one M ns si r w))"
    using Cons.prems by (auto simp: correlate_one_model split: option.splits intro!: link_touched assms(1))
  then show ?case using Cons.IH by simp
qed simp

lemma helm_touched:
  assumes "store_laws M"
  shows "touched M L helm_kinds (findings_and MSystemInstance) (wModel (hWorld s)) (wModel (hWorld (snd (HelmReleaseReconcile M L C nn g s))))"
proof -
  have "touched M L helm_kinds (findings_and MSystemInstance) (wModel w) (wModel (snd (helm_register M L ns sec n rel rs w)))" for ns sec n rel rs w
    by (auto simp: helm_register_def Let_def case_prod_beta split: option.splits intro!: touch_intros assms)
  moreover have "touched M L helm_kinds (findings_and MSystemInstance) (wModel w) (wModel (snd (helm_unregister M L key w)))" for key w
    by (auto simp: helm_unregister_def Let_def case_prod_beta intro!: touch_intros)
  ultimately show ?thesis
    by (auto simp: HelmReleaseReconcile_def Let_def case_prod_beta split: get_result.splits option.splits intro: touched_refl)
qed

abbreviation image_kinds :: "mkind set" where
  "image_kinds \<equiv> {MArtifact, MArtifactInstance, MFinding}"

lemma scan_image_touched:
  assumes "touched M L image_kinds image_kinds m0 (wModel w)"
  shows "touched M L image_kinds image_kinds m0 (wModel (snd (scan_image M L J key x w)))"
  using assms
  by (auto simp: scan_image_def ensureArtifact_def ensureArtifactInstance_def deleteArtifactInstance_def Let_def case_prod_beta
      split: option.splits sum.splits intro!: touch_intros)

lemma scan_images_touched:
  "touched M L image_kinds image_kinds m0 (wModel w) \<Longrightarrow>
   touched M L image_kinds image_kinds m0 (wModel (snd (scan_images M L J obs keys w)))"
proof (induction keys arbitrary: w)
  case (Cons key keys)
  note one = scan_image_touched [OF Cons.prems, where J = J]
  show ?case
  proof (cases "fmlookup obs key")
    case None
    then show ?thesis using Cons by simp
  next
    case (Some x)
    then show ?thesis
      using one [of key x] Cons.IH [of "snd (scan_image M L J key x w)"]
      by (auto simp: case_prod_beta split: option.splits)
  qed
qed simp

lemma cleanup_touched:
  assumes "touched M L image_kinds image_kinds m0 (wModel w)"
  shows "touched M L image_kinds image_kinds m0 (wModel (cleanupStale M L ord keys w))"
proof -
  have "touched M L image_kinds image_kinds m0 (wModel (drop_instance M key v))"
    if "touched M L image_kinds image_kinds m0 (wModel v)" for key v
    using that by (auto simp: drop_instance_def case_prod_beta Let_def intro!: touch_intros)
  then have inst: "touched M L image_kinds image_kinds m0 (wModel (fold (drop_instance M) ks v))"
    if "touched M L image_kinds image_kinds m0 (wModel v)" for ks v
    using that by (induction ks arbitrary: v) simp_all
  have "touched M L image_kinds image_kinds m0 (wModel (drop_artifact M L key v))"
    if "touched M L image_kinds image_kinds m0 (wModel v)" for key v
    using that by (auto simp: drop_artifact_def case_prod_beta Let_def intro!: touch_intros)
  then have art: "touched M L image_kinds image_kinds m0 (wModel (fold (drop_artifact M L) ks v))"
    if "touched M L image_kinds image_kinds m0 (wModel v)" for ks v
    using that by (induction ks arbitrary: v) simp_all
  show ?thesis unfolding cleanupStale_def Let_def by (intro art inst assms)
qed

lemma image_scan_touched:
  "touched M L image_kinds image_kinds (wModel w) (wModel (snd (ImageScanReconcile M L J ord pods w)))"
  using scan_images_touched [OF touched_refl, of M L w J]
  by (auto simp: ImageScanReconcile_def Let_def case_prod_beta split: sum.splits option.splits
      intro: touched_refl cleanup_touched)


section \<open>The name index\<close>

text \<open>Each controller writes the index only under its own kinds of resources.\<close>

lemma dispatch_index:
  assumes "k \<noteq> index_kind (fst (req_slot q))"
  shows "Get (wIndex (snd (dispatch M L C q w))) k = Get (wIndex w) k"
  using assms
  by (cases q rule: request_cases)
    (auto simp: SystemReconcile_def APIReconcile_def ComponentReconcile_def SystemInstanceReconcile_def
      WorkloadReconcile_def APIInstanceReconcile_def Let_def case_prod_beta idx_simps fun_eq_iff
      split: get_result.splits option.splits)

lemma role_index: "k \<noteq> KindRole \<Longrightarrow> Get (rbIndex (snd (RoleReconcile M L ord wl kind ks nn g s))) k = Get (rbIndex s) k"
  by (auto simp: RoleReconcile_def Let_def case_prod_beta idx_simps fun_eq_iff split: get_result.splits option.splits)

lemma binding_index: "k \<noteq> KindBinding \<Longrightarrow> Get (rbIndex (snd (RoleBindingReconcile M L wl bk nn g s))) k = Get (rbIndex s) k"
  by (auto simp: RoleBindingReconcile_def binding_drop_def binding_store_def Let_def case_prod_beta idx_simps fun_eq_iff
      split: get_result.splits option.splits)

lemma namespace_index: "k \<noteq> KindContext \<Longrightarrow> Get (nsIndex (snd (NamespaceReconcile M L T ev nn g s))) k = Get (nsIndex s) k"
  by (auto simp: NamespaceReconcile_def Let_def case_prod_beta idx_simps fun_eq_iff split: get_result.splits option.splits)

lemma fallback_index [simp]: "nsIndex (crdMissingFallback_Start M L g s) = nsIndex s"
  by (simp add: crdMissingFallback_Start_def case_prod_beta split: get_result.splits)

lemma helm_index:
  "k \<noteq> KindSystemInstance \<Longrightarrow> Get (wIndex (hWorld (snd (HelmReleaseReconcile M L C nn g s)))) k = Get (wIndex (hWorld s)) k"
  by (auto simp: HelmReleaseReconcile_def helm_register_def helm_unregister_def correlate_Get Let_def case_prod_beta idx_simps fun_eq_iff
      split: get_result.splits option.splits)

text \<open>The scan writes and deletes entries of two kinds only; what these leave alone, it leaves alone.\<close>

lemma image_scan_index_kept:
  assumes F: "\<And>idx n v. F (Put idx KindArtifact n v) = F idx" "\<And>idx n v. F (Put idx KindArtifactInstance n v) = F idx"
    "\<And>idx n. F (snd (Delete idx KindArtifact n)) = F idx" "\<And>idx n. F (snd (Delete idx KindArtifactInstance n)) = F idx"
  shows "F (wIndex (snd (ImageScanReconcile M L J ord pods w))) = F (wIndex w)"
proof -
  have one: "F (wIndex (snd (scan_image M L J key x v))) = F (wIndex v)" for key x v
    by (auto simp: scan_image_def ensureArtifact_def ensureArtifactInstance_def deleteArtifactInstance_def Let_def case_prod_beta
        F split: option.splits sum.splits)
  have scans: "F (wIndex (snd (scan_images M L J obs keys v))) = F (wIndex v)" for obs keys v
  proof (induction keys arbitrary: v)
    case (Cons key keys)
    show ?case
    proof (cases "fmlookup obs key")
      case (Some x)
      then show ?thesis using one [of key x v] Cons by (auto simp: case_prod_beta split: option.splits)
    qed (use Cons in simp)
  qed simp
  have inst: "F (wIndex (fold (drop_instance M) ks v)) = F (wIndex v)" for ks v
    by (induction ks arbitrary: v) (auto simp: drop_instance_def case_prod_beta F)
  have art: "F (wIndex (fold (drop_artifact M L) ks v)) = F (wIndex v)" for ks v
    by (induction ks arbitrary: v) (auto simp: drop_artifact_def case_prod_beta Let_def F)
  show ?thesis
    by (auto simp: ImageScanReconcile_def cleanupStale_def Let_def case_prod_beta scans inst art split: sum.splits option.splits)
qed

lemma image_scan_index:
  "k \<noteq> KindArtifact \<Longrightarrow> k \<noteq> KindArtifactInstance \<Longrightarrow>
   Get (wIndex (snd (ImageScanReconcile M L J ord pods w))) k = Get (wIndex w) k"
  by (rule image_scan_index_kept) (auto simp: idx_simps fun_eq_iff)

text \<open>Only the RBAC controllers touch the sets of waiting bindings.\<close>

lemma waits_untouched:
  "waits (wIndex (snd (dispatch M L C q w))) = waits (wIndex w)"
  "waits (nsIndex (snd (NamespaceReconcile M L T ev nn g n))) = waits (nsIndex n)"
  "waits (wIndex (snd (ImageScanReconcile M L J ord pods w))) = waits (wIndex w)"
proof -
  show "waits (wIndex (snd (dispatch M L C q w))) = waits (wIndex w)"
    by (cases q rule: request_cases)
      (auto simp: SystemReconcile_def APIReconcile_def ComponentReconcile_def SystemInstanceReconcile_def
        WorkloadReconcile_def APIInstanceReconcile_def Let_def case_prod_beta idx_simps
        split: get_result.splits option.splits)
  show "waits (nsIndex (snd (NamespaceReconcile M L T ev nn g n))) = waits (nsIndex n)"
    by (auto simp: NamespaceReconcile_def Let_def case_prod_beta idx_simps split: get_result.splits option.splits)
  show "waits (wIndex (snd (ImageScanReconcile M L J ord pods w))) = waits (wIndex w)"
    by (rule image_scan_index_kept) (simp_all add: idx_simps)
qed

lemma helm_waits: "waits (wIndex (hWorld (snd (HelmReleaseReconcile M L C nn g s)))) = waits (wIndex (hWorld s))"
proof -
  have "waits (wIndex (correlateResources M rs ns si w)) = waits (wIndex w)" for rs ns si w
    by (induction rs arbitrary: w) (simp_all add: correlate_one_index idx_simps split: option.splits)
  then show ?thesis
    by (auto simp: HelmReleaseReconcile_def helm_register_def helm_unregister_def Let_def case_prod_beta idx_simps
        split: get_result.splits option.splits)
qed

end
