(* ===== verification/Sensor.thy ===== *)
theory Sensor
  imports Convert
begin

text \<open>
  Package \<open>internal/sensor\<close>: the node by which the sensor registers itself in the model (\<open>identity.go\<close>) and the
  guard in front of the HTTP interface of the model server (\<open>replication_guard.go\<close>). The handler behind
  the guard is an argument, \<open>uuid.New\<close> is the argument \<open>nodeID\<close>. The log filter of \<open>replication_log.go\<close> is
  not modelled: it passes every event on.
\<close>

section \<open>Identity\<close>

text \<open>a1c2d3e4-f5a6-4b7c-8d9e-0f1a2b3c4d5e; the other constant of the file is in \<open>Convert\<close>.\<close>

definition K8sSensorNodeTypeID :: uuid where
  "K8sSensorNodeTypeID = 0xa1c2d3e4f5a64b7c8d9e0f1a2b3c4d5e"

definition sensor_node_type :: MTypeR where
  "sensor_node_type = \<lparr>mt_Id = K8sSensorNodeTypeID, mt_DisplayName = ''k8s-sensor'',
     mt_Description = ''Kubernetes cluster sensor for EmELand''\<rparr>"

definition sensor_node :: "uuid \<Rightarrow> MNodeR" where
  "sensor_node nodeID = \<lparr>node_Id = nodeID, node_DisplayName = ''k8s-sensor'', node_Type = K8sSensorNodeTypeID\<rparr>"

definition namespace_context_type :: MTypeR where
  "namespace_context_type = \<lparr>mt_Id = K8sNamespaceContextTypeID, mt_DisplayName = ''Kubernetes Namespace'',
     mt_Description = ''A Kubernetes namespace mapped as an EmELand context''\<rparr>"

definition Register :: "'m modelsrv \<Rightarrow> uuid \<Rightarrow> 'm \<Rightarrow> (error + uuid) \<times> 'm" where
  "Register M nodeID m =
     (case mAdd M (ENodeType sensor_node_type) m of
        (Some err, m1) \<Rightarrow> (Inl (ErrWrap ''register node type: '' err), m1)
      | (None, m1) \<Rightarrow>
          (case mAdd M (ENode (sensor_node nodeID)) m1 of
             (Some err, m2) \<Rightarrow> (Inl (ErrWrap ''register node: '' err), m2)
           | (None, m2) \<Rightarrow>
               (case mAdd M (EContextType namespace_context_type) m2 of
                  (Some err, m3) \<Rightarrow> (Inl (ErrWrap ''register context type: '' err), m3)
                | (None, m3) \<Rightarrow> (Inr nodeID, m3))))"

text \<open>The identity is the id of the node; nil is None.\<close>

definition Close :: "'m modelsrv \<Rightarrow> uuid option \<Rightarrow> 'm \<Rightarrow> error option \<times> 'm" where
  "Close M ident m = (case ident of None \<Rightarrow> (None, m) | Some nodeID \<Rightarrow> mDelete M MNode nodeID m)"

section \<open>The replication guard\<close>

definition eventsPushPath :: string where
  "eventsPushPath = ''/api/events/push''"

definition inboundBodyLimit :: nat where
  "inboundBodyLimit = 64 * 1024"

text \<open>A body yields its bytes and then the end, or an error.\<close>

record body =
  b_Bytes :: string
  b_Err :: "string option"

record http_request =
  rq_Method :: string
  rq_Path :: string
  rq_Body :: "body option"

abbreviation NoBody :: body where
  "NoBody \<equiv> \<lparr>b_Bytes = [], b_Err = None\<rparr>"

text \<open>\<open>io.ReadAll\<close> of a \<open>LimitReader\<close>: an error behind the limit is not reached.\<close>

definition read_limited :: "body \<Rightarrow> nat \<Rightarrow> string + string" where
  "read_limited b n =
     (if n \<le> length (b_Bytes b) then Inr (take n (b_Bytes b))
      else case b_Err b of Some err \<Rightarrow> Inl err | None \<Rightarrow> Inr (b_Bytes b))"

definition readRequestBody :: "http_request \<Rightarrow> nat \<Rightarrow> string \<times> http_request" where
  "readRequestBody r limit =
     (case rq_Body r of
        None \<Rightarrow> ([], r)
      | Some b \<Rightarrow>
          (case read_limited b (limit + 1) of
             Inl err \<Rightarrow> (''<read error: '' @ err @ ''>'', r\<lparr>rq_Body := Some NoBody\<rparr>)
           | Inr data \<Rightarrow>
               if limit < length data
               then (take limit data @ ''...<truncated>'', r\<lparr>rq_Body := Some \<lparr>b_Bytes = take limit data, b_Err = None\<rparr>\<rparr>)
               else (data, r\<lparr>rq_Body := Some \<lparr>b_Bytes = data, b_Err = None\<rparr>\<rparr>)))"

datatype 'r response = Error nat string | Handled 'r

definition isPush :: "http_request \<Rightarrow> bool" where
  "isPush r \<longleftrightarrow> rq_Method r = ''POST'' \<and> HasSuffix (rq_Path r) eventsPushPath"

definition ServeHTTP :: "(http_request \<Rightarrow> 'r) \<Rightarrow> bool \<Rightarrow> http_request \<Rightarrow> 'r response" where
  "ServeHTTP handler allowInboundPush r =
     (let push = isPush r;
          (logged, r') = readRequestBody r inboundBodyLimit
      in if push \<and> \<not> allowInboundPush
         then Error 403 ''inbound event push is disabled on the k8s sensor''
         else Handled (handler r'))"

section \<open>Properties\<close>

text \<open>The body the handler sees.\<close>

definition forwarded_body :: "body option \<Rightarrow> body option" where
  "forwarded_body b =
     (case b of
        None \<Rightarrow> None
      | Some x \<Rightarrow>
          Some (if b_Err x \<noteq> None \<and> length (b_Bytes x) \<le> 65536 then NoBody
                else \<lparr>b_Bytes = take 65536 (b_Bytes x), b_Err = None\<rparr>))"

lemma readRequestBody_request:
  "snd (readRequestBody r inboundBodyLimit) = r\<lparr>rq_Body := forwarded_body (rq_Body r)\<rparr>"
  by (cases "rq_Body r") (auto simp: readRequestBody_def read_limited_def forwarded_body_def inboundBodyLimit_def
      Suc_le_eq split: option.splits)

text \<open>The guard as a decision on method and path.\<close>

lemma guard_decides:
  "ServeHTTP handler allow r =
     (if \<not> allow \<and> rq_Method r = ''POST'' \<and> (\<exists>p. rq_Path r = p @ ''/api/events/push'')
      then Error 403 ''inbound event push is disabled on the k8s sensor''
      else Handled (handler (r\<lparr>rq_Body := forwarded_body (rq_Body r)\<rparr>)))"
proof -
  have "isPush r \<longleftrightarrow> rq_Method r = ''POST'' \<and> (\<exists>p. rq_Path r = p @ ''/api/events/push'')"
    by (simp add: isPush_def HasSuffix_iff eventsPushPath_def)
  then show ?thesis
    using readRequestBody_request [of r] by (auto simp: ServeHTTP_def Let_def case_prod_beta)
qed

text \<open>
  A body longer than 64 KiB is cut off before it is handed on: the handler of an allowed push
  does not see the rest.
\<close>

theorem guard_truncates_body:
  assumes "rq_Body r = Some \<lparr>b_Bytes = data, b_Err = None\<rparr>"
  shows "(\<forall>handler :: http_request \<Rightarrow> http_request. ServeHTTP handler True r = Handled (handler r)) \<longleftrightarrow> length data \<le> 65536"
proof
  assume "\<forall>handler :: http_request \<Rightarrow> http_request. ServeHTTP handler True r = Handled (handler r)"
  then have "ServeHTTP (\<lambda>x. x) True r = Handled r" by blast
  then have "snd (readRequestBody r inboundBodyLimit) = r"
    by (simp add: ServeHTTP_def Let_def case_prod_beta)
  then have "rq_Body r = forwarded_body (rq_Body r)"
    by (metis http_request.ext_inject http_request.surjective http_request.update_convs(3) readRequestBody_request)
  then have "take 65536 data = data" using assms by (simp add: forwarded_body_def)
  then show "length data \<le> 65536" by (metis length_take min.cobounded2 min.commute)
next
  assume "length data \<le> 65536"
  then have "forwarded_body (rq_Body r) = rq_Body r" using assms by (simp add: forwarded_body_def)
  then have "snd (readRequestBody r inboundBodyLimit) = r" by (simp add: readRequestBody_request)
  then show "\<forall>handler :: http_request \<Rightarrow> http_request. ServeHTTP handler True r = Handled (handler r)"
    by (simp add: ServeHTTP_def Let_def case_prod_beta)
qed

theorem guard_truncates_body_witness:
  "\<exists>handler :: http_request \<Rightarrow> http_request.
     ServeHTTP handler True \<lparr>rq_Method = ''POST'', rq_Path = ''/api/events/push'',
         rq_Body = Some \<lparr>b_Bytes = replicate 65537 (CHR ''x''), b_Err = None\<rparr>\<rparr> \<noteq>
       Handled (handler \<lparr>rq_Method = ''POST'', rq_Path = ''/api/events/push'',
         rq_Body = Some \<lparr>b_Bytes = replicate 65537 (CHR ''x''), b_Err = None\<rparr>\<rparr>)"
  using guard_truncates_body [of "\<lparr>rq_Method = ''POST'', rq_Path = ''/api/events/push'',
      rq_Body = Some \<lparr>b_Bytes = replicate 65537 (CHR ''x''), b_Err = None\<rparr>\<rparr>" "replicate 65537 (CHR ''x'')"]
  by simp

text \<open>
  The life of the sensor's node. Registration succeeds when the store accepts the three entities, leaves the node and both
  types in the model, and closing removes the node and keeps the types; closing twice reports that
  the node is not found. Closing a nil identity does nothing.
\<close>

theorem sensor_register_close:
  assumes "store_laws M" and "accepts M MNodeType" and "accepts M MNode" and "accepts M MContextType"
    and "(r, m1) = Register M nodeID m" and "(e, m2) = Close M (Some nodeID) m1"
  shows "r = Inr nodeID \<and> mGet M MNode nodeID m1 = Some (ENode (sensor_node nodeID)) \<and>
    mGet M MNodeType K8sSensorNodeTypeID m1 = Some (ENodeType sensor_node_type) \<and>
    mGet M MContextType K8sNamespaceContextTypeID m1 = Some (EContextType namespace_context_type) \<and>
    e = None \<and> mGet M MNode nodeID m2 = None \<and>
    mGet M MNodeType K8sSensorNodeTypeID m2 = Some (ENodeType sensor_node_type) \<and>
    fst (Close M (Some nodeID) m2) = Some (ErrEntityNotFound MNode) \<and> Close M None m2 = (None, m2)"
proof -
  have add: "\<exists>m'. mAdd M x n = (None, m')" if "accepts M (kind_of x)" for x n
    using accepts_add [OF that, of n] by (metis prod.collapse)
  obtain a where a: "mAdd M (ENodeType sensor_node_type) m = (None, a)" using add [of "ENodeType sensor_node_type"] assms(2) by auto
  obtain b where b: "mAdd M (ENode (sensor_node nodeID)) a = (None, b)" using add [of "ENode (sensor_node nodeID)"] assms(3) by auto
  obtain c where c: "mAdd M (EContextType namespace_context_type) b = (None, c)"
    using add [of "EContextType namespace_context_type"] assms(4) by auto
  have ids: "mt_Id sensor_node_type = K8sSensorNodeTypeID" "node_Id (sensor_node nodeID) = nodeID"
    "mt_Id namespace_context_type = K8sNamespaceContextTypeID"
    by (simp_all add: sensor_node_type_def sensor_node_def namespace_context_type_def)
  have r: "r = Inr nodeID" "m1 = c" using assms(5) by (simp_all add: Register_def a b c)
  have nt: "mGet M MNodeType K8sSensorNodeTypeID c = Some (ENodeType sensor_node_type)"
    and nd: "mGet M MNode nodeID c = Some (ENode (sensor_node nodeID))"
    and ct: "mGet M MContextType K8sNamespaceContextTypeID c = Some (EContextType namespace_context_type)"
    using store_add_get [OF assms(1) a] store_add_get [OF assms(1) b] store_add_get [OF assms(1) c]
      store_add_frame [OF assms(1) b, of MNodeType K8sSensorNodeTypeID] store_add_frame [OF assms(1) c, of MNodeType K8sSensorNodeTypeID]
      store_add_frame [OF assms(1) c, of MNode nodeID]
    by (simp_all add: ids)
  have e: "e = None" "m2 = snd (mDelete M MNode nodeID c)"
    using assms(6) nd store_delete_result [OF assms(1), of MNode nodeID c] r(2)
    by (metis Close_def fst_conv option.case(2) option.distinct(1), metis Close_def snd_conv option.case(2))
  then show ?thesis
    using r nt nd ct store_delete_get [OF assms(1), of MNode nodeID c] store_delete_result [OF assms(1), of MNode nodeID m2]
      store_delete_frame [OF assms(1), of MNodeType K8sSensorNodeTypeID MNode nodeID c]
    by (simp add: Close_def)
qed

theorem sensor_register_close_witness:
  "mGet mem_store MNode 4 (snd (Close mem_store (Some 4) (snd (Register mem_store 4 [])))) = None"
  using sensor_register_close [OF mem_store_laws mem_store_accepts mem_store_accepts mem_store_accepts,
      of "fst (Register mem_store 4 [])" "snd (Register mem_store 4 [])" 4 "[]"
        "fst (Close mem_store (Some 4) (snd (Register mem_store 4 [])))" "snd (Close mem_store (Some 4) (snd (Register mem_store 4 [])))"]
  by simp

end
