(* ===== verification/Startup.thy ===== *)
theory Startup
  imports Sensor Image_Scan Crd_Check Whitelist
begin

text \<open>
  \<open>cmd/subscribers.go\<close> and the helpers of \<open>cmd/main.go\<close>: the list of replication subscribers and their registration,
  settings from the environment, the whitelist, the CRD check and the finding types registered at
  start-up. \<open>os.Exit(1)\<close> is the value None. The event manager is a state \<open>'e\<close> with the method \<open>AddSubscriber\<close> as
  an argument; the probes and the inspection of the URLs, which only log, are in the theory \<open>Diagnostics\<close>.
\<close>

section \<open>Subscribers\<close>

definition parseCommaSeparatedList :: "string \<Rightarrow> string list" where
  "parseCommaSeparatedList raw =
     (if TrimSpace raw = [] then []
      else fold (\<lambda>part out. (let s = TrimSpace part in if s \<noteq> [] then out @ [s] else out)) (Split raw (CHR '','')) [])"

fun add_subscribers :: "(string \<Rightarrow> 'e \<Rightarrow> error option \<times> 'e) \<Rightarrow> string list \<Rightarrow> 'e \<Rightarrow> error option \<times> 'e" where
  "add_subscribers AddSubscriber [] e = (None, e)"
| "add_subscribers AddSubscriber (raw # urls) e =
     (case AddSubscriber raw e of
        (Some err, e') \<Rightarrow> (Some (ErrWrap (''register subscriber '' @ goQuote raw @ '': '') err), e')
      | (None, e') \<Rightarrow> add_subscribers AddSubscriber urls e')"

definition registerSubscribers :: "(string \<Rightarrow> 'e \<Rightarrow> error option \<times> 'e) \<Rightarrow> string \<Rightarrow> 'e \<Rightarrow> error option \<times> 'e" where
  "registerSubscribers AddSubscriber rawFlag e =
     (let urls = parseCommaSeparatedList rawFlag
      in if length urls = 0 then (None, e) else add_subscribers AddSubscriber urls e)"

section \<open>Settings\<close>

definition envOrDefault :: "(string \<Rightarrow> string option) \<Rightarrow> string \<Rightarrow> string \<Rightarrow> string" where
  "envOrDefault LookupEnv key fallback = (case LookupEnv key of Some v \<Rightarrow> v | None \<Rightarrow> fallback)"

definition mustLoadRBACWhitelist ::
    "(string \<Rightarrow> error + string) \<Rightarrow> (string \<Rightarrow> error + RBACWhitelist) \<Rightarrow> string \<Rightarrow> RBACWhitelist option" where
  "mustLoadRBACWhitelist ReadFile Unmarshal path =
     (case LoadRBACWhitelist ReadFile Unmarshal path of Inl err \<Rightarrow> None | Inr wl \<Rightarrow> Some wl)"

text \<open>
  \<open>client\<close> is the error of creating the discovery client, \<open>err\<close> and \<open>rls\<close> what discovery answers. The
  outer None is \<open>os.Exit(1)\<close>, the inner one the nil reporter.
\<close>

definition runCRDCheck ::
    "error option \<Rightarrow> error option \<Rightarrow> APIResourceList option list option \<Rightarrow> string \<Rightarrow> uuid \<Rightarrow> Reporter option option" where
  "runCRDCheck client err rls crdChecklistRaw nodeID =
     (case (if crdChecklistRaw \<noteq> [] then ParseChecklist crdChecklistRaw else Inr DefaultChecklist) of
        Inl e \<Rightarrow> None
      | Inr checklist \<Rightarrow>
          (case client of
             Some e \<Rightarrow> Some None
           | None \<Rightarrow> Some (Some (NewReporter (Check err rls checklist) nodeID))))"

definition mustRegisterFindingTypes :: "'m modelsrv \<Rightarrow> lib \<Rightarrow> 'm \<Rightarrow> 'm option" where
  "mustRegisterFindingTypes M L m =
     (case RegisterRBACFindingTypes M m of
        (Some err, m1) \<Rightarrow> None
      | (None, m1) \<Rightarrow>
          (case RegisterReferenceFindingTypes M L m1 of
             (Some err, m2) \<Rightarrow> None
           | (None, m2) \<Rightarrow>
               (case RegisterImageFindingTypes M L m2 of (Some err, m3) \<Rightarrow> None | (None, m3) \<Rightarrow> Some m3)))"

section \<open>Properties\<close>

lemma strip_front_removed: "\<exists>p. s = p @ strip_front ws s \<and> set p \<subseteq> \<Union> (set ` set ws)"
proof (induction ws s rule: strip_front.induct)
  case (1 ws s)
  show ?case
  proof (cases "find (\<lambda>w. w \<noteq> [] \<and> HasPrefix s w) ws")
    case None
    then have "strip_front ws s = s" by (subst strip_front.simps) simp
    then show ?thesis by (intro exI [of _ "[]"]) simp
  next
    case (Some v)
    with "1.IH" obtain p where p: "drop (length v) s = p @ strip_front ws (drop (length v) s)" "set p \<subseteq> \<Union> (set ` set ws)"
      by blast
    have v: "take (length v) s = v" "v \<in> set ws" using Some by (auto simp: find_Some_iff HasPrefix_def)
    have "s = (v @ p) @ strip_front ws (drop (length v) s)"
      using p(1) v(1) by (metis append.assoc append_take_drop_id)
    moreover have "strip_front ws s = strip_front ws (drop (length v) s)" using Some by (subst strip_front.simps) simp
    moreover have "set (v @ p) \<subseteq> \<Union> (set ` set ws)" using p(2) v(2) by auto
    ultimately show ?thesis by metis
  qed
qed

lemma TrimSpace_blank:
  assumes "TrimSpace s = []" and "c \<notin> \<Union> (set ` set space_encodings)"
  shows "c \<notin> set s"
proof -
  obtain p where p: "s = p @ strip_front space_encodings s" "set p \<subseteq> \<Union> (set ` set space_encodings)"
    using strip_front_removed by blast
  let ?t = "strip_front space_encodings s"
  obtain q where q: "rev ?t = q @ strip_front (map rev space_encodings) (rev ?t)" "set q \<subseteq> \<Union> (set ` set (map rev space_encodings))"
    using strip_front_removed by blast
  have "set ?t = set q" using q(1) assms(1) by (metis TrimSpace_def append_Nil2 rev_is_Nil_conv set_rev)
  moreover have "\<Union> (set ` set (map rev space_encodings)) = \<Union> (set ` set space_encodings)" by simp
  ultimately have "c \<notin> set ?t" "c \<notin> set p" using assms(2) p(2) q(2) by auto
  then show ?thesis using p(1) by (metis Un_iff set_append)
qed

lemma comma_no_space: "CHR '','' \<notin> \<Union> (set ` set space_encodings)"
  by (simp add: space_encodings_def ascii_spaces_def wide_spaces_def)

lemma fold_nonempty:
  "fold (\<lambda>part out. (let s = TrimSpace part in if s \<noteq> [] then out @ [s] else out)) parts out =
     out @ filter (\<lambda>s. s \<noteq> []) (map TrimSpace parts)"
  by (induction parts arbitrary: out) (simp_all add: Let_def)

lemma parse_list_filter:
  "parseCommaSeparatedList raw = filter (\<lambda>s. s \<noteq> []) (map TrimSpace (Split raw (CHR '','')))"
proof (cases "TrimSpace raw = []")
  case True
  then have "Split raw (CHR '','') = [raw]" by (intro Split_no_sep TrimSpace_blank comma_no_space)
  with True show ?thesis by (simp add: parseCommaSeparatedList_def)
qed (simp add: parseCommaSeparatedList_def fold_nonempty)

text \<open>The state after the first \<open>n\<close> of the URLs were added.\<close>

definition added :: "(string \<Rightarrow> 'e \<Rightarrow> error option \<times> 'e) \<Rightarrow> string list \<Rightarrow> nat \<Rightarrow> 'e \<Rightarrow> 'e" where
  "added add urls n e = fold (\<lambda>u s. snd (add u s)) (take n urls) e"

lemma add_subscribers_run:
  "\<exists>n \<le> length urls. snd (add_subscribers add urls e) = added add urls n e \<and>
     (if fst (add_subscribers add urls e) = None then n = length urls
      else 0 < n \<and> fst (add (urls ! (n - 1)) (added add urls (n - 1) e)) \<noteq> None)"
proof (induction urls arbitrary: e)
  case (Cons u urls)
  obtain r e' where a: "add u e = (r, e')" by (cases "add u e")
  show ?case
  proof (cases r)
    case None
    from Cons [of e'] obtain n where n: "n \<le> length urls" "snd (add_subscribers add urls e') = added add urls n e'"
      "if fst (add_subscribers add urls e') = None then n = length urls
       else 0 < n \<and> fst (add (urls ! (n - 1)) (added add urls (n - 1) e')) \<noteq> None" by blast
    have shift: "0 < n \<Longrightarrow> (u # urls) ! n = urls ! (n - 1)" "0 < n \<Longrightarrow> added add (u # urls) n e = added add urls (n - 1) e'"
      "added add (u # urls) (Suc n) e = added add urls n e'"
      using a by (cases n; simp add: added_def)+
    then show ?thesis using n a None by (intro exI [of _ "Suc n"]) (auto split: if_splits)
  next
    case (Some err)
    then show ?thesis using a by (intro exI [of _ 1]) (simp add: added_def)
  qed
qed (simp add: added_def)

text \<open>
  Registration of the subscribers. The URLs are the trimmed non-empty parts between the commas of the setting, in
  order; they are added one after the other up to and including the first that is
  refused, and without a refusal all are added.
\<close>

theorem subscribers_registered:
  "\<exists>urls n. urls = filter (\<lambda>s. s \<noteq> []) (map TrimSpace (Split rawFlag (CHR '',''))) \<and> n \<le> length urls \<and>
     snd (registerSubscribers add rawFlag e) = added add urls n e \<and>
     (if fst (registerSubscribers add rawFlag e) = None then n = length urls
      else 0 < n \<and> fst (add (urls ! (n - 1)) (added add urls (n - 1) e)) \<noteq> None)"
proof -
  let ?urls = "filter (\<lambda>s. s \<noteq> []) (map TrimSpace (Split rawFlag (CHR '','')))"
  have "registerSubscribers add rawFlag e = add_subscribers add ?urls e"
    by (auto simp: registerSubscribers_def parse_list_filter Let_def)
  then show ?thesis using add_subscribers_run [of ?urls add e] by metis
qed

text \<open>
  The finding types of the sensor. When the store accepts finding types and the five ids are distinct, start-up
  does not exit and leaves all five well-known finding types in the model.
\<close>

theorem finding_types_at_startup:
  assumes "store_laws M" and "accepts M MFindingType"
    and "distinct [TypeIDForKind L ReferencedResourceNotFound, TypeIDForKind L MissingResourceReference,
       MissingRoleSpecAnnotationFindingTypeID, MissingSubjectAnnotationFindingTypeID, TypeIDForKind L ImageNotRetrieved]"
  shows "\<exists>m'. mustRegisterFindingTypes M L m = Some m' \<and>
     list_all (\<lambda>i. mGet M MFindingType i m' \<noteq> None)
       [TypeIDForKind L ReferencedResourceNotFound, TypeIDForKind L MissingResourceReference,
        MissingRoleSpecAnnotationFindingTypeID, MissingSubjectAnnotationFindingTypeID, TypeIDForKind L ImageNotRetrieved]"
proof -
  note rbac = add_all_ids [OF assms(1), of rbacFindingTypes]
    and refs = add_all_ids [OF assms(1), of "referenceFindingTypes L"]
  obtain m1 where m1: "RegisterRBACFindingTypes M m = (None, m1)"
    using rbac(1) [of m] assms(2,3) by (cases "RegisterRBACFindingTypes M m") (auto simp: RegisterRBACFindingTypes_def)
  obtain m2 where m2: "RegisterReferenceFindingTypes M L m1 = (None, m2)"
    using refs(1) [of m1] assms(2,3) by (cases "RegisterReferenceFindingTypes M L m1") (auto simp: RegisterReferenceFindingTypes_def)
  have "fst (RegisterImageFindingTypes M L m2) = None"
    unfolding RegisterImageFindingTypes_def using assms(2) by (intro accepts_add) simp
  then obtain m3 where m3: "RegisterImageFindingTypes M L m2 = (None, m3)" by (metis prod.collapse)
  have img: "mGet M MFindingType (TypeIDForKind L ImageNotRetrieved) m3 \<noteq> None"
    and keep: "i \<noteq> TypeIDForKind L ImageNotRetrieved \<Longrightarrow> mGet M MFindingType i m3 = mGet M MFindingType i m2" for i
    using store_add_get [OF assms(1) m3 [unfolded RegisterImageFindingTypes_def]]
      store_add_frame [OF assms(1) m3 [unfolded RegisterImageFindingTypes_def], of MFindingType i] by simp_all
  have "mGet M MFindingType i m1 \<noteq> None" if "i \<in> {MissingRoleSpecAnnotationFindingTypeID, MissingSubjectAnnotationFindingTypeID}" for i
    using rbac(2) [of MFindingType i m] assms(2,3) that m1 by (auto simp: RegisterRBACFindingTypes_def)
  then have "mGet M MFindingType i m2 \<noteq> None" if "i \<in> {TypeIDForKind L ReferencedResourceNotFound, TypeIDForKind L MissingResourceReference,
       MissingRoleSpecAnnotationFindingTypeID, MissingSubjectAnnotationFindingTypeID}" for i
    using refs(2) [of MFindingType i m1] refs(3) [of MFindingType i m1] assms(2,3) that m2
    by (auto simp: RegisterReferenceFindingTypes_def)
  then show ?thesis using img keep assms(3) by (simp add: mustRegisterFindingTypes_def m1 m2 m3)
qed

theorem finding_types_at_startup_witness:
  "mustRegisterFindingTypes mem_store mem_lib [] \<noteq> None"
proof -
  have "distinct [TypeIDForKind mem_lib ReferencedResourceNotFound, TypeIDForKind mem_lib MissingResourceReference,
       MissingRoleSpecAnnotationFindingTypeID, MissingSubjectAnnotationFindingTypeID, TypeIDForKind mem_lib ImageNotRetrieved]"
    by (simp add: mem_lib_def ReferencedResourceNotFound_def MissingResourceReference_def ImageNotRetrieved_def
        MissingRoleSpecAnnotationFindingTypeID_def MissingSubjectAnnotationFindingTypeID_def)
  then show ?thesis using finding_types_at_startup [OF mem_store_laws mem_store_accepts, of mem_lib "[]"] by auto
qed

end
