(* ===== verification/Endpoints.thy ===== *)
theory Endpoints
  imports Sensor Startup
begin

text \<open>
  The flags of \<open>cmd/main.go\<close> and what they set up: the options of the manager with its TLS settings and metrics server, the scheme of
  resource types, and the HTTP server of the model, which is guarded by \<open>ReplicationGuard\<close>. The handler of modelsrv,
  \<open>net.Listen\<close> and the manager itself are parameters.
\<close>

section \<open>Flags\<close>

record flags =
  fl_MetricsAddr :: string
  fl_APIAddr :: string
  fl_ProbeAddr :: string
  fl_LeaderElection :: bool
  fl_SecureMetrics :: bool
  fl_HTTP2 :: bool
  fl_AllowInboundPush :: bool
  fl_HelmReleaseScanning :: bool
  fl_SubscriberURLs :: string
  fl_RBACWhitelist :: string
  fl_CRDChecklist :: string

text \<open>The flags when none is given on the command line.\<close>

definition default_flags :: "(string \<Rightarrow> string option) \<Rightarrow> flags" where
  "default_flags LookupEnv =
     \<lparr>fl_MetricsAddr = ''0'', fl_APIAddr = envOrDefault LookupEnv ''API_ADDR'' '':8080'', fl_ProbeAddr = '':8081'',
      fl_LeaderElection = False, fl_SecureMetrics = True, fl_HTTP2 = False, fl_AllowInboundPush = False,
      fl_HelmReleaseScanning = (envOrDefault LookupEnv ''FEATURE_HELM_RELEASE_SCANNING'' ''true'' = ''true''),
      fl_SubscriberURLs = envOrDefault LookupEnv ''SUBSCRIBER_URLS'' [],
      fl_RBACWhitelist = envOrDefault LookupEnv ''RBAC_WHITELIST'' [],
      fl_CRDChecklist = envOrDefault LookupEnv ''CRD_CHECKLIST'' []\<rparr>"

section \<open>The scheme\<close>

text \<open>
  The builder collects the types that each file of the package registers when it is initialised, under one group and version.
\<close>

definition GroupVersion :: "string \<times> string" where
  "GroupVersion = (''structure.emeland.io'', ''v1alpha1'')"

definition API_init :: "string list \<Rightarrow> string list" where
  "API_init SchemeBuilder = SchemeBuilder @ [''API'', ''APIList'']"

definition Component_init :: "string list \<Rightarrow> string list" where
  "Component_init SchemeBuilder = SchemeBuilder @ [''Component'', ''ComponentList'']"

definition FindingRule_init :: "string list \<Rightarrow> string list" where
  "FindingRule_init SchemeBuilder = SchemeBuilder @ [''FindingRule'', ''FindingRuleList'']"

definition System_init :: "string list \<Rightarrow> string list" where
  "System_init SchemeBuilder = SchemeBuilder @ [''System'', ''SystemList'']"

definition SystemInstance_init :: "string list \<Rightarrow> string list" where
  "SystemInstance_init SchemeBuilder = SchemeBuilder @ [''SystemInstance'', ''SystemInstanceList'']"

text \<open>The files are initialised in the order of their names.\<close>

definition SchemeBuilder :: "string list" where
  "SchemeBuilder = SystemInstance_init (System_init (FindingRule_init (Component_init (API_init []))))"

text \<open>
  A scheme is a set of kinds with group and version. \<open>builtin\<close> is what \<open>clientgoscheme.AddToScheme\<close> adds; \<open>utilruntime.Must\<close> panics
  when one of the two steps fails, which is None.
\<close>

definition AddToScheme :: "((string \<times> string) \<times> string) list \<Rightarrow> ((string \<times> string) \<times> string) list" where
  "AddToScheme scheme = scheme @ map (\<lambda>k. (GroupVersion, k)) SchemeBuilder"

definition init_scheme :: "error + ((string \<times> string) \<times> string) list \<Rightarrow> ((string \<times> string) \<times> string) list option" where
  "init_scheme builtin = (case builtin of Inl err \<Rightarrow> None | Inr kinds \<Rightarrow> Some (AddToScheme kinds))"

section \<open>The manager\<close>

record tls_config =
  tc_NextProtos :: "string list"

definition disableHTTP2 :: "tls_config \<Rightarrow> tls_config" where
  "disableHTTP2 c = c\<lparr>tc_NextProtos := [''http/1.1'']\<rparr>"

definition tlsOpts :: "bool \<Rightarrow> (tls_config \<Rightarrow> tls_config) list" where
  "tlsOpts enableHTTP2 = (if \<not> enableHTTP2 then [] @ [disableHTTP2] else [])"

text \<open>A server applies its options in order to its own configuration.\<close>

definition apply_tls :: "(tls_config \<Rightarrow> tls_config) list \<Rightarrow> tls_config \<Rightarrow> tls_config" where
  "apply_tls opts c = fold (\<lambda>f. f) opts c"

datatype filter_provider = WithAuthenticationAndAuthorization

record metrics_options =
  mo_BindAddress :: string
  mo_SecureServing :: bool
  mo_TLSOpts :: "(tls_config \<Rightarrow> tls_config) list"
  mo_FilterProvider :: "filter_provider option"

definition metricsServerOptions :: "flags \<Rightarrow> metrics_options" where
  "metricsServerOptions fl =
     (let options = \<lparr>mo_BindAddress = fl_MetricsAddr fl, mo_SecureServing = fl_SecureMetrics fl, mo_TLSOpts = tlsOpts (fl_HTTP2 fl),
            mo_FilterProvider = None\<rparr>
      in if fl_SecureMetrics fl then options\<lparr>mo_FilterProvider := Some WithAuthenticationAndAuthorization\<rparr> else options)"

record manager_options =
  mg_Metrics :: metrics_options
  mg_WebhookTLSOpts :: "(tls_config \<Rightarrow> tls_config) list"
  mg_HealthProbeBindAddress :: string
  mg_LeaderElection :: bool
  mg_LeaderElectionID :: string

definition managerOptions :: "flags \<Rightarrow> manager_options" where
  "managerOptions fl =
     \<lparr>mg_Metrics = metricsServerOptions fl, mg_WebhookTLSOpts = tlsOpts (fl_HTTP2 fl), mg_HealthProbeBindAddress = fl_ProbeAddr fl,
      mg_LeaderElection = fl_LeaderElection fl, mg_LeaderElectionID = ''64445a55.emeland.io''\<rparr>"

section \<open>The API server\<close>

text \<open>\<open>NewHandler\<close> is the handler of modelsrv for a base URL; \<open>Listen\<close> gives the address that was bound.\<close>

record 'r api_server =
  srv_Addr :: string
  srv_Handler :: "http_request \<Rightarrow> 'r response"

definition startAPIServer ::
    "(string \<Rightarrow> error + string) \<Rightarrow> (string \<Rightarrow> http_request \<Rightarrow> 'r) \<Rightarrow> string \<Rightarrow> bool \<Rightarrow> error + 'r api_server" where
  "startAPIServer Listen NewHandler addr allowInboundPush =
     (case Listen addr of
        Inl err \<Rightarrow> Inl (ErrWrap (''listen '' @ addr @ '': '') err)
      | Inr ln \<Rightarrow>
          (let baseURL = ''http://'' @ ln @ ''/api'';
               handler = NewHandler baseURL
           in Inr \<lparr>srv_Addr = ln, srv_Handler = ServeHTTP handler allowInboundPush\<rparr>))"

text \<open>The goroutine of the server ends with \<open>Serve\<close>: does the process exit with it? \<open>closed\<close> is \<open>http.ErrServerClosed\<close>.\<close>

definition serve_exits :: "error \<Rightarrow> error option \<Rightarrow> bool" where
  "serve_exits closed err = (case err of None \<Rightarrow> False | Some e \<Rightarrow> e \<noteq> closed)"

section \<open>Properties\<close>



text \<open>A server that is shut down does not take the process with it; any other end of it does.\<close>

lemma shutdown_is_clean: "\<not> serve_exits closed (Some closed)" "e \<noteq> closed \<Longrightarrow> serve_exits closed (Some e)"
  by (simp_all add: serve_exits_def)

text \<open>The kinds of the CRD controllers and of the rule watcher, and their lists, are in the scheme under the group of the CRDs.\<close>

lemma scheme_has_resources:
  assumes "init_scheme builtin = Some scheme" and "k \<in> {''System'', ''API'', ''Component'', ''SystemInstance'', ''FindingRule''}"
  shows "(GroupVersion, k) \<in> set scheme" and "(GroupVersion, k @ ''List'') \<in> set scheme"
  using assms by (auto simp: init_scheme_def AddToScheme_def SchemeBuilder_def API_init_def Component_init_def FindingRule_init_def
      System_init_def SystemInstance_init_def split: sum.splits)

end
