(* ===== verification/Main_Loop.thy ===== *)
theory Main_Loop
  imports Footprints Endpoints
begin

text \<open>
  The whole program: \<open>main\<close> of \<open>cmd/main.go\<close>. \<open>main_start\<close> is the part up to \<open>mgr.Start\<close>; None is \<open>os.Exit(1)\<close>.
  Then the manager calls the handlers of all controllers on one model, one name index and one rule
  registry, in any order: \<open>sensor_step\<close> is the call of one handler, \<open>run_sensor\<close> a sequence of calls. Each handler runs
  to its end before the next one starts. What lies outside the program is the record \<open>deps\<close>.
\<close>

section \<open>State\<close>

record 'm sensor =
  sModel :: 'm
  sIndex :: NameIndex
  sRules :: RuleRepo
  sQueue :: "binding_kind \<Rightarrow> NamespacedName list"
  sCluster :: uuid
  sReporter :: "Reporter option"
  sRevisions :: "(string, go_int) fmap"

record ('m, 'b) deps =
  dModel :: "'m modelsrv"
  dLib :: lib
  dConv :: "'b converter"
  dCel :: celenv
  dCodec :: codec
  dJson :: "string list \<Rightarrow> error + string"
  dRange :: range_order

text \<open>What the controllers get from the flags: the whitelist, and whether there is a Helm controller.\<close>

record settings =
  cfWhitelist :: "RBACWhitelist option"
  cfHelm :: bool

text \<open>The part of the state that a controller holds pointers to.\<close>

definition world_of :: "'m sensor \<Rightarrow> 'm world" where
  "world_of s = \<lparr>wModel = sModel s, wIndex = sIndex s\<rparr>"

definition put_world :: "'m sensor \<Rightarrow> 'm world \<Rightarrow> 'm sensor" where
  "put_world s w = s\<lparr>sModel := wModel w, sIndex := wIndex w\<rparr>"

definition rbac_of :: "'m sensor \<Rightarrow> 'm rbac" where
  "rbac_of s = \<lparr>rbModel = sModel s, rbIndex = sIndex s, rbQueue = sQueue s\<rparr>"

definition put_rbac :: "'m sensor \<Rightarrow> 'm rbac \<Rightarrow> 'm sensor" where
  "put_rbac s r = s\<lparr>sModel := rbModel r, sIndex := rbIndex r, sQueue := rbQueue r\<rparr>"

definition ns_of :: "'m sensor \<Rightarrow> 'm ns_world" where
  "ns_of s = \<lparr>nsModel = sModel s, nsIndex = sIndex s, nsCluster = sCluster s, nsReporter = sReporter s\<rparr>"

definition put_ns :: "'m sensor \<Rightarrow> 'm ns_world \<Rightarrow> 'm sensor" where
  "put_ns s n = s\<lparr>sModel := nsModel n, sIndex := nsIndex n, sCluster := nsCluster n, sReporter := nsReporter n\<rparr>"

definition helm_of :: "'m sensor \<Rightarrow> 'm helm_state" where
  "helm_of s = \<lparr>hWorld = world_of s, latestRevision = sRevisions s\<rparr>"

definition put_helm :: "'m sensor \<Rightarrow> 'm helm_state \<Rightarrow> 'm sensor" where
  "put_helm s h = (put_world s (hWorld h))\<lparr>sRevisions := latestRevision h\<rparr>"

section \<open>One call of a handler\<close>

datatype role_kind = RoleKind | ClusterRoleKind

fun role_kind_name :: "role_kind \<Rightarrow> string" where
  "role_kind_name RoleKind = ''Role''"
| "role_kind_name ClusterRoleKind = ''ClusterRole''"

text \<open>
  A call with what the API server answers to it. \<open>Requeued\<close> is a name that the binding controller takes out of its
  channel, \<open>FallbackStart\<close> and \<open>HelmPopulate\<close> are the runnables of the manager.
\<close>

datatype 'b sensor_event =
    Landscape "'b request"
  | RoleEvent role_kind NamespacedName "ObjectMeta get_result"
  | BindingEvent binding_kind NamespacedName "RoleBinding get_result"
  | Requeued binding_kind "RoleBinding get_result"
  | NamespaceEvent NamespacedName "'b object get_result"
  | FallbackStart "unit get_result"
  | HelmEvent NamespacedName "Secret get_result"
  | HelmPopulate "error + Secret list"
  | PodScan "error + Pod list"
  | RuleEvent watch_event

definition SetBindingReconciler :: "binding_kind list \<Rightarrow> binding_kind \<Rightarrow> binding_kind list" where
  "SetBindingReconciler bindingReconcilers rbc = bindingReconcilers @ [rbc]"

fun sensor_step :: "('m, 'b) deps \<Rightarrow> settings \<Rightarrow> 'b sensor_event \<Rightarrow> 'm sensor \<Rightarrow> 'm sensor" where
  "sensor_step D cf (Landscape q) s =
     put_world s (snd (dispatch (dModel D) (dLib D) (dConv D) (sRules s, q) (world_of s)))"
| "sensor_step D cf (RoleEvent rk nn g) s =
     put_rbac s (snd (RoleReconcile (dModel D) (dLib D) (dRange D) (cfWhitelist cf) (role_kind_name rk)
       (SetBindingReconciler (SetBindingReconciler [] RoleBindingKind) ClusterRoleBindingKind) nn g (rbac_of s)))"
| "sensor_step D cf (BindingEvent bk nn g) s =
     put_rbac s (snd (RoleBindingReconcile (dModel D) (dLib D) (cfWhitelist cf) bk nn g (rbac_of s)))"
| "sensor_step D cf (Requeued bk g) s =
     (case sQueue s bk of
        [] \<Rightarrow> s
      | nn # rest \<Rightarrow>
          put_rbac s (snd (RoleBindingReconcile (dModel D) (dLib D) (cfWhitelist cf) bk nn g
            ((rbac_of s)\<lparr>rbQueue := (sQueue s)(bk := rest)\<rparr>))))"
| "sensor_step D cf (NamespaceEvent nn g) s =
     put_ns s (snd (NamespaceReconcile (dModel D) (dLib D) (tuObject (dConv D))
       (Some (NewRuleEvaluation (sRules s) ''/namespaces'')) nn g (ns_of s)))"
| "sensor_step D cf (FallbackStart g) s =
     put_ns s (crdMissingFallback_Start (dModel D) (dLib D) g (ns_of s))"
| "sensor_step D cf (HelmEvent nn g) s =
     (if cfHelm cf then put_helm s (snd (HelmReleaseReconcile (dModel D) (dLib D) (dCodec D) nn g (helm_of s))) else s)"
| "sensor_step D cf (HelmPopulate secrets) s =
     (if cfHelm cf then put_helm s (snd (populateLatestRevisions secrets (helm_of s))) else s)"
| "sensor_step D cf (PodScan pods) s =
     put_world s (snd (ImageScanReconcile (dModel D) (dLib D) (dJson D) (dRange D) pods (world_of s)))"
| "sensor_step D cf (RuleEvent ev) s = s\<lparr>sRules := watcher_step (dCel D) ev (sRules s)\<rparr>"

fun run_sensor :: "('m, 'b) deps \<Rightarrow> settings \<Rightarrow> 'b sensor_event list \<Rightarrow> 'm sensor \<Rightarrow> 'm sensor" where
  "run_sensor D cf [] s = s"
| "run_sensor D cf (ev # evs) s = run_sensor D cf evs (sensor_step D cf ev s)"

inductive sensor_reach :: "('m, 'b) deps \<Rightarrow> settings \<Rightarrow> 'm sensor \<Rightarrow> 'm sensor \<Rightarrow> bool" for D cf s0 where
  reach_start: "sensor_reach D cf s0 s0"
| reach_step: "sensor_reach D cf s0 s \<Longrightarrow> sensor_reach D cf s0 (sensor_step D cf ev s)"

section \<open>Start-up\<close>

text \<open>
  What start-up meets outside: \<open>ctrl.NewManager\<close>, \<open>backend.New\<close>, the file system, \<open>uuid.New\<close>, the discovery client, the manager's answer to each
  \<open>SetupWithManager\<close>, \<open>Add\<close> and health check, \<open>net.Listen\<close> and the handler of modelsrv.
\<close>

record 'e surroundings =
  suManager :: "manager_options \<Rightarrow> error option"
  suBackend :: "error option"
  suAddSubscriber :: "string \<Rightarrow> 'e \<Rightarrow> error option \<times> 'e"
  suReadFile :: "string \<Rightarrow> error + string"
  suUnmarshal :: "string \<Rightarrow> error + RBACWhitelist"
  suNodeID :: uuid
  suClient :: "error option"
  suDiscoveryErr :: "error option"
  suResources :: "APIResourceList option list option"
  suSetup :: "string \<Rightarrow> error option"
  suListen :: "string \<Rightarrow> error + string"
  suEndpoint :: "string \<Rightarrow> http_request \<Rightarrow> string"

fun setup_all :: "(string \<Rightarrow> error option) \<Rightarrow> string list \<Rightarrow> error option" where
  "setup_all install [] = None"
| "setup_all install (n # ns) = (case install n of Some err \<Rightarrow> Some err | None \<Rightarrow> setup_all install ns)"

definition SetupCRDMissingFallback :: "(string \<Rightarrow> error option) \<Rightarrow> Reporter option \<Rightarrow> error option" where
  "SetupCRDMissingFallback add reporter = (case reporter of None \<Rightarrow> None | Some r \<Rightarrow> add ''CRDMissingFallback'')"

text \<open>The controllers of the tables of \<open>main\<close>, before and after the registration of the finding types, and the checks.\<close>

definition landscape_controllers :: "string list" where
  "landscape_controllers = [''System'', ''API'', ''Component'', ''SystemInstance'', ''Deployment'', ''StatefulSet'', ''DaemonSet'',
     ''CronJob'', ''Job'', ''Service'', ''Ingress'']"

definition cluster_controllers :: "string list" where
  "cluster_controllers = [''RoleBinding'', ''ClusterRoleBinding'', ''Role'', ''ClusterRole'', ''Namespace'']"

definition scan_controllers :: "bool \<Rightarrow> string list" where
  "scan_controllers helmReleaseScanning =
     [''ImageScan'', ''FindingRule''] @ (if helmReleaseScanning then [''HelmRelease''] else []) @ [''healthz'', ''readyz'']"

text \<open>Result: the settings, the id of the sensor's node, the state in which the manager starts and the event manager.\<close>

definition main_start ::
    "('m, 'b) deps \<Rightarrow> 'e surroundings \<Rightarrow> flags \<Rightarrow> 'm \<Rightarrow> 'e \<Rightarrow> (settings \<times> uuid \<times> 'm sensor \<times> 'e) option" where
  "main_start D U fl m e =
     (if suManager U (managerOptions fl) \<noteq> None \<or> suBackend U \<noteq> None then None
      else
     (case registerSubscribers (suAddSubscriber U) (fl_SubscriberURLs fl) e of
        (Some err, e1) \<Rightarrow> None
      | (None, e1) \<Rightarrow>
     (case mustLoadRBACWhitelist (suReadFile U) (suUnmarshal U) (fl_RBACWhitelist fl) of
        None \<Rightarrow> None
      | Some rbacWhitelist \<Rightarrow>
     (case Register (dModel D) (suNodeID U) m of
        (Inl err, m1) \<Rightarrow> None
      | (Inr sensorID, m1) \<Rightarrow>
     (case runCRDCheck (suClient U) (suDiscoveryErr U) (suResources U) (fl_CRDChecklist fl) sensorID of
        None \<Rightarrow> None
      | Some crdReporter \<Rightarrow>
          if setup_all (suSetup U) landscape_controllers \<noteq> None then None
          else
     (case mustRegisterFindingTypes (dModel D) (dLib D) m1 of
        None \<Rightarrow> None
      | Some m2 \<Rightarrow>
          if setup_all (suSetup U) cluster_controllers \<noteq> None
            \<or> SetupCRDMissingFallback (suSetup U) crdReporter \<noteq> None
            \<or> setup_all (suSetup U) (scan_controllers (fl_HelmReleaseScanning fl)) \<noteq> None
          then None
          else
     (case startAPIServer (suListen U) (suEndpoint U) (fl_APIAddr fl) (fl_AllowInboundPush fl) of
        Inl err \<Rightarrow> None
      | Inr apiServer \<Rightarrow>
          Some (\<lparr>cfWhitelist = Some rbacWhitelist, cfHelm = fl_HelmReleaseScanning fl\<rparr>, sensorID,
            \<lparr>sModel = m2, sIndex = NewNameIndex, sRules = NewRuleRepo, sQueue = (\<lambda>_. []), sCluster = uuid_Nil,
             sReporter = crdReporter, sRevisions = fmempty\<rparr>, e1))))))))"

text \<open>After the manager has stopped: the sensor takes its node out of the model.\<close>

definition main_stop :: "('m, 'b) deps \<Rightarrow> uuid \<Rightarrow> 'm sensor \<Rightarrow> error option \<times> 'm sensor" where
  "main_stop D sensorID s = (case Close (dModel D) (Some sensorID) (sModel s) of (err, m) \<Rightarrow> (err, s\<lparr>sModel := m\<rparr>))"

section \<open>Steps\<close>

lemma wired_by_SetBindingReconciler:
  "SetBindingReconciler (SetBindingReconciler [] RoleBindingKind) ClusterRoleBindingKind = wired_bindings"
  by (simp add: SetBindingReconciler_def wired_bindings_def)

lemma view_simps [simp]:
  "wModel (world_of s) = sModel s" "wIndex (world_of s) = sIndex s"
  "rbModel (rbac_of s) = sModel s" "rbIndex (rbac_of s) = sIndex s" "rbQueue (rbac_of s) = sQueue s"
  "nsModel (ns_of s) = sModel s" "nsIndex (ns_of s) = sIndex s" "nsCluster (ns_of s) = sCluster s" "nsReporter (ns_of s) = sReporter s"
  "hWorld (helm_of s) = world_of s" "latestRevision (helm_of s) = sRevisions s"
  "sModel (put_world s w) = wModel w" "sIndex (put_world s w) = wIndex w" "sQueue (put_world s w) = sQueue s"
  "sModel (put_rbac s r) = rbModel r" "sIndex (put_rbac s r) = rbIndex r" "sQueue (put_rbac s r) = rbQueue r"
  "sModel (put_ns s n) = nsModel n" "sIndex (put_ns s n) = nsIndex n" "sQueue (put_ns s n) = sQueue s"
  "sModel (put_helm s h) = wModel (hWorld h)" "sIndex (put_helm s h) = wIndex (hWorld h)" "sQueue (put_helm s h) = sQueue s"
  by (simp_all add: world_of_def rbac_of_def ns_of_def helm_of_def put_world_def put_rbac_def put_ns_def put_helm_def)

lemma populate_world [simp]: "hWorld (snd (populateLatestRevisions secrets h)) = hWorld h"
  by (simp add: populateLatestRevisions_def split: sum.splits)

lemma world_id [simp]: "put_world s (world_of s) = s"
  by (simp add: put_world_def world_of_def)

text \<open>
  The footprint of a call: the kinds of entities it adds, those it deletes and the kinds of names it writes to the index.
\<close>

fun event_adds :: "'b sensor_event \<Rightarrow> mkind set" where
  "event_adds (Landscape q) = {fst (req_slot (fmempty, q)), MFinding, MFindingType}"
| "event_adds (RoleEvent _ _ _) = {MRole, MFinding}"
| "event_adds (BindingEvent _ _ _) = {MBinding, MFinding}"
| "event_adds (Requeued _ _) = {MBinding, MFinding}"
| "event_adds (NamespaceEvent _ _) = {MContext, MFinding, MFindingType}"
| "event_adds (FallbackStart _) = {MFinding, MFindingType}"
| "event_adds (HelmEvent _ _) = helm_kinds"
| "event_adds (PodScan _) = image_kinds"
| "event_adds _ = {}"

fun event_deletes :: "'b sensor_event \<Rightarrow> mkind set" where
  "event_deletes (Landscape q) = {fst (req_slot (fmempty, q)), MFinding}"
| "event_deletes (RoleEvent _ _ _) = {MRole, MFinding}"
| "event_deletes (BindingEvent _ _ _) = {MBinding, MFinding}"
| "event_deletes (Requeued _ _) = {MBinding, MFinding}"
| "event_deletes (NamespaceEvent _ _) = {MContext, MFinding}"
| "event_deletes (HelmEvent _ _) = {MSystemInstance, MFinding}"
| "event_deletes (PodScan _) = image_kinds"
| "event_deletes _ = {}"

fun event_names :: "'b sensor_event \<Rightarrow> ResourceKind set" where
  "event_names (Landscape q) = {index_kind (fst (req_slot (fmempty, q)))}"
| "event_names (RoleEvent _ _ _) = {KindRole}"
| "event_names (BindingEvent _ _ _) = {KindBinding}"
| "event_names (Requeued _ _) = {KindBinding}"
| "event_names (NamespaceEvent _ _) = {KindContext}"
| "event_names (HelmEvent _ _) = {KindSystemInstance}"
| "event_names (PodScan _) = {KindArtifact, KindArtifactInstance}"
| "event_names _ = {}"

lemma slot_repo: "req_slot (repo, q) = req_slot (fmempty, q)"
  by (cases q) simp_all

lemma step_touched:
  assumes "store_laws (dModel D)" and "accepts (dModel D) MFindingType"
  shows "touched (dModel D) (dLib D) (event_adds ev) (event_deletes ev) (sModel s) (sModel (sensor_step D cf ev s))"
proof (cases ev)
  case (Landscape q)
  then show ?thesis
    using dispatch_touched [OF assms(1) refl, where q = "(sRules s, q)" and L = "dLib D" and w = "world_of s" and C = "dConv D"]
      slot_repo [of "sRules s" q] by simp
next
  case (RoleEvent rk nn g)
  then show ?thesis using role_touched [of "dModel D" "dLib D" "rbac_of s"] by simp
next
  case (BindingEvent bk nn g)
  then show ?thesis using binding_touched [of "dModel D" "dLib D" "rbac_of s"] by simp
next
  case (Requeued bk g)
  then show ?thesis
    using binding_touched [of "dModel D" "dLib D" "(rbac_of s)\<lparr>rbQueue := q\<rparr>" for q]
    by (auto intro: touched_refl split: list.splits)
next
  case (NamespaceEvent nn g)
  then show ?thesis using namespace_touched [OF assms, of "dLib D" "ns_of s"] by simp
next
  case (FallbackStart g)
  then show ?thesis using fallback_touched [OF assms, of "dLib D" "ns_of s" g] by simp
next
  case (HelmEvent nn g)
  then show ?thesis using helm_touched [OF assms(1), of "dLib D" "helm_of s"] by (simp add: touched_refl)
next
  case (PodScan pods)
  then show ?thesis using image_scan_touched [of "dModel D" "dLib D" "world_of s"] by simp
qed (simp_all add: touched_refl)

lemma step_index:
  assumes "k \<notin> event_names ev"
  shows "Get (sIndex (sensor_step D cf ev s)) k = Get (sIndex s) k"
proof (cases ev)
  case (Landscape q)
  with assms have "k \<noteq> index_kind (fst (req_slot (sRules s, q)))" by (simp add: slot_repo [of "sRules s" q])
  then show ?thesis using Landscape dispatch_index [where w = "world_of s"] by simp
qed (use assms in \<open>auto simp: role_index binding_index namespace_index helm_index image_scan_index split: list.splits\<close>)

lemma step_waits:
  "\<not> (\<exists>rk nn g. ev = RoleEvent rk nn g) \<Longrightarrow> \<not> (\<exists>bk nn g. ev = BindingEvent bk nn g) \<Longrightarrow> \<not> (\<exists>bk g. ev = Requeued bk g) \<Longrightarrow>
   waits (sIndex (sensor_step D cf ev s)) = waits (sIndex s)"
  by (cases ev) (auto simp: waits_untouched helm_waits)

text \<open>All calls together.\<close>

definition sensor_kinds :: "mkind set" where
  "sensor_kinds = landscape_kinds \<union> {MRole, MBinding, MContext, MArtifact, MArtifactInstance, MFinding, MFindingType}"

definition deleted_kinds :: "mkind set" where
  "deleted_kinds = landscape_kinds \<union> {MRole, MBinding, MContext, MArtifact, MArtifactInstance, MFinding}"

lemma event_kinds: "event_adds ev \<subseteq> sensor_kinds" "event_deletes ev \<subseteq> deleted_kinds"
proof -
  have "event_adds ev \<subseteq> sensor_kinds \<and> event_deletes ev \<subseteq> deleted_kinds"
  proof (cases ev)
    case (Landscape q)
    then show ?thesis
      using landscape.slot_kind [of "(fmempty, q)"] by (simp add: sensor_kinds_def deleted_kinds_def)
  next
    case (HelmEvent nn g)
    then show ?thesis by (simp add: sensor_kinds_def deleted_kinds_def landscape_kinds_def)
  qed (simp_all add: sensor_kinds_def deleted_kinds_def)
  then show "event_adds ev \<subseteq> sensor_kinds" "event_deletes ev \<subseteq> deleted_kinds" by simp_all
qed

lemma reach_touched:
  assumes "store_laws (dModel D)" and "accepts (dModel D) MFindingType" and "sensor_reach D cf s0 s"
  shows "touched (dModel D) (dLib D) sensor_kinds deleted_kinds (sModel s0) (sModel s)"
  using assms(3) 
proof induction
  case (reach_step s ev)
  show ?case
    by (rule touched_trans [OF touched_mono [OF step_touched [OF assms(1,2)] event_kinds] reach_step.IH])
qed (rule touched_refl)

lemma run_reach: "sensor_reach D cf s0 s \<Longrightarrow> sensor_reach D cf s0 (run_sensor D cf evs s)"
  by (induction evs arbitrary: s) (auto intro: sensor_reach.intros)

end
