(* ===== verification/Sensor_Invariants.thy ===== *)
theory Sensor_Invariants
  imports Main_Loop
begin

text \<open>
  What holds in every state the running sensor can reach: the invariants of the model, the references between its entities,
  the bounds of the requeue channels and that they drain, and that a binding is linked to a role that arrives late.
\<close>

section \<open>The state after start-up\<close>

lemma add_all_present:
  assumes "store_laws M" and "add_all M es m = (None, m')" and "e \<in> set es" and "kind_of e \<noteq> MFinding"
  shows "mGet M (kind_of e) (id_of e) m' \<noteq> None"
  using assms(2,3)
proof (induction es arbitrary: m)
  case (Cons x es)
  obtain m1 where m1: "mAdd M x m = (None, m1)" "add_all M es m1 = (None, m')"
    using Cons.prems(1) by (auto split: prod.splits option.splits)
  show ?case
  proof (cases "e \<in> set es")
    case True
    then show ?thesis by (rule Cons.IH [OF m1(2)])
  next
    case False
    with Cons.prems(2) have "mGet M (kind_of e) (id_of e) m1 \<noteq> None" using store_add_get [OF assms(1) m1(1)] by auto
    moreover have "mGet M k i m'' \<noteq> None" if "mGet M k i n \<noteq> None" "add_all M xs n = (None, m'')" "k \<noteq> MFinding" for k i n xs m''
      using that
    proof (induction xs arbitrary: n)
      case (Cons y ys)
      then show ?case using add_keeps [OF assms(1), of k i n y] by (auto split: prod.splits option.splits)
    qed simp
    ultimately show ?thesis using m1(2) assms(4) by blast
  qed
qed simp

lemma add_all_touched:
  "list_all (\<lambda>e. kind_of e = MFindingType) es \<Longrightarrow> touched M L K D m0 m \<Longrightarrow> MFindingType \<in> K \<Longrightarrow>
   touched M L K D m0 (snd (add_all M es m))"
proof (induction es arbitrary: m)
  case (Cons e es)
  then have "touched M L K D m0 (snd (mAdd M e m))" by (cases e) (auto intro!: touched_add)
  with Cons show ?case by (auto simp: case_prod_beta split: option.splits)
qed simp

lemma finding_types_startup:
  assumes "store_laws M" and "mustRegisterFindingTypes M L m = Some m'"
  shows "touched M L {MFindingType} {} m m'"
    and "t \<in> set (well_known_types L) \<Longrightarrow> mGet M MFindingType t m' \<noteq> None"
proof -
  obtain m1 m2 where m1: "add_all M rbacFindingTypes m = (None, m1)" and m2: "add_all M (referenceFindingTypes L) m1 = (None, m2)"
    and m3: "RegisterImageFindingTypes M L m2 = (None, m')"
    using assms(2) by (auto simp: mustRegisterFindingTypes_def RegisterRBACFindingTypes_def RegisterReferenceFindingTypes_def
        split: prod.splits option.splits)
  have lists: "list_all (\<lambda>e. kind_of e = MFindingType) rbacFindingTypes" "list_all (\<lambda>e. kind_of e = MFindingType) (referenceFindingTypes L)"
    by (simp_all add: rbacFindingTypes_def referenceFindingTypes_def)
  have t1: "touched M L {MFindingType} {} m m1" and t2: "touched M L {MFindingType} {} m1 m2"
    using add_all_touched [OF lists(1) touched_refl, of "{MFindingType}" M L "{}" m]
      add_all_touched [OF lists(2) touched_refl, of "{MFindingType}" M L "{}" m1] by (simp_all add: m1 m2)
  have t3: "touched M L {MFindingType} {} m2 m'"
    using touched_add [OF touched_refl, of M L m2 "EFindingType _" "{MFindingType}" "{}"] m3
    by (simp add: RegisterImageFindingTypes_def) (metis snd_conv)
  show "touched M L {MFindingType} {} m m'" by (rule touched_trans [OF t3 touched_trans [OF t2 t1]])
  have later: "mGet M MFindingType i m2 \<noteq> None \<Longrightarrow> mGet M MFindingType i m' \<noteq> None" for i
    using touched_persistent [OF assms(1) t3, of MFindingType i] by simp
  have late: "mGet M MFindingType i m1 \<noteq> None \<Longrightarrow> mGet M MFindingType i m2 \<noteq> None" for i
    using touched_persistent [OF assms(1) t2, of MFindingType i] by simp
  assume t: "t \<in> set (well_known_types L)"
  note p1 = add_all_present [OF assms(1) m1] and p2 = add_all_present [OF assms(1) m2]
  from t show "mGet M MFindingType t m' \<noteq> None"
    using p1 [of "rbacFindingTypes ! 0"] p1 [of "rbacFindingTypes ! 1"] p2 [of "referenceFindingTypes L ! 0"]
      p2 [of "referenceFindingTypes L ! 1"] store_add_get [OF assms(1) m3 [unfolded RegisterImageFindingTypes_def]] late later
    by (auto simp: well_known_types_def rbacFindingTypes_def referenceFindingTypes_def)
qed

lemma Register_spec:
  assumes "store_laws M" and "Register M nodeID m = (Inr i, m')"
  shows "i = nodeID" and "mGet M MNode nodeID m' = Some (ENode (sensor_node nodeID))"
    and "mGet M MNodeType K8sSensorNodeTypeID m' \<noteq> None" and "mGet M MContextType K8sNamespaceContextTypeID m' \<noteq> None"
    and "k \<notin> {MNode, MNodeType, MContextType, MFinding} \<Longrightarrow> mGet M k j m' = mGet M k j m"
proof -
  obtain a b where a: "mAdd M (ENodeType sensor_node_type) m = (None, a)" and b: "mAdd M (ENode (sensor_node nodeID)) a = (None, b)"
    and c: "mAdd M (EContextType namespace_context_type) b = (None, m')" and i: "i = nodeID"
    using assms(2) by (auto simp: Register_def split: prod.splits option.splits)
  have ids: "mt_Id sensor_node_type = K8sSensorNodeTypeID" "node_Id (sensor_node nodeID) = nodeID"
    "mt_Id namespace_context_type = K8sNamespaceContextTypeID"
    by (simp_all add: sensor_node_type_def sensor_node_def namespace_context_type_def)
  show "i = nodeID" by (rule i)
  note get = store_add_get [OF assms(1)] and frame = store_add_frame [OF assms(1)]
  show "mGet M MNode nodeID m' = Some (ENode (sensor_node nodeID))"
    and "mGet M MNodeType K8sSensorNodeTypeID m' \<noteq> None" and "mGet M MContextType K8sNamespaceContextTypeID m' \<noteq> None"
    using get [OF a] get [OF b] get [OF c] frame [OF b, of MNodeType K8sSensorNodeTypeID]
      frame [OF c, of MNodeType K8sSensorNodeTypeID] frame [OF c, of MNode nodeID] by (simp_all add: ids)
  assume "k \<notin> {MNode, MNodeType, MContextType, MFinding}"
  then show "mGet M k j m' = mGet M k j m"
    using frame [OF a, of k j] frame [OF b, of k j] frame [OF c, of k j] by simp
qed


lemma main_startD:
  assumes "main_start D U fl m e = Some (cf, nodeID, s0, e')"
  obtains m1 rp where "Register (dModel D) (suNodeID U) m = (Inr nodeID, m1)"
    and "mustRegisterFindingTypes (dModel D) (dLib D) m1 = Some (sModel s0)"
    and "runCRDCheck (suClient U) (suDiscoveryErr U) (suResources U) (fl_CRDChecklist fl) nodeID = Some rp"
    and "sReporter s0 = rp" and "sIndex s0 = NewNameIndex" and "sQueue s0 = (\<lambda>_. [])" and "sRules s0 = NewRuleRepo"
    and "sCluster s0 = uuid_Nil" and "sRevisions s0 = fmempty" and "cfHelm cf = fl_HelmReleaseScanning fl"
    and "registerSubscribers (suAddSubscriber U) (fl_SubscriberURLs fl) e = (None, e')"
    and "\<exists>wl. LoadRBACWhitelist (suReadFile U) (suUnmarshal U) (fl_RBACWhitelist fl) = Inr wl \<and> cfWhitelist cf = Some wl"
  using assms
  by (auto simp: main_start_def mustLoadRBACWhitelist_def split: prod.splits option.splits sum.splits if_splits)

lemma main_start_model:
  assumes "store_laws (dModel D)" and "main_start D U fl m e = Some (cf, nodeID, s0, e')"
  shows "mGet (dModel D) MNode nodeID (sModel s0) = Some (ENode (sensor_node nodeID))"
    and "mGet (dModel D) MNodeType K8sSensorNodeTypeID (sModel s0) \<noteq> None"
    and "mGet (dModel D) MContextType K8sNamespaceContextTypeID (sModel s0) \<noteq> None"
    and "t \<in> set (well_known_types (dLib D)) \<Longrightarrow> mGet (dModel D) MFindingType t (sModel s0) \<noteq> None"
    and "k \<notin> {MNode, MNodeType, MContextType, MFinding, MFindingType} \<Longrightarrow>
      mGet (dModel D) k j (sModel s0) = mGet (dModel D) k j m"
proof -
  obtain m1 where r: "Register (dModel D) (suNodeID U) m = (Inr nodeID, m1)"
    and t: "mustRegisterFindingTypes (dModel D) (dLib D) m1 = Some (sModel s0)"
    using main_startD [OF assms(2)] by metis
  note spec = Register_spec [OF assms(1) r]
  have n: "suNodeID U = nodeID" using spec(1) by simp
  have frame: "mGet (dModel D) k j (sModel s0) = mGet (dModel D) k j m1" if "k \<noteq> MFinding" "k \<noteq> MFindingType" for k j
    using touched_frame [OF assms(1) finding_types_startup(1) [OF assms(1) t]] that by simp
  show "mGet (dModel D) MNode nodeID (sModel s0) = Some (ENode (sensor_node nodeID))"
    and "mGet (dModel D) MNodeType K8sSensorNodeTypeID (sModel s0) \<noteq> None"
    and "mGet (dModel D) MContextType K8sNamespaceContextTypeID (sModel s0) \<noteq> None"
    using frame spec(2-4) n by simp_all
  show "t \<in> set (well_known_types (dLib D)) \<Longrightarrow> mGet (dModel D) MFindingType t (sModel s0) \<noteq> None"
    by (rule finding_types_startup(2) [OF assms(1) t])
  assume "k \<notin> {MNode, MNodeType, MContextType, MFinding, MFindingType}"
  then show "mGet (dModel D) k j (sModel s0) = mGet (dModel D) k j m" using frame spec(5) by simp
qed

lemma main_start_findings:
  assumes "store_laws (dModel D)" and "filters_resolve (dModel D)" and "main_start D U fl m e = Some (cf, nodeID, s0, e')"
    and "\<And>i. mGet (dModel D) MFinding i m = None"
  shows "mGet (dModel D) MFinding i (sModel s0) = None"
proof -
  let ?M = "dModel D"
  obtain m1 where r: "Register ?M (suNodeID U) m = (Inr nodeID, m1)"
    and t: "mustRegisterFindingTypes ?M (dLib D) m1 = Some (sModel s0)"
    using main_startD [OF assms(3)] by metis
  have add: "mGet ?M MFinding i n' = None"
    if "mAdd ?M x n = (None, n')" "mGet ?M MFinding i n = None" "kind_of x \<noteq> MFinding" for x n n'
    using filters_resolveD(1) [OF assms(2), of i x n] that store_typed [OF assms(1), of MFinding i n']
    by (cases "mGet ?M MFinding i n'") auto
  have r1: "mGet ?M MFinding i m1 = None"
    using r assms(4) add by (auto simp: Register_def split: prod.splits option.splits)
  have "mGet ?M MFinding i n = None" if "touched ?M (dLib D) {MFindingType} {} m1 n" for n
    using that
  proof induction
    case (touched_add n e)
    then show ?case
      using filters_resolveD(1) [OF assms(2), of i e n] store_typed [OF assms(1), of MFinding i "snd (mAdd ?M e n)"]
      by (cases "mGet ?M MFinding i (snd (mAdd ?M e n))") auto
  qed (use r1 in simp_all)
  then show ?thesis using finding_types_startup(1) [OF assms(1) t] .
qed

section \<open>Properties\<close>

text \<open>
  (C2) The model in every state the running sensor can reach after start-up, with all controllers interleaved: the
  sensor's node is still registered as it was at start-up; every binding has a valid subject; every context is that of
  \<open>kube-system\<close> or has a parent, and its type is in the model. Shutting down from such a state removes the node without an error.
\<close>

theorem sensor_model_sound:
  assumes "store_laws (dModel D)" and "accepts (dModel D) MFindingType" and "\<And>k i. mGet (dModel D) k i m = None"
    and "main_start D U fl m e = Some (cf, nodeID, s0, e')" and "sensor_reach D cf s0 s"
  shows "mGet (dModel D) MNode nodeID (sModel s) = Some (ENode (sensor_node nodeID)) \<and>
    (mGet (dModel D) MBinding i (sModel s) = Some (EBinding b) \<longrightarrow> bindingHasValidSubject (dLib D) (Some b)) \<and>
    (mGet (dModel D) MContext i (sModel s) = Some (EContext c) \<longrightarrow>
      (ctx_DisplayName c = kube_system \<or> ctx_Parent c \<noteq> None) \<and> mGet (dModel D) MContextType (ctx_Type c) (sModel s) \<noteq> None) \<and>
    fst (main_stop D nodeID s) = None \<and> mGet (dModel D) MNode nodeID (sModel (snd (main_stop D nodeID s))) = None"
proof -
  let ?M = "dModel D"
  note reach = reach_touched [OF assms(1,2,5)] and start = main_start_model [OF assms(1,4)]
  have keep: "mGet ?M k j (sModel s) = mGet ?M k j (sModel s0)" if "k \<in> {MNode, MContextType}" for k j
    using touched_frame [OF assms(1) reach] that by (auto simp: sensor_kinds_def deleted_kinds_def landscape_kinds_def)
  have none: "mGet ?M k j (sModel s0) = None" if "k \<in> {MBinding, MContext}" for k j
    using start(5) [of k j] assms(3) that by auto
  have all: "sound ?M (dLib D) m' x" if "mGet ?M k i (sModel s) = Some x" "k \<in> {MBinding, MContext}" for k x m'
  proof (rule touched_all [OF assms(1) reach _ _ _ that(1)])
    show "sound ?M (dLib D) m' e'" if "sound ?M (dLib D) m'' e'" "kind_of e' = k" for m'' e'
      using that \<open>k \<in> {MBinding, MContext}\<close> by (cases e') auto
  qed (use that(2) none in auto)
  have b: "bindingHasValidSubject (dLib D) (Some b)" if "mGet ?M MBinding i (sModel s) = Some (EBinding b)" for b
    using all [OF that, of "sModel s"] by simp
  have c: "rooted (EContext c) \<and> ctx_Type c = K8sNamespaceContextTypeID" if "mGet ?M MContext i (sModel s) = Some (EContext c)" for c
    using all [OF that, of "sModel s"] by simp
  have "mGet ?M MNode nodeID (sModel s) = Some (ENode (sensor_node nodeID))" using keep start(1) by simp
  then have "fst (main_stop D nodeID s) = None \<and> mGet ?M MNode nodeID (sModel (snd (main_stop D nodeID s))) = None"
    using store_delete_result [OF assms(1), of MNode nodeID "sModel s"] store_delete_get [OF assms(1), of MNode nodeID "sModel s"]
    by (simp add: main_stop_def Close_def case_prod_beta)
  then show ?thesis using keep start(1,3) b c by (auto simp: rooted_def)
qed



lemma step_rbac:
  assumes "waits_for_missing (sIndex s)" and "\<And>bk. length (sQueue s bk) \<le> requeue_capacity"
  shows "waits_for_missing (sIndex (sensor_step D cf ev s)) \<and> length (sQueue (sensor_step D cf ev s) bk) \<le> requeue_capacity"
proof -
  have other: ?thesis if "waits (sIndex (sensor_step D cf ev s)) = waits (sIndex s)" "KindRole \<notin> event_names ev"
      "sQueue (sensor_step D cf ev s) = sQueue s"
    using assms that step_index [OF that(2), of D cf s] by (simp add: waits_for_missing_def)
  show ?thesis
  proof (cases ev)
    case (RoleEvent rk nn g)
    then show ?thesis
      using assms waits_for_missing_role [of "rbac_of s"] role_queue_bound [of "rbac_of s"]
      by (simp add: wired_by_SetBindingReconciler)
  next
    case (BindingEvent bk' nn g)
    then show ?thesis using assms waits_for_missing_binding [of "rbac_of s"] by simp
  next
    case (Requeued bk' g)
    show ?thesis
    proof (cases "sQueue s bk'")
      case (Cons nn rest)
      have "length rest \<le> requeue_capacity" using assms(2) [of bk'] Cons by simp
      then show ?thesis
        using Requeued Cons assms waits_for_missing_binding [of "(rbac_of s)\<lparr>rbQueue := (sQueue s)(bk' := rest)\<rparr>"] by simp
    qed (use Requeued assms in simp)
  next
    case (Landscape q)
    then have "index_kind (fst (req_slot (fmempty, q))) \<noteq> KindRole" by (cases q) simp_all
    then show ?thesis using Landscape by (intro other) (simp_all add: waits_untouched)
  qed (intro other; simp add: waits_untouched helm_waits)+
qed

lemma reach_rbac:
  assumes "main_start D U fl m e = Some (cf, nodeID, s0, e')" and "sensor_reach D cf s0 s"
  shows "waits_for_missing (sIndex s)" and "length (sQueue s bk) \<le> requeue_capacity"
proof -
  have s0: "sIndex s0 = NewNameIndex" "sQueue s0 = (\<lambda>_. [])" by (rule main_startD [OF assms(1)]; simp)+
  have "waits_for_missing (sIndex s) \<and> (\<forall>bk. length (sQueue s bk) \<le> requeue_capacity)"
    using assms(2)
  proof induction
    case reach_start
    show ?case by (simp add: s0 waits_for_missing_def waits_def NewNameIndex_def)
  next
    case (reach_step s ev)
    then show ?case using step_rbac [of s] by blast
  qed
  then show "waits_for_missing (sIndex s)" and "length (sQueue s bk) \<le> requeue_capacity" by simp_all
qed


text \<open>How many of the calls deliver a requeued name.\<close>

fun deliveries :: "('m, 'b) deps \<Rightarrow> settings \<Rightarrow> 'b sensor_event list \<Rightarrow> 'm sensor \<Rightarrow> nat" where
  "deliveries D cf [] s = 0"
| "deliveries D cf (ev # evs) s =
     (case ev of Requeued bk _ \<Rightarrow> if sQueue s bk = [] then 0 else 1 | _ \<Rightarrow> 0) + deliveries D cf evs (sensor_step D cf ev s)"

fun is_role_event :: "'b sensor_event \<Rightarrow> bool" where
  "is_role_event (RoleEvent _ _ _) = True"
| "is_role_event _ = False"

abbreviation queued :: "'m sensor \<Rightarrow> nat" where
  "queued s \<equiv> length (sQueue s RoleBindingKind) + length (sQueue s ClusterRoleBindingKind)"

lemma step_queued:
  assumes "\<not> is_role_event ev"
  shows "(case ev of Requeued bk _ \<Rightarrow> if sQueue s bk = [] then 0 else 1 | _ \<Rightarrow> 0) + queued (sensor_step D cf ev s) = queued s"
proof (cases ev)
  case (Requeued bk g)
  then show ?thesis by (cases bk) (auto split: list.splits)
qed (use assms in auto)

lemma run_queued:
  "list_all (\<lambda>ev. \<not> is_role_event ev) evs \<Longrightarrow> deliveries D cf evs s + queued (run_sensor D cf evs s) = queued s"
proof (induction evs arbitrary: s)
  case (Cons ev evs)
  then have "deliveries D cf evs (sensor_step D cf ev s) + queued (run_sensor D cf evs (sensor_step D cf ev s)) =
      queued (sensor_step D cf ev s)" and "\<not> is_role_event ev" by simp_all
  then show ?case using step_queued [of ev s D cf] unfolding deliveries.simps run_sensor.simps by linarith
qed simp

lemma run_requeued: "sQueue (run_sensor D cf (map (Requeued bk) gs) s) bk = drop (length gs) (sQueue s bk)"
proof (induction gs arbitrary: s)
  case (Cons g gs)
  have "sQueue (sensor_step D cf (Requeued bk g) s) bk = drop 1 (sQueue s bk)" by (simp split: list.splits)
  then show ?case using Cons by (simp add: drop_Suc drop_tl)
qed simp

text \<open>
  (C8) Requeueing comes to an end. A binding that is delivered from a channel is never put back by its own handler, nor by
  any other controller than that of the roles: in a run without role events at most 128 deliveries take place, whatever
  the other controllers do, and as many deliveries as a channel holds names empty it.
\<close>

theorem requeue_drains:
  assumes "main_start D U fl m e = Some (cf, nodeID, s0, e')" and "sensor_reach D cf s0 s"
    and "list_all (\<lambda>ev. \<not> is_role_event ev) evs"
  shows "deliveries D cf evs s \<le> 128 \<and>
    (length (sQueue s bk) \<le> length gs \<longrightarrow> sQueue (run_sensor D cf (map (Requeued bk) gs) s) bk = [])"
proof -
  have "queued s \<le> 128"
    using reach_rbac(2) [OF assms(1,2), of RoleBindingKind] reach_rbac(2) [OF assms(1,2), of ClusterRoleBindingKind]
    by (simp add: requeue_capacity_def)
  then show ?thesis using run_queued [OF assms(3), of D cf s] by (simp add: run_requeued)
qed


section \<open>A role that arrives late\<close>

text \<open>How many of the calls take a name out of a channel.\<close>

fun requeues :: "binding_kind \<Rightarrow> 'b sensor_event list \<Rightarrow> nat" where
  "requeues bk [] = 0"
| "requeues bk (ev # evs) = (case ev of Requeued bk' _ \<Rightarrow> if bk' = bk then 1 else 0 | _ \<Rightarrow> 0) + requeues bk evs"

lemma run_fifo:
  "list_all (\<lambda>ev. \<not> is_role_event ev) evs \<Longrightarrow> sQueue (run_sensor D cf evs s) bk = drop (requeues bk evs) (sQueue s bk)"
proof (induction evs arbitrary: s)
  case (Cons ev evs)
  have "sQueue (sensor_step D cf ev s) bk = drop (case ev of Requeued bk' _ \<Rightarrow> if bk' = bk then 1 else 0 | _ \<Rightarrow> 0) (sQueue s bk)"
    using Cons.prems by (cases ev) (auto split: list.splits)
  then show ?case using Cons by (simp add: add.commute)
qed simp

lemma run_role_index:
  "list_all (\<lambda>ev. \<not> is_role_event ev) evs \<Longrightarrow> Get (sIndex (run_sensor D cf evs s)) KindRole = Get (sIndex s) KindRole"
proof (induction evs arbitrary: s)
  case (Cons ev evs)
  have "KindRole \<notin> event_names ev"
  proof (cases ev)
    case (Landscape q)
    then show ?thesis by (cases q) simp_all
  qed (use Cons.prems in simp_all)
  then show ?case using Cons step_index [of KindRole ev D cf s] by simp
qed simp


section \<open>A namespace that arrives early\<close>

text \<open>
  Events that leave the cluster's context as it is: \<open>kube-system\<close> is not deleted, and found only with the UUID \<open>k\<close> or without a valid one.
\<close>

fun keeps_cluster :: "lib \<Rightarrow> uuid \<Rightarrow> 'b sensor_event \<Rightarrow> bool" where
  "keeps_cluster L k (NamespaceEvent nn g) =
     (case g of
        NotFound \<Rightarrow> nn_Name nn \<noteq> kube_system
      | Found obj \<Rightarrow> Name (o_Meta obj) \<noteq> kube_system \<or> first_uuid L [UID (o_Meta obj)] \<in> {None, Some k}
      | GetError _ \<Rightarrow> True)"
| "keeps_cluster L k _ = True"

lemma cluster_views [simp]:
  "sCluster (put_world s w) = sCluster s" "sCluster (put_rbac s r) = sCluster s" "sCluster (put_ns s n) = nsCluster n"
  "sCluster (put_helm s h) = sCluster s"
  by (simp_all add: put_world_def put_rbac_def put_ns_def put_helm_def)

lemma namespace_cluster:
  assumes "keeps_cluster L (nsCluster s) (NamespaceEvent nn g)"
  shows "nsCluster (snd (NamespaceReconcile M L T ev nn g s)) = nsCluster s"
proof (cases g)
  case (Found obj)
  let ?ns = "o_Meta obj"
  show ?thesis
  proof (cases "Name ?ns \<noteq> kube_system \<and> nsCluster s = uuid_Nil \<or> convertNamespaceToContext L ?ns (nsCluster s) = None")
    case True
    then show ?thesis using Found
      by (cases "Name ?ns \<noteq> kube_system \<and> nsCluster s = uuid_Nil") (auto simp: Namespace_wait Namespace_skip)
  next
    case False
    then obtain c i where c: "convertNamespaceToContext L ?ns (nsCluster s) = Some (c, i)" by auto
    from False have nw: "\<not> (Name ?ns \<noteq> kube_system \<and> nsCluster s = uuid_Nil)" by blast
    have "i = nsCluster s" if "Name ?ns = kube_system"
      using convert_rooted(3,4) [OF c] that assms Found
      by (auto simp: first_uuid_parse simp del: first_uuid.simps(2) split: if_splits)
    then show ?thesis using Found by (auto simp: Namespace_add [OF nw c] Let_def split: prod.splits option.splits)
  qed
next
  case NotFound
  with assms show ?thesis by (auto simp: NamespaceReconcile_def Let_def case_prod_beta split: if_splits)
qed (simp add: NamespaceReconcile_def)

lemma fallback_cluster [simp]: "nsCluster (crdMissingFallback_Start M L g s) = nsCluster s"
  by (simp add: crdMissingFallback_Start_def case_prod_beta split: get_result.splits)

lemma step_cluster:
  "keeps_cluster (dLib D) (sCluster s) ev \<Longrightarrow> sCluster (sensor_step D cf ev s) = sCluster s"
  by (cases ev) (auto simp: namespace_cluster split: list.splits simp del: keeps_cluster.simps(1))

lemma run_cluster:
  "list_all (keeps_cluster (dLib D) (sCluster s)) evs \<Longrightarrow> sCluster (run_sensor D cf evs s) = sCluster s"
  by (induction evs arbitrary: s) (simp_all add: step_cluster)

text \<open>
  (C34) A namespace that arrives before \<open>kube-system\<close>, in the whole sensor. As long as the cluster has no context its handler changes nothing and asks to be called
  again in two seconds. Once \<open>kube-system\<close> is reconciled, and whatever all controllers do in between short of deleting or replacing it, the
  next call stores the namespace and indexes it, with its annotated parent or the context of the cluster, and asks for no more.
\<close>

theorem waiting_namespace_joins:
  assumes "store_laws (dModel D)" and "accepts (dModel D) MContext"
    and "Name (o_Meta ks) = kube_system" "first_uuid (dLib D) [UID (o_Meta ks)] = Some k"
    and "Name (o_Meta obj) \<noteq> kube_system" "first_uuid (dLib D) [UID (o_Meta obj)] = Some i"
    and "list_all (keeps_cluster (dLib D) k) evs"
    and "s2 = run_sensor D cf (NamespaceEvent kn (Found ks) # evs) s"
    and "s3 = sensor_step D cf (NamespaceEvent nn (Found obj)) s2"
  shows "(sCluster s = uuid_Nil \<longrightarrow> sensor_step D cf (NamespaceEvent nn (Found obj)) s = s \<and>
      fst (NamespaceReconcile (dModel D) (dLib D) (tuObject (dConv D)) ev nn (Found obj) (ns_of s)) = (2, None)) \<and>
    fst (NamespaceReconcile (dModel D) (dLib D) (tuObject (dConv D)) ev nn (Found obj) (ns_of s2)) = (0, None) \<and>
    Get (sIndex s3) KindContext (nn_Name nn) = i \<and>
    (\<exists>c. mGet (dModel D) MContext i (sModel s3) = Some (EContext c) \<and> ctx_DisplayName c = Name (o_Meta obj) \<and>
      ctx_Parent c = Some (case first_uuid (dLib D) [annotation_value (Annotations (o_Meta obj)) AnnotationContextParent] of
          Some p \<Rightarrow> p | None \<Rightarrow> k))"
proof -
  let ?r = "\<lambda>ev nn obj s. NamespaceReconcile (dModel D) (dLib D) (tuObject (dConv D)) ev nn (Found obj) (ns_of s)"
  have k: "k \<noteq> uuid_Nil" using assms(4) by (auto simp: first_uuid_parse simp del: first_uuid.simps(2) split: if_splits)
  define s1 where "s1 = sensor_step D cf (NamespaceEvent kn (Found ks)) s"
  have "sCluster s1 = k"
    using namespace_stored [OF assms(1,2,4) prod.collapse [symmetric], where T = "tuObject (dConv D)" and
        ev = "Some (NewRuleEvaluation (sRules s) ''/namespaces'')" and nn = kn and s = "ns_of s"] assms(3)
    by (simp add: s1_def)
  then have c2: "nsCluster (ns_of s2) = k" using run_cluster [of D s1 evs cf] assms(7,8) by (simp add: s1_def)
  have stored: "fst (?r ev nn obj s2) = (0, None) \<and> Get (nsIndex (snd (?r ev nn obj s2))) KindContext (nn_Name nn) = i \<and>
      (\<exists>c. mGet (dModel D) MContext i (nsModel (snd (?r ev nn obj s2))) = Some (EContext c) \<and> ctx_DisplayName c = Name (o_Meta obj) \<and>
        ctx_Parent c = Some (case first_uuid (dLib D) [annotation_value (Annotations (o_Meta obj)) AnnotationContextParent] of
          Some p \<Rightarrow> p | None \<Rightarrow> k))" for ev
    using namespace_stored [OF assms(1,2,6) prod.collapse [symmetric], where T = "tuObject (dConv D)" and ev = ev and nn = nn and s = "ns_of s2"] assms(5) c2 k
    by (auto simp del: first_uuid.simps split: option.splits)
  have "sensor_step D cf (NamespaceEvent nn (Found obj)) s = s \<and> fst (?r ev nn obj s) = (2, None)" if "sCluster s = uuid_Nil"
    using that assms(5) by (simp add: Namespace_wait put_ns_def ns_of_def)
  then show ?thesis using stored assms(9) by simp
qed

end
