(* ===== verification/Sensor_Mirror.thy ===== *)
theory Sensor_Mirror
  imports Sensor_Invariants
begin

text \<open>
  The locale \<open>mirror_system\<close> interpreted on the whole sensor: the handlers of Systems, APIs, Components and roles mirror their objects,
  and all other handlers are foreign steps that leave these entities and their names alone.
\<close>

section \<open>The landscape in the whole sensor\<close>

text \<open>
  Systems, APIs, components and roles are written by their own controllers only, and their entities depend on
  the object alone. The calls about them, by object, and what they answer:
\<close>

definition mirrored_kinds :: "mkind set" where
  "mirrored_kinds = {MSystem, MApi, MComponent, MRole}"

definition role_entity :: "lib \<Rightarrow> ObjectMeta \<Rightarrow> (entity \<times> uuid) option" where
  "role_entity L obj = map_option (\<lambda>(role, i). (ERole role, i)) (roleFromRBAC L obj)"

fun event_slot :: "'b sensor_event \<Rightarrow> slot option" where
  "event_slot (Landscape q) =
     (if fst (req_slot (fmempty, q)) \<in> mirrored_kinds then Some (req_slot (fmempty, q)) else None)"
| "event_slot (RoleEvent _ nn _) = Some (MRole, nn)"
| "event_slot _ = None"

fun event_answer :: "lib \<Rightarrow> 'b sensor_event \<Rightarrow> (entity \<times> uuid) option get_result" where
  "event_answer L (Landscape q) = req_answer L NewNameIndex (fmempty, q)"
| "event_answer L (RoleEvent _ _ g) = answer_of (role_entity L) g"
| "event_answer L _ = Found None"

definition object_key :: "lib \<Rightarrow> mkind \<Rightarrow> NamespacedName \<Rightarrow> string" where
  "object_key L k nn = (if k = MRole then roleIndexKey nn else NNString L nn)"

definition valid_name :: "slot \<Rightarrow> bool" where
  "valid_name s \<longleftrightarrow> CHR ''/'' \<notin> set (nn_Namespace (snd s)) \<and> CHR ''/'' \<notin> set (nn_Name (snd s))"

lemma foreign_step:
  assumes "store_laws (dModel D)" and "accepts (dModel D) MFindingType" and "event_slot ev = None" and "k \<in> mirrored_kinds"
  shows "mGet (dModel D) k j (sModel (sensor_step D cf ev s)) = mGet (dModel D) k j (sModel s)"
    and "Get (sIndex (sensor_step D cf ev s)) (index_kind k) = Get (sIndex s) (index_kind k)"
proof -
  have "k \<notin> event_adds ev \<and> k \<notin> event_deletes ev \<and> index_kind k \<notin> event_names ev"
  proof (cases ev)
    case (Landscape q)
    then have "fst (req_slot (fmempty, q)) \<notin> mirrored_kinds" using assms(3) by (simp split: if_splits)
    then show ?thesis using Landscape assms(4) dispatch_slot [of "(fmempty, q)"]
      by (auto simp: mirrored_kinds_def landscape_kinds_def)
  qed (use assms(3,4) in \<open>auto simp: mirrored_kinds_def\<close>)
  then show "mGet (dModel D) k j (sModel (sensor_step D cf ev s)) = mGet (dModel D) k j (sModel s)"
    and "Get (sIndex (sensor_step D cf ev s)) (index_kind k) = Get (sIndex s) (index_kind k)"
    using touched_frame [OF assms(1) step_touched [OF assms(1,2)]] step_index assms(4) by (auto simp: mirrored_kinds_def)
qed

lemma mirrored_answer:
  assumes "fst (req_slot (fmempty, q)) \<in> mirrored_kinds"
  shows "req_answer L idx (repo, q) = req_answer L NewNameIndex (fmempty, q)"
  using assms by (cases q) (simp_all add: mirrored_kinds_def)

lemma mirrored_landscape: "k \<in> mirrored_kinds \<Longrightarrow> k \<noteq> MRole \<Longrightarrow> k \<in> landscape_kinds"
  by (auto simp: mirrored_kinds_def landscape_kinds_def)

lemma role_entity_id: "role_entity L obj = Some (e, i) \<Longrightarrow> kind_of e = MRole \<and> id_of e = i \<and> i \<noteq> uuid_Nil"
  by (auto simp: role_entity_def roleFromRBAC_def Let_def split: if_splits)

lemma role_upsert:
  assumes "store_laws M" and "accepts M MRole" and "role_entity L obj = Some (e, i)"
  shows "k \<noteq> MFinding \<Longrightarrow> mGet M k j (rbModel (snd (RoleReconcile M L ord wl kind ks nn (Found obj) s))) =
      (if k = MRole \<and> j = i then Some e else mGet M k j (rbModel s))"
    and "Get (rbIndex (snd (RoleReconcile M L ord wl kind ks nn (Found obj) s))) = Get (Put (rbIndex s) KindRole (roleIndexKey nn) i)"
proof -
  from assms(3) obtain role where r: "roleFromRBAC L obj = Some (role, i)" "e = ERole role" by (auto simp: role_entity_def)
  have "fst (mAdd M (ERole role) (rbModel s)) = None" using assms(2) by (intro accepts_add) simp
  then obtain m where m: "mAdd M (ERole role) (rbModel s) = (None, m)" by (metis prod.collapse)
  have id: "role_Id role = i" using role_entity_id [OF assms(3)] r(2) by simp
  show "Get (rbIndex (snd (RoleReconcile M L ord wl kind ks nn (Found obj) s))) = Get (Put (rbIndex s) KindRole (roleIndexKey nn) i)"
    by (intro ext) (simp add: RoleReconcile_def r m Let_def idx_simps)
  assume "k \<noteq> MFinding"
  then show "mGet M k j (rbModel (snd (RoleReconcile M L ord wl kind ks nn (Found obj) s))) =
      (if k = MRole \<and> j = i then Some e else mGet M k j (rbModel s))"
    using store_add_get [OF assms(1) m] store_add_frame [OF assms(1) m, of k j]
    by (auto simp: RoleReconcile_def r m Let_def id role_check.entities_unchanged [OF assms(1)])
qed

lemma role_gone:
  assumes "store_laws M"
  shows "k \<noteq> MFinding \<Longrightarrow> mGet M k j (rbModel (snd (RoleReconcile M L ord wl kind ks nn NotFound s))) =
      (if k = MRole \<and> j = Get (rbIndex s) KindRole (roleIndexKey nn) \<and> j \<noteq> uuid_Nil then None else mGet M k j (rbModel s))"
    and "Get (rbIndex (snd (RoleReconcile M L ord wl kind ks nn NotFound s))) = Get (snd (Delete (rbIndex s) KindRole (roleIndexKey nn)))"
proof -
  show "Get (rbIndex (snd (RoleReconcile M L ord wl kind ks nn NotFound s))) = Get (snd (Delete (rbIndex s) KindRole (roleIndexKey nn)))"
    by (simp add: RoleReconcile_def Let_def case_prod_beta)
  let ?i = "Get (rbIndex s) KindRole (roleIndexKey nn)"
  assume "k \<noteq> MFinding"
  then show "mGet M k j (rbModel (snd (RoleReconcile M L ord wl kind ks nn NotFound s))) =
      (if k = MRole \<and> j = ?i \<and> j \<noteq> uuid_Nil then None else mGet M k j (rbModel s))"
    using store_delete_get [OF assms, of MRole ?i] store_delete_frame [OF assms, of k j MRole ?i]
    by (auto simp: RoleReconcile_def Delete_result Let_def case_prod_beta DeleteFindingById_get [OF assms])
qed

lemma landscape_view:
  assumes "event_slot (Landscape q) = Some x"
  shows "req_slot (repo, q) = x" and "fst x \<in> mirrored_kinds" and "fst x \<noteq> MRole"
    and "req_answer L idx (repo, q) = event_answer L (Landscape q)"
proof -
  have x: "x = req_slot (fmempty, q)" "fst (req_slot (fmempty, q)) \<in> mirrored_kinds" using assms by (auto split: if_splits)
  then show "req_slot (repo, q) = x" "fst x \<in> mirrored_kinds" using slot_repo [of repo q] by simp_all
  show "fst x \<noteq> MRole" using x(1) by (cases q) simp_all
  show "req_answer L idx (repo, q) = event_answer L (Landscape q)" using mirrored_answer [OF x(2)] by simp
qed

lemma slot_cases:
  assumes "event_slot ev = Some x"
  obtains q where "ev = Landscape q" | rk nn g where "ev = RoleEvent rk nn g" and "x = (MRole, nn)"
  using assms by (cases ev) auto

lemma landscape_keeps_roles:
  assumes "store_laws (dModel D)" and "event_slot (Landscape r) = Some (k, nn)"
  shows "mGet (dModel D) MRole j (sModel (sensor_step D cf (Landscape r) w)) = mGet (dModel D) MRole j (sModel w)"
    and "KindRole \<noteq> index_kind k"
proof -
  note v = landscape_view [OF assms(2)]
  show "KindRole \<noteq> index_kind k" using v(2,3) by (auto simp: mirrored_kinds_def)
  show "mGet (dModel D) MRole j (sModel (sensor_step D cf (Landscape r) w)) = mGet (dModel D) MRole j (sModel w)"
    using touched_frame [OF assms(1) dispatch_touched [OF assms(1), where q = "(sRules w, r)" and k = k and L = "dLib D" and C = "dConv D" and w = "world_of w"]]
      v(1,3) by simp
qed

text \<open>What the handlers of the mirrored objects do to the model and the index: skip, upsert and delete.\<close>

lemma mirrored_skip:
  assumes slot: "event_slot ev = Some x" and ans: "event_answer (dLib D) ev = Found None \<or> event_answer (dLib D) ev = GetError msg"
  shows "mGet (dModel D) k' j (sModel (sensor_step D cf ev w)) = mGet (dModel D) k' j (sModel w) \<and>
    Get (sIndex (sensor_step D cf ev w)) (index_kind k') = Get (sIndex w) (index_kind k')"
  using slot
proof (cases rule: slot_cases)
  case (1 r)
  have "snd (dispatch (dModel D) (dLib D) (dConv D) (sRules w, r) (world_of w)) = world_of w"
    using assms landscape_view(4) [of r x "dLib D" "sIndex w" "sRules w"] 1 by (intro dispatch_skip [of _ _ _ msg]) simp
  then show ?thesis using 1 by simp
next
  case (2 rk nn g)
  then show ?thesis using ans
    by (cases g) (auto simp: answer_of_def role_entity_def RoleReconcile_def split: option.splits)
qed

lemma mirrored_upsert:
  assumes laws: "store_laws (dModel D)" "accepts (dModel D) k" and slot: "event_slot ev = Some (k, nn)"
    and ans: "event_answer (dLib D) ev = Found (Some (e, i))" and kind: "k' \<in> mirrored_kinds"
  shows "mGet (dModel D) k' j (sModel (sensor_step D cf ev w)) = (if k' = k \<and> j = i then Some e else mGet (dModel D) k' j (sModel w)) \<and>
    Get (sIndex (sensor_step D cf ev w)) (index_kind k') n =
      (if index_kind k' = index_kind k \<and> n = object_key (dLib D) k nn then i else Get (sIndex w) (index_kind k') n)"
  using slot
proof (cases rule: slot_cases)
  case (1 r)
  note v = landscape_view [OF slot [unfolded 1]] and roles = landscape_keeps_roles [OF laws(1) slot [unfolded 1]]
  have "req_answer (dLib D) (wIndex (world_of w)) (sRules w, r) = Found (Some (e, i))"
    using ans unfolding 1 by (simp only: v(4))
  note up = dispatch_upsert [OF laws v(1) this, where C = "dConv D"]
  show ?thesis
  proof (cases "k' = MRole")
    case True
    then show ?thesis using up(1) v(3) roles(1) [of j cf w] roles(2) 1 by (simp add: idx_simps)
  next
    case False
    then show ?thesis using up mirrored_landscape [OF kind False] v(3) 1 by (simp add: idx_simps object_key_def)
  qed
next
  case (2 rk nn' g)
  then obtain obj where "g = Found obj" "role_entity (dLib D) obj = Some (e, i)"
    using ans by (cases g) (auto simp: answer_of_def)
  then show ?thesis using role_upsert [OF laws(1), where s = "rbac_of w"] laws(2) slot kind 2
    by (auto simp: idx_simps object_key_def mirrored_kinds_def)
qed

lemma mirrored_gone:
  assumes laws: "store_laws (dModel D)" and slot: "event_slot ev = Some (k, nn)"
    and ans: "event_answer (dLib D) ev = NotFound" and kind: "k' \<in> mirrored_kinds"
  shows "mGet (dModel D) k' j (sModel (sensor_step D cf ev w)) =
      (if k' = k \<and> j = Get (sIndex w) (index_kind k) (object_key (dLib D) k nn) \<and> j \<noteq> uuid_Nil then None else mGet (dModel D) k' j (sModel w)) \<and>
    Get (sIndex (sensor_step D cf ev w)) (index_kind k') n =
      (if index_kind k' = index_kind k \<and> n = object_key (dLib D) k nn then uuid_Nil else Get (sIndex w) (index_kind k') n)"
  using slot
proof (cases rule: slot_cases)
  case (1 r)
  note v = landscape_view [OF slot [unfolded 1]] and roles = landscape_keeps_roles [OF laws slot [unfolded 1]]
  have "req_answer (dLib D) (wIndex (world_of w)) (sRules w, r) = NotFound"
    using ans unfolding 1 by (simp only: v(4))
  note go = dispatch_gone [OF laws v(1) this, where C = "dConv D"]
  show ?thesis
  proof (cases "k' = MRole")
    case True
    then show ?thesis using go(1) v(3) roles(1) [of j cf w] roles(2) 1 by (auto simp: idx_simps)
  next
    case False
    then show ?thesis using go mirrored_landscape [OF kind False] v(3) 1 by (auto simp: idx_simps object_key_def)
  qed
next
  case (2 rk nn' g)
  then have "g = NotFound" using ans by (cases g) (auto simp: answer_of_def)
  then show ?thesis using role_gone [OF laws, where s = "rbac_of w"] slot kind 2
    by (auto simp: idx_simps object_key_def mirrored_kinds_def)
qed

interpretation whole: mirror_system "dModel D" "sensor_step D cf" sModel sIndex event_slot "\<lambda>_. event_answer (dLib D)"
    mirrored_kinds index_kind "object_key (dLib D)" valid_name "nn_string_law (dLib D) \<and> accepts (dModel D) MFindingType"
  for D cf
proof (unfold_locales, goal_cases)
  case (1 q s)
  then show ?case
  proof (cases rule: slot_cases)
    case (1 r)
    with \<open>event_slot q = Some s\<close> show ?thesis using landscape_view(2) [of r s] by simp
  qed (simp add: mirrored_kinds_def)
next
  case 2
  show ?case by (rule inj_on_subset [OF index_kind_inj]) (auto simp: mirrored_kinds_def landscape_kinds_def)
next
  case (3 k nn nn')
  then show ?case using role_key_injective [of nn nn'] NNString_inject [of "dLib D" nn nn']
    by (auto simp: object_key_def valid_name_def split: if_splits)
next
  case (4 idx q e i)
  then show ?case
    by (cases q) (auto dest: dispatch_id role_entity_id simp: answer_of_def split: get_result.splits)
next
  case (6 q k' j w)
  then show ?case using foreign_step by blast
next
  case (7 q s w msg k' j)
  from 7(1,2) show ?case by (rule mirrored_skip)
next
  case (8 k q nn w e i k' j n)
  then show ?case by (rule mirrored_upsert)
next
  case (9 q k nn w k' j n)
  then show ?case by (rule mirrored_gone)
qed simp_all

lemma run_sensor_fold: "run_sensor D cf evs s = fold (sensor_step D cf) evs s"
  by (induction evs arbitrary: s) simp_all


end
