(* ===== verification/Sensor_Start.thy ===== *)
theory Sensor_Start
  imports Sensor_Mirror
begin

text \<open>When the sensor starts, and a concrete run from start-up on which the properties of the whole sensor are applied.\<close>

section \<open>When the sensor starts\<close>

lemma setup_all_None: "setup_all install ns = None \<longleftrightarrow> list_all (\<lambda>n. install n = None) ns"
  by (induction ns) (auto split: option.splits)

lemma add_all_accepted: "list_all (\<lambda>e. accepts M (kind_of e)) es \<Longrightarrow> fst (add_all M es m) = None"
  by (induction es arbitrary: m) (auto simp: case_prod_beta accepts_add split: option.splits)

lemma finding_types_accepted:
  assumes "accepts M MFindingType"
  shows "mustRegisterFindingTypes M L m \<noteq> None"
proof -
  have "fst (RegisterRBACFindingTypes M m) = None" "fst (RegisterReferenceFindingTypes M L m) = None" for m
    unfolding RegisterRBACFindingTypes_def RegisterReferenceFindingTypes_def
    by (rule add_all_accepted; simp add: rbacFindingTypes_def referenceFindingTypes_def assms)+
  moreover have "fst (RegisterImageFindingTypes M L m) = None" for m
    using assms by (simp add: RegisterImageFindingTypes_def accepts_add)
  ultimately show ?thesis
    by (auto simp: mustRegisterFindingTypes_def case_prod_beta split: option.splits)
qed

lemma Register_accepted:
  assumes "accepts M MNodeType" and "accepts M MNode" and "accepts M MContextType"
  shows "\<exists>m'. Register M nodeID m = (Inr nodeID, m')"
  using assms accepts_add [of M "ENodeType sensor_node_type"] accepts_add [of M "ENode (sensor_node nodeID)"]
    accepts_add [of M "EContextType namespace_context_type"]
  by (auto simp: Register_def case_prod_beta split: option.splits)


lemma runCRDCheck_parses:
  "runCRDCheck client err rls raw nodeID \<noteq> None \<longleftrightarrow> list_all well_formed_token (checklist_tokens raw)"
proof (cases "raw = []")
  case True
  have "TrimSpace [] = []" using TrimSpace_infix [of "[]"] by simp
  with True show ?thesis by (simp add: runCRDCheck_def checklist_tokens_def split: option.splits)
next
  case False
  then have "ParseChecklist raw = parse_tokens (Split raw CHR '','')" by (simp add: ParseChecklist_def)
  then show ?thesis
    using False parse_tokens_iff [of "Split raw CHR '',''"]
    by (auto simp: runCRDCheck_def checklist_tokens_def split: sum.splits option.splits)
qed

lemma runCRDCheck_reporter:
  "runCRDCheck client err rls raw nodeID = Some rp \<Longrightarrow> rp = None \<longleftrightarrow> client \<noteq> None"
  "runCRDCheck client err rls raw nodeID = Some (Some r) \<Longrightarrow>
    rp_Fallback r = (if nodeID = uuid_Nil then None else Some \<lparr>rr_ResourceId = nodeID, rr_ResourceType = NodeResource\<rparr>)"
  by (auto simp: runCRDCheck_def NewReporter_def split: sum.splits option.splits)



section \<open>A concrete run\<close>

definition demo_deps :: "(entity list, unit) deps" where
  "demo_deps =
     \<lparr>dModel = mem_store, dLib = mem_lib, dConv = demo_converter,
      dCel = \<lparr>celCompile = (\<lambda>_. Inl (ErrText [])), celProgram = (\<lambda>_. Inl (ErrText []))\<rparr>, dCodec = demo_codec,
      dJson = (\<lambda>_. Inr []), dRange = sorted_range\<rparr>"

definition demo_surroundings :: "unit surroundings" where
  "demo_surroundings =
     \<lparr>suManager = (\<lambda>_. None), suBackend = None, suAddSubscriber = (\<lambda>_ e. (None, e)), suReadFile = (\<lambda>_. Inl (ErrText [])), suUnmarshal = (\<lambda>_. Inl (ErrText [])),
      suNodeID = 4, suClient = None, suDiscoveryErr = None, suResources = Some [], suSetup = (\<lambda>_. None),
      suListen = (\<lambda>addr. Inr addr), suEndpoint = (\<lambda>url r. [])\<rparr>"

definition demo_settings :: settings where
  "demo_settings = \<lparr>cfWhitelist = Some emptyWhitelist, cfHelm = True\<rparr>"

definition demo_events :: "unit sensor_event list" where
  "demo_events =
     [NamespaceEvent \<lparr>nn_Namespace = [], nn_Name = ''kube-system''\<rparr> (Found (demo_object_meta ''kube-system'' ''6'' fmempty)),
      Landscape (ReqSystem (demo_nn ''x'') (Found (demo_system ''5''))),
      BindingEvent RoleBindingKind (demo_nn ''b'') (Found demo_binding),
      HelmEvent (demo_nn ''x'') NotFound, PodScan (Inr [])]"

lemma demo_deps_simps [simp]:
  "dModel demo_deps = mem_store" "dLib demo_deps = mem_lib" "dRange demo_deps = sorted_range"
  by (simp_all add: demo_deps_def)

lemma mem_store_empty [simp]: "mGet mem_store k i [] = None"
  by (simp add: mem_store_def)

lemma mem_store_filters: "filters_resolve mem_store"
proof -
  have del: "find (same_key MFinding i) es = Some x" if "find (same_key MFinding i) (filter (\<lambda>x. \<not> same_key k j x) es) = Some x" for k i j es x
    using that find_filter_other [of MFinding i k j es] find_filter_same [of k j es] by (cases "(MFinding, i) = (k, j)") auto
  show ?thesis
    unfolding filters_resolve_def
  proof (intro conjI allI impI)
    show "mGet mem_store MFinding i m = Some x \<or> x = e" if "mGet mem_store MFinding i (snd (mAdd mem_store e m)) = Some x" for e m i x
      using that del [of i "kind_of e" "id_of e" m x] by (simp add: mem_store_def split: if_splits)
    show "mGet mem_store MFinding i m = Some x" if "mGet mem_store MFinding i (snd (mDelete mem_store k j m)) = Some x" for k j m i x
      using that del [of i k j m x] by (simp add: mem_store_def)
  qed
qed

lemma demo_start:
  obtains s0 where "main_start demo_deps demo_surroundings (default_flags (\<lambda>_. None)) [] () = Some (demo_settings, 4, s0, ())"
proof -
  let ?fl = "default_flags (\<lambda>_. None)"
  have fl: "fl_SubscriberURLs ?fl = []" "fl_RBACWhitelist ?fl = []" "fl_CRDChecklist ?fl = []" "fl_HelmReleaseScanning ?fl" "fl_APIAddr ?fl = '':8080''"
    by (simp_all add: default_flags_def envOrDefault_def)
  have ts: "TrimSpace [] = []" using TrimSpace_infix [of "[]"] by simp
  have reg: "registerSubscribers (suAddSubscriber demo_surroundings) (fl_SubscriberURLs ?fl) () = (None, ())"
    by (simp add: fl registerSubscribers_def parseCommaSeparatedList_def ts)
  have wl: "mustLoadRBACWhitelist (suReadFile demo_surroundings) (suUnmarshal demo_surroundings) (fl_RBACWhitelist ?fl) = Some emptyWhitelist"
    by (simp add: fl mustLoadRBACWhitelist_def LoadRBACWhitelist_def)
  obtain m1 where m1: "Register (dModel demo_deps) (suNodeID demo_surroundings) [] = (Inr 4, m1)"
    using Register_accepted [of mem_store 4 "[]"] by (auto simp: demo_surroundings_def)
  obtain m2 where m2: "mustRegisterFindingTypes (dModel demo_deps) (dLib demo_deps) m1 = Some m2"
    using finding_types_accepted [of mem_store mem_lib m1] by auto
  obtain rp where rp: "runCRDCheck (suClient demo_surroundings) (suDiscoveryErr demo_surroundings) (suResources demo_surroundings)
      (fl_CRDChecklist ?fl) 4 = Some rp"
    by (auto simp: fl runCRDCheck_def demo_surroundings_def)
  have acc: "setup_all (suSetup demo_surroundings) ns = None" for ns by (simp add: setup_all_None demo_surroundings_def list_all_iff)
  have fb: "SetupCRDMissingFallback (suSetup demo_surroundings) r = None" for r
    by (simp add: SetupCRDMissingFallback_def demo_surroundings_def split: option.splits)
  obtain srv where lis: "startAPIServer (suListen demo_surroundings) (suEndpoint demo_surroundings) (fl_APIAddr ?fl) (fl_AllowInboundPush ?fl) = Inr srv"
    by (simp add: startAPIServer_def demo_surroundings_def)
  have mgr: "suManager demo_surroundings (managerOptions ?fl) = None" "suBackend demo_surroundings = None"
    by (simp_all add: demo_surroundings_def)
  show thesis
    by (rule that, unfold main_start_def,
        simp only: mgr reg wl m1 m2 rp acc fb lis fl(4) demo_settings_def prod.case option.case sum.case simp_thms if_False)
qed

theorem sensor_model_sound_witness:
  "\<exists>s0. main_start demo_deps demo_surroundings (default_flags (\<lambda>_. None)) [] () = Some (demo_settings, 4, s0, ()) \<and>
     mGet mem_store MNode 4 (sModel (run_sensor demo_deps demo_settings demo_events s0)) = Some (ENode (sensor_node 4))"
proof -
  obtain s0 where s0: "main_start demo_deps demo_surroundings (default_flags (\<lambda>_. None)) [] () = Some (demo_settings, 4, s0, ())"
    by (rule demo_start)
  have "sensor_reach demo_deps demo_settings s0 (run_sensor demo_deps demo_settings demo_events s0)"
    by (rule run_reach [OF reach_start])
  from sensor_model_sound [OF _ _ _ s0 this] s0 show ?thesis by simp
qed



theorem requeue_drains_witness:
  "\<exists>s0. main_start demo_deps demo_surroundings (default_flags (\<lambda>_. None)) [] () = Some (demo_settings, 4, s0, ()) \<and>
     deliveries demo_deps demo_settings demo_events s0 \<le> 128"
proof -
  obtain s0 where s0: "main_start demo_deps demo_surroundings (default_flags (\<lambda>_. None)) [] () = Some (demo_settings, 4, s0, ())"
    by (rule demo_start)
  have "list_all (\<lambda>ev. \<not> is_role_event ev) demo_events" by (simp add: demo_events_def)
  from requeue_drains [OF s0 reach_start this] s0 show ?thesis by blast
qed

lemma demo_reach_waiting:
  obtains s0 s where "main_start demo_deps demo_surroundings (default_flags (\<lambda>_. None)) [] () = Some (demo_settings, 4, s0, ())"
    and "s = sensor_step demo_deps demo_settings (BindingEvent RoleBindingKind (demo_nn ''b'') (Found demo_binding)) s0"
    and "sIndex s = AddPendingBinding (Put NewNameIndex KindBinding ''ns/b'' 8) ''ns/r'' ''ns/b''" and "sQueue s = (\<lambda>_. [])"
proof -
  obtain s0 where s0: "main_start demo_deps demo_surroundings (default_flags (\<lambda>_. None)) [] () = Some (demo_settings, 4, s0, ())"
    by (rule demo_start)
  have i0: "sIndex s0 = NewNameIndex" "sQueue s0 = (\<lambda>_. [])" by (rule main_startD [OF s0]; simp)+
  let ?s = "sensor_step demo_deps demo_settings (BindingEvent RoleBindingKind (demo_nn ''b'') (Found demo_binding)) s0"
  have "Get (rbIndex (rbac_of s0)) KindRole (binding_role_key demo_binding) = uuid_Nil" by (simp add: i0 idx_simps)
  from binding_found_pending [OF mem_lib_subject_laws demo_binding_facts(1,2) this, where nn = "demo_nn ''b''"]
  have "sIndex ?s = AddPendingBinding (Put NewNameIndex KindBinding ''ns/b'' 8) ''ns/r'' ''ns/b''"
    by (simp add: i0 demo_role_facts(3) demo_binding_facts(3))
  then show thesis using that [OF s0 refl] i0(2) by simp
qed




theorem waiting_namespace_joins_witness:
  "\<exists>s0. main_start demo_deps demo_surroundings (default_flags (\<lambda>_. None)) [] () = Some (demo_settings, 4, s0, ()) \<and>
     (\<exists>c. mGet mem_store MContext 5 (sModel (sensor_step demo_deps demo_settings
          (NamespaceEvent \<lparr>nn_Namespace = [], nn_Name = ''a''\<rparr> (Found (demo_object_meta ''a'' ''5'' fmempty)))
          (run_sensor demo_deps demo_settings
            [NamespaceEvent \<lparr>nn_Namespace = [], nn_Name = ''kube-system''\<rparr> (Found (demo_object_meta ''kube-system'' ''6'' fmempty)),
             PodScan (Inr [])] s0))) = Some (EContext c) \<and> ctx_Parent c \<noteq> None)"
proof -
  obtain s0 where s0: "main_start demo_deps demo_surroundings (default_flags (\<lambda>_. None)) [] () = Some (demo_settings, 4, s0, ())"
    by (rule demo_start)
  have ks: "Name (o_Meta (demo_object_meta ''kube-system'' ''6'' fmempty)) = kube_system"
    "first_uuid (dLib demo_deps) [UID (o_Meta (demo_object_meta ''kube-system'' ''6'' fmempty))] = Some 6"
    by (simp_all add: demo_object_meta_def kube_system_def mem_lib_def hex_val_def)
  have ns: "Name (o_Meta (demo_object_meta ''a'' ''5'' fmempty)) \<noteq> kube_system"
    "first_uuid (dLib demo_deps) [UID (o_Meta (demo_object_meta ''a'' ''5'' fmempty))] = Some 5"
    using demo_ns_uid by (simp_all add: demo_object_meta_def kube_system_def)
  have evs: "list_all (keeps_cluster (dLib demo_deps) 6) [PodScan (Inr [])]" by simp
  have laws: "store_laws (dModel demo_deps)" "accepts (dModel demo_deps) MContext" by simp_all
  from waiting_namespace_joins [OF laws ks ns evs refl refl, where cf = demo_settings and kn = "\<lparr>nn_Namespace = [], nn_Name = ''kube-system''\<rparr>" and
      s = s0 and nn = "\<lparr>nn_Namespace = [], nn_Name = ''a''\<rparr>" and ev = None] s0
  show ?thesis by auto
qed

end
