(* ===== verification/Registration.thy ===== *)
theory Registration
  imports Main_Loop
begin

text \<open>
  How the controllers are registered with the manager: the constructors of the reconcilers, their methods
  \<open>SetupWithManager\<close> and the order in which \<open>main\<close> calls them. A registration is the value the builder of
  controller-runtime is given; which requests an event leads to follows from it. The manager
  itself is a parameter: it answers \<open>Complete\<close>, \<open>Add\<close>, \<open>GetInformer\<close> and \<open>AddEventHandler\<close> with an error or none.
\<close>

section \<open>Builders\<close>

text \<open>An object whose change is reported. A secret has its type, of any other object only its kind and name matter.\<close>

datatype watched_object = WatchedSecret NamespacedName Secret | Watched string NamespacedName

fun watched_kind :: "watched_object \<Rightarrow> string" where
  "watched_kind (WatchedSecret nn secret) = ''Secret''"
| "watched_kind (Watched k nn) = k"

fun watched_name :: "watched_object \<Rightarrow> NamespacedName" where
  "watched_name (WatchedSecret nn secret) = nn"
| "watched_name (Watched k nn) = nn"

fun as_secret :: "watched_object \<Rightarrow> Secret option" where
  "as_secret (WatchedSecret nn secret) = Some secret"
| "as_secret (Watched k nn) = None"

record builder =
  cb_Named :: "string option"
  cb_For :: "(string \<times> (watched_object \<Rightarrow> bool)) option"
  cb_Watches :: "(string \<times> (watched_object \<Rightarrow> NamespacedName list)) list"
  cb_Channel :: "binding_kind option"
  cb_MaxConcurrent :: "nat option"

definition NewControllerManagedBy :: builder where
  "NewControllerManagedBy =
     \<lparr>cb_Named = None, cb_For = None, cb_Watches = [], cb_Channel = None, cb_MaxConcurrent = None\<rparr>"

abbreviation Named :: "string \<Rightarrow> builder \<Rightarrow> builder" where
  "Named n b \<equiv> b\<lparr>cb_Named := Some n\<rparr>"

abbreviation For :: "string \<Rightarrow> builder \<Rightarrow> builder" where
  "For k b \<equiv> b\<lparr>cb_For := Some (k, \<lambda>_. True)\<rparr>"

abbreviation ForFiltered :: "string \<Rightarrow> (watched_object \<Rightarrow> bool) \<Rightarrow> builder \<Rightarrow> builder" where
  "ForFiltered k p b \<equiv> b\<lparr>cb_For := Some (k, p)\<rparr>"

abbreviation Watches :: "string \<Rightarrow> (watched_object \<Rightarrow> NamespacedName list) \<Rightarrow> builder \<Rightarrow> builder" where
  "Watches k f b \<equiv> b\<lparr>cb_Watches := cb_Watches b @ [(k, f)]\<rparr>"

abbreviation WatchesRawSource :: "binding_kind \<Rightarrow> builder \<Rightarrow> builder" where
  "WatchesRawSource bk b \<equiv> b\<lparr>cb_Channel := Some bk\<rparr>"

abbreviation WithMaxConcurrent :: "nat \<Rightarrow> builder \<Rightarrow> builder" where
  "WithMaxConcurrent n b \<equiv> b\<lparr>cb_MaxConcurrent := Some n\<rparr>"

section \<open>Reconcilers\<close>

text \<open>
  The fields of the reconcilers that differ between the rows of the tables of \<open>main\<close>. Client, scheme,
  model, index and whitelist are the same everywhere and live in the state of the sensor and its
  settings. A prototype is the kind of its object.
\<close>

record 'b WorkloadReconciler =
  wr_prototype :: string
  wr_kind :: string
  wr_skipFunc :: "('b object \<Rightarrow> bool) option"

definition NewWorkloadReconciler :: "string \<Rightarrow> string \<Rightarrow> ('b object \<Rightarrow> bool) option \<Rightarrow> 'b WorkloadReconciler" where
  "NewWorkloadReconciler proto kind skipFunc = \<lparr>wr_prototype = proto, wr_kind = kind, wr_skipFunc = skipFunc\<rparr>"

record APIInstanceReconciler =
  air_prototype :: string
  air_kind :: string

definition NewAPIInstanceReconciler :: "string \<Rightarrow> string \<Rightarrow> APIInstanceReconciler" where
  "NewAPIInstanceReconciler proto kind = \<lparr>air_prototype = proto, air_kind = kind\<rparr>"

record RoleReconciler =
  rr_prototype :: string
  rr_kind :: string
  rr_bindingReconcilers :: "binding_kind list"

definition NewRoleReconciler :: "string \<Rightarrow> string \<Rightarrow> RoleReconciler" where
  "NewRoleReconciler proto kind = \<lparr>rr_prototype = proto, rr_kind = kind, rr_bindingReconcilers = []\<rparr>"

text \<open>A binding reconciler owns the requeue channel, which is named by its kind and has the capacity \<open>requeue_capacity\<close>.\<close>

record RoleBindingReconciler =
  br_prototype :: string
  br_kind :: binding_kind
  br_requeue :: nat

definition NewRoleBindingReconciler :: "string \<Rightarrow> binding_kind \<Rightarrow> RoleBindingReconciler" where
  "NewRoleBindingReconciler proto kind = \<lparr>br_prototype = proto, br_kind = kind, br_requeue = requeue_capacity\<rparr>"

section \<open>SetupWithManager\<close>

definition SystemSetup :: builder where
  "SystemSetup = For ''System'' NewControllerManagedBy"

definition APISetup :: builder where
  "APISetup = For ''API'' NewControllerManagedBy"

definition ComponentSetup :: builder where
  "ComponentSetup = For ''Component'' NewControllerManagedBy"

definition SystemInstanceSetup :: builder where
  "SystemInstanceSetup = For ''SystemInstance'' NewControllerManagedBy"

definition WorkloadSetup :: "'b WorkloadReconciler \<Rightarrow> builder" where
  "WorkloadSetup r = For (wr_prototype r) (Named (wr_kind r) NewControllerManagedBy)"

definition APIInstanceSetup :: "APIInstanceReconciler \<Rightarrow> builder" where
  "APIInstanceSetup r = For (air_prototype r) (Named (air_kind r) NewControllerManagedBy)"

definition RoleSetup :: "RoleReconciler \<Rightarrow> builder" where
  "RoleSetup r = For (rr_prototype r) (Named (rr_kind r) NewControllerManagedBy)"

definition RoleBindingSetup :: "RoleBindingReconciler \<Rightarrow> builder" where
  "RoleBindingSetup r =
     WatchesRawSource (br_kind r) (For (br_prototype r) (Named (binding_kind_name (br_kind r)) NewControllerManagedBy))"

definition NamespaceSetup :: builder where
  "NamespaceSetup = For ''Namespace'' NewControllerManagedBy"

definition clusterImageScanRequest :: NamespacedName where
  "clusterImageScanRequest = \<lparr>nn_Namespace = [], nn_Name = ''cluster''\<rparr>"

definition ImageScanSetup :: builder where
  "ImageScanSetup =
     WithMaxConcurrent 1 (Watches ''Pod'' (\<lambda>_. [clusterImageScanRequest]) (Named ''ImageScan'' NewControllerManagedBy))"

text \<open>The Helm controller adds the runnable that reads the revisions first, and is not registered if that fails.\<close>

definition HelmReleaseSetup :: "(string \<Rightarrow> error option) \<Rightarrow> error + builder" where
  "HelmReleaseSetup add =
     (case add ''HelmPopulate'' of
        Some err \<Rightarrow> Inl (ErrWrap ''add helm startup runnable: '' err)
      | None \<Rightarrow> Inr (ForFiltered ''Secret'' (\<lambda>obj. helmSecretPredicate (as_secret obj)) (Named ''HelmRelease'' NewControllerManagedBy)))"

text \<open>The runnable itself, run by the manager: \<open>synced\<close> is the answer of \<open>WaitForCacheSync\<close>.\<close>

definition helm_runnable :: "bool \<Rightarrow> error + Secret list \<Rightarrow> 'm helm_state \<Rightarrow> error option \<times> 'm helm_state" where
  "helm_runnable synced secrets s =
     (if \<not> synced then (Some (ErrText ''cache sync failed''), s) else populateLatestRevisions secrets s)"

definition FindingRuleSetup :: "error + unit \<Rightarrow> error option \<Rightarrow> error option" where
  "FindingRuleSetup GetInformer AddEventHandler = (case GetInformer of Inl err \<Rightarrow> Some err | Inr informer \<Rightarrow> AddEventHandler)"

definition NewFindingRuleWatcher :: "error + unit \<Rightarrow> error option \<Rightarrow> RuleRepo option \<Rightarrow> error option" where
  "NewFindingRuleWatcher GetInformer AddEventHandler repo =
     (case repo of
        None \<Rightarrow> Some (ErrText ''rule repo is required'')
      | Some r \<Rightarrow> FindingRuleSetup GetInformer AddEventHandler)"

section \<open>The controllers of main\<close>

definition crdControllers :: "builder list" where
  "crdControllers = [SystemSetup, APISetup, ComponentSetup, SystemInstanceSetup]"

definition workloads :: "'b WorkloadReconciler list" where
  "workloads =
     [NewWorkloadReconciler ''Deployment'' ''Deployment'' None,
      NewWorkloadReconciler ''StatefulSet'' ''StatefulSet'' None,
      NewWorkloadReconciler ''DaemonSet'' ''DaemonSet'' None,
      NewWorkloadReconciler ''CronJob'' ''CronJob'' None,
      NewWorkloadReconciler ''Job'' ''Job'' (Some (\<lambda>obj. IsOwnedByCronJob (o_Meta obj)))]"

definition apiResources :: "APIInstanceReconciler list" where
  "apiResources = [NewAPIInstanceReconciler ''Service'' ''Service'', NewAPIInstanceReconciler ''Ingress'' ''Ingress'']"

definition rbacBindings :: "RoleBindingReconciler list" where
  "rbacBindings =
     [NewRoleBindingReconciler ''RoleBinding'' RoleBindingKind, NewRoleBindingReconciler ''ClusterRoleBinding'' ClusterRoleBindingKind]"

definition rbacRoles :: "RoleReconciler list" where
  "rbacRoles =
     map (\<lambda>(kind, proto).
         fold (\<lambda>rbc rc. rc\<lparr>rr_bindingReconcilers := SetBindingReconciler (rr_bindingReconcilers rc) (br_kind rbc)\<rparr>) rbacBindings
           (NewRoleReconciler proto kind))
       [(''Role'', ''Role''), (''ClusterRole'', ''ClusterRole'')]"

text \<open>All registrations in the order of \<open>main\<close>, or the error of the Helm controller, which is optional.\<close>

definition main_builders :: "(string \<Rightarrow> error option) \<Rightarrow> bool \<Rightarrow> error + builder list" where
  "main_builders add helmReleaseScanning =
     (let bs = crdControllers @ map WorkloadSetup (workloads :: unit WorkloadReconciler list) @ map APIInstanceSetup apiResources @
            map RoleBindingSetup rbacBindings @ map RoleSetup rbacRoles @ [NamespaceSetup, ImageScanSetup]
      in if helmReleaseScanning then (case HelmReleaseSetup add of Inl err \<Rightarrow> Inl err | Inr b \<Rightarrow> Inr (bs @ [b])) else Inr bs)"

section \<open>What the registrations mean\<close>

text \<open>
  The documented behaviour of controller-runtime: \<open>For\<close> leads to a request for the object itself if the predicate holds,
  \<open>Watches\<close> to the requests of its map function, and a controller without a name is named after the
  kind of its objects in lower case. \<open>reqs b obj\<close> are the requests for an event on \<open>obj\<close>, \<open>name_of b\<close> is the controller's name.
\<close>

definition builder_law :: "(builder \<Rightarrow> watched_object \<Rightarrow> NamespacedName list) \<Rightarrow> (builder \<Rightarrow> string) \<Rightarrow> bool" where
  "builder_law reqs name_of \<longleftrightarrow>
     (\<forall>b obj. reqs b obj =
        (case cb_For b of Some (k, p) \<Rightarrow> if watched_kind obj = k \<and> p obj then [watched_name obj] else [] | None \<Rightarrow> []) @
        concat (map (\<lambda>(k, f). if watched_kind obj = k then f obj else []) (cb_Watches b))) \<and>
     (\<forall>b. name_of b = (case cb_Named b of Some n \<Rightarrow> n
        | None \<Rightarrow> (case cb_For b of Some (k, p) \<Rightarrow> map lower_char k | None \<Rightarrow> [])))"

text \<open>The specification: which controller, with which request, an event on an object wakes.\<close>

fun wakes :: "bool \<Rightarrow> watched_object \<Rightarrow> (string \<times> NamespacedName) list" where
  "wakes helm (WatchedSecret nn secret) = (if helm \<and> sec_Type secret = helm_release_type then [(''HelmRelease'', nn)] else [])"
| "wakes helm (Watched k nn) =
     (if k = ''Pod'' then [(''ImageScan'', clusterImageScanRequest)]
      else if k \<in> set landscape_controllers \<union> set cluster_controllers
      then [(if k \<in> {''System'', ''API'', ''Component'', ''SystemInstance'', ''Namespace''} then map lower_char k else k, nn)]
      else [])"

lemmas setup_defs = NewControllerManagedBy_def SystemSetup_def APISetup_def ComponentSetup_def SystemInstanceSetup_def
  WorkloadSetup_def APIInstanceSetup_def RoleSetup_def RoleBindingSetup_def NamespaceSetup_def ImageScanSetup_def
  NewWorkloadReconciler_def NewAPIInstanceReconciler_def NewRoleReconciler_def NewRoleBindingReconciler_def
  crdControllers_def workloads_def apiResources_def rbacBindings_def rbacRoles_def

text \<open>The tables have the kinds and the wiring that the step function of the sensor uses.\<close>

lemma tables_agree:
  "map (\<lambda>b. map_option fst (cb_For b)) (crdControllers @ map WorkloadSetup workloads @ map APIInstanceSetup apiResources) =
     map Some landscape_controllers"
  "map (\<lambda>b. map_option fst (cb_For b)) (map RoleBindingSetup rbacBindings @ map RoleSetup rbacRoles @ [NamespaceSetup]) =
     map Some cluster_controllers"
  "map wr_skipFunc workloads = map workload_skip [Deployment, StatefulSet, DaemonSet, CronJob, Job]"
  "rc \<in> set rbacRoles \<Longrightarrow> rr_bindingReconcilers rc = wired_bindings"
  by (auto simp: setup_defs landscape_controllers_def cluster_controllers_def SetBindingReconciler_def wired_bindings_def)

lemma lower_letters [simp]:
  "lower_char CHR ''S'' = CHR ''s''" "lower_char CHR ''y'' = CHR ''y''" "lower_char CHR ''s'' = CHR ''s''" "lower_char CHR ''t'' = CHR ''t''"
  "lower_char CHR ''e'' = CHR ''e''" "lower_char CHR ''m'' = CHR ''m''" "lower_char CHR ''A'' = CHR ''a''" "lower_char CHR ''P'' = CHR ''p''"
  "lower_char CHR ''I'' = CHR ''i''" "lower_char CHR ''C'' = CHR ''c''" "lower_char CHR ''o'' = CHR ''o''" "lower_char CHR ''p'' = CHR ''p''"
  "lower_char CHR ''n'' = CHR ''n''" "lower_char CHR ''a'' = CHR ''a''" "lower_char CHR ''c'' = CHR ''c''" "lower_char CHR ''N'' = CHR ''n''"
  by code_simp+

text \<open>
  (C35) The wiring of the controllers. Under the documented behaviour of the builder of controller-runtime, all controllers that \<open>main\<close> registers have
  different names, so the manager does not refuse one as a duplicate. An event on an object wakes exactly one controller, the one
  for its kind, with a request for the object: but every pod leads to the same request of the image scan, a secret wakes the Helm
  controller only if it is a Helm release and scanning is on, and other kinds wake none. Each
  requeue channel is read by the binding controller of its kind and by no other.
\<close>

theorem wiring_exact:
  assumes law: "builder_law reqs name_of" and bs: "main_builders add helm = Inr bs"
  shows "distinct (map name_of bs) \<and>
    concat (map (\<lambda>b. map (\<lambda>nn. (name_of b, nn)) (reqs b obj)) bs) = wakes helm obj \<and>
    map name_of (filter (\<lambda>b. cb_Channel b = Some bk) bs) = [binding_kind_name bk]"
proof -
  have reqs: "reqs b x =
      (case cb_For b of Some (k, p) \<Rightarrow> if watched_kind x = k \<and> p x then [watched_name x] else [] | None \<Rightarrow> []) @
      concat (map (\<lambda>(k, f). if watched_kind x = k then f x else []) (cb_Watches b))" for b x
    using law unfolding builder_law_def by blast
  have name: "name_of b = (case cb_Named b of Some n \<Rightarrow> n
        | None \<Rightarrow> (case cb_For b of Some (k, p) \<Rightarrow> map lower_char k | None \<Rightarrow> []))" for b
    using law unfolding builder_law_def by blast
  have bs': "bs = crdControllers @ map WorkloadSetup (workloads :: unit WorkloadReconciler list) @ map APIInstanceSetup apiResources @
      map RoleBindingSetup rbacBindings @ map RoleSetup rbacRoles @ [NamespaceSetup, ImageScanSetup] @
      (if helm then [ForFiltered ''Secret'' (\<lambda>obj. helmSecretPredicate (as_secret obj)) (Named ''HelmRelease'' NewControllerManagedBy)] else [])"
    using bs by (auto simp: main_builders_def HelmReleaseSetup_def Let_def split: if_splits option.splits)
  have "distinct (map name_of bs)" by (simp add: bs' setup_defs name)
  moreover have "map name_of (filter (\<lambda>b. cb_Channel b = Some bk) bs) = [binding_kind_name bk]"
    by (cases bk) (simp_all add: bs' setup_defs name)
  moreover have "concat (map (\<lambda>b. map (\<lambda>nn. (name_of b, nn)) (reqs b obj)) bs) = wakes helm obj"
  proof (cases obj)
    case (WatchedSecret nn secret)
    then show ?thesis by (simp add: bs' setup_defs name reqs helmSecretPredicate_def)
  next
    case (Watched k nn)
    then show ?thesis
      by (simp add: bs' setup_defs name reqs helmSecretPredicate_def landscape_controllers_def cluster_controllers_def)
  qed
  ultimately show ?thesis by blast
qed

definition builder_requests :: "builder \<Rightarrow> watched_object \<Rightarrow> NamespacedName list" where
  "builder_requests b obj =
     (case cb_For b of Some (k, p) \<Rightarrow> if watched_kind obj = k \<and> p obj then [watched_name obj] else [] | None \<Rightarrow> []) @
     concat (map (\<lambda>(k, f). if watched_kind obj = k then f obj else []) (cb_Watches b))"

definition builder_name :: "builder \<Rightarrow> string" where
  "builder_name b = (case cb_Named b of Some n \<Rightarrow> n
     | None \<Rightarrow> (case cb_For b of Some (k, p) \<Rightarrow> map lower_char k | None \<Rightarrow> []))"

lemma builder_law_holds: "builder_law builder_requests builder_name"
  by (simp add: builder_law_def builder_requests_def builder_name_def)

theorem wiring_exact_witness:
  "\<exists>bs. main_builders (\<lambda>_. None) True = Inr bs \<and> distinct (map builder_name bs) \<and>
     concat (map (\<lambda>b. map (\<lambda>nn. (builder_name b, nn)) (builder_requests b (Watched ''Pod'' (demo_nn ''web'')))) bs) =
       [(''ImageScan'', clusterImageScanRequest)]"
proof -
  obtain bs where "main_builders (\<lambda>_. None) True = Inr bs"
    by (simp add: main_builders_def HelmReleaseSetup_def Let_def)
  then show ?thesis using wiring_exact [OF builder_law_holds, of "\<lambda>_. None" True bs "Watched ''Pod'' (demo_nn ''web'')"] by auto
qed

text \<open>
  The Helm controller is not registered when its runnable is refused, and the runnable leaves the revisions alone when
  the cache does not sync. The watcher of finding rules needs a registry.
\<close>

lemma helm_setup_errors:
  "add ''HelmPopulate'' = Some err \<Longrightarrow> main_builders add True = Inl (ErrWrap ''add helm startup runnable: '' err)"
  "helm_runnable False secrets s = (Some (ErrText ''cache sync failed''), s)"
  "hWorld (snd (helm_runnable synced secrets s)) = hWorld s"
  by (simp_all add: main_builders_def HelmReleaseSetup_def helm_runnable_def Let_def)

lemma rule_watcher_needs_repo:
  "NewFindingRuleWatcher informer add None \<noteq> None"
  "NewFindingRuleWatcher informer add (Some r) = None \<longleftrightarrow> (\<exists>u. informer = Inr u) \<and> add = None"
  by (auto simp: NewFindingRuleWatcher_def FindingRuleSetup_def split: sum.splits)

end
