(* ===== verification/Diagnostics.thy ===== *)
theory Diagnostics
  imports Startup
begin

text \<open>
  The log output by which an operator reads the CRD check, the registration of subscribers and the replication of events:
  \<open>internal/crdcheck/crdcheck.go\<close>, \<open>cmd/subscribers.go\<close> and \<open>internal/sensor/replication_log.go\<close>. A log line is a value, and
  a function that logs returns its lines, in order, beside its result. What only a library can tell
  (the Go type of a value, the text of an error, the parts of a URL, the answer to an HTTP request) is a field of the record \<open>runtime\<close>.
\<close>

section \<open>Loggers\<close>

datatype log_value =
    LStr string | LInt int | LBool bool | LStrs "string list" | LType ResourceType | LRows "(string \<times> string) list list"

text \<open>The verbosity is 0 for \<open>Info\<close> and 1 for \<open>V(1).Info\<close>.\<close>

datatype log_line =
    InfoLine (line_logger: "string list") (line_verbosity: nat) (line_msg: string) (line_fields: "(string \<times> log_value) list")
  | ErrorLine (line_logger: "string list") (line_err: error) (line_msg: string) (line_fields: "(string \<times> log_value) list")

text \<open>
  A \<open>logr.Logger\<close> with its names, or None for one without a sink. The latter writes nothing; it is also what
  \<open>logr.Discard\<close> returns, so the guard \<open>log.GetSink() == nil\<close> of the source needs no case of its own.
\<close>

type_synonym logger = "string list option"

definition WithName :: "logger \<Rightarrow> string \<Rightarrow> logger" where
  "WithName log name = map_option (\<lambda>ns. ns @ [name]) log"

definition logInfo :: "logger \<Rightarrow> nat \<Rightarrow> string \<Rightarrow> (string \<times> log_value) list \<Rightarrow> log_line list" where
  "logInfo log v msg kvs = (case log of None \<Rightarrow> [] | Some ns \<Rightarrow> [InfoLine ns v msg kvs])"

definition logError :: "logger \<Rightarrow> error \<Rightarrow> string \<Rightarrow> (string \<times> log_value) list \<Rightarrow> log_line list" where
  "logError log err msg kvs = (case log of None \<Rightarrow> [] | Some ns \<Rightarrow> [ErrorLine ns err msg kvs])"

definition field :: "log_line \<Rightarrow> string \<Rightarrow> log_value option" where
  "field l k = map_of (line_fields l) k"

section \<open>Libraries\<close>

record url =
  u_Scheme :: string
  u_Opaque :: string
  u_UserSet :: bool
  u_Host :: string
  u_Path :: string
  u_RawPath :: string
  u_RawQuery :: string
  u_Fragment :: string
  u_RequestURI :: string

record http_request =
  hr_Host :: string
  hr_Path :: string

text \<open>The body is what can be read of it before its end or an error.\<close>

record http_response =
  hp_Status :: string
  hp_StatusCode :: int
  hp_Proto :: string
  hp_Header :: "string \<Rightarrow> string"
  hp_Body :: string
  hp_CloseErr :: "error option"

text \<open>
  \<open>rtErrType\<close> is \<open>%T\<close> of an error, \<open>rtError\<close> its method \<open>Error\<close>. \<open>rtGroups\<close> is \<open>errors.As\<close> for the error type \<open>ErrGroupDiscoveryFailed\<close>,
  with its map in the order in which it is ranged over; the pairs are group and version.
\<close>

record runtime =
  rtErrType :: "error option \<Rightarrow> string"
  rtError :: "error \<Rightarrow> string"
  rtGroups :: "error \<Rightarrow> ((string \<times> string) \<times> error) list option"
  rtGVString :: "string \<times> string \<Rightarrow> string"
  rtVerbs :: "string list \<Rightarrow> string"
  rtUUID :: "uuid \<Rightarrow> string"
  rtParseURL :: "string \<Rightarrow> error + url"
  rtSplitHostPort :: "string \<Rightarrow> error + string \<times> string"
  rtNewRequest :: "string \<Rightarrow> error + http_request"
  rtDo :: "string \<Rightarrow> (error + http_response) \<times> string"

section \<open>The CRD check\<close>

definition crdEntryStrings :: "CRDEntry list \<Rightarrow> string list" where
  "crdEntryStrings entries = fold (\<lambda>e out. out @ [CRDEntry_String e]) entries []"

definition keysWithPrefix :: "string list \<Rightarrow> string \<Rightarrow> string list" where
  "keysWithPrefix keys p = fold (\<lambda>k out. if HasPrefix k p then out @ [k] else out) keys []"

definition errString :: "runtime \<Rightarrow> error option \<Rightarrow> string" where
  "errString R err = (case err of None \<Rightarrow> [] | Some e \<Rightarrow> rtError R e)"

definition fallbackID :: "runtime \<Rightarrow> ResourceRef option \<Rightarrow> string" where
  "fallbackID R ref = (case ref of None \<Rightarrow> [] | Some r \<Rightarrow> rtUUID R (rr_ResourceId r))"

definition fallbackType :: "ResourceRef option \<Rightarrow> ResourceType" where
  "fallbackType ref = (case ref of None \<Rightarrow> UnknownResourceType | Some r \<Rightarrow> rr_ResourceType r)"

definition formatAPIResources :: "runtime \<Rightarrow> DiscoveredResource list \<Rightarrow> string list" where
  "formatAPIResources R resources =
     fold (\<lambda>r out. out @ [''name='' @ ar_Name r @ '' kind='' @ ar_Kind r @
       '' namespaced='' @ (if ar_Namespaced r then ''true'' else ''false'') @ '' verbs='' @ rtVerbs R (ar_Verbs r)]) resources []"

definition logDiscoveryError :: "runtime \<Rightarrow> logger \<Rightarrow> error option \<Rightarrow> APIResourceList option list option \<Rightarrow> log_line list" where
  "logDiscoveryError R log err resourceLists =
     (case err of
        None \<Rightarrow> []
      | Some e \<Rightarrow>
          logError log e ''discovery error details''
            [(''errType'', LStr (rtErrType R err)),
             (''resourceListCount'', LInt (int (length (case resourceLists of None \<Rightarrow> [] | Some rls \<Rightarrow> rls)))),
             (''resourceListsNil'', LBool (resourceLists = None))] @
          (case rtGroups R e of
             Some groups \<Rightarrow>
               logInfo log 0 ''ErrGroupDiscoveryFailed: some API groups were unreachable (sidecar/proxy/mesh is a common cause)''
                 [(''failedGroupCount'', LInt (int (length groups)))] @
               concat (map (\<lambda>(gv, gerr). logError log gerr ''API group discovery failed''
                 [(''group'', LStr (fst gv)), (''version'', LStr (snd gv)), (''groupVersion'', LStr (rtGVString R gv))]) groups)
           | None \<Rightarrow>
               logInfo log 1 ''discovery error is not ErrGroupDiscoveryFailed''
                 [(''errType'', LStr (rtErrType R err)), (''err'', LStr (rtError R e))]))"

record APIGroup =
  ag_Name :: string
  ag_PreferredVersion :: string
  ag_Versions :: "string list"

fun group_lines :: "logger \<Rightarrow> APIGroup option list \<Rightarrow> log_line list \<times> string list" where
  "group_lines log [] = ([], [])"
| "group_lines log (None # gs) = group_lines log gs"
| "group_lines log (Some g # gs) =
     (case group_lines log gs of
        (ls, ns) \<Rightarrow>
          (logInfo log 1 ''discovery API group''
             [(''name'', LStr (ag_Name g)), (''preferredVersion'', LStr (ag_PreferredVersion g)), (''versions'', LStrs (ag_Versions g))] @ ls,
           ag_Name g # ns))"

definition logDiscoveryGroups :: "logger \<Rightarrow> APIGroup option list \<Rightarrow> log_line list" where
  "logDiscoveryGroups log groups =
     (if length groups = 0 then logInfo log 0 ''discovery returned no API groups'' []
      else case group_lines log groups of
          (ls, ns) \<Rightarrow>
            ls @ logInfo log 0 ''discovery API groups'' [(''count'', LInt (int (length ns))), (''groups'', LStrs ns)])"

fun resource_list_lines :: "runtime \<Rightarrow> logger \<Rightarrow> APIResourceList option list \<Rightarrow> log_line list" where
  "resource_list_lines R log [] = []"
| "resource_list_lines R log (None # rls) =
     logInfo log 0 ''skipping nil APIResourceList from discovery'' [] @ resource_list_lines R log rls"
| "resource_list_lines R log (Some rl # rls) =
     logInfo log 0 ''discovery APIResourceList''
       [(''groupVersion'', LStr (rl_GroupVersion rl)), (''resourceCount'', LInt (int (length (rl_APIResources rl)))),
        (''resources'', LStrs (rl_Names rl))] @
     logInfo log 1 ''discovery APIResourceList details''
       [(''groupVersion'', LStr (rl_GroupVersion rl)), (''resources'', LStrs (formatAPIResources R (rl_APIResources rl)))] @
     resource_list_lines R log rls"

definition available_line :: "logger \<Rightarrow> CRDEntry \<Rightarrow> log_line list" where
  "available_line log entry =
     logInfo log 0 ''expected CRD is available''
       [(''crd'', LStr (CRDEntry_String entry)), (''displayName'', LStr (e_DisplayName entry)), (''category'', LStr (e_Category entry))]"

definition missing_line :: "logger \<Rightarrow> string list \<Rightarrow> CRDEntry \<Rightarrow> log_line list" where
  "missing_line log keys entry =
     (let sameGroup = keysWithPrefix keys (e_Group entry @ ''/'');
          sameGV = keysWithPrefix keys (e_Group entry @ ''/'' @ e_Version entry @ ''/'')
      in logInfo log 0 ''expected CRD not in discovery result''
           [(''crd'', LStr (CRDEntry_String entry)), (''displayName'', LStr (e_DisplayName entry)), (''category'', LStr (e_Category entry)),
            (''groupPresent'', LBool (length sameGroup > 0)), (''groupVersionPresent'', LBool (length sameGV > 0)),
            (''sameGroupKeys'', LStrs sameGroup), (''sameGroupVersionKeys'', LStrs sameGV)])"

fun entry_lines :: "logger \<Rightarrow> string list \<Rightarrow> CRDEntry list \<Rightarrow> log_line list \<times> CheckResult \<Rightarrow> log_line list \<times> CheckResult" where
  "entry_lines log keys [] (ls, res) = (ls, res)"
| "entry_lines log keys (entry # es) (ls, res) =
     (if CRDEntry_String entry \<in> set keys
      then entry_lines log keys es (ls @ available_line log entry, res\<lparr>cr_Available := cr_Available res @ [entry]\<rparr>)
      else entry_lines log keys es (ls @ missing_line log keys entry, res\<lparr>cr_Missing := cr_Missing res @ [entry]\<rparr>))"

text \<open>\<open>Check\<close> with its log. \<open>discoveredKeys\<close> is sorted before the checklist is compared with it.\<close>

definition Check_logged ::
    "runtime \<Rightarrow> logger \<Rightarrow> APIGroup option list \<Rightarrow> error option \<Rightarrow> APIResourceList option list option \<Rightarrow> CRDEntry list \<Rightarrow>
     log_line list \<times> CheckResult" where
  "Check_logged R log0 groups err resourceLists checklist =
     (let log = WithName log0 ''crdcheck'';
          rls = (case resourceLists of None \<Rightarrow> [] | Some rls \<Rightarrow> rls);
          probed =
            logInfo log 0 ''probing discovery API for expected CRDs''
              [(''checklistSize'', LInt (int (length checklist))), (''checklist'', LStrs (crdEntryStrings checklist))] @
            logInfo log 0 ''ServerGroupsAndResources returned''
              [(''err'', LStr (errString R err)), (''errType'', LStr (rtErrType R err)), (''apiGroupCount'', LInt (int (length groups))),
               (''resourceListCount'', LInt (int (length rls))), (''resourceListsNil'', LBool (resourceLists = None))] @
            logDiscoveryGroups log groups @ logDiscoveryError R log err resourceLists
      in case (err, resourceLists) of
           (Some e, None) \<Rightarrow>
             (probed @ logError log e ''total discovery failure; treating entire checklist as missing''
                [(''missing'', LStrs (crdEntryStrings checklist))],
              \<lparr>cr_Available = [], cr_Missing = checklist, cr_DiscoveryErr = Some e\<rparr>)
         | _ \<Rightarrow>
             (let partial = (if err = None then []
                    else logInfo log 0 ''partial discovery failure; continuing with returned resource lists'' []);
                  discoveredKeys = sort (discovered_keys rls);
                  flat = logInfo log 1 ''flattened discovery keys''
                    [(''count'', LInt (int (length discoveredKeys))), (''keys'', LStrs discoveredKeys)]
              in entry_lines log discoveredKeys checklist
                   (probed @ partial @ resource_list_lines R log rls @ flat,
                    \<lparr>cr_Available = [], cr_Missing = [], cr_DiscoveryErr = err\<rparr>)))"

definition Log :: "runtime \<Rightarrow> logger \<Rightarrow> CheckResult \<Rightarrow> log_line list" where
  "Log R log0 result =
     (let log = WithName log0 ''crdcheck'';
          failed = (case cr_DiscoveryErr result of
            None \<Rightarrow> []
          | Some e \<Rightarrow>
              logError log e ''CRD discovery returned an error (partial results may still have been used)''
                [(''errType'', LStr (rtErrType R (cr_DiscoveryErr result)))] @
              logDiscoveryError R log (cr_DiscoveryErr result) None);
          summary = logInfo log 0 ''CRD availability summary''
            [(''availableCount'', LInt (int (length (cr_Available result)))), (''missingCount'', LInt (int (length (cr_Missing result)))),
             (''available'', LStrs (crdEntryStrings (cr_Available result))), (''missing'', LStrs (crdEntryStrings (cr_Missing result))),
             (''discoveryErr'', LStr (errString R (cr_DiscoveryErr result)))]
      in failed @ summary @
         (if length (cr_Missing result) = 0
          then logInfo log 0 ''all expected CRDs available'' [(''count'', LInt (int (length (cr_Available result))))]
          else concat (map (\<lambda>entry. logInfo log 0 ''expected CRD not available in cluster''
                 [(''crd'', LStr (CRDEntry_String entry)), (''displayName'', LStr (e_DisplayName entry)),
                  (''category'', LStr (e_Category entry))]) (cr_Missing result)) @
               logInfo log 0 ''CRD availability check complete''
                 [(''available'', LInt (int (length (cr_Available result)))), (''missing'', LInt (int (length (cr_Missing result))))]))"

definition NewReporter_logged :: "runtime \<Rightarrow> logger \<Rightarrow> CheckResult \<Rightarrow> uuid \<Rightarrow> log_line list \<times> Reporter" where
  "NewReporter_logged R log0 result fallbackNodeID =
     (let r = NewReporter result fallbackNodeID
      in (logInfo (WithName log0 ''crdcheck'') 0 ''CRD finding reporter created''
            [(''missingCount'', LInt (int (length (cr_Missing result)))), (''missing'', LStrs (crdEntryStrings (cr_Missing result))),
             (''availableCount'', LInt (int (length (cr_Available result)))), (''fallbackNodeID'', LStr (fallbackID R (rp_Fallback r))),
             (''fallbackType'', LType (fallbackType (rp_Fallback r)))],
          r))"

text \<open>
  \<open>runCRDCheck\<close> of \<open>main\<close> with the lines of all functions it calls; \<open>cfg\<close> is the configuration of the manager.
  The result is that of \<open>runCRDCheck\<close>: the outer None is \<open>os.Exit(1)\<close>.
\<close>

record rest_config =
  rc_Host :: string
  rc_APIPath :: string
  rc_UserAgent :: string
  rc_Timeout :: string
  rc_Insecure :: bool
  rc_QPS :: string
  rc_Burst :: int
  rc_BearerToken :: string
  rc_CertData :: string
  rc_CAData :: string

definition config_line :: "logger \<Rightarrow> rest_config option \<Rightarrow> log_line list" where
  "config_line log cfg =
     (case cfg of
        None \<Rightarrow> logInfo log 0 ''manager rest.Config is nil before discovery client creation'' []
      | Some c \<Rightarrow>
          logInfo log 0 ''creating discovery client''
            [(''host'', LStr (rc_Host c)), (''apiPath'', LStr (rc_APIPath c)), (''userAgent'', LStr (rc_UserAgent c)),
             (''timeout'', LStr (rc_Timeout c)), (''insecure'', LBool (rc_Insecure c)), (''qps'', LStr (rc_QPS c)),
             (''burst'', LInt (rc_Burst c)), (''hasBearerToken'', LBool (rc_BearerToken c \<noteq> [])),
             (''hasCertData'', LBool (length (rc_CertData c) > 0)), (''hasCAData'', LBool (length (rc_CAData c) > 0))])"

definition runCRDCheck_logged ::
    "runtime \<Rightarrow> logger \<Rightarrow> rest_config option \<Rightarrow> error option \<Rightarrow> APIGroup option list \<Rightarrow> error option \<Rightarrow> APIResourceList option list option \<Rightarrow>
     string \<Rightarrow> uuid \<Rightarrow> log_line list \<times> Reporter option option" where
  "runCRDCheck_logged R setupLog cfg client groups err rls crdChecklistRaw nodeID =
     (let log = WithName setupLog ''crdcheck''
      in case (if crdChecklistRaw \<noteq> [] then ParseChecklist crdChecklistRaw else Inr DefaultChecklist) of
           Inl e \<Rightarrow> (logError log e ''unable to parse --crd-checklist'' [(''raw'', LStr crdChecklistRaw)], None)
         | Inr checklist \<Rightarrow>
             (let chosen = (if crdChecklistRaw \<noteq> []
                    then logInfo log 0 ''using --crd-checklist override''
                      [(''raw'', LStr crdChecklistRaw), (''parsed'', LInt (int (length checklist)))]
                    else logInfo log 0 ''using default CRD checklist'' [(''size'', LInt (int (length checklist)))]) @ config_line log cfg
              in case client of
                   Some e \<Rightarrow> (chosen @ logError log e ''unable to create discovery client for CRD check'' [], Some None)
                 | None \<Rightarrow>
                     (case Check_logged R log groups err rls checklist of
                        (checked, crdResult) \<Rightarrow>
                          (case NewReporter_logged R log crdResult nodeID of
                             (created, r) \<Rightarrow>
                               (chosen @ logInfo log 0 ''discovery client created'' [(''fallbackNodeID'', LStr (rtUUID R nodeID))] @
                                checked @ Log R log crdResult @ created, Some (Some r))))))"

section \<open>Subscribers\<close>

definition inspectSubscriberURL :: "runtime \<Rightarrow> logger \<Rightarrow> nat \<Rightarrow> string \<Rightarrow> log_line list" where
  "inspectSubscriberURL R log index raw =
     logInfo log 0 ''inspecting subscriber URL''
       [(''index'', LInt (int index)), (''raw'', LStr raw), (''rawBytes'', LStr raw)] @
     (case rtParseURL R raw of
        Inl err \<Rightarrow> logError log err ''subscriber URL failed to parse'' [(''index'', LInt (int index)), (''raw'', LStr raw)]
      | Inr u \<Rightarrow>
          (case (case rtSplitHostPort R (u_Host u) of
               Inr hp \<Rightarrow> hp
             | Inl splitErr \<Rightarrow>
                 (u_Host u, if u_Scheme u = ''https'' then ''443 (implied)'' else if u_Scheme u = ''http'' then ''80 (implied)'' else [])) of
             (host, port) \<Rightarrow>
               logInfo log 0 ''subscriber URL parsed''
                 [(''index'', LInt (int index)), (''raw'', LStr raw), (''scheme'', LStr (u_Scheme u)), (''opaque'', LStr (u_Opaque u)),
                  (''userSet'', LBool (u_UserSet u)), (''host'', LStr host), (''port'', LStr port), (''path'', LStr (u_Path u)),
                  (''rawPath'', LStr (u_RawPath u)), (''query'', LStr (u_RawQuery u)), (''fragment'', LStr (u_Fragment u)),
                  (''requestURI'', LStr (u_RequestURI u))]) @
          (if u_Scheme u \<noteq> ''http'' \<and> u_Scheme u \<noteq> ''https''
           then logInfo log 0 ''subscriber URL scheme is not http/https; Linkerd/proxy may not treat this as mesh traffic''
                  [(''index'', LInt (int index)), (''scheme'', LStr (u_Scheme u)), (''raw'', LStr raw)]
           else if u_Host u = []
           then logInfo log 0 ''subscriber URL has empty host'' [(''index'', LInt (int index)), (''raw'', LStr raw)]
           else []) @
          (if u_Path u \<noteq> [] \<and> \<not> Contains (u_Path u) ''/api''
           then logInfo log 0 ''subscriber URL path does not contain /api (modelsrv expects a base API URL like http://host:8080/api)''
                  [(''index'', LInt (int index)), (''path'', LStr (u_Path u)), (''raw'', LStr raw)]
           else []))"

definition subscriberProbeBodyLimit :: nat where
  "subscriberProbeBodyLimit = 2048"

text \<open>The deferred \<open>Close\<close> runs when the function returns, so its line comes last.\<close>

definition probeSubscriber :: "runtime \<Rightarrow> logger \<Rightarrow> string \<Rightarrow> log_line list" where
  "probeSubscriber R log raw =
     (case rtNewRequest R raw of
        Inl err \<Rightarrow> logError log err ''subscriber probe: could not build GET request'' [(''url'', LStr raw)]
      | Inr req \<Rightarrow>
          logInfo log 0 ''subscriber probe: GET''
            [(''url'', LStr raw), (''method'', LStr ''GET''), (''host'', LStr (hr_Host req)), (''path'', LStr (hr_Path req)),
             (''timeout'', LStr ''3s'')] @
          (case rtDo R raw of
             (Inl err, elapsed) \<Rightarrow>
               logError log err ''subscriber probe: GET failed (proxy/mesh/DNS/TLS often shows up here)''
                 [(''url'', LStr raw), (''elapsed'', LStr elapsed), (''errType'', LStr (rtErrType R (Some err)))]
           | (Inr resp, elapsed) \<Rightarrow>
               (let body = take subscriberProbeBodyLimit (hp_Body resp)
                in logInfo log 0 ''subscriber probe: GET response''
                     [(''url'', LStr raw), (''elapsed'', LStr elapsed), (''status'', LStr (hp_Status resp)),
                      (''statusCode'', LInt (hp_StatusCode resp)), (''proto'', LStr (hp_Proto resp)),
                      (''contentType'', LStr (hp_Header resp ''Content-Type'')), (''server'', LStr (hp_Header resp ''Server'')),
                      (''via'', LStr (hp_Header resp ''Via'')), (''l5dClientId'', LStr (hp_Header resp ''l5d-client-id'')),
                      (''payloadBytes'', LInt (int (length body)))] @
                   logInfo log 1 ''subscriber probe: GET response body''
                     [(''url'', LStr raw), (''statusCode'', LInt (hp_StatusCode resp)), (''payloadBytes'', LInt (int (length body))),
                      (''payload'', LStr body)] @
                   (case hp_CloseErr resp of
                      None \<Rightarrow> []
                    | Some closeErr \<Rightarrow> logError log closeErr ''subscriber probe: closing response body'' [(''url'', LStr raw)]))))"

record subscriber =
  sub_Id :: uuid
  sub_URL :: string
  sub_Status :: string

text \<open>The event manager over a state \<open>'e\<close>. Reading the subscribers or the sequence number does not change it.\<close>

record 'e event_manager =
  emAdd :: "string \<Rightarrow> 'e \<Rightarrow> error option \<times> 'e"
  emSubscribers :: "'e \<Rightarrow> subscriber option list"
  emSequence :: "'e \<Rightarrow> string \<times> error option"

definition snapshotSubscribers :: "runtime \<Rightarrow> 'e event_manager \<Rightarrow> 'e \<Rightarrow> (string \<times> string) list list" where
  "snapshotSubscribers R E e =
     map (\<lambda>s. case s of
            None \<Rightarrow> [(''status'', ''nil'')]
          | Some s \<Rightarrow> [(''id'', rtUUID R (sub_Id s)), (''url'', sub_URL s), (''status'', sub_Status s)])
       (emSubscribers E e)"

definition starting_line :: "runtime \<Rightarrow> 'e event_manager \<Rightarrow> logger \<Rightarrow> nat \<Rightarrow> string \<Rightarrow> 'e \<Rightarrow> log_line list" where
  "starting_line R E log i raw e =
     logInfo log 0 ''AddSubscriber starting''
       [(''index'', LInt (int i)), (''url'', LStr raw), (''alreadyRegistered'', LRows (snapshotSubscribers R E e)),
        (''sequenceBefore'', LStr (fst (emSequence E e))), (''sequenceBeforeErr'', LStr (errString R (snd (emSequence E e))))]"

definition succeeded_line :: "runtime \<Rightarrow> 'e event_manager \<Rightarrow> logger \<Rightarrow> nat \<Rightarrow> string \<Rightarrow> 'e \<Rightarrow> log_line list" where
  "succeeded_line R E log i raw e =
     logInfo log 0 ''AddSubscriber succeeded (modelsrv also replays current state to this URL)''
       [(''index'', LInt (int i)), (''url'', LStr raw), (''registered'', LRows (snapshotSubscribers R E e)),
        (''sequenceAfter'', LStr (fst (emSequence E e))), (''sequenceAfterErr'', LStr (errString R (snd (emSequence E e))))]"

fun add_subscribers_logged ::
    "runtime \<Rightarrow> 'e event_manager \<Rightarrow> logger \<Rightarrow> nat \<Rightarrow> string list \<Rightarrow> 'e \<Rightarrow> log_line list \<times> error option \<times> 'e" where
  "add_subscribers_logged R E log i [] e =
     (logInfo log 0 ''all replication subscribers registered''
        [(''count'', LInt (int (length (emSubscribers E e)))), (''registered'', LRows (snapshotSubscribers R E e))], None, e)"
| "add_subscribers_logged R E log i (raw # urls) e =
     (let before = inspectSubscriberURL R log i raw @ probeSubscriber R log raw @ starting_line R E log i raw e
      in case emAdd E raw e of
           (Some err, e') \<Rightarrow>
             (before @ logError log err ''AddSubscriber failed''
                [(''index'', LInt (int i)), (''url'', LStr raw), (''errType'', LStr (rtErrType R (Some err)))],
              Some (ErrWrap (''register subscriber '' @ goQuote raw @ '': '') err), e')
         | (None, e') \<Rightarrow>
             (case add_subscribers_logged R E log (Suc i) urls e' of
                (ls, r) \<Rightarrow> (before @ succeeded_line R E log i raw e' @ ls, r)))"

definition registerSubscribers_logged ::
    "runtime \<Rightarrow> 'e event_manager \<Rightarrow> (string \<Rightarrow> string option) \<Rightarrow> logger \<Rightarrow> string \<Rightarrow> 'e \<Rightarrow> log_line list \<times> error option \<times> 'e" where
  "registerSubscribers_logged R E LookupEnv setupLog rawFlag e =
     (let log = WithName setupLog ''subscribers'';
          urls = parseCommaSeparatedList rawFlag;
          conf = logInfo log 0 ''subscriber configuration''
            [(''flagOrResolved'', LStr rawFlag), (''envSUBSCRIBER_URLS_set'', LBool (LookupEnv ''SUBSCRIBER_URLS'' \<noteq> None)),
             (''envSUBSCRIBER_URLS'', LStr (case LookupEnv ''SUBSCRIBER_URLS'' of None \<Rightarrow> [] | Some v \<Rightarrow> v)),
             (''parsedCount'', LInt (int (length urls))), (''parsedURLs'', LStrs urls)]
      in if length urls = 0
         then (conf @ logInfo log 0 ''no replication subscribers configured; landscape events will stay local'' [], None, e)
         else case add_subscribers_logged R E log 0 urls e of (ls, r) \<Rightarrow> (conf @ ls, r))"

section \<open>Replicated events\<close>

text \<open>
  An event of the landscape. An object is None if it is nil; the record \<open>fmt_any\<close> has \<open>%T\<close>, \<open>%#v\<close> and \<open>json.Marshal\<close>
  for objects and the methods of the event.
\<close>

record 'o event =
  evn_ResourceType :: ResourceType
  evn_Operation :: nat
  evn_ResourceId :: uuid
  evn_Objects :: "'o option list"

record 'o fmt_any =
  faType :: "'o option \<Rightarrow> string"
  faGo :: "'o \<Rightarrow> string"
  faJSON :: "'o \<Rightarrow> error + string"
  faResourceType :: "ResourceType \<Rightarrow> string"
  faResourceNum :: "ResourceType \<Rightarrow> int"
  faWireKind :: "ResourceType \<Rightarrow> string"
  faOperation :: "nat \<Rightarrow> string"
  faWireOperation :: "nat \<Rightarrow> string"
  faSummary :: "'o event \<Rightarrow> string"
  faDump :: "'o event \<Rightarrow> string"

definition formatReplicationObject :: "'o fmt_any \<Rightarrow> 'o option \<Rightarrow> string" where
  "formatReplicationObject F obj =
     (case obj of
        None \<Rightarrow> ''<nil>''
      | Some x \<Rightarrow>
          (case faJSON F x of
             Inr b \<Rightarrow> if b \<noteq> ''{}'' \<and> b \<noteq> ''null'' then faType F obj @ '' '' @ b else faType F obj @ '' '' @ faGo F x
           | Inl err \<Rightarrow> faType F obj @ '' '' @ faGo F x))"

definition logReplicationEvent :: "runtime \<Rightarrow> 'o fmt_any \<Rightarrow> logger \<Rightarrow> 'o event \<Rightarrow> log_line list" where
  "logReplicationEvent R F log ev =
     logInfo log 0 ''replication event leaving filter chain (will be recorded and pushed to subscribers)''
       [(''resourceType'', LStr (faResourceType F (evn_ResourceType ev))), (''resourceTypeNum'', LInt (faResourceNum F (evn_ResourceType ev))),
        (''wireKind'', LStr (faWireKind F (evn_ResourceType ev))), (''operation'', LStr (faOperation F (evn_Operation ev))),
        (''wireOperation'', LStr (faWireOperation F (evn_Operation ev))), (''resourceId'', LStr (rtUUID R (evn_ResourceId ev))),
        (''objectCount'', LInt (int (length (evn_Objects ev)))), (''objectTypes'', LStrs (map (faType F) (evn_Objects ev))),
        (''summary'', LStr (faSummary F ev)), (''payload'', LStrs (map (formatReplicationObject F) (evn_Objects ev)))] @
     logInfo log 1 ''replication event raw dump''
       [(''resourceId'', LStr (rtUUID R (evn_ResourceId ev))), (''raw'', LStr (faDump F ev))]"

text \<open>The filter is registered last; it passes each event on.\<close>

definition ReplicationPayloadFilter :: "runtime \<Rightarrow> 'o fmt_any \<Rightarrow> logger \<Rightarrow> 'o event \<Rightarrow> log_line list \<times> 'o event list" where
  "ReplicationPayloadFilter R F log ev = (logReplicationEvent R F (WithName log ''replication-payload'') ev, [ev])"

section \<open>Reading a log\<close>

text \<open>The values of the key \<open>k\<close> in the lines with the message \<open>m\<close>.\<close>

definition logged :: "string \<Rightarrow> string \<Rightarrow> log_line list \<Rightarrow> log_value option list" where
  "logged k m ls = map (\<lambda>l. field l k) (filter (\<lambda>l. line_msg l = m) ls)"

lemma logged_lines [simp]:
  "logged k m [] = []"
  "logged k m (xs @ ys) = logged k m xs @ logged k m ys"
  "logged k m (logInfo (Some ns) v msg kvs) = (if msg = m then [map_of kvs k] else [])"
  "logged k m (logError (Some ns) err msg kvs) = (if msg = m then [map_of kvs k] else [])"
  by (auto simp: logged_def logInfo_def logError_def field_def)

lemma logged_concat [simp]: "logged k m (concat lss) = concat (map (logged k m) lss)"
  by (induction lss) simp_all

lemma with_name [simp]: "WithName (Some ns) n = Some (ns @ [n])"
  by (simp add: WithName_def)

lemma crdEntryStrings_map [simp]: "crdEntryStrings es = map CRDEntry_String es"
proof -
  have "fold (\<lambda>e out. out @ [CRDEntry_String e]) es xs = xs @ map CRDEntry_String es" for xs
    by (induction es arbitrary: xs) simp_all
  then show ?thesis by (simp add: crdEntryStrings_def)
qed

lemma keysWithPrefix_filter [simp]: "keysWithPrefix keys p = filter (\<lambda>k. HasPrefix k p) keys"
proof -
  have "fold (\<lambda>k out. if HasPrefix k p then out @ [k] else out) keys xs = xs @ filter (\<lambda>k. HasPrefix k p) keys" for xs
    by (induction keys arbitrary: xs) simp_all
  then show ?thesis by (simp add: keysWithPrefix_def)
qed

subsection \<open>The CRD check\<close>

abbreviation missing_msg :: string where
  "missing_msg \<equiv> ''expected CRD not in discovery result''"

lemma logged_discovery [simp]:
  "logged k missing_msg (logDiscoveryError R (Some ns) err rls) = []"
  "logged k missing_msg (logDiscoveryGroups (Some ns) groups) = []"
  "logged k missing_msg (resource_list_lines R (Some ns) ls) = []"
proof -
  have "logged k missing_msg (fst (group_lines (Some ns) groups)) = []"
    by (induction "Some ns" groups rule: group_lines.induct) (auto split: prod.splits)
  then show "logged k missing_msg (logDiscoveryGroups (Some ns) groups) = []"
    by (auto simp: logDiscoveryGroups_def split: prod.splits)
  show "logged k missing_msg (logDiscoveryError R (Some ns) err rls) = []"
    by (auto simp: logDiscoveryError_def split: option.splits)
  show "logged k missing_msg (resource_list_lines R (Some ns) ls) = []"
    by (induction R "Some ns" ls rule: resource_list_lines.induct) simp_all
qed

lemma entry_lines_check: "snd (entry_lines log keys es (ls, res)) = check_entries keys es res"
  by (induction es arbitrary: ls res) (simp_all add: Let_def CRDEntry_String_def)

lemma entry_lines_logged:
  "logged k missing_msg (fst (entry_lines (Some ns) keys es (ls, res))) = logged k missing_msg ls @
     concat (map (\<lambda>e. logged k missing_msg (missing_line (Some ns) keys e)) (filter (\<lambda>e. CRDEntry_String e \<notin> set keys) es))"
  by (induction es arbitrary: ls res) (simp_all add: available_line_def)

lemma check_entries_set: "set av = set av' \<Longrightarrow> check_entries av es res = check_entries av' es res"
  by (simp add: check_entries_filter)

lemma Check_logged_result: "snd (Check_logged R log groups err rls checklist) = Check err rls checklist"
  by (auto simp: Check_logged_def Check_def Let_def entry_lines_check intro!: check_entries_set split: option.splits)

text \<open>Some discovered resource belongs to the group, or to the group and version, of the entry.\<close>

definition group_present :: "APIResourceList option list option \<Rightarrow> CRDEntry \<Rightarrow> bool" where
  "group_present rls e \<longleftrightarrow> (\<exists>key. discovered rls key \<and> HasPrefix key (e_Group e @ ''/''))"

definition group_version_present :: "APIResourceList option list option \<Rightarrow> CRDEntry \<Rightarrow> bool" where
  "group_version_present rls e \<longleftrightarrow> (\<exists>key. discovered rls key \<and> HasPrefix key (e_Group e @ ''/'' @ e_Version e @ ''/''))"

lemma discovered_sorted:
  "x \<in> set (sort (discovered_keys (case rls of None \<Rightarrow> [] | Some ls \<Rightarrow> ls))) \<longleftrightarrow> discovered rls x"
  by (cases rls) (simp_all add: discovered_iff, simp add: discovered_def)

lemma missing_line_logged:
  assumes "\<And>x. x \<in> set keys \<longleftrightarrow> discovered rls x"
  shows "logged ''crd'' missing_msg (missing_line (Some ns) keys e) = [Some (LStr (CRDEntry_String e))]"
    "logged ''groupPresent'' missing_msg (missing_line (Some ns) keys e) = [Some (LBool (group_present rls e))]"
    "logged ''groupVersionPresent'' missing_msg (missing_line (Some ns) keys e) = [Some (LBool (group_version_present rls e))]"
  using assms by (auto simp: missing_line_def Let_def group_present_def group_version_present_def filter_empty_conv)

lemma total_failure_missing: "cr_Missing (Check (Some err) None checklist) = checklist"
  by (simp add: Check_def)

lemma Check_logged_missing:
  assumes "\<not> (err \<noteq> None \<and> rls = None)"
  shows "logged k missing_msg (fst (Check_logged R (Some ns) groups err rls checklist)) =
     concat (map (\<lambda>e. logged k missing_msg (missing_line (Some (ns @ [''crdcheck'']))
       (sort (discovered_keys (case rls of None \<Rightarrow> [] | Some ls \<Rightarrow> ls))) e)) (cr_Missing (Check err rls checklist)))"
  using assms by (cases err; cases rls) (simp_all add: Check_logged_def Check_def Let_def entry_lines_logged check_entries_filter)


text \<open>The log of the check never changes what start-up does with its result.\<close>

lemma runCRDCheck_erase:
  "snd (runCRDCheck_logged R log cfg client groups err rls raw nodeID) = runCRDCheck client err rls raw nodeID"
  by (simp add: runCRDCheck_logged_def runCRDCheck_def NewReporter_logged_def Let_def split_beta Check_logged_result split: sum.split option.split)

text \<open>The secrets of the configuration are not logged: only whether they are there.\<close>

lemma config_line_hides_secrets:
  "config_line log (Some c) = config_line log (Some (c\<lparr>rc_BearerToken := t, rc_CertData := d, rc_CAData := a\<rparr>))"
  if "(rc_BearerToken c = []) = (t = [])" "(rc_CertData c = []) = (d = [])" "(rc_CAData c = []) = (a = [])"
  using that by (simp add: config_line_def)

subsection \<open>Subscribers\<close>

lemma add_msgE:
  assumes "HasPrefix m ''AddSubscriber''"
  obtains rest where "m = ''AddSubscriber'' @ rest"
  using assms append_take_drop_id [of "length ''AddSubscriber''" m] unfolding HasPrefix_def by metis

lemma logged_probes:
  assumes "HasPrefix m ''AddSubscriber''"
  shows "logged k m (inspectSubscriberURL R (Some ns) i raw) = []" and "logged k m (probeSubscriber R (Some ns) raw) = []"
proof -
  from assms obtain rest where m: "m = ''AddSubscriber'' @ rest" by (rule add_msgE)
  show "logged k m (inspectSubscriberURL R (Some ns) i raw) = []"
    by (auto simp: m inspectSubscriberURL_def split: sum.splits prod.splits)
  show "logged k m (probeSubscriber R (Some ns) raw) = []"
    by (auto simp: m probeSubscriber_def Let_def split: sum.splits prod.splits option.splits)
qed

abbreviation starting_msg :: string where
  "starting_msg \<equiv> ''AddSubscriber starting''"

abbreviation succeeded_msg :: string where
  "succeeded_msg \<equiv> ''AddSubscriber succeeded (modelsrv also replays current state to this URL)''"

abbreviation failed_msg :: string where
  "failed_msg \<equiv> ''AddSubscriber failed''"

abbreviation urls_logged :: "string \<Rightarrow> log_line list \<Rightarrow> string list \<Rightarrow> bool" where
  "urls_logged m ls urls \<equiv> logged ''url'' m ls = map (\<lambda>u. Some (LStr u)) urls"

lemma logged_attempt [simp]:
  "logged k starting_msg (inspectSubscriberURL R (Some ns) i raw) = []" "logged k starting_msg (probeSubscriber R (Some ns) raw) = []"
  "logged k succeeded_msg (inspectSubscriberURL R (Some ns) i raw) = []" "logged k succeeded_msg (probeSubscriber R (Some ns) raw) = []"
  "logged k failed_msg (inspectSubscriberURL R (Some ns) i raw) = []" "logged k failed_msg (probeSubscriber R (Some ns) raw) = []"
  by (simp_all add: logged_probes HasPrefix_def)

lemma add_subscribers_erase:
  "snd (add_subscribers_logged R E log i urls e) = add_subscribers (emAdd E) urls e"
  by (induction urls arbitrary: i e) (auto simp: Let_def split_beta split: option.splits)

text \<open>\<open>reported\<close>: the log names the URLs that were tried, added and refused.\<close>

definition reported :: "log_line list \<Rightarrow> error option \<Rightarrow> string list \<Rightarrow> nat \<Rightarrow> bool" where
  "reported ls r urls n \<longleftrightarrow> urls_logged starting_msg ls (take n urls) \<and>
     (if r = None then urls_logged succeeded_msg ls urls \<and> urls_logged failed_msg ls []
      else urls_logged succeeded_msg ls (take (n - 1) urls) \<and> urls_logged failed_msg ls [urls ! (n - 1)])"

lemma add_subscribers_report:
  "\<exists>n \<le> length urls. snd (add_subscribers (emAdd E) urls e) = added (emAdd E) urls n e \<and>
     (if fst (add_subscribers (emAdd E) urls e) = None then n = length urls
      else 0 < n \<and> fst (emAdd E (urls ! (n - 1)) (added (emAdd E) urls (n - 1) e)) \<noteq> None) \<and>
     reported (fst (add_subscribers_logged R E (Some ns) i urls e)) (fst (add_subscribers (emAdd E) urls e)) urls n"
proof (induction urls arbitrary: i e)
  case (Cons u urls)
  obtain r e' where a: "emAdd E u e = (r, e')" by (cases "emAdd E u e")
  show ?case
  proof (cases r)
    case None
    from Cons [of e' "Suc i"] obtain n where n: "n \<le> length urls" "snd (add_subscribers (emAdd E) urls e') = added (emAdd E) urls n e'"
      "if fst (add_subscribers (emAdd E) urls e') = None then n = length urls
       else 0 < n \<and> fst (emAdd E (urls ! (n - 1)) (added (emAdd E) urls (n - 1) e')) \<noteq> None"
      "reported (fst (add_subscribers_logged R E (Some ns) (Suc i) urls e')) (fst (add_subscribers (emAdd E) urls e')) urls n" by blast
    have shift: "0 < n \<Longrightarrow> (u # urls) ! n = urls ! (n - 1)" "0 < n \<Longrightarrow> take n (u # urls) = u # take (n - 1) urls"
      "0 < n \<Longrightarrow> added (emAdd E) (u # urls) n e = added (emAdd E) urls (n - 1) e'"
      "added (emAdd E) (u # urls) (Suc n) e = added (emAdd E) urls n e'"
      using a by (cases n; simp add: added_def)+
    show ?thesis using n shift a None
      by (intro exI [of _ "Suc n"])
        (auto simp: reported_def starting_line_def succeeded_line_def Let_def split: prod.splits if_splits)
  next
    case (Some err)
    then show ?thesis using a by (intro exI [of _ 1]) (simp add: added_def reported_def starting_line_def Let_def)
  qed
qed (simp add: added_def reported_def)


subsection \<open>Replicated events\<close>

text \<open>The filter lets every event pass unchanged and in order, and each leaves one line with all its objects in the payload.\<close>

lemma replication_passes_all:
  "concat (map (\<lambda>ev. snd (ReplicationPayloadFilter R F log ev)) evs) = evs"
  "logged ''payload'' ''replication event leaving filter chain (will be recorded and pushed to subscribers)''
     (concat (map (\<lambda>ev. fst (ReplicationPayloadFilter R F (Some ns) ev)) evs)) =
   map (\<lambda>ev. Some (LStrs (map (formatReplicationObject F) (evn_Objects ev)))) evs"
  by (induction evs) (simp_all add: ReplicationPayloadFilter_def logReplicationEvent_def)

text \<open>A payload is readable: it is the JSON of the object unless that says nothing.\<close>

lemma replication_object_text:
  "formatReplicationObject F (Some x) =
     faType F (Some x) @ '' '' @ (if \<exists>b. faJSON F x = Inr b \<and> b \<notin> {''{}'', ''null''} then projr (faJSON F x) else faGo F x)"
  by (cases "faJSON F x") (auto simp: formatReplicationObject_def)

end
