(* ===== verification/Memory.thy ===== *)
theory Memory
  imports Prelude
begin

text \<open>
  A memory with allocation, and the contract of a deep copy. An address is the target of a pointer or the backing array of a
  slice. Memory is never given back. The locale \<open>deep_copy\<close> is the contract: the copy reads the same as the original, the memory that was there
  before is unchanged, and what the copy refers to is new. It is kept by copying a block, an array
  whose elements are copied in turn, two fields of a struct, and a struct behind a pointer.
\<close>

section \<open>Memory\<close>

type_synonym addr = nat

record 'k memory =
  limit :: addr
  cells :: "addr \<Rightarrow> 'k option"

definition alloc :: "'k \<Rightarrow> 'k memory \<Rightarrow> addr \<times> 'k memory" where
  "alloc c h = (limit h, h\<lparr>limit := Suc (limit h), cells := (cells h)(limit h \<mapsto> c)\<rparr>)"

definition store :: "addr \<Rightarrow> 'k \<Rightarrow> 'k memory \<Rightarrow> 'k memory" where
  "store a c h = h\<lparr>cells := (cells h)(a \<mapsto> c)\<rparr>"

lemma alloc_simps [simp]:
  "fst (alloc c h) = limit h" "limit (snd (alloc c h)) = Suc (limit h)"
  "cells (snd (alloc c h)) a = (if a = limit h then Some c else cells h a)"
  by (simp_all add: alloc_def)

lemma store_simps [simp]:
  "limit (store a c h) = limit h" "cells (store a c h) b = (if b = a then Some c else cells h b)"
  by (simp_all add: store_def)

text \<open>What was allocated before is as it was.\<close>

definition extends :: "'k memory \<Rightarrow> 'k memory \<Rightarrow> bool" where
  "extends h h' \<longleftrightarrow> limit h \<le> limit h' \<and> (\<forall>a < limit h. cells h' a = cells h a)"

lemma extends_refl [simp, intro]: "extends h h"
  by (simp add: extends_def)

lemma extends_trans [trans]: "extends h h' \<Longrightarrow> extends h' h'' \<Longrightarrow> extends h h''"
  by (simp add: extends_def)

lemma extendsD: "extends h h' \<Longrightarrow> a < limit h \<Longrightarrow> cells h' a = cells h a" "extends h h' \<Longrightarrow> limit h \<le> limit h'"
  by (simp_all add: extends_def)

section \<open>The contract\<close>

text \<open>
  \<open>copy\<close> is a \<open>DeepCopyInto\<close> that returns what it writes. \<open>val\<close> reads a value with everything it refers to, and \<open>refs\<close> are
  the addresses it refers to, directly or not.
\<close>

locale deep_copy =
  fixes copy :: "'a \<Rightarrow> 'k memory \<Rightarrow> 'a \<times> 'k memory"
    and val :: "'k memory \<Rightarrow> 'a \<Rightarrow> 'v"
    and refs :: "'k memory \<Rightarrow> 'a \<Rightarrow> addr set"
  assumes copied: "refs h x \<subseteq> {..<limit h} \<Longrightarrow> copy x h = (y, h') \<Longrightarrow>
      extends h h' \<and> val h' y = val h x \<and> refs h' y \<subseteq> {limit h..<limit h'}"
    and reads: "(\<And>a. a \<in> refs h x \<Longrightarrow> cells h' a = cells h a) \<Longrightarrow> val h' x = val h x \<and> refs h' x = refs h x"
begin

lemma kept:
  assumes "extends h h'" and "refs h x \<subseteq> {..<limit h}"
  shows "val h' x = val h x" and "refs h' x = refs h x"
  using assms reads [of h x h'] extendsD(1) by blast+

text \<open>Whoever changes only the memory of one of the two does not change the other.\<close>

lemma independent:
  assumes "refs h x \<subseteq> {..<limit h}" and "copy x h = (y, h')"
  shows "(\<And>a. a \<notin> refs h' y \<Longrightarrow> cells h'' a = cells h' a) \<Longrightarrow> val h'' x = val h x"
    and "(\<And>a. a \<notin> refs h x \<Longrightarrow> cells h'' a = cells h' a) \<Longrightarrow> val h'' y = val h x"
proof -
  note c = copied [OF assms]
  then have disj: "refs h x \<inter> refs h' y = {}" using assms(1) by fastforce
  {
    assume other: "\<And>a. a \<notin> refs h' y \<Longrightarrow> cells h'' a = cells h' a"
    have "cells h'' a = cells h a" if "a \<in> refs h x" for a
    proof -
      have "a \<notin> refs h' y" and "a < limit h" using that disj assms(1) by blast+
      then show ?thesis using other extendsD(1) c by metis
    qed
    then show "val h'' x = val h x" using reads by blast
  next
    assume other: "\<And>a. a \<notin> refs h x \<Longrightarrow> cells h'' a = cells h' a"
    have "cells h'' a = cells h' a" if "a \<in> refs h' y" for a using that disj other by blast
    then show "val h'' y = val h x" using reads [of h' y h''] c by metis
  }
qed

end

text \<open>A struct without references is copied by assignment.\<close>

definition copy_plain :: "'a \<Rightarrow> 'k memory \<Rightarrow> 'a \<times> 'k memory" where
  "copy_plain x h = (x, h)"

interpretation plain: deep_copy copy_plain "\<lambda>h x. x" "\<lambda>h x. {}"
  by unfold_locales (auto simp: copy_plain_def)

section \<open>Blocks\<close>

text \<open>
  A pointer or slice whose target has no references: if it is not nil, \<open>new\<close> or \<open>make\<close> gives a blank target of the same size, and
  the contents are copied into it. \<open>mk\<close> and \<open>get\<close> put contents of one type into a cell and read them.
\<close>

definition copy_block :: "('x \<Rightarrow> 'k) \<Rightarrow> ('k option \<Rightarrow> 'x) \<Rightarrow> ('x \<Rightarrow> 'x) \<Rightarrow> addr option \<Rightarrow> 'k memory \<Rightarrow> addr option \<times> 'k memory" where
  "copy_block mk get blank p h =
     (case p of
        None \<Rightarrow> (None, h)
      | Some a \<Rightarrow>
          (case alloc (mk (blank (get (cells h a)))) h of
             (b, h1) \<Rightarrow> (Some b, store b (mk (get (cells h1 a))) h1)))"

locale block =
  fixes mk :: "'x \<Rightarrow> 'k" and get :: "'k option \<Rightarrow> 'x" and blank :: "'x \<Rightarrow> 'x"
  assumes get_mk [simp]: "get (Some (mk x)) = x"

sublocale block \<subseteq> deep_copy "copy_block mk get blank" "\<lambda>h p. map_option (\<lambda>a. get (cells h a)) p" "\<lambda>h p. set_option p"
proof unfold_locales
  fix h h' :: "'k memory" and p y
  assume "set_option p \<subseteq> {..<limit h}" and "copy_block mk get blank p h = (y, h')"
  then show "extends h h' \<and> map_option (\<lambda>a. get (cells h' a)) y = map_option (\<lambda>a. get (cells h a)) p \<and>
      set_option y \<subseteq> {limit h..<limit h'}"
    by (cases p) (auto simp: copy_block_def alloc_def extends_def)
next
  fix h h' :: "'k memory" and p
  assume "\<And>a. a \<in> set_option p \<Longrightarrow> cells h' a = cells h a"
  then show "map_option (\<lambda>a. get (cells h' a)) p = map_option (\<lambda>a. get (cells h a)) p \<and> set_option p = set_option p"
    by (cases p) auto
qed

context block
begin

lemma deep_block: "deep_copy (copy_block mk get blank) (\<lambda>h p. map_option (\<lambda>a. get (cells h a)) p) (\<lambda>h p. set_option p)"
  by (rule deep_copy_axioms)

end

section \<open>Arrays of structs\<close>

text \<open>The loop over the elements: each is copied into its place in the new array.\<close>

fun fill :: "('a list \<Rightarrow> 'k) \<Rightarrow> ('k option \<Rightarrow> 'a list) \<Rightarrow> ('a \<Rightarrow> 'k memory \<Rightarrow> 'a \<times> 'k memory) \<Rightarrow> addr \<Rightarrow> nat \<Rightarrow> 'a list \<Rightarrow>
    'k memory \<Rightarrow> 'k memory" where
  "fill mk get copy b i [] h = h"
| "fill mk get copy b i (x # xs) h =
     (case copy x h of (y, h') \<Rightarrow> fill mk get copy b (Suc i) xs (store b (mk ((get (cells h' b))[i := y])) h'))"

definition copy_items ::
    "('a list \<Rightarrow> 'k) \<Rightarrow> ('k option \<Rightarrow> 'a list) \<Rightarrow> 'a \<Rightarrow> ('a \<Rightarrow> 'k memory \<Rightarrow> 'a \<times> 'k memory) \<Rightarrow> addr option \<Rightarrow> 'k memory \<Rightarrow>
     addr option \<times> 'k memory" where
  "copy_items mk get zero copy p h =
     (case p of
        None \<Rightarrow> (None, h)
      | Some a \<Rightarrow>
          (case alloc (mk (replicate (length (get (cells h a))) zero)) h of
             (b, h1) \<Rightarrow> (Some b, fill mk get copy b 0 (get (cells h1 a)) h1)))"

definition items_val :: "('k option \<Rightarrow> 'a list) \<Rightarrow> ('k memory \<Rightarrow> 'a \<Rightarrow> 'v) \<Rightarrow> 'k memory \<Rightarrow> addr option \<Rightarrow> 'v list option" where
  "items_val get val h p = map_option (\<lambda>a. map (val h) (get (cells h a))) p"

definition items_refs :: "('k option \<Rightarrow> 'a list) \<Rightarrow> ('k memory \<Rightarrow> 'a \<Rightarrow> addr set) \<Rightarrow> 'k memory \<Rightarrow> addr option \<Rightarrow> addr set" where
  "items_refs get refs h p = (case p of None \<Rightarrow> {} | Some a \<Rightarrow> insert a (\<Union> (refs h ` set (get (cells h a)))))"

locale items = deep_copy copy val refs
  for copy :: "'a \<Rightarrow> 'k memory \<Rightarrow> 'a \<times> 'k memory" and val :: "'k memory \<Rightarrow> 'a \<Rightarrow> 'v" and refs +
  fixes mk :: "'a list \<Rightarrow> 'k" and get :: "'k option \<Rightarrow> 'a list" and zero :: 'a
  assumes items_mk [simp]: "get (Some (mk xs)) = xs"
begin

text \<open>
  The invariant of the loop. \<open>b\<close> is the new array; below it is the memory of the original, above it that of the copies. The
  array holds the copies \<open>ys\<close> made so far and the blank rest.
\<close>

lemma fill_copies:
  assumes "b < limit h"
    and "\<And>x. x \<in> set xs \<Longrightarrow> refs h x \<subseteq> {..<b}"
    and "get (cells h b) = ys @ zs" "length zs = length xs" "length ys = i"
    and "\<And>y. y \<in> set ys \<Longrightarrow> refs h y \<subseteq> {b<..<limit h}"
    and "h' = fill mk get copy b i xs h"
  shows "limit h \<le> limit h' \<and> (\<forall>a < b. cells h' a = cells h a) \<and>
    map (val h') (get (cells h' b)) = map (val h) ys @ map (val h) xs \<and>
    (\<forall>y \<in> set (get (cells h' b)). refs h' y \<subseteq> {b<..<limit h'})"
  using assms
proof (induction xs arbitrary: h ys zs i)
  case (Cons x xs)
  obtain y h1 where y: "copy x h = (y, h1)" by (cases "copy x h")
  obtain z zs' where zs: "zs = z # zs'" "length zs' = length xs" using Cons.prems(4) by (cases zs) auto
  have x: "refs h x \<subseteq> {..<limit h}" using Cons.prems(1) Cons.prems(2) [of x] by fastforce
  note c = copied [OF x y]
  have ext: "cells h1 a = cells h a" if "a < limit h" for a using that c extendsD(1) by blast
  have lim: "limit h \<le> limit h1" using c extendsD(2) by blast
  define h2 where "h2 = store b (mk (ys @ y # zs')) h1"
  have row: "(get (cells h1 b))[i := y] = ys @ y # zs'"
    using Cons.prems(1,3,5) ext zs by (simp add: list_update_append)
  have same: "val h2 w = val h w \<and> refs h2 w = refs h w" if "refs h w \<subseteq> {..<limit h} - {b}" for w
  proof -
    have "cells h2 a = cells h a" if "a \<in> refs h w" for a
      using that \<open>refs h w \<subseteq> _\<close> ext by (auto simp: h2_def)
    then show ?thesis by (rule reads)
  qed
  have new: "val h2 y = val h x \<and> refs h2 y = refs h1 y"
  proof -
    have "cells h2 a = cells h1 a" if "a \<in> refs h1 y" for a
      using that c Cons.prems(1) by (auto simp: h2_def)
    then show ?thesis using reads [of h1 y h2] c by simp
  qed
  have dun: "val h2 w = val h w" "refs h2 w = refs h w" if "w \<in> set ys" for w
    using same [of w] Cons.prems(6) [OF that] by fastforce+
  have todo: "val h2 w = val h w" "refs h2 w = refs h w" if "w \<in> set xs" for w
    using same [of w] Cons.prems(2) [of w] that Cons.prems(1) by fastforce+
  have "limit h2 \<le> limit h' \<and> (\<forall>a < b. cells h' a = cells h2 a) \<and>
    map (val h') (get (cells h' b)) = map (val h2) (ys @ [y]) @ map (val h2) xs \<and>
    (\<forall>y \<in> set (get (cells h' b)). refs h' y \<subseteq> {b<..<limit h'})"
  proof (rule Cons.IH)
    show "b < limit h2" using Cons.prems(1) lim by (simp add: h2_def)
    show "refs h2 w \<subseteq> {..<b}" if "w \<in> set xs" for w using that todo(2) Cons.prems(2) by simp
    show "get (cells h2 b) = (ys @ [y]) @ zs'" by (simp add: h2_def)
    show "length (ys @ [y]) = Suc i" using Cons.prems(5) by simp
    show "refs h2 w \<subseteq> {b<..<limit h2}" if "w \<in> set (ys @ [y])" for w
      using that Cons.prems(6) [of w] Cons.prems(1) dun(2) new c lim by (fastforce simp: h2_def)
    show "h' = fill mk get copy b (Suc i) xs h2" using Cons.prems(7) y row by (simp add: h2_def)
  qed (rule zs(2))
  moreover have "map (val h2) ys = map (val h) ys" "map (val h2) xs = map (val h) xs" using dun(1) todo(1) by simp_all
  ultimately show ?case using lim new ext Cons.prems(1) by (auto simp: h2_def)
qed simp

end

sublocale items \<subseteq> array: deep_copy "copy_items mk get zero copy" "items_val get val" "items_refs get refs"
proof unfold_locales
  fix h h' :: "'k memory" and p y
  assume p: "items_refs get refs h p \<subseteq> {..<limit h}" and y: "copy_items mk get zero copy p h = (y, h')"
  show "extends h h' \<and> items_val get val h' y = items_val get val h p \<and> items_refs get refs h' y \<subseteq> {limit h..<limit h'}"
  proof (cases p)
    case (Some a)
    let ?xs = "get (cells h a)" and ?b = "limit h"
    define h1 where "h1 = snd (alloc (mk (replicate (length ?xs) zero)) h)"
    have a: "a < ?b" and xs: "\<And>x. x \<in> set ?xs \<Longrightarrow> refs h x \<subseteq> {..<?b}" using p Some by (auto simp: items_refs_def)
    have h1: "limit h1 = Suc ?b" "get (cells h1 ?b) = replicate (length ?xs) zero" "extends h h1" "get (cells h1 a) = ?xs"
      using a by (auto simp: h1_def extends_def)
    have out: "y = Some ?b" "h' = fill mk get copy ?b 0 ?xs h1"
      using y Some h1(4) by (simp_all add: copy_items_def h1_def alloc_def)
    have same: "val h1 x = val h x" "refs h1 x = refs h x" if "x \<in> set ?xs" for x
      using kept [OF h1(3) xs [OF that]] by simp_all
    have f: "limit h1 \<le> limit h' \<and> (\<forall>a < ?b. cells h' a = cells h1 a) \<and>
        map (val h') (get (cells h' ?b)) = map (val h1) [] @ map (val h1) ?xs \<and>
        (\<forall>y \<in> set (get (cells h' ?b)). refs h' y \<subseteq> {?b<..<limit h'})"
      by (rule fill_copies [where zs = "replicate (length ?xs) zero"]) (use h1 out same xs in auto)
    then have "extends h h'" using h1 by (auto simp: extends_def)
    moreover have "items_val get val h' y = items_val get val h p" using f same(1) out(1) Some by (simp add: items_val_def)
    moreover have "items_refs get refs h' y \<subseteq> {limit h..<limit h'}"
      using f h1(1) out(1) by (fastforce simp: items_refs_def)
    ultimately show ?thesis by blast
  qed (use y in \<open>auto simp: copy_items_def items_val_def items_refs_def\<close>)
next
  fix h h' :: "'k memory" and p
  assume eq: "\<And>a. a \<in> items_refs get refs h p \<Longrightarrow> cells h' a = cells h a"
  show "items_val get val h' p = items_val get val h p \<and> items_refs get refs h' p = items_refs get refs h p"
  proof (cases p)
    case (Some a)
    then have "get (cells h' a) = get (cells h a)" using eq by (simp add: items_refs_def)
    moreover have "val h' x = val h x \<and> refs h' x = refs h x" if "x \<in> set (get (cells h a))" for x
      using that eq Some by (intro reads) (auto simp: items_refs_def)
    ultimately show ?thesis using Some by (simp add: items_val_def items_refs_def)
  qed (simp add: items_val_def items_refs_def)
qed

context items
begin

lemma deep_items: "deep_copy (copy_items mk get zero copy) (items_val get val) (items_refs get refs)"
  by (rule array.deep_copy_axioms)

end

section \<open>Structs\<close>

text \<open>Two fields with references are copied one after the other; the rest of the struct is assigned.\<close>

definition pair_copy ::
    "('a \<Rightarrow> 'k memory \<Rightarrow> 'a \<times> 'k memory) \<Rightarrow> ('b \<Rightarrow> 'k memory \<Rightarrow> 'b \<times> 'k memory) \<Rightarrow> ('s \<Rightarrow> 'a) \<Rightarrow> ('s \<Rightarrow> 'b) \<Rightarrow> ('s \<Rightarrow> 'a \<Rightarrow> 'b \<Rightarrow> 's) \<Rightarrow>
     's \<Rightarrow> 'k memory \<Rightarrow> 's \<times> 'k memory" where
  "pair_copy ca cb getA getB put s h =
     (case ca (getA s) h of (a, h1) \<Rightarrow> (case cb (getB s) h1 of (b, h2) \<Rightarrow> (put s a b, h2)))"

locale copy_pair = first: deep_copy ca va ra + second: deep_copy cb vb rb
  for ca :: "'a \<Rightarrow> 'k memory \<Rightarrow> 'a \<times> 'k memory" and va :: "'k memory \<Rightarrow> 'a \<Rightarrow> 'v" and ra
    and cb :: "'b \<Rightarrow> 'k memory \<Rightarrow> 'b \<times> 'k memory" and vb :: "'k memory \<Rightarrow> 'b \<Rightarrow> 'w" and rb +
  fixes getA :: "'s \<Rightarrow> 'a" and getB :: "'s \<Rightarrow> 'b" and put :: "'s \<Rightarrow> 'a \<Rightarrow> 'b \<Rightarrow> 's" and rest :: "'s \<Rightarrow> 'r"
  assumes fields [simp]: "getA (put s a b) = a" "getB (put s a b) = b" "rest (put s a b) = rest s"

sublocale copy_pair \<subseteq> struct: deep_copy "pair_copy ca cb getA getB put" "\<lambda>h s. (rest s, va h (getA s), vb h (getB s))"
    "\<lambda>h s. ra h (getA s) \<union> rb h (getB s)"
proof unfold_locales
  fix h h' :: "'k memory" and s t
  assume r: "ra h (getA s) \<union> rb h (getB s) \<subseteq> {..<limit h}" and t: "pair_copy ca cb getA getB put s h = (t, h')"
  obtain a h1 where a: "ca (getA s) h = (a, h1)" by (cases "ca (getA s) h")
  obtain b h2 where b: "cb (getB s) h1 = (b, h2)" by (cases "cb (getB s) h1")
  have ra: "ra h (getA s) \<subseteq> {..<limit h}" and rb: "rb h (getB s) \<subseteq> {..<limit h}" using r by simp_all
  note ca = first.copied [OF ra a]
  have e1: "extends h h1" using ca by blast
  have rb1: "vb h1 (getB s) = vb h (getB s)" "rb h1 (getB s) \<subseteq> {..<limit h1}"
    using second.kept [OF e1 rb] rb extendsD(2) [OF e1] by fastforce+
  note cb = second.copied [OF rb1(2) b]
  have e2: "extends h1 h2" using cb by blast
  have ra1: "ra h1 a \<subseteq> {..<limit h1}" using ca by fastforce
  note ka = first.kept [OF e2 ra1]
  have "extends h h2" using e1 e2 by (rule extends_trans)
  moreover have "t = put s a b" "h' = h2" using t a b by (simp_all add: pair_copy_def)
  moreover have "ra h2 a \<union> rb h2 b \<subseteq> {limit h..<limit h2}"
    using ca cb ka(2) extendsD(2) [OF e1] extendsD(2) [OF e2] by fastforce
  ultimately show "extends h h' \<and> (rest t, va h' (getA t), vb h' (getB t)) = (rest s, va h (getA s), vb h (getB s)) \<and>
      ra h' (getA t) \<union> rb h' (getB t) \<subseteq> {limit h..<limit h'}"
    using ca cb ka(1) rb1(1) by simp
next
  fix h h' :: "'k memory" and s
  assume "\<And>a. a \<in> ra h (getA s) \<union> rb h (getB s) \<Longrightarrow> cells h' a = cells h a"
  then show "(rest s, va h' (getA s), vb h' (getB s)) = (rest s, va h (getA s), vb h (getB s)) \<and>
      ra h' (getA s) \<union> rb h' (getB s) = ra h (getA s) \<union> rb h (getB s)"
    using first.reads [of h "getA s" h'] second.reads [of h "getB s" h'] by simp
qed

context copy_pair
begin

lemma deep_struct:
  "deep_copy (pair_copy ca cb getA getB put) (\<lambda>h s. (rest s, va h (getA s), vb h (getB s))) (\<lambda>h s. ra h (getA s) \<union> rb h (getB s))"
  by (rule struct.deep_copy_axioms)

end

section \<open>Pointers\<close>

text \<open>
  A pointer to a struct of its own is the address together with the struct it points to; nil is None. \<open>DeepCopy_of\<close> is the
  pattern of the methods \<open>DeepCopy\<close>, \<open>DeepCopyObject_of\<close> that of \<open>DeepCopyObject\<close>: an interface is None if it is nil, and else
  holds a pointer, which could be nil as well.
\<close>

type_synonym 's ptr = "(addr \<times> 's) option"

definition new :: "'k memory \<Rightarrow> addr \<times> 'k memory" where
  "new h = (limit h, h\<lparr>limit := Suc (limit h)\<rparr>)"

definition DeepCopy_of :: "('s \<Rightarrow> 'k memory \<Rightarrow> 's \<times> 'k memory) \<Rightarrow> 's ptr \<Rightarrow> 'k memory \<Rightarrow> 's ptr \<times> 'k memory" where
  "DeepCopy_of copyInto p h =
     (case p of
        None \<Rightarrow> (None, h)
      | Some (a, x) \<Rightarrow> (case new h of (b, h1) \<Rightarrow> (case copyInto x h1 of (y, h2) \<Rightarrow> (Some (b, y), h2))))"

definition DeepCopyObject_of :: "('s ptr \<Rightarrow> 'k memory \<Rightarrow> 's ptr \<times> 'k memory) \<Rightarrow> 's ptr \<Rightarrow> 'k memory \<Rightarrow> 's ptr option \<times> 'k memory" where
  "DeepCopyObject_of DeepCopy p h = (case DeepCopy p h of (c, h') \<Rightarrow> (case c of Some x \<Rightarrow> (Some c, h') | None \<Rightarrow> (None, h')))"

definition ptr_val :: "('k memory \<Rightarrow> 's \<Rightarrow> 'v) \<Rightarrow> 'k memory \<Rightarrow> 's ptr \<Rightarrow> 'v option" where
  "ptr_val val h p = map_option (\<lambda>(a, x). val h x) p"

definition ptr_refs :: "('k memory \<Rightarrow> 's \<Rightarrow> addr set) \<Rightarrow> 'k memory \<Rightarrow> 's ptr \<Rightarrow> addr set" where
  "ptr_refs refs h p = (case p of None \<Rightarrow> {} | Some (a, x) \<Rightarrow> insert a (refs h x))"

locale pointed = deep_copy copy val refs
  for copy :: "'s \<Rightarrow> 'k memory \<Rightarrow> 's \<times> 'k memory" and val :: "'k memory \<Rightarrow> 's \<Rightarrow> 'v" and refs

sublocale pointed \<subseteq> pointer: deep_copy "DeepCopy_of copy" "ptr_val val" "ptr_refs refs"
proof unfold_locales
  fix h h' :: "'k memory" and p y
  assume p: "ptr_refs refs h p \<subseteq> {..<limit h}" and y: "DeepCopy_of copy p h = (y, h')"
  show "extends h h' \<and> ptr_val val h' y = ptr_val val h p \<and> ptr_refs refs h' y \<subseteq> {limit h..<limit h'}"
  proof (cases p)
    case (Some ax)
    obtain a x where ax: "ax = (a, x)" by (cases ax)
    define h1 where "h1 = snd (new h)"
    have h1: "extends h h1" "limit h1 = Suc (limit h)" by (simp_all add: h1_def new_def extends_def)
    have x: "refs h x \<subseteq> {..<limit h}" using p by (simp add: Some ax ptr_refs_def)
    note k = kept [OF h1(1) x]
    obtain z where z: "copy x h1 = (z, h')" "y = Some (limit h, z)"
      using y by (auto simp: DeepCopy_of_def Some ax new_def h1_def split: prod.splits)
    have "refs h1 x \<subseteq> {..<limit h1}" using x k(2) h1(2) by fastforce
    note c = copied [OF this z(1)]
    then have "extends h h'" using h1(1) extends_trans by blast
    moreover have "limit h1 \<le> limit h'" using c extendsD(2) by blast
    ultimately show ?thesis using c k(1) h1(2) by (fastforce simp: Some ax z(2) ptr_val_def ptr_refs_def)
  qed (use y in \<open>auto simp: DeepCopy_of_def ptr_val_def ptr_refs_def\<close>)
next
  fix h h' :: "'k memory" and p
  assume "\<And>a. a \<in> ptr_refs refs h p \<Longrightarrow> cells h' a = cells h a"
  then show "ptr_val val h' p = ptr_val val h p \<and> ptr_refs refs h' p = ptr_refs refs h p"
    using reads [of h "snd (the p)" h'] by (auto simp: ptr_val_def ptr_refs_def split: option.splits)
qed

section \<open>What a client sees\<close>

text \<open>
  A deep copy behind a pointer: nil gives a nil interface, anything else a new object that reads the same; the original reads as
  before, and from then on a change of the memory of one of the two never shows in the other.
\<close>

definition deep_object_copy ::
    "('s ptr \<Rightarrow> 'k memory \<Rightarrow> 's ptr option \<times> 'k memory) \<Rightarrow> ('k memory \<Rightarrow> 's \<Rightarrow> 'v) \<Rightarrow> ('k memory \<Rightarrow> 's \<Rightarrow> addr set) \<Rightarrow> bool" where
  "deep_object_copy copy val refs \<longleftrightarrow>
     (\<forall>h. copy None h = (None, h)) \<and>
     (\<forall>h a x. a < limit h \<longrightarrow> refs h x \<subseteq> {..<limit h} \<longrightarrow>
        (\<exists>b y h'. copy (Some (a, x)) h = (Some (Some (b, y)), h') \<and> b \<noteq> a \<and> val h' y = val h x \<and> val h' x = val h x \<and>
           (\<forall>h''. (\<forall>c. c \<notin> refs h' y \<longrightarrow> cells h'' c = cells h' c) \<longrightarrow> val h'' x = val h x) \<and>
           (\<forall>h''. (\<forall>c. c \<notin> refs h x \<longrightarrow> cells h'' c = cells h' c) \<longrightarrow> val h'' y = val h x)))"

context pointed
begin

lemma object_copy: "deep_object_copy (DeepCopyObject_of (DeepCopy_of copy)) val refs"
proof -
  have "\<exists>b y h'. DeepCopyObject_of (DeepCopy_of copy) (Some (a, x)) h = (Some (Some (b, y)), h') \<and> b \<noteq> a \<and> val h' y = val h x \<and>
      val h' x = val h x \<and>
      (\<forall>h''. (\<forall>c. c \<notin> refs h' y \<longrightarrow> cells h'' c = cells h' c) \<longrightarrow> val h'' x = val h x) \<and>
      (\<forall>h''. (\<forall>c. c \<notin> refs h x \<longrightarrow> cells h'' c = cells h' c) \<longrightarrow> val h'' y = val h x)"
    if a: "a < limit h" and x: "refs h x \<subseteq> {..<limit h}" for h a x
  proof -
    define h1 where "h1 = h\<lparr>limit := Suc (limit h)\<rparr>"
    have h1: "extends h h1" by (simp add: h1_def extends_def)
    note k = kept [OF h1 x]
    have x1: "refs h1 x \<subseteq> {..<limit h1}" using x k(2) by (fastforce simp: h1_def)
    obtain y h' where y: "copy x h1 = (y, h')" by (cases "copy x h1")
    have "DeepCopyObject_of (DeepCopy_of copy) (Some (a, x)) h = (Some (Some (limit h, y)), h')"
      using y by (simp add: DeepCopyObject_of_def DeepCopy_of_def new_def h1_def)
    moreover have "val h' y = val h x" "val h' x = val h x"
      using copied [OF x1 y] kept(1) [of h h'] extends_trans [OF h1] x k(1) by auto
    moreover have "val h'' x = val h x" if "\<forall>c. c \<notin> refs h' y \<longrightarrow> cells h'' c = cells h' c" for h'' :: "'k memory"
      using independent(1) [OF x1 y] that k(1) by auto
    moreover have "val h'' y = val h x" if "\<forall>c. c \<notin> refs h x \<longrightarrow> cells h'' c = cells h' c" for h'' :: "'k memory"
      using independent(2) [OF x1 y] that k by auto
    ultimately show ?thesis using a by blast
  qed
  then show ?thesis by (simp add: deep_object_copy_def DeepCopyObject_of_def DeepCopy_of_def)
qed

end

section \<open>Rules\<close>

text \<open>The contract of the parts gives the contract of the whole. The value may be read in another form.\<close>

lemma deep_copy_view:
  assumes "deep_copy copy val refs" and "\<And>h x. val' h x = f (val h x)"
  shows "deep_copy copy val' refs"
  using assms(1) unfolding deep_copy_def assms(2) by metis

lemma deep_copy_block:
  assumes "\<And>x. get (Some (mk x)) = x"
  shows "deep_copy (copy_block mk get blank) (\<lambda>h p. map_option (\<lambda>a. get (cells h a)) p) (\<lambda>h p. set_option p)"
proof -
  have "block mk get" by unfold_locales (rule assms)
  then show ?thesis by (rule block.deep_block)
qed

lemma deep_copy_items:
  assumes "deep_copy copy val refs" and "\<And>xs. get (Some (mk xs)) = xs"
  shows "deep_copy (copy_items mk get zero copy) (items_val get val) (items_refs get refs)"
proof -
  have "items copy val refs mk get" using assms by (intro items.intro items_axioms.intro)
  then show ?thesis by (rule items.deep_items)
qed

lemma deep_copy_pair:
  assumes "deep_copy ca va ra" and "deep_copy cb vb rb"
    and "\<And>s a b. getA (put s a b) = a" and "\<And>s a b. getB (put s a b) = b" and "\<And>s a b. rest (put s a b) = rest s"
  shows "deep_copy (pair_copy ca cb getA getB put) (\<lambda>h s. (rest s, va h (getA s), vb h (getB s)))
    (\<lambda>h s. ra h (getA s) \<union> rb h (getB s))"
proof -
  have "copy_pair ca va ra cb vb rb getA getB put rest" using assms by (intro copy_pair.intro copy_pair_axioms.intro)
  then show ?thesis by (rule copy_pair.deep_struct)
qed

text \<open>A struct whose copy, value and references are those of two fields and the rest, however they are written.\<close>

lemma deep_copy_struct:
  assumes "deep_copy ca va ra" and "deep_copy cb vb rb"
    and "\<And>s a b. getA (put s a b) = a" and "\<And>s a b. getB (put s a b) = b" and "\<And>s a b. rest (put s a b) = rest s"
    and "\<And>s h. copy s h = pair_copy ca cb getA getB put s h"
    and "\<And>h s. val h s = f (rest s) (va h (getA s)) (vb h (getB s))"
    and "\<And>h s. refs h s = ra h (getA s) \<union> rb h (getB s)"
  shows "deep_copy copy val refs"
proof -
  have "deep_copy (pair_copy ca cb getA getB put) (\<lambda>h s. (rest s, va h (getA s), vb h (getB s))) (\<lambda>h s. ra h (getA s) \<union> rb h (getB s))"
    by (rule deep_copy_pair [where rest = rest]) (fact assms)+
  then have "deep_copy (pair_copy ca cb getA getB put) val (\<lambda>h s. ra h (getA s) \<union> rb h (getB s))"
    by (rule deep_copy_view [where f = "\<lambda>(r, a, b). f r a b"]) (simp add: assms(7))
  moreover have "pair_copy ca cb getA getB put = copy" and "(\<lambda>h s. ra h (getA s) \<union> rb h (getB s)) = refs"
    by (simp_all add: fun_eq_iff assms(6,8))
  ultimately show ?thesis by simp
qed

lemma deep_copy_object:
  assumes "deep_copy copy val refs"
  shows "deep_object_copy (DeepCopyObject_of (DeepCopy_of copy)) val refs"
  using assms by (intro pointed.object_copy pointed.intro)

end
