(* ===== verification/Deep_Copy.thy ===== *)
theory Deep_Copy
  imports Memory Convert Rule_Repo
begin

text \<open>
  \<open>api/k8s/v1alpha1/zz_generated.deepcopy.go\<close>: the copies that the caches of controller-runtime hand out. A resource in memory has
  addresses where the Go struct has pointers and slices; the functions \<open>_at\<close> read it as the record that the rest of the model
  works on. The copying of \<open>ObjectMeta\<close> and \<open>ListMeta\<close> belongs to apimachinery and is a parameter with the contract
  \<open>deep_copy\<close> as a hypothesis.
\<close>

section \<open>Resources in memory\<close>

type_synonym TypeMeta = "string \<times> string"

record SystemSpec_mem =
  ssm_DisplayName :: string
  ssm_Description :: string
  ssm_SystemId :: string
  ssm_Version :: Version
  ssm_Abstract :: bool
  ssm_ParentRef :: "addr option"

record ComponentSpec_mem =
  csm_DisplayName :: string
  csm_Description :: string
  csm_ComponentId :: string
  csm_Version :: Version
  csm_SystemRef :: VersionRef
  csm_SystemId :: string
  csm_Consumes :: "addr option"
  csm_Provides :: "addr option"

record Target_mem =
  tm_APIGroups :: "addr option"
  tm_Resources :: "addr option"

record FindingRuleSpec_mem =
  frm_Target :: Target_mem
  frm_Condition :: string
  frm_Finding :: FindingMeta

text \<open>\<open>'o\<close> is the form of \<open>ObjectMeta\<close> in memory and \<open>'l\<close> that of \<open>ListMeta\<close>.\<close>

record 'o API_mem =
  am_Type :: TypeMeta
  am_Meta :: 'o
  am_Spec :: APISpec

record 'o Component_mem =
  cm_Type :: TypeMeta
  cm_Meta :: 'o
  cm_Spec :: ComponentSpec_mem

record 'o System_mem =
  sm_Type :: TypeMeta
  sm_Meta :: 'o
  sm_Spec :: SystemSpec_mem

record 'o SystemInstance_mem =
  sim_Type :: TypeMeta
  sim_Meta :: 'o
  sim_Spec :: SystemInstanceSpec

record 'o FindingRule_mem =
  fm_Type :: TypeMeta
  fm_Meta :: 'o
  fm_Spec :: FindingRuleSpec_mem

text \<open>The five list types have the same fields; they differ in what the backing array of the items holds.\<close>

record 'l list_mem =
  lm_Type :: TypeMeta
  lm_Meta :: 'l
  lm_Items :: "addr option"

text \<open>\<open>'c\<close> are the cells of the metadata.\<close>

datatype ('o, 'c) cell =
    CMeta 'c
  | CVersionRef VersionRef
  | CAPIRefs "APIRef list"
  | CStrings "string list"
  | CAPIs "'o API_mem list"
  | CComponents "'o Component_mem list"
  | CSystems "'o System_mem list"
  | CSystemInstances "'o SystemInstance_mem list"
  | CFindingRules "'o FindingRule_mem list"

definition zero_Version :: Version where
  "zero_Version = \<lparr>v_Version = [], v_AvailableFrom = [], v_DeprecatedFrom = [], v_TerminatedFrom = []\<rparr>"

definition zero_VersionRef :: VersionRef where
  "zero_VersionRef = \<lparr>vr_Name = [], vr_Version = []\<rparr>"

definition zero_APIRef :: APIRef where
  "zero_APIRef = \<lparr>apr_VersionRef = \<lparr>avr_Name = [], avr_Version = []\<rparr>, apr_ApiId = []\<rparr>"

fun get_VersionRef :: "('o, 'c) cell option \<Rightarrow> VersionRef" where
  "get_VersionRef (Some (CVersionRef v)) = v"
| "get_VersionRef _ = zero_VersionRef"

fun get_APIRefs :: "('o, 'c) cell option \<Rightarrow> APIRef list" where
  "get_APIRefs (Some (CAPIRefs xs)) = xs"
| "get_APIRefs _ = []"

fun get_Strings :: "('o, 'c) cell option \<Rightarrow> string list" where
  "get_Strings (Some (CStrings xs)) = xs"
| "get_Strings _ = []"

fun get_APIs :: "('o, 'c) cell option \<Rightarrow> 'o API_mem list" where
  "get_APIs (Some (CAPIs xs)) = xs"
| "get_APIs _ = []"

fun get_Components :: "('o, 'c) cell option \<Rightarrow> 'o Component_mem list" where
  "get_Components (Some (CComponents xs)) = xs"
| "get_Components _ = []"

fun get_Systems :: "('o, 'c) cell option \<Rightarrow> 'o System_mem list" where
  "get_Systems (Some (CSystems xs)) = xs"
| "get_Systems _ = []"

fun get_SystemInstances :: "('o, 'c) cell option \<Rightarrow> 'o SystemInstance_mem list" where
  "get_SystemInstances (Some (CSystemInstances xs)) = xs"
| "get_SystemInstances _ = []"

fun get_FindingRules :: "('o, 'c) cell option \<Rightarrow> 'o FindingRule_mem list" where
  "get_FindingRules (Some (CFindingRules xs)) = xs"
| "get_FindingRules _ = []"

record ('o, 'l, 'c, 'w) metav1 =
  mdZero :: 'o
  mdCopy :: "'o \<Rightarrow> ('o, 'c) cell memory \<Rightarrow> 'o \<times> ('o, 'c) cell memory"
  mdVal :: "('o, 'c) cell memory \<Rightarrow> 'o \<Rightarrow> ObjectMeta"
  mdRefs :: "('o, 'c) cell memory \<Rightarrow> 'o \<Rightarrow> addr set"
  lmCopy :: "'l \<Rightarrow> ('o, 'c) cell memory \<Rightarrow> 'l \<times> ('o, 'c) cell memory"
  lmVal :: "('o, 'c) cell memory \<Rightarrow> 'l \<Rightarrow> 'w"
  lmRefs :: "('o, 'c) cell memory \<Rightarrow> 'l \<Rightarrow> addr set"

text \<open>The documented behaviour of the metadata: \<open>DeepCopyInto\<close> makes a deep copy.\<close>

definition metav1_law :: "('o, 'l, 'c, 'w) metav1 \<Rightarrow> bool" where
  "metav1_law M \<longleftrightarrow> deep_copy (mdCopy M) (mdVal M) (mdRefs M) \<and> deep_copy (lmCopy M) (lmVal M) (lmRefs M)"

section \<open>DeepCopyInto\<close>

definition copy_APIRefs :: "addr option \<Rightarrow> ('o, 'c) cell memory \<Rightarrow> addr option \<times> ('o, 'c) cell memory" where
  "copy_APIRefs = copy_block CAPIRefs get_APIRefs (\<lambda>xs. replicate (length xs) zero_APIRef)"

definition copy_Strings :: "addr option \<Rightarrow> ('o, 'c) cell memory \<Rightarrow> addr option \<times> ('o, 'c) cell memory" where
  "copy_Strings = copy_block CStrings get_Strings (\<lambda>xs. replicate (length xs) [])"

definition copy_VersionRef :: "addr option \<Rightarrow> ('o, 'c) cell memory \<Rightarrow> addr option \<times> ('o, 'c) cell memory" where
  "copy_VersionRef = copy_block CVersionRef get_VersionRef (\<lambda>_. zero_VersionRef)"

text \<open>Structs without references; a status has no fields.\<close>

definition APIRef_DeepCopyInto :: "APIRef \<Rightarrow> ('o, 'c) cell memory \<Rightarrow> APIRef \<times> ('o, 'c) cell memory" where
  "APIRef_DeepCopyInto r h = (r\<lparr>apr_VersionRef := apr_VersionRef r\<rparr>, h)"

definition APISpec_DeepCopyInto :: "APISpec \<Rightarrow> ('o, 'c) cell memory \<Rightarrow> APISpec \<times> ('o, 'c) cell memory" where
  "APISpec_DeepCopyInto r h = (r\<lparr>as_Version := as_Version r, as_SystemRef := as_SystemRef r\<rparr>, h)"

definition APIVersionRef_DeepCopyInto :: "APIVersionRef \<Rightarrow> ('o, 'c) cell memory \<Rightarrow> APIVersionRef \<times> ('o, 'c) cell memory" where
  "APIVersionRef_DeepCopyInto r h = (r, h)"

definition Finding_DeepCopyInto :: "FindingMeta \<Rightarrow> ('o, 'c) cell memory \<Rightarrow> FindingMeta \<times> ('o, 'c) cell memory" where
  "Finding_DeepCopyInto r h = (r\<lparr>fnd_Type := fnd_Type r\<rparr>, h)"

definition FindingType_DeepCopyInto :: "FindingTypeMeta \<Rightarrow> ('o, 'c) cell memory \<Rightarrow> FindingTypeMeta \<times> ('o, 'c) cell memory" where
  "FindingType_DeepCopyInto r h = (r, h)"

definition SystemInstanceSpec_DeepCopyInto :: "SystemInstanceSpec \<Rightarrow> ('o, 'c) cell memory \<Rightarrow> SystemInstanceSpec \<times> ('o, 'c) cell memory" where
  "SystemInstanceSpec_DeepCopyInto r h = (r, h)"

definition Version_DeepCopyInto :: "Version \<Rightarrow> ('o, 'c) cell memory \<Rightarrow> Version \<times> ('o, 'c) cell memory" where
  "Version_DeepCopyInto r h = (r, h)"

definition VersionRef_DeepCopyInto :: "VersionRef \<Rightarrow> ('o, 'c) cell memory \<Rightarrow> VersionRef \<times> ('o, 'c) cell memory" where
  "VersionRef_DeepCopyInto r h = (r, h)"

definition APIStatus_DeepCopyInto :: "unit \<Rightarrow> ('o, 'c) cell memory \<Rightarrow> unit \<times> ('o, 'c) cell memory" where
  "APIStatus_DeepCopyInto r h = (r, h)"

definition ComponentStatus_DeepCopyInto :: "unit \<Rightarrow> ('o, 'c) cell memory \<Rightarrow> unit \<times> ('o, 'c) cell memory" where
  "ComponentStatus_DeepCopyInto r h = (r, h)"

definition FindingRuleStatus_DeepCopyInto :: "unit \<Rightarrow> ('o, 'c) cell memory \<Rightarrow> unit \<times> ('o, 'c) cell memory" where
  "FindingRuleStatus_DeepCopyInto r h = (r, h)"

definition SystemStatus_DeepCopyInto :: "unit \<Rightarrow> ('o, 'c) cell memory \<Rightarrow> unit \<times> ('o, 'c) cell memory" where
  "SystemStatus_DeepCopyInto r h = (r, h)"

definition SystemInstanceStatus_DeepCopyInto :: "unit \<Rightarrow> ('o, 'c) cell memory \<Rightarrow> unit \<times> ('o, 'c) cell memory" where
  "SystemInstanceStatus_DeepCopyInto r h = (r, h)"

definition SystemSpec_DeepCopyInto :: "SystemSpec_mem \<Rightarrow> ('o, 'c) cell memory \<Rightarrow> SystemSpec_mem \<times> ('o, 'c) cell memory" where
  "SystemSpec_DeepCopyInto spec h =
     (let out = spec; out = out\<lparr>ssm_Version := ssm_Version spec\<rparr>
      in case copy_VersionRef (ssm_ParentRef spec) h of (p, h1) \<Rightarrow> (out\<lparr>ssm_ParentRef := p\<rparr>, h1))"

definition ComponentSpec_DeepCopyInto :: "ComponentSpec_mem \<Rightarrow> ('o, 'c) cell memory \<Rightarrow> ComponentSpec_mem \<times> ('o, 'c) cell memory" where
  "ComponentSpec_DeepCopyInto spec h =
     (let out = spec; out = out\<lparr>csm_Version := csm_Version spec, csm_SystemRef := csm_SystemRef spec\<rparr>
      in case copy_APIRefs (csm_Consumes spec) h of
           (c, h1) \<Rightarrow> (case copy_APIRefs (csm_Provides spec) h1 of (p, h2) \<Rightarrow> (out\<lparr>csm_Consumes := c, csm_Provides := p\<rparr>, h2)))"

definition Target_DeepCopyInto :: "Target_mem \<Rightarrow> ('o, 'c) cell memory \<Rightarrow> Target_mem \<times> ('o, 'c) cell memory" where
  "Target_DeepCopyInto t h =
     (let out = t
      in case copy_Strings (tm_APIGroups t) h of
           (g, h1) \<Rightarrow> (case copy_Strings (tm_Resources t) h1 of (r, h2) \<Rightarrow> (out\<lparr>tm_APIGroups := g, tm_Resources := r\<rparr>, h2)))"

definition FindingRuleSpec_DeepCopyInto ::
    "FindingRuleSpec_mem \<Rightarrow> ('o, 'c) cell memory \<Rightarrow> FindingRuleSpec_mem \<times> ('o, 'c) cell memory" where
  "FindingRuleSpec_DeepCopyInto spec h =
     (let out = spec
      in case Target_DeepCopyInto (frm_Target spec) h of
           (t, h1) \<Rightarrow> (out\<lparr>frm_Target := t, frm_Finding := frm_Finding spec\<rparr>, h1))"

definition API_DeepCopyInto ::
    "('o, 'l, 'c, 'w) metav1 \<Rightarrow> 'o API_mem \<Rightarrow> ('o, 'c) cell memory \<Rightarrow> 'o API_mem \<times> ('o, 'c) cell memory" where
  "API_DeepCopyInto M x h =
     (let out = x; out = out\<lparr>am_Type := am_Type x\<rparr>
      in case mdCopy M (am_Meta x) h of (md, h1) \<Rightarrow> (out\<lparr>am_Meta := md, am_Spec := am_Spec x\<rparr>, h1))"

definition Component_DeepCopyInto ::
    "('o, 'l, 'c, 'w) metav1 \<Rightarrow> 'o Component_mem \<Rightarrow> ('o, 'c) cell memory \<Rightarrow> 'o Component_mem \<times> ('o, 'c) cell memory" where
  "Component_DeepCopyInto M x h =
     (let out = x; out = out\<lparr>cm_Type := cm_Type x\<rparr>
      in case mdCopy M (cm_Meta x) h of
           (md, h1) \<Rightarrow> (case ComponentSpec_DeepCopyInto (cm_Spec x) h1 of (sp, h2) \<Rightarrow> (out\<lparr>cm_Meta := md, cm_Spec := sp\<rparr>, h2)))"

definition System_DeepCopyInto ::
    "('o, 'l, 'c, 'w) metav1 \<Rightarrow> 'o System_mem \<Rightarrow> ('o, 'c) cell memory \<Rightarrow> 'o System_mem \<times> ('o, 'c) cell memory" where
  "System_DeepCopyInto M x h =
     (let out = x; out = out\<lparr>sm_Type := sm_Type x\<rparr>
      in case mdCopy M (sm_Meta x) h of
           (md, h1) \<Rightarrow> (case SystemSpec_DeepCopyInto (sm_Spec x) h1 of (sp, h2) \<Rightarrow> (out\<lparr>sm_Meta := md, sm_Spec := sp\<rparr>, h2)))"

definition SystemInstance_DeepCopyInto ::
    "('o, 'l, 'c, 'w) metav1 \<Rightarrow> 'o SystemInstance_mem \<Rightarrow> ('o, 'c) cell memory \<Rightarrow> 'o SystemInstance_mem \<times> ('o, 'c) cell memory" where
  "SystemInstance_DeepCopyInto M x h =
     (let out = x; out = out\<lparr>sim_Type := sim_Type x\<rparr>
      in case mdCopy M (sim_Meta x) h of (md, h1) \<Rightarrow> (out\<lparr>sim_Meta := md, sim_Spec := sim_Spec x\<rparr>, h1))"

definition FindingRule_DeepCopyInto ::
    "('o, 'l, 'c, 'w) metav1 \<Rightarrow> 'o FindingRule_mem \<Rightarrow> ('o, 'c) cell memory \<Rightarrow> 'o FindingRule_mem \<times> ('o, 'c) cell memory" where
  "FindingRule_DeepCopyInto M x h =
     (let out = x; out = out\<lparr>fm_Type := fm_Type x\<rparr>
      in case mdCopy M (fm_Meta x) h of
           (md, h1) \<Rightarrow> (case FindingRuleSpec_DeepCopyInto (fm_Spec x) h1 of (sp, h2) \<Rightarrow> (out\<lparr>fm_Meta := md, fm_Spec := sp\<rparr>, h2)))"

text \<open>The zero values with which \<open>make\<close> fills a new array.\<close>

definition zero_API :: "('o, 'l, 'c, 'w) metav1 \<Rightarrow> 'o API_mem" where
  "zero_API M = \<lparr>am_Type = ([], []), am_Meta = mdZero M, am_Spec = \<lparr>as_DisplayName = [], as_Description = [], as_ApiId = [],
     as_Version = zero_Version, as_Type = [], as_SystemRef = zero_VersionRef, as_SystemId = []\<rparr>\<rparr>"

definition zero_Component :: "('o, 'l, 'c, 'w) metav1 \<Rightarrow> 'o Component_mem" where
  "zero_Component M = \<lparr>cm_Type = ([], []), cm_Meta = mdZero M, cm_Spec = \<lparr>csm_DisplayName = [], csm_Description = [], csm_ComponentId = [],
     csm_Version = zero_Version, csm_SystemRef = zero_VersionRef, csm_SystemId = [], csm_Consumes = None, csm_Provides = None\<rparr>\<rparr>"

definition zero_System :: "('o, 'l, 'c, 'w) metav1 \<Rightarrow> 'o System_mem" where
  "zero_System M = \<lparr>sm_Type = ([], []), sm_Meta = mdZero M, sm_Spec = \<lparr>ssm_DisplayName = [], ssm_Description = [], ssm_SystemId = [],
     ssm_Version = zero_Version, ssm_Abstract = False, ssm_ParentRef = None\<rparr>\<rparr>"

definition zero_SystemInstance :: "('o, 'l, 'c, 'w) metav1 \<Rightarrow> 'o SystemInstance_mem" where
  "zero_SystemInstance M = \<lparr>sim_Type = ([], []), sim_Meta = mdZero M,
     sim_Spec = \<lparr>sis_InstanceId = [], sis_SystemId = [], sis_DisplayName = []\<rparr>\<rparr>"

definition zero_FindingRule :: "('o, 'l, 'c, 'w) metav1 \<Rightarrow> 'o FindingRule_mem" where
  "zero_FindingRule M = \<lparr>fm_Type = ([], []), fm_Meta = mdZero M, fm_Spec = \<lparr>frm_Target = \<lparr>tm_APIGroups = None, tm_Resources = None\<rparr>,
     frm_Condition = [], frm_Finding = \<lparr>fnd_Severity = [], fnd_DisplayName = [], fnd_Description = [],
       fnd_Type = \<lparr>fty_UUID = [], fty_DisplayName = [], fty_Description = []\<rparr>\<rparr>\<rparr>\<rparr>"

definition APIList_DeepCopyInto ::
    "('o, 'l, 'c, 'w) metav1 \<Rightarrow> 'l list_mem \<Rightarrow> ('o, 'c) cell memory \<Rightarrow> 'l list_mem \<times> ('o, 'c) cell memory" where
  "APIList_DeepCopyInto M x h =
     (let out = x; out = out\<lparr>lm_Type := lm_Type x\<rparr>
      in case lmCopy M (lm_Meta x) h of
           (md, h1) \<Rightarrow>
             (case copy_items CAPIs get_APIs (zero_API M) (API_DeepCopyInto M) (lm_Items x) h1 of
                (p, h2) \<Rightarrow> (out\<lparr>lm_Meta := md, lm_Items := p\<rparr>, h2)))"

definition ComponentList_DeepCopyInto ::
    "('o, 'l, 'c, 'w) metav1 \<Rightarrow> 'l list_mem \<Rightarrow> ('o, 'c) cell memory \<Rightarrow> 'l list_mem \<times> ('o, 'c) cell memory" where
  "ComponentList_DeepCopyInto M x h =
     (let out = x; out = out\<lparr>lm_Type := lm_Type x\<rparr>
      in case lmCopy M (lm_Meta x) h of
           (md, h1) \<Rightarrow>
             (case copy_items CComponents get_Components (zero_Component M) (Component_DeepCopyInto M) (lm_Items x) h1 of
                (p, h2) \<Rightarrow> (out\<lparr>lm_Meta := md, lm_Items := p\<rparr>, h2)))"

definition SystemList_DeepCopyInto ::
    "('o, 'l, 'c, 'w) metav1 \<Rightarrow> 'l list_mem \<Rightarrow> ('o, 'c) cell memory \<Rightarrow> 'l list_mem \<times> ('o, 'c) cell memory" where
  "SystemList_DeepCopyInto M x h =
     (let out = x; out = out\<lparr>lm_Type := lm_Type x\<rparr>
      in case lmCopy M (lm_Meta x) h of
           (md, h1) \<Rightarrow>
             (case copy_items CSystems get_Systems (zero_System M) (System_DeepCopyInto M) (lm_Items x) h1 of
                (p, h2) \<Rightarrow> (out\<lparr>lm_Meta := md, lm_Items := p\<rparr>, h2)))"

definition SystemInstanceList_DeepCopyInto ::
    "('o, 'l, 'c, 'w) metav1 \<Rightarrow> 'l list_mem \<Rightarrow> ('o, 'c) cell memory \<Rightarrow> 'l list_mem \<times> ('o, 'c) cell memory" where
  "SystemInstanceList_DeepCopyInto M x h =
     (let out = x; out = out\<lparr>lm_Type := lm_Type x\<rparr>
      in case lmCopy M (lm_Meta x) h of
           (md, h1) \<Rightarrow>
             (case copy_items CSystemInstances get_SystemInstances (zero_SystemInstance M) (SystemInstance_DeepCopyInto M) (lm_Items x) h1 of
                (p, h2) \<Rightarrow> (out\<lparr>lm_Meta := md, lm_Items := p\<rparr>, h2)))"

definition FindingRuleList_DeepCopyInto ::
    "('o, 'l, 'c, 'w) metav1 \<Rightarrow> 'l list_mem \<Rightarrow> ('o, 'c) cell memory \<Rightarrow> 'l list_mem \<times> ('o, 'c) cell memory" where
  "FindingRuleList_DeepCopyInto M x h =
     (let out = x; out = out\<lparr>lm_Type := lm_Type x\<rparr>
      in case lmCopy M (lm_Meta x) h of
           (md, h1) \<Rightarrow>
             (case copy_items CFindingRules get_FindingRules (zero_FindingRule M) (FindingRule_DeepCopyInto M) (lm_Items x) h1 of
                (p, h2) \<Rightarrow> (out\<lparr>lm_Meta := md, lm_Items := p\<rparr>, h2)))"

section \<open>DeepCopy and DeepCopyObject\<close>

definition APIRef_DeepCopy :: "APIRef ptr \<Rightarrow> ('o, 'c) cell memory \<Rightarrow> APIRef ptr \<times> ('o, 'c) cell memory" where
  "APIRef_DeepCopy = DeepCopy_of APIRef_DeepCopyInto"

definition APISpec_DeepCopy :: "APISpec ptr \<Rightarrow> ('o, 'c) cell memory \<Rightarrow> APISpec ptr \<times> ('o, 'c) cell memory" where
  "APISpec_DeepCopy = DeepCopy_of APISpec_DeepCopyInto"

definition APIVersionRef_DeepCopy :: "APIVersionRef ptr \<Rightarrow> ('o, 'c) cell memory \<Rightarrow> APIVersionRef ptr \<times> ('o, 'c) cell memory" where
  "APIVersionRef_DeepCopy = DeepCopy_of APIVersionRef_DeepCopyInto"

definition Finding_DeepCopy :: "FindingMeta ptr \<Rightarrow> ('o, 'c) cell memory \<Rightarrow> FindingMeta ptr \<times> ('o, 'c) cell memory" where
  "Finding_DeepCopy = DeepCopy_of Finding_DeepCopyInto"

definition FindingType_DeepCopy :: "FindingTypeMeta ptr \<Rightarrow> ('o, 'c) cell memory \<Rightarrow> FindingTypeMeta ptr \<times> ('o, 'c) cell memory" where
  "FindingType_DeepCopy = DeepCopy_of FindingType_DeepCopyInto"

definition SystemInstanceSpec_DeepCopy :: "SystemInstanceSpec ptr \<Rightarrow> ('o, 'c) cell memory \<Rightarrow> SystemInstanceSpec ptr \<times> ('o, 'c) cell memory" where
  "SystemInstanceSpec_DeepCopy = DeepCopy_of SystemInstanceSpec_DeepCopyInto"

definition Version_DeepCopy :: "Version ptr \<Rightarrow> ('o, 'c) cell memory \<Rightarrow> Version ptr \<times> ('o, 'c) cell memory" where
  "Version_DeepCopy = DeepCopy_of Version_DeepCopyInto"

definition VersionRef_DeepCopy :: "VersionRef ptr \<Rightarrow> ('o, 'c) cell memory \<Rightarrow> VersionRef ptr \<times> ('o, 'c) cell memory" where
  "VersionRef_DeepCopy = DeepCopy_of VersionRef_DeepCopyInto"

definition APIStatus_DeepCopy :: "unit ptr \<Rightarrow> ('o, 'c) cell memory \<Rightarrow> unit ptr \<times> ('o, 'c) cell memory" where
  "APIStatus_DeepCopy = DeepCopy_of APIStatus_DeepCopyInto"

definition ComponentStatus_DeepCopy :: "unit ptr \<Rightarrow> ('o, 'c) cell memory \<Rightarrow> unit ptr \<times> ('o, 'c) cell memory" where
  "ComponentStatus_DeepCopy = DeepCopy_of ComponentStatus_DeepCopyInto"

definition FindingRuleStatus_DeepCopy :: "unit ptr \<Rightarrow> ('o, 'c) cell memory \<Rightarrow> unit ptr \<times> ('o, 'c) cell memory" where
  "FindingRuleStatus_DeepCopy = DeepCopy_of FindingRuleStatus_DeepCopyInto"

definition SystemStatus_DeepCopy :: "unit ptr \<Rightarrow> ('o, 'c) cell memory \<Rightarrow> unit ptr \<times> ('o, 'c) cell memory" where
  "SystemStatus_DeepCopy = DeepCopy_of SystemStatus_DeepCopyInto"

definition SystemInstanceStatus_DeepCopy :: "unit ptr \<Rightarrow> ('o, 'c) cell memory \<Rightarrow> unit ptr \<times> ('o, 'c) cell memory" where
  "SystemInstanceStatus_DeepCopy = DeepCopy_of SystemInstanceStatus_DeepCopyInto"

definition SystemSpec_DeepCopy :: "SystemSpec_mem ptr \<Rightarrow> ('o, 'c) cell memory \<Rightarrow> SystemSpec_mem ptr \<times> ('o, 'c) cell memory" where
  "SystemSpec_DeepCopy = DeepCopy_of SystemSpec_DeepCopyInto"

definition ComponentSpec_DeepCopy :: "ComponentSpec_mem ptr \<Rightarrow> ('o, 'c) cell memory \<Rightarrow> ComponentSpec_mem ptr \<times> ('o, 'c) cell memory" where
  "ComponentSpec_DeepCopy = DeepCopy_of ComponentSpec_DeepCopyInto"

definition Target_DeepCopy :: "Target_mem ptr \<Rightarrow> ('o, 'c) cell memory \<Rightarrow> Target_mem ptr \<times> ('o, 'c) cell memory" where
  "Target_DeepCopy = DeepCopy_of Target_DeepCopyInto"

definition FindingRuleSpec_DeepCopy :: "FindingRuleSpec_mem ptr \<Rightarrow> ('o, 'c) cell memory \<Rightarrow> FindingRuleSpec_mem ptr \<times> ('o, 'c) cell memory" where
  "FindingRuleSpec_DeepCopy = DeepCopy_of FindingRuleSpec_DeepCopyInto"

definition API_DeepCopy ::
    "('o, 'l, 'c, 'w) metav1 \<Rightarrow> 'o API_mem ptr \<Rightarrow> ('o, 'c) cell memory \<Rightarrow> 'o API_mem ptr \<times> ('o, 'c) cell memory" where
  "API_DeepCopy M = DeepCopy_of (API_DeepCopyInto M)"

definition API_DeepCopyObject ::
    "('o, 'l, 'c, 'w) metav1 \<Rightarrow> 'o API_mem ptr \<Rightarrow> ('o, 'c) cell memory \<Rightarrow> 'o API_mem ptr option \<times> ('o, 'c) cell memory" where
  "API_DeepCopyObject M = DeepCopyObject_of (API_DeepCopy M)"

definition Component_DeepCopy ::
    "('o, 'l, 'c, 'w) metav1 \<Rightarrow> 'o Component_mem ptr \<Rightarrow> ('o, 'c) cell memory \<Rightarrow> 'o Component_mem ptr \<times> ('o, 'c) cell memory" where
  "Component_DeepCopy M = DeepCopy_of (Component_DeepCopyInto M)"

definition Component_DeepCopyObject ::
    "('o, 'l, 'c, 'w) metav1 \<Rightarrow> 'o Component_mem ptr \<Rightarrow> ('o, 'c) cell memory \<Rightarrow> 'o Component_mem ptr option \<times> ('o, 'c) cell memory" where
  "Component_DeepCopyObject M = DeepCopyObject_of (Component_DeepCopy M)"

definition System_DeepCopy ::
    "('o, 'l, 'c, 'w) metav1 \<Rightarrow> 'o System_mem ptr \<Rightarrow> ('o, 'c) cell memory \<Rightarrow> 'o System_mem ptr \<times> ('o, 'c) cell memory" where
  "System_DeepCopy M = DeepCopy_of (System_DeepCopyInto M)"

definition System_DeepCopyObject ::
    "('o, 'l, 'c, 'w) metav1 \<Rightarrow> 'o System_mem ptr \<Rightarrow> ('o, 'c) cell memory \<Rightarrow> 'o System_mem ptr option \<times> ('o, 'c) cell memory" where
  "System_DeepCopyObject M = DeepCopyObject_of (System_DeepCopy M)"

definition SystemInstance_DeepCopy ::
    "('o, 'l, 'c, 'w) metav1 \<Rightarrow> 'o SystemInstance_mem ptr \<Rightarrow> ('o, 'c) cell memory \<Rightarrow> 'o SystemInstance_mem ptr \<times> ('o, 'c) cell memory" where
  "SystemInstance_DeepCopy M = DeepCopy_of (SystemInstance_DeepCopyInto M)"

definition SystemInstance_DeepCopyObject ::
    "('o, 'l, 'c, 'w) metav1 \<Rightarrow> 'o SystemInstance_mem ptr \<Rightarrow> ('o, 'c) cell memory \<Rightarrow> 'o SystemInstance_mem ptr option \<times> ('o, 'c) cell memory" where
  "SystemInstance_DeepCopyObject M = DeepCopyObject_of (SystemInstance_DeepCopy M)"

definition FindingRule_DeepCopy ::
    "('o, 'l, 'c, 'w) metav1 \<Rightarrow> 'o FindingRule_mem ptr \<Rightarrow> ('o, 'c) cell memory \<Rightarrow> 'o FindingRule_mem ptr \<times> ('o, 'c) cell memory" where
  "FindingRule_DeepCopy M = DeepCopy_of (FindingRule_DeepCopyInto M)"

definition FindingRule_DeepCopyObject ::
    "('o, 'l, 'c, 'w) metav1 \<Rightarrow> 'o FindingRule_mem ptr \<Rightarrow> ('o, 'c) cell memory \<Rightarrow> 'o FindingRule_mem ptr option \<times> ('o, 'c) cell memory" where
  "FindingRule_DeepCopyObject M = DeepCopyObject_of (FindingRule_DeepCopy M)"

definition APIList_DeepCopy ::
    "('o, 'l, 'c, 'w) metav1 \<Rightarrow> 'l list_mem ptr \<Rightarrow> ('o, 'c) cell memory \<Rightarrow> 'l list_mem ptr \<times> ('o, 'c) cell memory" where
  "APIList_DeepCopy M = DeepCopy_of (APIList_DeepCopyInto M)"

definition APIList_DeepCopyObject ::
    "('o, 'l, 'c, 'w) metav1 \<Rightarrow> 'l list_mem ptr \<Rightarrow> ('o, 'c) cell memory \<Rightarrow> 'l list_mem ptr option \<times> ('o, 'c) cell memory" where
  "APIList_DeepCopyObject M = DeepCopyObject_of (APIList_DeepCopy M)"

definition ComponentList_DeepCopy ::
    "('o, 'l, 'c, 'w) metav1 \<Rightarrow> 'l list_mem ptr \<Rightarrow> ('o, 'c) cell memory \<Rightarrow> 'l list_mem ptr \<times> ('o, 'c) cell memory" where
  "ComponentList_DeepCopy M = DeepCopy_of (ComponentList_DeepCopyInto M)"

definition ComponentList_DeepCopyObject ::
    "('o, 'l, 'c, 'w) metav1 \<Rightarrow> 'l list_mem ptr \<Rightarrow> ('o, 'c) cell memory \<Rightarrow> 'l list_mem ptr option \<times> ('o, 'c) cell memory" where
  "ComponentList_DeepCopyObject M = DeepCopyObject_of (ComponentList_DeepCopy M)"

definition SystemList_DeepCopy ::
    "('o, 'l, 'c, 'w) metav1 \<Rightarrow> 'l list_mem ptr \<Rightarrow> ('o, 'c) cell memory \<Rightarrow> 'l list_mem ptr \<times> ('o, 'c) cell memory" where
  "SystemList_DeepCopy M = DeepCopy_of (SystemList_DeepCopyInto M)"

definition SystemList_DeepCopyObject ::
    "('o, 'l, 'c, 'w) metav1 \<Rightarrow> 'l list_mem ptr \<Rightarrow> ('o, 'c) cell memory \<Rightarrow> 'l list_mem ptr option \<times> ('o, 'c) cell memory" where
  "SystemList_DeepCopyObject M = DeepCopyObject_of (SystemList_DeepCopy M)"

definition SystemInstanceList_DeepCopy ::
    "('o, 'l, 'c, 'w) metav1 \<Rightarrow> 'l list_mem ptr \<Rightarrow> ('o, 'c) cell memory \<Rightarrow> 'l list_mem ptr \<times> ('o, 'c) cell memory" where
  "SystemInstanceList_DeepCopy M = DeepCopy_of (SystemInstanceList_DeepCopyInto M)"

definition SystemInstanceList_DeepCopyObject ::
    "('o, 'l, 'c, 'w) metav1 \<Rightarrow> 'l list_mem ptr \<Rightarrow> ('o, 'c) cell memory \<Rightarrow> 'l list_mem ptr option \<times> ('o, 'c) cell memory" where
  "SystemInstanceList_DeepCopyObject M = DeepCopyObject_of (SystemInstanceList_DeepCopy M)"

definition FindingRuleList_DeepCopy ::
    "('o, 'l, 'c, 'w) metav1 \<Rightarrow> 'l list_mem ptr \<Rightarrow> ('o, 'c) cell memory \<Rightarrow> 'l list_mem ptr \<times> ('o, 'c) cell memory" where
  "FindingRuleList_DeepCopy M = DeepCopy_of (FindingRuleList_DeepCopyInto M)"

definition FindingRuleList_DeepCopyObject ::
    "('o, 'l, 'c, 'w) metav1 \<Rightarrow> 'l list_mem ptr \<Rightarrow> ('o, 'c) cell memory \<Rightarrow> 'l list_mem ptr option \<times> ('o, 'c) cell memory" where
  "FindingRuleList_DeepCopyObject M = DeepCopyObject_of (FindingRuleList_DeepCopy M)"

section \<open>Reading a resource\<close>

text \<open>A slice in memory as a list; whether it is nil is kept apart, since a copy keeps nil slices nil.\<close>

definition slice :: "(('o, 'c) cell option \<Rightarrow> 'x list) \<Rightarrow> ('o, 'c) cell memory \<Rightarrow> addr option \<Rightarrow> 'x list" where
  "slice get h p = (case p of None \<Rightarrow> [] | Some a \<Rightarrow> get (cells h a))"

definition SystemSpec_at :: "('o, 'c) cell memory \<Rightarrow> SystemSpec_mem \<Rightarrow> SystemSpec" where
  "SystemSpec_at h s =
     \<lparr>ss_DisplayName = ssm_DisplayName s, ss_Description = ssm_Description s, ss_SystemId = ssm_SystemId s, ss_Version = ssm_Version s,
      ss_Abstract = ssm_Abstract s, ss_ParentRef = map_option (\<lambda>a. get_VersionRef (cells h a)) (ssm_ParentRef s)\<rparr>"

definition SystemSpec_refs :: "('o, 'c) cell memory \<Rightarrow> SystemSpec_mem \<Rightarrow> addr set" where
  "SystemSpec_refs h s = set_option (ssm_ParentRef s)"

definition ComponentSpec_at :: "('o, 'c) cell memory \<Rightarrow> ComponentSpec_mem \<Rightarrow> ComponentSpec \<times> bool \<times> bool" where
  "ComponentSpec_at h s =
     (\<lparr>cs_DisplayName = csm_DisplayName s, cs_Description = csm_Description s, cs_ComponentId = csm_ComponentId s, cs_Version = csm_Version s,
       cs_SystemRef = csm_SystemRef s, cs_SystemId = csm_SystemId s, cs_Consumes = slice get_APIRefs h (csm_Consumes s),
       cs_Provides = slice get_APIRefs h (csm_Provides s)\<rparr>, csm_Consumes s = None, csm_Provides s = None)"

definition ComponentSpec_refs :: "('o, 'c) cell memory \<Rightarrow> ComponentSpec_mem \<Rightarrow> addr set" where
  "ComponentSpec_refs h s = set_option (csm_Consumes s) \<union> set_option (csm_Provides s)"

definition Target_at :: "('o, 'c) cell memory \<Rightarrow> Target_mem \<Rightarrow> Target \<times> bool \<times> bool" where
  "Target_at h t =
     (\<lparr>t_APIGroups = slice get_Strings h (tm_APIGroups t), t_Resources = slice get_Strings h (tm_Resources t)\<rparr>,
      tm_APIGroups t = None, tm_Resources t = None)"

definition Target_refs :: "('o, 'c) cell memory \<Rightarrow> Target_mem \<Rightarrow> addr set" where
  "Target_refs h t = set_option (tm_APIGroups t) \<union> set_option (tm_Resources t)"

definition FindingRuleSpec_at :: "('o, 'c) cell memory \<Rightarrow> FindingRuleSpec_mem \<Rightarrow> FindingRuleSpec \<times> bool \<times> bool" where
  "FindingRuleSpec_at h s =
     (case Target_at h (frm_Target s) of
        (t, n) \<Rightarrow> (\<lparr>frs_Target = t, frs_Condition = frm_Condition s, frs_Finding = frm_Finding s\<rparr>, n))"

definition FindingRuleSpec_refs :: "('o, 'c) cell memory \<Rightarrow> FindingRuleSpec_mem \<Rightarrow> addr set" where
  "FindingRuleSpec_refs h s = Target_refs h (frm_Target s)"

definition API_at :: "('o, 'l, 'c, 'w) metav1 \<Rightarrow> ('o, 'c) cell memory \<Rightarrow> 'o API_mem \<Rightarrow> TypeMeta \<times> API" where
  "API_at M h x = (am_Type x, \<lparr>a_Meta = mdVal M h (am_Meta x), a_Spec = am_Spec x\<rparr>)"

definition API_refs :: "('o, 'l, 'c, 'w) metav1 \<Rightarrow> ('o, 'c) cell memory \<Rightarrow> 'o API_mem \<Rightarrow> addr set" where
  "API_refs M h x = mdRefs M h (am_Meta x)"

definition Component_at :: "('o, 'l, 'c, 'w) metav1 \<Rightarrow> ('o, 'c) cell memory \<Rightarrow> 'o Component_mem \<Rightarrow> TypeMeta \<times> Component \<times> bool \<times> bool" where
  "Component_at M h x =
     (case ComponentSpec_at h (cm_Spec x) of
        (sp, n) \<Rightarrow> (cm_Type x, \<lparr>c_Meta = mdVal M h (cm_Meta x), c_Spec = sp\<rparr>, n))"

definition Component_refs :: "('o, 'l, 'c, 'w) metav1 \<Rightarrow> ('o, 'c) cell memory \<Rightarrow> 'o Component_mem \<Rightarrow> addr set" where
  "Component_refs M h x = mdRefs M h (cm_Meta x) \<union> ComponentSpec_refs h (cm_Spec x)"

definition System_at :: "('o, 'l, 'c, 'w) metav1 \<Rightarrow> ('o, 'c) cell memory \<Rightarrow> 'o System_mem \<Rightarrow> TypeMeta \<times> System" where
  "System_at M h x = (sm_Type x, \<lparr>s_Meta = mdVal M h (sm_Meta x), s_Spec = SystemSpec_at h (sm_Spec x)\<rparr>)"

definition System_refs :: "('o, 'l, 'c, 'w) metav1 \<Rightarrow> ('o, 'c) cell memory \<Rightarrow> 'o System_mem \<Rightarrow> addr set" where
  "System_refs M h x = mdRefs M h (sm_Meta x) \<union> SystemSpec_refs h (sm_Spec x)"

definition SystemInstance_at :: "('o, 'l, 'c, 'w) metav1 \<Rightarrow> ('o, 'c) cell memory \<Rightarrow> 'o SystemInstance_mem \<Rightarrow> TypeMeta \<times> SystemInstance" where
  "SystemInstance_at M h x = (sim_Type x, \<lparr>sinst_Meta = mdVal M h (sim_Meta x), sinst_Spec = sim_Spec x\<rparr>)"

definition SystemInstance_refs :: "('o, 'l, 'c, 'w) metav1 \<Rightarrow> ('o, 'c) cell memory \<Rightarrow> 'o SystemInstance_mem \<Rightarrow> addr set" where
  "SystemInstance_refs M h x = mdRefs M h (sim_Meta x)"

definition FindingRule_at :: "('o, 'l, 'c, 'w) metav1 \<Rightarrow> ('o, 'c) cell memory \<Rightarrow> 'o FindingRule_mem \<Rightarrow> TypeMeta \<times> FindingRule \<times> bool \<times> bool" where
  "FindingRule_at M h x =
     (case FindingRuleSpec_at h (fm_Spec x) of
        (sp, n) \<Rightarrow> (fm_Type x, \<lparr>fr_Meta = mdVal M h (fm_Meta x), fr_Spec = sp\<rparr>, n))"

definition FindingRule_refs :: "('o, 'l, 'c, 'w) metav1 \<Rightarrow> ('o, 'c) cell memory \<Rightarrow> 'o FindingRule_mem \<Rightarrow> addr set" where
  "FindingRule_refs M h x = mdRefs M h (fm_Meta x) \<union> FindingRuleSpec_refs h (fm_Spec x)"

definition list_at ::
    "('o, 'l, 'c, 'w) metav1 \<Rightarrow> (('o, 'c) cell option \<Rightarrow> 'x list) \<Rightarrow> (('o, 'c) cell memory \<Rightarrow> 'x \<Rightarrow> 'v) \<Rightarrow> ('o, 'c) cell memory \<Rightarrow> 'l list_mem \<Rightarrow>
     TypeMeta \<times> 'w \<times> 'v list option" where
  "list_at M get val h x = (lm_Type x, lmVal M h (lm_Meta x), items_val get val h (lm_Items x))"

definition list_refs ::
    "('o, 'l, 'c, 'w) metav1 \<Rightarrow> (('o, 'c) cell option \<Rightarrow> 'x list) \<Rightarrow> (('o, 'c) cell memory \<Rightarrow> 'x \<Rightarrow> addr set) \<Rightarrow> ('o, 'c) cell memory \<Rightarrow> 'l list_mem \<Rightarrow>
     addr set" where
  "list_refs M get refs h x = lmRefs M h (lm_Meta x) \<union> items_refs get refs h (lm_Items x)"

section \<open>The specifications\<close>

interpretation versionref: block CVersionRef get_VersionRef "\<lambda>_. zero_VersionRef"
  by unfold_locales simp

interpretation apirefs: block CAPIRefs get_APIRefs "\<lambda>xs. replicate (length xs) zero_APIRef"
  by unfold_locales simp

interpretation strings: block CStrings get_Strings "\<lambda>xs. replicate (length xs) []"
  by unfold_locales simp

text \<open>The structs without references.\<close>

lemma plain_copies:
  "APIRef_DeepCopyInto = copy_plain"
  "APISpec_DeepCopyInto = copy_plain"
  "APIVersionRef_DeepCopyInto = copy_plain"
  "Finding_DeepCopyInto = copy_plain"
  "FindingType_DeepCopyInto = copy_plain"
  "SystemInstanceSpec_DeepCopyInto = copy_plain"
  "Version_DeepCopyInto = copy_plain"
  "VersionRef_DeepCopyInto = copy_plain"
  "APIStatus_DeepCopyInto = copy_plain"
  "ComponentStatus_DeepCopyInto = copy_plain"
  "FindingRuleStatus_DeepCopyInto = copy_plain"
  "SystemStatus_DeepCopyInto = copy_plain"
  "SystemInstanceStatus_DeepCopyInto = copy_plain"
  by (simp_all add: fun_eq_iff copy_plain_def APIRef_DeepCopyInto_def APISpec_DeepCopyInto_def APIVersionRef_DeepCopyInto_def Finding_DeepCopyInto_def FindingType_DeepCopyInto_def SystemInstanceSpec_DeepCopyInto_def Version_DeepCopyInto_def VersionRef_DeepCopyInto_def APIStatus_DeepCopyInto_def ComponentStatus_DeepCopyInto_def FindingRuleStatus_DeepCopyInto_def SystemStatus_DeepCopyInto_def SystemInstanceStatus_DeepCopyInto_def)

interpretation apiref: pointed APIRef_DeepCopyInto "\<lambda>h x. x" "\<lambda>h x. {}"
  unfolding plain_copies by (intro pointed.intro plain.deep_copy_axioms)

lemma slice_option: "slice get h p = (case map_option (\<lambda>a. get (cells h a)) p of None \<Rightarrow> [] | Some xs \<Rightarrow> xs)"
  by (cases p) (simp_all add: slice_def)

lemmas spec_defs = pair_copy_def copy_plain_def copy_VersionRef_def [symmetric] copy_APIRefs_def [symmetric] copy_Strings_def [symmetric]
  split_beta Let_def

text \<open>The rest of a struct is the struct with the copied fields blanked out.\<close>

interpretation component_spec: copy_pair
    "copy_block CAPIRefs get_APIRefs (\<lambda>xs. replicate (length xs) zero_APIRef)" "\<lambda>h p. map_option (\<lambda>a. get_APIRefs (cells h a)) p" "\<lambda>h p. set_option p"
    "copy_block CAPIRefs get_APIRefs (\<lambda>xs. replicate (length xs) zero_APIRef)" "\<lambda>h p. map_option (\<lambda>a. get_APIRefs (cells h a)) p" "\<lambda>h p. set_option p"
    csm_Consumes csm_Provides "\<lambda>s c p. s\<lparr>csm_Consumes := c, csm_Provides := p\<rparr>" "\<lambda>s. s\<lparr>csm_Consumes := None, csm_Provides := None\<rparr>"
  by unfold_locales simp_all

lemma ComponentSpec_deep: "deep_copy ComponentSpec_DeepCopyInto ComponentSpec_at ComponentSpec_refs"
proof (rule deep_copy_struct [OF apirefs.deep_block apirefs.deep_block])
  show "ComponentSpec_DeepCopyInto s h = pair_copy (copy_block CAPIRefs get_APIRefs (\<lambda>xs. replicate (length xs) zero_APIRef))
      (copy_block CAPIRefs get_APIRefs (\<lambda>xs. replicate (length xs) zero_APIRef)) csm_Consumes csm_Provides
      (\<lambda>s c p. s\<lparr>csm_Consumes := c, csm_Provides := p\<rparr>) s h" for s and h :: "('o, 'c) cell memory"
    by (simp add: ComponentSpec_DeepCopyInto_def spec_defs)
  show "ComponentSpec_at h s = (\<lambda>r c p. (\<lparr>cs_DisplayName = csm_DisplayName r, cs_Description = csm_Description r,
       cs_ComponentId = csm_ComponentId r, cs_Version = csm_Version r, cs_SystemRef = csm_SystemRef r, cs_SystemId = csm_SystemId r,
       cs_Consumes = (case c of None \<Rightarrow> [] | Some xs \<Rightarrow> xs), cs_Provides = (case p of None \<Rightarrow> [] | Some xs \<Rightarrow> xs)\<rparr>, c = None, p = None))
      (s\<lparr>csm_Consumes := None, csm_Provides := None\<rparr>) (map_option (\<lambda>a. get_APIRefs (cells h a)) (csm_Consumes s))
      (map_option (\<lambda>a. get_APIRefs (cells h a)) (csm_Provides s))" for s and h :: "('o, 'c) cell memory"
    by (simp add: ComponentSpec_at_def slice_option)
qed (simp_all add: ComponentSpec_refs_def)

lemma SystemSpec_deep: "deep_copy SystemSpec_DeepCopyInto SystemSpec_at SystemSpec_refs"
proof (rule deep_copy_struct [OF versionref.deep_block plain.deep_copy_axioms])
  show "SystemSpec_DeepCopyInto s h = pair_copy (copy_block CVersionRef get_VersionRef (\<lambda>_. zero_VersionRef)) copy_plain ssm_ParentRef (\<lambda>_. ())
      (\<lambda>s p u. s\<lparr>ssm_ParentRef := p\<rparr>) s h" for s and h :: "('o, 'c) cell memory"
    by (simp add: SystemSpec_DeepCopyInto_def spec_defs)
  show "SystemSpec_at h s = (\<lambda>r p u. \<lparr>ss_DisplayName = ssm_DisplayName r, ss_Description = ssm_Description r, ss_SystemId = ssm_SystemId r,
      ss_Version = ssm_Version r, ss_Abstract = ssm_Abstract r, ss_ParentRef = p\<rparr>) (s\<lparr>ssm_ParentRef := None\<rparr>)
      (map_option (\<lambda>a. get_VersionRef (cells h a)) (ssm_ParentRef s)) ()" for s and h :: "('o, 'c) cell memory"
    by (simp add: SystemSpec_at_def)
qed (simp_all add: SystemSpec_refs_def)

lemma Target_deep: "deep_copy Target_DeepCopyInto Target_at Target_refs"
proof (rule deep_copy_struct [OF strings.deep_block strings.deep_block])
  show "Target_DeepCopyInto s h = pair_copy (copy_block CStrings get_Strings (\<lambda>xs. replicate (length xs) []))
      (copy_block CStrings get_Strings (\<lambda>xs. replicate (length xs) [])) tm_APIGroups tm_Resources
      (\<lambda>s g r. s\<lparr>tm_APIGroups := g, tm_Resources := r\<rparr>) s h" for s and h :: "('o, 'c) cell memory"
    by (simp add: Target_DeepCopyInto_def spec_defs)
  show "Target_at h s = (\<lambda>u g r. (\<lparr>t_APIGroups = (case g of None \<Rightarrow> [] | Some xs \<Rightarrow> xs), t_Resources = (case r of None \<Rightarrow> [] | Some xs \<Rightarrow> xs)\<rparr>,
      g = None, r = None)) () (map_option (\<lambda>a. get_Strings (cells h a)) (tm_APIGroups s))
      (map_option (\<lambda>a. get_Strings (cells h a)) (tm_Resources s))" for s and h :: "('o, 'c) cell memory"
    by (simp add: Target_at_def slice_option)
qed (simp_all add: Target_refs_def)

lemma FindingRuleSpec_deep: "deep_copy FindingRuleSpec_DeepCopyInto FindingRuleSpec_at FindingRuleSpec_refs"
proof (rule deep_copy_struct [OF Target_deep plain.deep_copy_axioms])
  show "FindingRuleSpec_DeepCopyInto s h = pair_copy Target_DeepCopyInto copy_plain frm_Target (\<lambda>_. ())
      (\<lambda>s t u. s\<lparr>frm_Target := t\<rparr>) s h" for s and h :: "('o, 'c) cell memory"
    by (simp add: FindingRuleSpec_DeepCopyInto_def spec_defs)
  show "FindingRuleSpec_at h s = (\<lambda>(c, f) tn u. (\<lparr>frs_Target = fst tn, frs_Condition = c, frs_Finding = f\<rparr>, snd tn))
      (frm_Condition s, frm_Finding s) (Target_at h (frm_Target s)) ()" for s and h :: "('o, 'c) cell memory"
    by (simp add: FindingRuleSpec_at_def split_beta)
qed (simp_all add: FindingRuleSpec_refs_def)

interpretation system_spec: pointed SystemSpec_DeepCopyInto SystemSpec_at SystemSpec_refs
  by (intro pointed.intro SystemSpec_deep)

section \<open>The resources\<close>

lemma metav1D:
  assumes "metav1_law M"
  shows "deep_copy (mdCopy M) (mdVal M) (mdRefs M)" and "deep_copy (lmCopy M) (lmVal M) (lmRefs M)"
  using assms by (simp_all add: metav1_law_def)

lemma API_deep:
  fixes M :: "('o, 'l, 'c, 'w) metav1"
  assumes "metav1_law M"
  shows "deep_copy (API_DeepCopyInto M) (API_at M) (API_refs M)"
proof (rule deep_copy_struct [OF metav1D(1) [OF assms] plain.deep_copy_axioms])
  show "API_DeepCopyInto M s h = pair_copy (mdCopy M) copy_plain am_Meta (\<lambda>_. ()) (\<lambda>s md u. s\<lparr>am_Meta := md\<rparr>) s h" for s h
    by (simp add: API_DeepCopyInto_def spec_defs)
  show "API_at M h s = (\<lambda>(t, sp) md u. (t, \<lparr>a_Meta = md, a_Spec = sp\<rparr>)) (am_Type s, am_Spec s) (mdVal M h (am_Meta s)) ()" for s h
    by (simp add: API_at_def split_beta)
qed (simp_all add: API_refs_def)

lemma Component_deep:
  fixes M :: "('o, 'l, 'c, 'w) metav1"
  assumes "metav1_law M"
  shows "deep_copy (Component_DeepCopyInto M) (Component_at M) (Component_refs M)"
proof (rule deep_copy_struct [OF metav1D(1) [OF assms] ComponentSpec_deep])
  show "Component_DeepCopyInto M s h = pair_copy (mdCopy M) ComponentSpec_DeepCopyInto cm_Meta cm_Spec (\<lambda>s md sp. s\<lparr>cm_Meta := md, cm_Spec := sp\<rparr>) s h" for s h
    by (simp add: Component_DeepCopyInto_def spec_defs)
  show "Component_at M h s = (\<lambda>r md sp. (r, \<lparr>c_Meta = md, c_Spec = fst sp\<rparr>, snd sp)) (cm_Type s) (mdVal M h (cm_Meta s)) (ComponentSpec_at h (cm_Spec s))" for s h
    by (simp add: Component_at_def split_beta)
qed (simp_all add: Component_refs_def)

lemma System_deep:
  fixes M :: "('o, 'l, 'c, 'w) metav1"
  assumes "metav1_law M"
  shows "deep_copy (System_DeepCopyInto M) (System_at M) (System_refs M)"
proof (rule deep_copy_struct [OF metav1D(1) [OF assms] SystemSpec_deep])
  show "System_DeepCopyInto M s h = pair_copy (mdCopy M) SystemSpec_DeepCopyInto sm_Meta sm_Spec (\<lambda>s md sp. s\<lparr>sm_Meta := md, sm_Spec := sp\<rparr>) s h" for s h
    by (simp add: System_DeepCopyInto_def spec_defs)
  show "System_at M h s = (\<lambda>r md sp. (r, \<lparr>s_Meta = md, s_Spec = sp\<rparr>)) (sm_Type s) (mdVal M h (sm_Meta s)) (SystemSpec_at h (sm_Spec s))" for s h
    by (simp add: System_at_def split_beta)
qed (simp_all add: System_refs_def)

lemma SystemInstance_deep:
  fixes M :: "('o, 'l, 'c, 'w) metav1"
  assumes "metav1_law M"
  shows "deep_copy (SystemInstance_DeepCopyInto M) (SystemInstance_at M) (SystemInstance_refs M)"
proof (rule deep_copy_struct [OF metav1D(1) [OF assms] plain.deep_copy_axioms])
  show "SystemInstance_DeepCopyInto M s h = pair_copy (mdCopy M) copy_plain sim_Meta (\<lambda>_. ()) (\<lambda>s md u. s\<lparr>sim_Meta := md\<rparr>) s h" for s h
    by (simp add: SystemInstance_DeepCopyInto_def spec_defs)
  show "SystemInstance_at M h s = (\<lambda>(t, sp) md u. (t, \<lparr>sinst_Meta = md, sinst_Spec = sp\<rparr>)) (sim_Type s, sim_Spec s) (mdVal M h (sim_Meta s)) ()" for s h
    by (simp add: SystemInstance_at_def split_beta)
qed (simp_all add: SystemInstance_refs_def)

lemma FindingRule_deep:
  fixes M :: "('o, 'l, 'c, 'w) metav1"
  assumes "metav1_law M"
  shows "deep_copy (FindingRule_DeepCopyInto M) (FindingRule_at M) (FindingRule_refs M)"
proof (rule deep_copy_struct [OF metav1D(1) [OF assms] FindingRuleSpec_deep])
  show "FindingRule_DeepCopyInto M s h = pair_copy (mdCopy M) FindingRuleSpec_DeepCopyInto fm_Meta fm_Spec (\<lambda>s md sp. s\<lparr>fm_Meta := md, fm_Spec := sp\<rparr>) s h" for s h
    by (simp add: FindingRule_DeepCopyInto_def spec_defs)
  show "FindingRule_at M h s = (\<lambda>r md sp. (r, \<lparr>fr_Meta = md, fr_Spec = fst sp\<rparr>, snd sp)) (fm_Type s) (mdVal M h (fm_Meta s)) (FindingRuleSpec_at h (fm_Spec s))" for s h
    by (simp add: FindingRule_at_def split_beta)
qed (simp_all add: FindingRule_refs_def)

lemma list_deep:
  fixes M :: "('o, 'l, 'c, 'w) metav1" and copyInto :: "'x \<Rightarrow> ('o, 'c) cell memory \<Rightarrow> 'x \<times> ('o, 'c) cell memory"
  assumes "metav1_law M" and "deep_copy copyInto val refs" and "\<And>xs. get (Some (mk xs)) = xs"
    and "\<And>x h. copy x h = (let out = x; out = out\<lparr>lm_Type := lm_Type x\<rparr>
      in case lmCopy M (lm_Meta x) h of
           (md, h1) \<Rightarrow> (case copy_items mk get zero copyInto (lm_Items x) h1 of (p, h2) \<Rightarrow> (out\<lparr>lm_Meta := md, lm_Items := p\<rparr>, h2)))"
  shows "deep_copy copy (list_at M get val) (list_refs M get refs)"
proof (rule deep_copy_struct [OF metav1D(2) [OF assms(1)] deep_copy_items [OF assms(2,3)]])
  show "copy s h = pair_copy (lmCopy M) (copy_items mk get zero copyInto) lm_Meta lm_Items (\<lambda>s md p. s\<lparr>lm_Meta := md, lm_Items := p\<rparr>) s h" for s h
    by (simp add: assms(4) spec_defs)
  show "list_at M get val h s = (\<lambda>r md p. (r, md, p)) (lm_Type s) (lmVal M h (lm_Meta s)) (items_val get val h (lm_Items s))" for s h
    by (simp add: list_at_def)
qed (simp_all add: list_refs_def)

lemmas object_defs =
  API_DeepCopyObject_def API_DeepCopy_def Component_DeepCopyObject_def Component_DeepCopy_def System_DeepCopyObject_def System_DeepCopy_def
  SystemInstance_DeepCopyObject_def SystemInstance_DeepCopy_def FindingRule_DeepCopyObject_def FindingRule_DeepCopy_def

lemmas list_object_defs =
  APIList_DeepCopyObject_def APIList_DeepCopy_def ComponentList_DeepCopyObject_def ComponentList_DeepCopy_def
  SystemList_DeepCopyObject_def SystemList_DeepCopy_def SystemInstanceList_DeepCopyObject_def SystemInstanceList_DeepCopy_def
  FindingRuleList_DeepCopyObject_def FindingRuleList_DeepCopy_def

lemmas list_copy_defs =
  APIList_DeepCopyInto_def ComponentList_DeepCopyInto_def SystemList_DeepCopyInto_def SystemInstanceList_DeepCopyInto_def
  FindingRuleList_DeepCopyInto_def

text \<open>
  (C22) Deep copies. For each of the five resources and their lists, \<open>DeepCopyObject\<close> of nil is the nil interface, not an interface that
  holds a nil pointer. Of any other object it is a new object that reads the same, with the same nil slices; the original reads as
  before. From then on, whatever is written to the memory of the copy never shows in the original, and whatever is written to
  the memory of the original never shows in the copy: a reconciler that changes an object from
  the cache cannot change the cache.
\<close>

theorem deep_copies_independent:
  assumes "metav1_law M"
  shows "deep_object_copy (System_DeepCopyObject M) (System_at M) (System_refs M) \<and>
    deep_object_copy (API_DeepCopyObject M) (API_at M) (API_refs M) \<and>
    deep_object_copy (Component_DeepCopyObject M) (Component_at M) (Component_refs M) \<and>
    deep_object_copy (SystemInstance_DeepCopyObject M) (SystemInstance_at M) (SystemInstance_refs M) \<and>
    deep_object_copy (FindingRule_DeepCopyObject M) (FindingRule_at M) (FindingRule_refs M) \<and>
    deep_object_copy (SystemList_DeepCopyObject M) (list_at M get_Systems (System_at M)) (list_refs M get_Systems (System_refs M)) \<and>
    deep_object_copy (APIList_DeepCopyObject M) (list_at M get_APIs (API_at M)) (list_refs M get_APIs (API_refs M)) \<and>
    deep_object_copy (ComponentList_DeepCopyObject M) (list_at M get_Components (Component_at M)) (list_refs M get_Components (Component_refs M)) \<and>
    deep_object_copy (SystemInstanceList_DeepCopyObject M) (list_at M get_SystemInstances (SystemInstance_at M))
      (list_refs M get_SystemInstances (SystemInstance_refs M)) \<and>
    deep_object_copy (FindingRuleList_DeepCopyObject M) (list_at M get_FindingRules (FindingRule_at M))
      (list_refs M get_FindingRules (FindingRule_refs M))"
proof (intro conjI)

  show "deep_object_copy (System_DeepCopyObject M) (System_at M) (System_refs M)"
    unfolding object_defs by (rule deep_copy_object [OF System_deep [OF assms]])
  show "deep_object_copy (API_DeepCopyObject M) (API_at M) (API_refs M)"
    unfolding object_defs by (rule deep_copy_object [OF API_deep [OF assms]])
  show "deep_object_copy (Component_DeepCopyObject M) (Component_at M) (Component_refs M)"
    unfolding object_defs by (rule deep_copy_object [OF Component_deep [OF assms]])
  show "deep_object_copy (SystemInstance_DeepCopyObject M) (SystemInstance_at M) (SystemInstance_refs M)"
    unfolding object_defs by (rule deep_copy_object [OF SystemInstance_deep [OF assms]])
  show "deep_object_copy (FindingRule_DeepCopyObject M) (FindingRule_at M) (FindingRule_refs M)"
    unfolding object_defs by (rule deep_copy_object [OF FindingRule_deep [OF assms]])
  have "deep_copy (SystemList_DeepCopyInto M) (list_at M get_Systems (System_at M)) (list_refs M get_Systems (System_refs M))"
    by (rule list_deep [OF assms System_deep [OF assms], where mk = CSystems]) (simp_all add: list_copy_defs)
  then show "deep_object_copy (SystemList_DeepCopyObject M) (list_at M get_Systems (System_at M)) (list_refs M get_Systems (System_refs M))"
    unfolding list_object_defs by (rule deep_copy_object)
  have "deep_copy (APIList_DeepCopyInto M) (list_at M get_APIs (API_at M)) (list_refs M get_APIs (API_refs M))"
    by (rule list_deep [OF assms API_deep [OF assms], where mk = CAPIs]) (simp_all add: list_copy_defs)
  then show "deep_object_copy (APIList_DeepCopyObject M) (list_at M get_APIs (API_at M)) (list_refs M get_APIs (API_refs M))"
    unfolding list_object_defs by (rule deep_copy_object)
  have "deep_copy (ComponentList_DeepCopyInto M) (list_at M get_Components (Component_at M)) (list_refs M get_Components (Component_refs M))"
    by (rule list_deep [OF assms Component_deep [OF assms], where mk = CComponents]) (simp_all add: list_copy_defs)
  then show "deep_object_copy (ComponentList_DeepCopyObject M) (list_at M get_Components (Component_at M)) (list_refs M get_Components (Component_refs M))"
    unfolding list_object_defs by (rule deep_copy_object)
  have "deep_copy (SystemInstanceList_DeepCopyInto M) (list_at M get_SystemInstances (SystemInstance_at M)) (list_refs M get_SystemInstances (SystemInstance_refs M))"
    by (rule list_deep [OF assms SystemInstance_deep [OF assms], where mk = CSystemInstances]) (simp_all add: list_copy_defs)
  then show "deep_object_copy (SystemInstanceList_DeepCopyObject M) (list_at M get_SystemInstances (SystemInstance_at M)) (list_refs M get_SystemInstances (SystemInstance_refs M))"
    unfolding list_object_defs by (rule deep_copy_object)
  have "deep_copy (FindingRuleList_DeepCopyInto M) (list_at M get_FindingRules (FindingRule_at M)) (list_refs M get_FindingRules (FindingRule_refs M))"
    by (rule list_deep [OF assms FindingRule_deep [OF assms], where mk = CFindingRules]) (simp_all add: list_copy_defs)
  then show "deep_object_copy (FindingRuleList_DeepCopyObject M) (list_at M get_FindingRules (FindingRule_at M)) (list_refs M get_FindingRules (FindingRule_refs M))"
    unfolding list_object_defs by (rule deep_copy_object)
qed

section \<open>A concrete form of the metadata\<close>

text \<open>Metadata whose annotations are a map behind a reference, for which the hypothesis holds.\<close>

record meta_mem =
  mm_Name :: string
  mm_Namespace :: string
  mm_UID :: string
  mm_Annotations :: "addr option"
  mm_OwnerKinds :: "string list"

fun get_Meta :: "('o, annotations) cell option \<Rightarrow> annotations" where
  "get_Meta (Some (CMeta m)) = m"
| "get_Meta _ = fmempty"

definition meta_copy ::
    "meta_mem \<Rightarrow> (meta_mem, annotations) cell memory \<Rightarrow> meta_mem \<times> (meta_mem, annotations) cell memory" where
  "meta_copy m h = (case copy_block CMeta get_Meta (\<lambda>_. fmempty) (mm_Annotations m) h of (p, h1) \<Rightarrow> (m\<lparr>mm_Annotations := p\<rparr>, h1))"

definition meta_at :: "(meta_mem, annotations) cell memory \<Rightarrow> meta_mem \<Rightarrow> ObjectMeta" where
  "meta_at h m = \<lparr>Name = mm_Name m, Namespace = mm_Namespace m, UID = mm_UID m,
     Annotations = (case mm_Annotations m of None \<Rightarrow> fmempty | Some a \<Rightarrow> get_Meta (cells h a)), OwnerKinds = mm_OwnerKinds m\<rparr>"

definition mem_meta :: "(meta_mem, unit, annotations, unit) metav1" where
  "mem_meta =
     \<lparr>mdZero = \<lparr>mm_Name = [], mm_Namespace = [], mm_UID = [], mm_Annotations = None, mm_OwnerKinds = []\<rparr>,
      mdCopy = meta_copy, mdVal = meta_at, mdRefs = (\<lambda>h m. set_option (mm_Annotations m)),
      lmCopy = copy_plain, lmVal = (\<lambda>h x. x), lmRefs = (\<lambda>h x. {})\<rparr>"

interpretation annotation_map: block CMeta get_Meta "\<lambda>_. fmempty"
  by unfold_locales simp

lemma mem_meta_law: "metav1_law mem_meta"
proof -
  have "deep_copy meta_copy meta_at (\<lambda>h m. set_option (mm_Annotations m))"
  proof (rule deep_copy_struct [OF annotation_map.deep_block plain.deep_copy_axioms])
    show "meta_copy m h = pair_copy (copy_block CMeta get_Meta (\<lambda>_. fmempty)) copy_plain mm_Annotations (\<lambda>_. ())
        (\<lambda>m p u. m\<lparr>mm_Annotations := p\<rparr>) m h" for m h
      by (simp add: meta_copy_def pair_copy_def copy_plain_def split_beta)
    show "meta_at h m = (\<lambda>r p u. \<lparr>Name = mm_Name r, Namespace = mm_Namespace r, UID = mm_UID r,
        Annotations = (case p of None \<Rightarrow> fmempty | Some x \<Rightarrow> x), OwnerKinds = mm_OwnerKinds r\<rparr>) (m\<lparr>mm_Annotations := None\<rparr>)
        (map_option (\<lambda>a. get_Meta (cells h a)) (mm_Annotations m)) ()" for m h
      by (cases "mm_Annotations m") (simp_all add: meta_at_def)
  qed simp_all
  moreover have "deep_copy (copy_plain :: unit \<Rightarrow> _) (\<lambda>h x. ()) (\<lambda>h x. {})"
    by (rule deep_copy_view [OF plain.deep_copy_axioms, where f = "\<lambda>_. ()"]) simp
  ultimately show ?thesis by (simp add: metav1_law_def mem_meta_def)
qed

interpretation system_items: items "System_DeepCopyInto mem_meta" "System_at mem_meta" "System_refs mem_meta" CSystems get_Systems "zero_System mem_meta"
  by (intro items.intro items_axioms.intro System_deep mem_meta_law) simp

text \<open>A System with a parent at address 0; the System itself is at address 1.\<close>

definition demo_memory :: "(meta_mem, annotations) cell memory" where
  "demo_memory = \<lparr>limit = 2, cells = [0 \<mapsto> CVersionRef \<lparr>vr_Name = ''base'', vr_Version = ''v1''\<rparr>]\<rparr>"

definition demo_system_mem :: "meta_mem System_mem" where
  "demo_system_mem =
     \<lparr>sm_Type = (''System'', ''v1alpha1''),
      sm_Meta = \<lparr>mm_Name = ''shop'', mm_Namespace = ''ns'', mm_UID = ''7'', mm_Annotations = None, mm_OwnerKinds = []\<rparr>,
      sm_Spec = \<lparr>ssm_DisplayName = ''Shop'', ssm_Description = [], ssm_SystemId = [], ssm_Version = zero_Version, ssm_Abstract = False,
        ssm_ParentRef = Some 0\<rparr>\<rparr>"

theorem deep_copies_independent_witness:
  "\<exists>b y h'. System_DeepCopyObject mem_meta (Some (1, demo_system_mem)) demo_memory = (Some (Some (b, y)), h') \<and> b \<noteq> 1 \<and>
     ss_ParentRef (s_Spec (snd (System_at mem_meta h' y))) = Some \<lparr>vr_Name = ''base'', vr_Version = ''v1''\<rparr>"
proof -
  have "deep_object_copy (System_DeepCopyObject mem_meta) (System_at mem_meta) (System_refs mem_meta)"
    using deep_copies_independent [OF mem_meta_law] by blast
  moreover have "1 < limit demo_memory" "System_refs mem_meta demo_memory demo_system_mem \<subseteq> {..<limit demo_memory}"
    by (simp_all add: demo_memory_def demo_system_mem_def System_refs_def SystemSpec_refs_def mem_meta_def)
  ultimately obtain b y h' where "System_DeepCopyObject mem_meta (Some (1, demo_system_mem)) demo_memory = (Some (Some (b, y)), h')" "b \<noteq> 1"
    "System_at mem_meta h' y = System_at mem_meta demo_memory demo_system_mem"
    unfolding deep_object_copy_def by blast
  moreover have "ss_ParentRef (s_Spec (snd (System_at mem_meta demo_memory demo_system_mem))) = Some \<lparr>vr_Name = ''base'', vr_Version = ''v1''\<rparr>"
    by (simp add: System_at_def SystemSpec_at_def demo_system_mem_def demo_memory_def)
  ultimately show ?thesis by metis
qed

text \<open>
  Shallow copies would not do: \<open>*out = *in\<close> alone shares the parent, and a write through the copy shows in the original.
\<close>

lemma shallow_copy_aliases:
  "SystemSpec_at (store 0 (CVersionRef v) demo_memory) (sm_Spec demo_system_mem) \<noteq> SystemSpec_at demo_memory (sm_Spec demo_system_mem)"
  if "v \<noteq> \<lparr>vr_Name = ''base'', vr_Version = ''v1''\<rparr>"
  using that by (simp add: SystemSpec_at_def demo_system_mem_def demo_memory_def)

end
