(* ===== verification/Spec2Isabelle.thy ===== *)
theory Spec2Isabelle
  imports Sensor_Start Registration Diagnostics Deep_Copy
begin

text \<open>
  Verification of the EmELand Kubernetes sensor (\<open>src/\<close>, Go).

  The sensor watches a Kubernetes cluster and keeps a model of its landscape in the store of the
  library \<open>modelsrv\<close>, which replicates it to subscribers. Reconcilers turn Kubernetes objects
  into entities of the model; a name index, shared by all of them, remembers under which UUID an object
  is stored, which Helm release owns it and which role bindings wait for a role. Findings are
  raised for broken references, missing annotations, rules that match, missing CRDs and images
  that cannot be pulled.

  \<^bold>\<open>Conventions.\<close> A Go string is a list of bytes, a Go map a finite map, a UUID a word of 128 bits, a Go \<open>int\<close>
  a word of 64 bits where it can overflow. A function that changes state takes and returns it; an error
  is a value of the type \<open>error\<close>, and \<open>os.Exit(1)\<close> is None. Code that is not part of the
  repository is an argument: the records \<open>lib\<close> (UUIDs and small library functions), \<open>modelsrv\<close> (the store), \<open>celenv\<close>
  (CEL), \<open>codec\<close> (JSON, gzip, YAML), and what the API server answers. What is relied on of it is a named
  hypothesis (\<open>store_laws\<close>, \<open>accepts\<close>, \<open>filters_resolve\<close>, \<open>subject_laws\<close>, \<open>nn_string_law\<close>, \<open>gzip_law\<close>, \<open>builder_law\<close>, \<open>metav1_law\<close>); \<open>Externals\<close> and \<open>Helm\<close> have concrete instances for
  which the hypotheses are proved, and the witnesses run on them. The order in which a map is ranged over is
  an argument with the law \<open>range_law\<close>.

  \<^bold>\<open>Theories.\<close>
  \<^item> \<open>Prelude\<close>: strings, finite maps, lemma collections. \<open>Externals\<close>: interfaces and laws of foreign code.
  \<^item> \<open>Name_Index\<close> (\<open>internal/controller/registry.go\<close>): the index. Every method runs under one mutex and is one
    function. It refines a table in which the last write wins (locale \<open>uuid_registry\<close>).
  \<^item> \<open>Dates\<close>, \<open>Convert\<close> (\<open>util.go\<close>, \<open>api/k8s/v1alpha1\<close>): conversion of resources, identity of entities, exactness of
    the date parser.
  \<^item> \<open>Findings\<close> (\<open>reference_findings.go\<close>, \<open>rbac_finding_types.go\<close>): ids and upserts of findings; the locales \<open>reference_findings\<close> and
    \<open>annotation_finding\<close> give the verdict of a check.
  \<^item> \<open>Rule_Repo\<close>, \<open>Rule_Eval\<close> (\<open>rule_registry.go\<close>, \<open>findingrule_controller.go\<close>, \<open>evaluator.go\<close>, \<open>rule_evaluation.go\<close>): the registry
    refines the list of rules in force, and a run raises exactly the findings of matching rules.
  \<^item> \<open>Glob\<close>, \<open>Whitelist\<close> (\<open>rbac_whitelist.go\<close>): \<open>filepath.Match\<close> with its UTF-8 decoder; a loaded
    whitelist never fails to match.
  \<^item> \<open>Reconcilers\<close>: the locales \<open>entity_reconciler\<close> and \<open>mirror_system\<close>, the contract of a controller that mirrors objects as entities.
    \<open>mirror_system\<close> allows foreign steps, and is interpreted for the landscape controllers alone and for the whole sensor.
  \<^item> \<open>Crd_Controllers\<close>, \<open>Instance_Controllers\<close>, \<open>Manager\<close> (\<open>system_controller.go\<close>, \<open>api_controller.go\<close>, \<open>component_controller.go\<close>,
    \<open>systeminstance_controller.go\<close>, \<open>workload_controller.go\<close>, \<open>apiinstance_controller.go\<close>, tables of \<open>cmd/main.go\<close>): eleven controllers on
    one store; after any interleaving the model holds what the objects seen last convert to.
  \<^item> \<open>Rbac_Controllers\<close> (\<open>role_controller.go\<close>, \<open>rolebinding_controller.go\<close>): roles, bindings, the pending sets and the
    requeue channels of capacity 64, with the binding handler also cut into its accesses to the index.
  \<^item> \<open>Crd_Check\<close>, \<open>Namespace_Controller\<close> (\<open>internal/crdcheck\<close>, \<open>namespace_controller.go\<close>): contexts and the reporter of missing CRDs.
  \<^item> \<open>Base64\<close>, \<open>Helm\<close>, \<open>Helm_Controller\<close> (\<open>internal/helm\<close>, \<open>helmrelease_controller.go\<close>): release secrets, the
    highest revision, ownership of workloads and services.
  \<^item> \<open>Image\<close>, \<open>Image_Scan\<close> (\<open>image.go\<close>, \<open>image_scan_controller.go\<close>): image identity, observations and the cluster-wide scan.
  \<^item> \<open>Sensor\<close>, \<open>Startup\<close> (\<open>internal/sensor\<close>, \<open>cmd/subscribers.go\<close>, helpers of \<open>cmd/main.go\<close>): the sensor's node, the guard of the HTTP interface,
    subscribers and start-up.
  \<^item> \<open>Endpoints\<close> (flags, scheme, manager options and \<open>startAPIServer\<close> of \<open>cmd/main.go\<close>, \<open>groupversion_info.go\<close>): what the sensor exposes over HTTP.
  \<^item> \<open>Memory\<close>, \<open>Deep_Copy\<close> (\<open>zz_generated.deepcopy.go\<close>): a memory with addresses and the locale \<open>deep_copy\<close>, the contract of a copy. It is kept by
    blocks, arrays of structs, pairs of fields and pointers (locales \<open>block\<close>, \<open>items\<close>, \<open>copy_pair\<close>, \<open>pointed\<close>), and so by all resources. Everywhere
    else a resource is a value: the copies are what allows that.
  \<^item> \<open>Footprints\<close>: which kinds of entities and names each handler can change, by rule induction on the relation \<open>touched\<close>; what a
    handler does not touch, it keeps.
  \<^item> \<open>Main_Loop\<close> (\<open>cmd/main.go\<close>): the whole program. \<open>main_start\<close> is start-up with every exit, \<open>sensor_step\<close> one call of any handler on
    the shared state, \<open>sensor_reach\<close> what can be reached.
  \<^item> \<open>Sensor_Invariants\<close>, \<open>Sensor_Mirror\<close>, \<open>Sensor_Start\<close>: with all controllers interleaved, the invariants of the model and of references in it,
    bounds and draining of the requeue channels, the late role, the early namespace and the mirror of the landscape; when the sensor starts, and a
    concrete run for the witnesses.
  \<^item> \<open>Registration\<close> (constructors, \<open>SetupWithManager\<close> and the tables of \<open>main\<close>): which event wakes which controller.
  \<^item> \<open>Diagnostics\<close> (log of \<open>crdcheck.go\<close>, \<open>subscribers.go\<close>, \<open>replication_log.go\<close>): log lines as values; logging and probing never
    change a result, and the lines say what happened.
  \<^item> This theory: the properties that span the Helm controller and the controllers of workloads and
    SystemInstance resources.

  \<^bold>\<open>Termination.\<close> No definition uses fuel. Loops of the source are recursions over lists; the glob matcher and the trimming
  functions have termination proofs by a measure.

  \<^bold>\<open>Concurrency.\<close> Handlers run one after the other in any interleaving. Where the source takes a lock twice in one handler and
  the gap matters (a binding that looks up its role and then waits for it), the handler is
  also given as separate steps, and \<open>binding_wakeup_can_be_lost\<close> shows what happens in the gap.

  \<^bold>\<open>Not modelled.\<close> The log output of the controllers, of the reporter's methods, of the HTTP guard and of \<open>main\<close> itself; the parsing of the command line
  (its result is the record \<open>flags\<close>), the set-up of the logger, and what the manager, the metrics and webhook servers, leader election and \<open>http.Server\<close> do by themselves:
  these are libraries. The locks around single reads and writes (the cluster context, the index) are not separate steps. The offset in
  a base64 error is left out. The test support under \<open>test/\<close> runs \<open>kubectl\<close> for end-to-end tests and is not part of the sensor.
\<close>

section \<open>Helm releases and workloads\<close>

definition workload_step ::
    "'m modelsrv \<Rightarrow> lib \<Rightarrow> ('b object \<Rightarrow> error + Unstructured) \<Rightarrow> RuleEvaluation option \<Rightarrow> ('b object \<Rightarrow> bool) option \<Rightarrow>
     NamespacedName \<Rightarrow> 'b object \<Rightarrow> 'm helm_state \<Rightarrow> 'm helm_state" where
  "workload_step M L T ev skipFunc nn obj s =
     s\<lparr>hWorld := snd (WorkloadReconcile M L T ev skipFunc nn (Found obj) (hWorld s))\<rparr>"

definition instance_of_component :: "'m modelsrv \<Rightarrow> uuid \<Rightarrow> 'm helm_state \<Rightarrow> uuid option" where
  "instance_of_component M i s =
     (case mGet M MComponentInstance i (wModel (hWorld s)) of
        Some (EComponentInstance ci) \<Rightarrow> ci_SystemInstance ci
      | _ \<Rightarrow> None)"

text \<open>
  (C13) A workload and the Helm release that deploys it. Without an annotation the component instance ends up
  in the system instance of the release, whichever of the two controllers runs first. With a
  valid annotation the outcome depends on the order: the annotation stays if the workload is
  reconciled last and is overwritten if the release is.
\<close>

theorem helm_workload_order:
  assumes laws: "store_laws M" "accepts M MComponentInstance" "accepts M MSystemInstance"
    and rel: "release_event C ns name (hnn, secret) = Some (r, rel, rs)"
      "fmlookup (latestRevision s) (release_key ns name) = None" "helm_id L ns name \<noteq> uuid_Nil"
    and listed: "listed rs ns KindComponentInstance (NNString L nn)"
    and obj: "\<not> (case skipFunc of None \<Rightarrow> False | Some f \<Rightarrow> f obj)" "first_uuid L [UID (o_Meta obj)] = Some i"
  shows "instance_of_component M i (snd (HelmReleaseReconcile M L C hnn (Found secret)
        (workload_step M L T ev skipFunc nn obj s))) = Some (helm_id L ns name) \<and>
    instance_of_component M i (workload_step M L T ev skipFunc nn obj
        (snd (HelmReleaseReconcile M L C hnn (Found secret) s))) =
      (case first_uuid L [annotation_value (Annotations (o_Meta obj)) AnnotationSystemInstanceID] of
         Some si \<Rightarrow> Some si | None \<Rightarrow> Some (helm_id L ns name))"
proof
  have i: "i \<noteq> uuid_Nil" using obj(2) by (auto split: option.splits if_splits list.splits)
  have step: "snd (HelmReleaseReconcile M L C hnn (Found secret) s') =
      \<lparr>hWorld = snd (helm_register M L ns secret name rel rs (hWorld s')),
       latestRevision = fmupd (release_key ns name) r (latestRevision s')\<rparr>"
    if "latestRevision s' = latestRevision s" for s'
    using step_current [of ns name hnn secret r s' M L C] rel that by (simp add: release_event_Some)
  let ?w = "workload_step M L T ev skipFunc nn obj s"
  from workload_stored [OF laws(1,2) obj, of T ev nn "hWorld s"] obtain ci where
    ci: "mGet M MComponentInstance i (wModel (hWorld ?w)) = Some (EComponentInstance ci)"
      "Get (wIndex (hWorld ?w)) KindComponentInstance (NNString L nn) = i"
    by (auto simp: workload_step_def)
  then show "instance_of_component M i (snd (HelmReleaseReconcile M L C hnn (Found secret) ?w)) = Some (helm_id L ns name)"
    using register_component [OF laws(1,3,2) i ci(1), of L ns secret name rel rs] listed
    by (auto simp: instance_of_component_def step workload_step_def)
  let ?h = "snd (HelmReleaseReconcile M L C hnn (Found secret) s)"
  have own: "GetHelmOwner (wIndex (hWorld ?h)) KindComponentInstance (NNString L nn) = helm_id L ns name"
    using listed by (simp add: step register_instance [OF laws(1,3)])
  from workload_stored [OF laws(1,2) obj, of T ev nn "hWorld ?h", unfolded own Let_def if_not_P [OF rel(3)]]
  show "instance_of_component M i (workload_step M L T ev skipFunc nn obj ?h) =
      (case first_uuid L [annotation_value (Annotations (o_Meta obj)) AnnotationSystemInstanceID] of
         Some si \<Rightarrow> Some si | None \<Rightarrow> Some (helm_id L ns name))"
    by (auto simp: instance_of_component_def workload_step_def simp del: first_uuid.simps)
qed

lemma demo_listed: "listed demo_resources ''ns'' KindComponentInstance ''ns/web''"
  by (simp add: demo_resources_def helmKindToResourceKind_def resource_key_def)

lemma demo_helm_id: "helm_id mem_lib ''ns'' ''app'' \<noteq> uuid_Nil"
  by (simp add: helm_id_def release_key_def mem_lib_def helmNamespaceUUID_def)

theorem helm_workload_order_witness:
  "instance_of_component mem_store 5 (snd (HelmReleaseReconcile mem_store mem_lib demo_codec
      (fst (demo_event (CHR ''2'') ''deployed'')) (Found (snd (demo_event (CHR ''2'') ''deployed'')))
      (workload_step mem_store mem_lib (\<lambda>_. Inl (ErrText [])) None None \<lparr>nn_Namespace = ''ns'', nn_Name = ''web''\<rparr>
        (demo_object_meta ''web'' ''5'' fmempty) demo_helm_state))) = Some (helm_id mem_lib ''ns'' ''app'')"
proof -
  let ?ev = "demo_event (CHR ''2'') ''deployed''" and ?nn = "\<lparr>nn_Namespace = ''ns'', nn_Name = ''web''\<rparr>"
  let ?o = "demo_object_meta ''web'' ''5'' fmempty"
  have rel: "release_event demo_codec ''ns'' ''app'' (fst ?ev, snd ?ev) = Some (2, demo_release 2 ''deployed'', demo_resources)"
    by (simp add: demo_release_event)
  have fresh: "fmlookup (latestRevision demo_helm_state) (release_key ''ns'' ''app'') = None"
    by (simp add: demo_helm_state_def)
  have web: "listed demo_resources ''ns'' KindComponentInstance (NNString mem_lib ?nn)"
    using demo_listed by (simp add: mem_lib_def)
  have kept: "\<not> (case None of None \<Rightarrow> False | Some f \<Rightarrow> f ?o)" by simp
  have uid: "first_uuid mem_lib [UID (o_Meta ?o)] = Some 5"
    by (simp add: demo_object_meta_def mem_lib_def hex_val_def)
  show ?thesis
    by (rule conjunct1 [OF helm_workload_order [OF mem_store_laws mem_store_accepts mem_store_accepts rel fresh demo_helm_id
          web kept uid]])
qed

section \<open>Helm releases and SystemInstance resources\<close>

text \<open>
  (C16) A Helm release and a SystemInstance resource of the same name share one index entry. Let a
  resource with that name exist and the release be deployed after it. Deleting the resource then
  removes the system instance of the release, which is still deployed, and leaves the system
  instance of the deleted resource in the model.
\<close>

theorem helm_instance_collision:
  assumes laws: "store_laws M" "accepts M MSystemInstance"
    and rel: "release_event C ns name (hnn, secret) = Some (r, rel, rs)"
      "fmlookup lr (release_key ns name) = None" "helm_id L ns name \<noteq> uuid_Nil"
    and crd: "convertSystemInstance L obj = Some (x, i)" "i \<noteq> helm_id L ns name" "NNString L nn = release_key ns name"
    and w1: "w1 = snd (SystemInstanceReconcile M L T ev nn (Found obj) w)"
    and w2: "w2 = hWorld (snd (HelmReleaseReconcile M L C hnn (Found secret) \<lparr>hWorld = w1, latestRevision = lr\<rparr>))"
    and w3: "w3 = snd (SystemInstanceReconcile M L T ev nn NotFound w2)"
  shows "mGet M MSystemInstance (helm_id L ns name) (wModel w2) = Some (ESystemInstance (helm_instance L ns name rel)) \<and>
    mGet M MSystemInstance (helm_id L ns name) (wModel w3) = None \<and>
    mGet M MSystemInstance i (wModel w3) = Some (ESystemInstance x)"
proof -
  have reg: "w2 = snd (helm_register M L ns secret name rel rs w1)"
    using step_current [of ns name hnn secret r "\<lparr>hWorld = w1, latestRevision = lr\<rparr>" M L C] rel(1,2)
    by (simp add: w2 release_event_Some)
  have e: "inst_entity L nn obj = Some (ESystemInstance x, i)" using crd(1) by (simp add: inst_entity_def)
  have x: "mGet M MSystemInstance i (wModel w1) = Some (ESystemInstance x)"
    using instance_ctrl.found_sync(3) [OF laws e, where k' = MSystemInstance and j = i and w = w] by (simp add: w1)
  have h: "mGet M MSystemInstance (helm_id L ns name) (wModel w2) = Some (ESystemInstance (helm_instance L ns name rel))"
    and x2: "mGet M MSystemInstance i (wModel w2) = Some (ESystemInstance x)"
    and idx: "Get (wIndex w2) KindSystemInstance (NNString L nn) = helm_id L ns name"
    using crd(2,3) x by (simp_all add: reg register_instance [OF laws])
  then show ?thesis
    using instance_ctrl.gone_sync(2) [OF laws(1), where k' = MSystemInstance and nn = nn and w = w2 and L = L] crd(2) rel(3) by (simp add: w3)
qed

definition demo_system_instance :: SystemInstance where
  "demo_system_instance =
     \<lparr>sinst_Meta = \<lparr>Name = ''app'', Namespace = ''ns'', UID = ''7'', Annotations = fmempty, OwnerKinds = []\<rparr>,
      sinst_Spec = \<lparr>sis_InstanceId = ''7'', sis_SystemId = [], sis_DisplayName = ''App''\<rparr>\<rparr>"

theorem helm_instance_collision_witness:
  "mGet mem_store MSystemInstance (helm_id mem_lib ''ns'' ''app'')
     (wModel (snd (SystemInstanceReconcile mem_store mem_lib (\<lambda>_. Inl (ErrText [])) None \<lparr>nn_Namespace = ''ns'', nn_Name = ''app''\<rparr> NotFound
       (hWorld (snd (HelmReleaseReconcile mem_store mem_lib demo_codec
         (fst (demo_event (CHR ''2'') ''deployed'')) (Found (snd (demo_event (CHR ''2'') ''deployed'')))
         \<lparr>hWorld = snd (SystemInstanceReconcile mem_store mem_lib (\<lambda>_. Inl (ErrText [])) None \<lparr>nn_Namespace = ''ns'', nn_Name = ''app''\<rparr>
            (Found demo_system_instance) \<lparr>wModel = [], wIndex = NewNameIndex\<rparr>), latestRevision = fmempty\<rparr>)))))) = None"
proof -
  let ?ev = "demo_event (CHR ''2'') ''deployed''" and ?nn = "\<lparr>nn_Namespace = ''ns'', nn_Name = ''app''\<rparr>"
  have rel: "release_event demo_codec ''ns'' ''app'' (fst ?ev, snd ?ev) = Some (2, demo_release 2 ''deployed'', demo_resources)"
    by (simp add: demo_release_event)
  have i: "resourceID mem_lib (sis_InstanceId (sinst_Spec demo_system_instance)) (sinst_Meta demo_system_instance) = 7"
    by (simp add: demo_system_instance_def resourceID_def parseOptionalUUID_def mem_lib_def hex_val_def)
  obtain x where x: "convertSystemInstance mem_lib demo_system_instance = Some (x, 7)"
    unfolding convertSystemInstance_def Let_def i by simp
  have "(7 :: uuid) \<noteq> helm_id mem_lib ''ns'' ''app''"
    by (simp add: helm_id_def release_key_def mem_lib_def helmNamespaceUUID_def)
  moreover have "NNString mem_lib ?nn = release_key ''ns'' ''app''" by (simp add: mem_lib_def release_key_def)
  ultimately show ?thesis
    using helm_instance_collision [OF mem_store_laws mem_store_accepts rel fmempty_lookup demo_helm_id x _ _ refl refl refl] by blast
qed

end
